(* ===== verification/Go_Prelude.thy ===== *)
theory Go_Prelude
  imports Main "HOL-Library.AList" "HOL-Library.Multiset" "HOL-Library.Word" "HOL-Library.State_Monad"
begin

text \<open>
  What the other theories share: the Go values the code works with (machine integers, maps,
  errors, times, panics), the effect type of the operations that talk to the cluster, and the
  generic lemmas about them.

  \<^item> Go strings are byte strings: \<open>string\<close> (a list of \<open>char\<close>, one per byte).
  \<^item> \<open>int\<close> is 64 bits wide on the platforms the controller is built for, so \<open>int\<close> and
    \<open>int64\<close> are \<open>64 word\<close> read with \<open>sint\<close>, \<open>int32\<close> is \<open>32 word\<close>, \<open>uint\<close> is
    \<open>64 word\<close> read with \<open>unat\<close>, \<open>uint8\<close> is \<open>8 word\<close>.
  \<^item> A \<open>map[string]string\<close> is \<open>None\<close> (nil) or \<open>Some\<close> of an association list with distinct
    keys; \<open>map_get\<close> reads it as Go's index expression does (the empty string when absent).
  \<^item> A slice that may be nil and whose nil-ness the code can observe is an \<open>'a list option\<close>.
  \<^item> \<open>time.Time\<close> is the number of nanoseconds since the Unix epoch.
\<close>

section \<open>Integers\<close>

type_synonym i32 = "32 word"
type_synonym i64 = "64 word"
type_synonym u64 = "64 word"
type_synonym u8 = "8 word"

text \<open>Go's conversion \<open>int32(x)\<close> keeps the low 32 bits.\<close>

definition to_int32 :: "i64 \<Rightarrow> i32" where
  "to_int32 x = ucast x"

lemma sint_to_int32:
  assumes "- (2 ^ 31) \<le> sint x" and "sint x < 2 ^ 31"
  shows "sint (to_int32 x) = sint x"
proof -
  have "sint (to_int32 x) = signed_take_bit 31 (sint x)"
    by (simp add: to_int32_def sint_uint signed_take_bit_take_bit unsigned_ucast_eq
       )
  then show ?thesis
    using assms by (simp add: signed_take_bit_int_eq_self)
qed

lemma sint_small_i32: "unat (x :: i32) < 2 ^ 31 \<Longrightarrow> sint x = int (unat x)"
proof -
  assume "unat x < 2 ^ 31"
  then have "int (unat x) < int (2 ^ 31)" by (simp only: of_nat_less_iff)
  then have "uint x < 2 ^ 31" by simp
  then have "signed_take_bit 31 (uint x) = uint x"
    by (intro signed_take_bit_int_eq_self order_trans [OF _ uint_ge_0]) simp_all
  then show ?thesis by (simp add: sint_uint)
qed

section \<open>Times\<close>

type_synonym gotime = int

text \<open>The zero \<open>time.Time\<close>: 1 January of the year 1.\<close>

definition zero_time :: gotime where
  "zero_time = - 62135596800 * 1000000000"

definition second :: int where
  "second = 1000000000"

text \<open>\<open>Time.Unix()\<close> and \<open>time.Unix(s, 0)\<close>.\<close>

definition unix_seconds :: "gotime \<Rightarrow> int" where
  "unix_seconds t = t div second"

definition time_unix :: "int \<Rightarrow> gotime" where
  "time_unix s = s * second"

lemma unix_seconds_time_unix [simp]: "unix_seconds (time_unix s) = s"
  by (simp add: unix_seconds_def time_unix_def second_def)

section \<open>Maps\<close>

type_synonym smap = "(string \<times> string) list"
type_synonym gomap = "smap option"

definition entries :: "'a list option \<Rightarrow> 'a list" where
  "entries m = (case m of None \<Rightarrow> [] | Some s \<Rightarrow> s)"

lemma entries_simps [simp]: "entries None = []" "entries (Some s) = s"
  by (simp_all add: entries_def)

definition smap_get :: "smap \<Rightarrow> string \<Rightarrow> string" where
  "smap_get m k = (case map_of m k of None \<Rightarrow> '''' | Some v \<Rightarrow> v)"

definition map_get :: "gomap \<Rightarrow> string \<Rightarrow> string" where
  "map_get m k = smap_get (entries m) k"

lemma smap_get_update [simp]:
  "smap_get (AList.update k v m) k' = (if k = k' then v else smap_get m k')"
  by (simp add: smap_get_def update_conv')

lemma smap_get_Nil [simp]: "smap_get [] k = ''''"
  by (simp add: smap_get_def)

lemma smap_get_Cons [simp]: "smap_get ((a, b) # m) k = (if a = k then b else smap_get m k)"
  by (simp add: smap_get_def)

lemma map_get_simps [simp]: "map_get None k = ''''" "map_get (Some m) k = smap_get m k"
  by (simp_all add: map_get_def)

text \<open>
  \<open>for k, v := range m { dst[k] = v }\<close>: every entry of \<open>m\<close>, in the order \<open>m\<close> is
  listed, overwrites the destination.
\<close>

definition put_all :: "('k \<times> 'v) list \<Rightarrow> ('k \<times> 'v) list \<Rightarrow> ('k \<times> 'v) list" where
  "put_all src dst = fold (\<lambda>(k, v) d. AList.update k v d) src dst"

lemma map_of_put_all:
  "distinct (map fst src) \<Longrightarrow> map_of (put_all src dst) = map_of dst ++ map_of src"
proof (induction src arbitrary: dst)
  case Nil
  then show ?case by (simp add: put_all_def)
next
  case (Cons kv src)
  obtain k v where kv: "kv = (k, v)" by (cases kv)
  from Cons.prems kv have k: "k \<notin> set (map fst src)" and d: "distinct (map fst src)"
    by auto
  have "map_of (put_all (kv # src) dst) = map_of (put_all src (AList.update k v dst))"
    by (simp add: put_all_def kv)
  also have "\<dots> = (map_of dst)(k \<mapsto> v) ++ map_of src"
    using Cons.IH [OF d] by (simp add: update_conv' fun_upd_def)
  also have "\<dots> = map_of dst ++ map_of (kv # src)"
    using k by (simp add: kv map_add_upd_left dom_map_of_conv_image_fst)
  finally show ?case .
qed

lemma smap_get_put_all:
  "distinct (map fst src) \<Longrightarrow>
   smap_get (put_all src dst) k = (case map_of src k of None \<Rightarrow> smap_get dst k | Some v \<Rightarrow> v)"
  by (simp add: smap_get_def map_of_put_all map_add_def split: option.splits)

text \<open>
  Go visits the entries of a map in an unspecified order, which may differ from one
  \<open>range\<close> statement to the next. An order is a function from the number of the statement
  and the entries to the entries in the order visited; a lawful one visits each entry once.
\<close>

type_synonym range_order = "nat \<Rightarrow> smap \<Rightarrow> smap"

definition lawful_order :: "range_order \<Rightarrow> bool" where
  "lawful_order rng \<longleftrightarrow> (\<forall>i m. mset (rng i m) = mset m)"

lemma lawful_order_set: "lawful_order rng \<Longrightarrow> set (rng i m) = set m"
  by (metis lawful_order_def mset_eq_setD)

lemma lawful_order_distinct:
  "lawful_order rng \<Longrightarrow> distinct (map fst (rng i m)) = distinct (map fst m)"
  unfolding lawful_order_def by (metis mset_eq_imp_distinct_iff mset_map)

lemma lawful_order_map_of:
  "lawful_order rng \<Longrightarrow> distinct (map fst m) \<Longrightarrow> map_of (rng i m) = map_of m"
  by (metis lawful_order_distinct lawful_order_set map_of_inject_set)

lemma lawful_order_id: "lawful_order (\<lambda>_ m. m)"
  by (simp add: lawful_order_def)

section \<open>Errors and panics\<close>

text \<open>
  An error value. \<open>StatusError reason message\<close> is a \<open>*k8serrors.StatusError\<close>;
  \<open>NewError\<close> is made by \<open>errors.New\<close> and \<open>fmt.Errorf\<close>; \<open>Wrap message cause\<close> by
  \<open>errors.Wrap\<close>, \<open>errors.Wrapf\<close> and by \<open>fmt.Errorf\<close> with \<open>%w\<close>; \<open>MultiError\<close> is a
  non-empty \<open>*multierror.Error\<close>. A nil error is \<open>None\<close> of \<open>go_error option\<close>.
\<close>

datatype go_error =
    StatusError string string
  | NewError string
  | Wrap string go_error
  | MultiError "go_error list"

text \<open>\<open>errors.Wrap(err, msg)\<close> of a possibly nil error: nil stays nil.\<close>

definition wrap_err :: "string \<Rightarrow> go_error option \<Rightarrow> go_error option" where
  "wrap_err msg e = map_option (Wrap msg) e"

lemma wrap_err_simps [simp]:
  "wrap_err msg None = None" "wrap_err msg (Some e) = Some (Wrap msg e)"
  "(wrap_err msg eo = None) = (eo = None)"
  by (simp_all add: wrap_err_def)

text \<open>
  \<open>errors.As(err, &statusErr)\<close>: the first status error along the chain of causes, with its
  reason.
\<close>

fun as_status_error :: "go_error \<Rightarrow> string option" where
  "as_status_error (StatusError r m) = Some r"
| "as_status_error (NewError m) = None"
| "as_status_error (Wrap m e) = as_status_error e"
| "as_status_error (MultiError es) =
     foldr (\<lambda>e r. case as_status_error e of None \<Rightarrow> r | Some x \<Rightarrow> Some x) es None"

text \<open>A call either returns a value or panics; a panic is caught nowhere in the code.\<close>

datatype 'a outcome = Panics | Returns 'a

section \<open>Effects\<close>

text \<open>
  An operation that talks to the cluster is a computation of the state monad over the state
  of the world \<open>'w\<close>, about which nothing is assumed.
\<close>

type_synonym ('w, 'a) io = "('w, 'a) state"

abbreviation ret :: "'a \<Rightarrow> ('w, 'a) io" where
  "ret \<equiv> State_Monad.return"

named_theorems calls_intros \<open>rules that compute the calls an operation may make\<close>
named_theorems appends_intros \<open>rules that show that an operation only appends to the log\<close>

end
