(* ===== verification/Go_Strings.thy ===== *)
theory Go_Strings
  imports Go_Prelude
begin

text \<open>
  The functions of Go's \<open>strings\<close> and \<open>strconv\<close> packages that the code calls:
  \<open>strings.Split\<close>, \<open>strings.Join\<close>, \<open>strings.ToLower\<close>, \<open>strings.ReplaceAll\<close>,
  \<open>strconv.Itoa\<close>, \<open>strconv.FormatInt\<close> and \<open>strconv.Atoi\<close>, with the round trip of the
  last two.
\<close>

section \<open>Splitting and joining\<close>

text \<open>\<open>strings.Split(s, sep)\<close> for a separator of one byte.\<close>

fun split_on :: "char \<Rightarrow> string \<Rightarrow> string list" where
  "split_on c [] = [[]]"
| "split_on c (x # xs) =
     (if x = c then [] # split_on c xs
      else case split_on c xs of
             [] \<Rightarrow> [[x]]
           | w # ws \<Rightarrow> (x # w) # ws)"

lemma split_on_not_Nil [simp]: "split_on c s \<noteq> []"
  by (induction s) (auto split: list.splits)

lemma split_on_no_sep: "c \<notin> set s \<Longrightarrow> split_on c s = [s]"
  by (induction s) auto

lemma split_on_append: "c \<notin> set ys \<Longrightarrow> split_on c (xs @ c # ys) = split_on c xs @ [ys]"
proof (induction xs)
  case Nil
  then show ?case by (simp add: split_on_no_sep)
next
  case (Cons x xs)
  then show ?case by (cases "split_on c xs") (auto split: list.splits)
qed

lemma split_on_pieces: "w \<in> set (split_on c s) \<Longrightarrow> c \<notin> set w \<and> set w \<subseteq> set s"
  by (induction s arbitrary: w) (fastforce split: list.splits if_splits)+

text \<open>\<open>strings.Join(xs, sep)\<close>.\<close>

fun join :: "string \<Rightarrow> string list \<Rightarrow> string" where
  "join sep [] = []"
| "join sep [x] = x"
| "join sep (x # y # xs) = x @ sep @ join sep (y # xs)"

lemma join_Cons: "xs \<noteq> [] \<Longrightarrow> join sep (x # xs) = x @ sep @ join sep xs"
  by (cases xs) auto

lemma join_split_on: "join [c] (split_on c s) = s"
proof (induction s)
  case (Cons x s)
  show ?case
  proof (cases "split_on c s")
    case (Cons w ws)
    with Cons.IH show ?thesis by (cases ws) auto
  qed simp
qed simp

lemma split_on_one: "length (split_on c s) \<le> 1 \<longleftrightarrow> c \<notin> set s"
proof
  assume "length (split_on c s) \<le> 1"
  then obtain w where w: "split_on c s = [w]"
    using split_on_not_Nil [of c s] by (cases "split_on c s") auto
  with join_split_on [of c s] have "s = w" by simp
  moreover have "c \<notin> set w" using split_on_pieces [of w c s] w by simp
  ultimately show "c \<notin> set s" by simp
qed (simp add: split_on_no_sep)

lemma last_split_on:
  assumes "c \<in> set s"
  obtains pre where "s = pre @ c # last (split_on c s)"
proof -
  have "\<exists>xs ys. s = xs @ c # ys \<and> c \<notin> set ys"
    using assms by (metis split_list_last)
  then obtain xs ys where "s = xs @ c # ys" and "c \<notin> set ys"
    by blast
  then have "s = xs @ c # last (split_on c s)"
    by (simp add: split_on_append)
  then show ?thesis by (rule that)
qed

section \<open>Letter case and replacement\<close>

definition byte :: "char \<Rightarrow> nat" where
  "byte c = of_char c"

definition is_lower :: "char \<Rightarrow> bool" where
  "is_lower c \<longleftrightarrow> 97 \<le> byte c \<and> byte c \<le> 122"

definition is_upper :: "char \<Rightarrow> bool" where
  "is_upper c \<longleftrightarrow> 65 \<le> byte c \<and> byte c \<le> 90"

definition is_digit :: "char \<Rightarrow> bool" where
  "is_digit c \<longleftrightarrow> 48 \<le> byte c \<and> byte c \<le> 57"

definition ascii_lower :: "char \<Rightarrow> char" where
  "ascii_lower c = (if is_upper c then char_of (byte c + 32) else c)"

text \<open>
  \<open>strings.ToLower\<close>. It maps code points; the only two outside ASCII whose lower case is
  ASCII are U+0130 (bytes C4 B0, lower case \<open>i\<close>) and U+212A (bytes E2 84 AA, lower case
  \<open>k\<close>). The bytes of every other code point outside ASCII are left as they are here: Go may
  replace them by the bytes of another code point outside ASCII, which the callers, who only
  ask whether the result is made of lower case letters, digits, dots and dashes, cannot tell.
\<close>

fun to_lower :: "string \<Rightarrow> string" where
  "to_lower [] = []"
| "to_lower (c # s) =
     (if c = CHR 0xC4 \<and> take 1 s = [CHR 0xB0] then CHR ''i'' # to_lower (drop 1 s)
      else if c = CHR 0xE2 \<and> take 2 s = [CHR 0x84, CHR 0xAA] then CHR ''k'' # to_lower (drop 2 s)
      else ascii_lower c # to_lower s)"

lemma to_lower_ascii: "\<forall>c \<in> set s. byte c < 128 \<Longrightarrow> to_lower s = map ascii_lower s"
  by (induction s) (auto simp: byte_def)

lemma ascii_lower_id: "\<not> is_upper c \<Longrightarrow> ascii_lower c = c"
  by (simp add: ascii_lower_def)

text \<open>\<open>strings.ReplaceAll(s, old, new)\<close> for an old and a new string of one byte each.\<close>

definition replace_char :: "char \<Rightarrow> char \<Rightarrow> string \<Rightarrow> string" where
  "replace_char old new s = map (\<lambda>c. if c = old then new else c) s"

lemma replace_char_id: "old \<notin> set s \<Longrightarrow> replace_char old new s = s"
  by (auto simp: replace_char_def intro: map_idI)

section \<open>Decimal numerals\<close>

definition digit_char :: "nat \<Rightarrow> char" where
  "digit_char d = char_of (48 + d)"

fun digits :: "nat \<Rightarrow> string" where
  "digits n = (if n < 10 then [digit_char n] else digits (n div 10) @ [digit_char (n mod 10)])"

declare digits.simps [simp del]

text \<open>\<open>strconv.Itoa(i)\<close> and \<open>strconv.FormatInt(i, 10)\<close>.\<close>

definition itoa :: "int \<Rightarrow> string" where
  "itoa i = (if i < 0 then ''-'' @ digits (nat (- i)) else digits (nat i))"

text \<open>
  \<open>strconv.Atoi\<close>: an optional sign, then digits only, read from the left; the value must
  fit in 64 bits, unsigned while it is scanned and signed in the end.
\<close>

definition err_syntax :: go_error where
  "err_syntax = NewError ''invalid syntax''"

definition err_range :: go_error where
  "err_range = NewError ''value out of range''"

fun scan_uint :: "nat \<Rightarrow> string \<Rightarrow> go_error + nat" where
  "scan_uint n [] = Inr n"
| "scan_uint n (c # cs) =
     (if \<not> is_digit c then Inl err_syntax
      else if 2 ^ 64 \<le> n * 10 + (byte c - 48) then Inl err_range
      else scan_uint (n * 10 + (byte c - 48)) cs)"

definition atoi :: "string \<Rightarrow> go_error + int" where
  "atoi s =
     (let neg = (take 1 s = ''-'');
          ds = (if take 1 s = ''-'' \<or> take 1 s = ''+'' then drop 1 s else s)
      in if ds = [] then Inl err_syntax
         else case scan_uint 0 ds of
                Inl e \<Rightarrow> Inl e
              | Inr n \<Rightarrow>
                  if \<not> neg \<and> 2 ^ 63 \<le> n then Inl err_range
                  else if neg \<and> 2 ^ 63 < n then Inl err_range
                  else Inr (if neg then - int n else int n))"

lemma byte_digit_char: "d < 10 \<Longrightarrow> byte (digit_char d) = 48 + d"
  by (simp add: byte_def digit_char_def)

lemma digit_char_props [simp]:
  "d < 10 \<Longrightarrow> is_digit (digit_char d)"
  "d < 10 \<Longrightarrow> byte (digit_char d) - 48 = d"
  by (simp_all add: is_digit_def byte_digit_char)

lemma digits_not_Nil [simp]: "digits n \<noteq> []"
  by (subst digits.simps) simp

lemma digits_are_digits: "c \<in> set (digits n) \<Longrightarrow> is_digit c"
proof (induction n rule: digits.induct)
  case (1 n)
  then show ?case by (cases "n < 10") (auto simp: digits.simps [of n])
qed

lemma scan_uint_append:
  "scan_uint n (xs @ ys) = (case scan_uint n xs of Inl e \<Rightarrow> Inl e | Inr m \<Rightarrow> scan_uint m ys)"
  by (induction n xs rule: scan_uint.induct) (auto simp: Let_def)

lemma scan_uint_digits: "n < 2 ^ 64 \<Longrightarrow> scan_uint 0 (digits n) = Inr n"
proof (induction n rule: digits.induct)
  case (1 n)
  show ?case
  proof (cases "n < 10")
    case True
    with "1.prems" show ?thesis by (simp add: digits.simps [of n])
  next
    case False
    from "1.prems" have "n div 10 < 2 ^ 64" by linarith
    with False "1.IH" have "scan_uint 0 (digits (n div 10)) = Inr (n div 10)" by simp
    moreover have "n div 10 * 10 + n mod 10 = n" by simp
    ultimately show ?thesis
      using False "1.prems" by (simp add: digits.simps [of n] scan_uint_append)
  qed
qed

lemma take_1_digits: "take 1 (digits n) \<noteq> ''-''" "take 1 (digits n) \<noteq> ''+''"
proof -
  obtain c cs where d: "digits n = c # cs"
    using digits_not_Nil [of n] by (cases "digits n") auto
  then have "is_digit c"
    using digits_are_digits [of c n] by simp
  then show "take 1 (digits n) \<noteq> ''-''" "take 1 (digits n) \<noteq> ''+''"
    using d by (auto simp: is_digit_def byte_def)
qed

lemma atoi_digits: "n < 2 ^ 63 \<Longrightarrow> atoi (digits n) = Inr (int n)"
  by (simp add: atoi_def Let_def take_1_digits [simplified] scan_uint_digits)

lemma atoi_itoa:
  assumes "- (2 ^ 63) \<le> i" and "i < 2 ^ 63"
  shows "atoi (itoa i) = Inr i"
proof (cases "i < 0")
  case True
  with assms have "nat (- i) \<le> 2 ^ 63" by simp
  then have "scan_uint 0 (digits (nat (- i))) = Inr (nat (- i))"
    by (intro scan_uint_digits) simp
  with True assms show ?thesis by (simp add: itoa_def atoi_def Let_def)
next
  case False
  with assms show ?thesis by (simp add: itoa_def atoi_digits)
qed

lemma itoa_nonneg: "0 \<le> i \<Longrightarrow> itoa i = digits (nat i)"
  by (simp add: itoa_def)

lemma itoa_inj:
  assumes "itoa i = itoa j" "- (2 ^ 63) \<le> i" "i < 2 ^ 63" "- (2 ^ 63) \<le> j" "j < 2 ^ 63"
  shows "i = j"
  using assms atoi_itoa by (metis sum.inject(2))

lemma scan_uint_ok: "scan_uint m s = Inr n \<Longrightarrow> (\<forall>c \<in> set s. is_digit c) \<and> (m < 2 ^ 64 \<longrightarrow> n < 2 ^ 64)"
  by (induction m s rule: scan_uint.induct) (auto simp: Let_def split: if_splits)

text \<open>What \<open>atoi\<close> accepts, and the range of its result.\<close>

lemma atoi_ok:
  assumes "atoi s = Inr i"
  shows "- (2 ^ 63) \<le> i \<and> i < 2 ^ 63"
  using assms by (auto simp: atoi_def Let_def split: if_splits sum.splits)

lemma atoi_no_minus:
  assumes "atoi s = Inr i" and "CHR ''-'' \<notin> set s"
  shows "0 \<le> i"
  using assms by (cases s) (auto simp: atoi_def Let_def split: if_splits sum.splits)

end
