(* ===== verification/Go_Regexp.thy ===== *)
theory Go_Regexp
  imports Go_Strings
begin

text \<open>
  The part of Go's \<open>regexp\<close> package the code uses: regular expressions with character
  classes, concatenation, \<open>?\<close>, \<open>*\<close>, \<open>+\<close> and capture groups, \<open>MatchString\<close> of an
  expression anchored at both ends, and \<open>FindStringSubmatch\<close>. Go documents that, of all the
  matches, the one returned starts leftmost and is the one a backtracking engine that prefers
  more repetitions would find first; \<open>rmatch\<close> lists the ways to match at the front of a
  string in that order. \<open>rmatch_iff\<close> relates it to the language of the expression.
\<close>

datatype regex =
    RSet "char \<Rightarrow> bool"
  | RSeq regex regex
  | ROpt regex
  | RStar regex
  | RGroup nat regex

definition RPlus :: "regex \<Rightarrow> regex" where
  "RPlus r = RSeq r (RStar r)"

type_synonym captures = "(nat \<times> string) list"

text \<open>
  Each result is what is left of the string and the captures made, later ones first. A
  repetition of \<open>*\<close> must consume something, as in the engine.
\<close>

function rmatch :: "regex \<Rightarrow> string \<Rightarrow> (string \<times> captures) list" where
  "rmatch (RSet P) s = (case s of [] \<Rightarrow> [] | c # t \<Rightarrow> (if P c then [(t, [])] else []))"
| "rmatch (RSeq r1 r2) s =
     concat (map (\<lambda>(t, c1). map (\<lambda>(u, c2). (u, c2 @ c1)) (rmatch r2 t)) (rmatch r1 s))"
| "rmatch (ROpt r) s = rmatch r s @ [(s, [])]"
| "rmatch (RStar r) s =
     concat (map (\<lambda>(t, c1). if length t < length s
                             then map (\<lambda>(u, c2). (u, c2 @ c1)) (rmatch (RStar r) t) else [])
       (rmatch r s)) @ [(s, [])]"
| "rmatch (RGroup i r) s =
     map (\<lambda>(t, c). (t, (i, take (length s - length t) s) # c)) (rmatch r s)"
  by pat_completeness auto
termination
  by (relation "measures [\<lambda>(r, s). size r, \<lambda>(r, s). length s]") auto

declare rmatch.simps(4) [simp del]

text \<open>\<open>MatchString\<close> of \<open>^r$\<close>.\<close>

definition match_full :: "regex \<Rightarrow> string \<Rightarrow> bool" where
  "match_full r s \<longleftrightarrow> list_ex (\<lambda>(t, c). t = []) (rmatch r s)"

text \<open>
  \<open>FindStringSubmatch\<close>: the captures of the first match at the leftmost start; \<open>None\<close> when
  there is no match (\<open>MatchString\<close> is then false).
\<close>

fun find_submatch :: "regex \<Rightarrow> string \<Rightarrow> captures option" where
  "find_submatch r s =
     (case rmatch r s of
        (t, c) # _ \<Rightarrow> Some c
      | [] \<Rightarrow> (case s of [] \<Rightarrow> None | _ # s' \<Rightarrow> find_submatch r s'))"

declare find_submatch.simps [simp del]

definition capture :: "captures \<Rightarrow> nat \<Rightarrow> string" where
  "capture c i = (case map_of c i of None \<Rightarrow> [] | Some s \<Rightarrow> s)"

lemma rmatch_seq_elem:
  "(t, c) \<in> set (rmatch (RSeq r1 r2) s) \<longleftrightarrow>
     (\<exists>u c1 c2. (u, c1) \<in> set (rmatch r1 s) \<and> (t, c2) \<in> set (rmatch r2 u) \<and> c = c2 @ c1)"
  (is "?L \<longleftrightarrow> ?R")
proof
  show "?L \<Longrightarrow> ?R" by auto
next
  assume ?R
  then obtain u c1 c2 where *: "(u, c1) \<in> set (rmatch r1 s)" "(t, c2) \<in> set (rmatch r2 u)" "c = c2 @ c1"
    by blast
  then have "(t, c) \<in> (\<lambda>(v, d). (v, d @ c1)) ` set (rmatch r2 u)" by force
  with *(1) show ?L by (auto intro!: bexI [of _ "(u, c1)"])
qed

section \<open>The language of an expression\<close>

inductive in_lang :: "regex \<Rightarrow> string \<Rightarrow> bool" where
  lang_set: "P c \<Longrightarrow> in_lang (RSet P) [c]"
| lang_seq: "in_lang r1 v \<Longrightarrow> in_lang r2 w \<Longrightarrow> in_lang (RSeq r1 r2) (v @ w)"
| lang_opt_none: "in_lang (ROpt r) []"
| lang_opt_some: "in_lang r w \<Longrightarrow> in_lang (ROpt r) w"
| lang_star_nil: "in_lang (RStar r) []"
| lang_star_step: "in_lang r v \<Longrightarrow> v \<noteq> [] \<Longrightarrow> in_lang (RStar r) w \<Longrightarrow> in_lang (RStar r) (v @ w)"
| lang_group: "in_lang r w \<Longrightarrow> in_lang (RGroup i r) w"

inductive_simps in_lang_simps [simp]:
  "in_lang (RSet P) w"
  "in_lang (RSeq r1 r2) w"
  "in_lang (ROpt r) w"
  "in_lang (RGroup i r) w"

inductive_cases in_lang_starE: "in_lang (RStar r) w"

text \<open>\<open>rests r s\<close>: what can be left of \<open>s\<close> after a match of \<open>r\<close> at its front.\<close>

abbreviation rests :: "regex \<Rightarrow> string \<Rightarrow> string set" where
  "rests r s \<equiv> fst ` set (rmatch r s)"

lemma rests_seq: "rests (RSeq r1 r2) s = (\<Union>t \<in> rests r1 s. rests r2 t)"
  by (simp add: image_UN image_image split_beta)

lemma rests_group: "rests (RGroup i r) s = rests r s"
  by (simp add: image_image split_beta)

lemma rests_star:
  "rests (RStar r) s = insert s (\<Union>t \<in> {t \<in> rests r s. length t < length s}. rests (RStar r) t)"
proof -
  have "rests (RStar r) s = insert s (\<Union>p \<in> set (rmatch r s).
      if length (fst p) < length s then rests (RStar r) (fst p) else {})"
    by (subst rmatch.simps(4) [of r s])
       (simp add: image_UN image_image split_beta if_distrib [of "image fst"] if_distrib [of set] cong: if_cong)
  then show ?thesis by auto
qed

lemma rmatch_sound: "t \<in> rests r s \<Longrightarrow> \<exists>w. s = w @ t \<and> in_lang r w"
proof (induction r s arbitrary: t rule: rmatch.induct)
  case (1 P s)
  then show ?case by (auto split: list.splits if_splits)
next
  case (2 r1 r2 s)
  then obtain u where "u \<in> rests r1 s" and "t \<in> rests r2 u"
    unfolding rests_seq by blast
  with "2.IH" obtain v w where "s = v @ u" "in_lang r1 v" "u = w @ t" "in_lang r2 w"
    by (metis (no_types, lifting) imageE prod.collapse)
  then have "s = (v @ w) @ t \<and> in_lang (RSeq r1 r2) (v @ w)"
    by (auto simp del: in_lang_simps intro: lang_seq)
  then show ?case by blast
next
  case (3 r s)
  then show ?case by (auto simp: image_iff)
next
  case (4 r s)
  show ?case
  proof (cases "t = s")
    case True
    then show ?thesis by (auto intro: lang_star_nil)
  next
    case False
    with "4.prems" obtain u where u: "u \<in> rests r s" "length u < length s" "t \<in> rests (RStar r) u"
      unfolding rests_star [of r s] by blast
    from u(1) obtain c where c: "(u, c) \<in> set (rmatch r s)" by force
    from "4.IH"(1) [OF u(1)] obtain v where v: "s = v @ u" "in_lang r v" by blast
    from "4.IH"(2) [OF c refl u(2) u(3)] obtain w where "u = w @ t" "in_lang (RStar r) w" by blast
    with v u(2) have "s = (v @ w) @ t \<and> in_lang (RStar r) (v @ w)"
      by (auto intro: lang_star_step)
    then show ?thesis by blast
  qed
next
  case (5 i r s)
  then show ?case by (simp only: rests_group in_lang_simps)
qed

lemma rmatch_complete: "in_lang r w \<Longrightarrow> t \<in> rests r (w @ t)"
proof (induction r w arbitrary: t rule: in_lang.induct)
  case (lang_seq r1 v r2 w)
  have "w @ t \<in> rests r1 (v @ w @ t)" and "t \<in> rests r2 (w @ t)"
    by (rule lang_seq.IH)+
  then show ?case by (simp only: append_assoc rests_seq) blast
next
  case (lang_star_step r v w)
  have "w @ t \<in> rests r (v @ w @ t)" and "t \<in> rests (RStar r) (w @ t)"
    by (rule lang_star_step.IH)+
  moreover have "length (w @ t) < length (v @ w @ t)"
    using lang_star_step.hyps by simp
  ultimately show ?case
    by (simp only: append_assoc rests_star [of r "v @ w @ t"]) blast
next
  case (lang_star_nil r)
  then show ?case by (simp add: rests_star [of r t])
next
  case (lang_group r w i)
  then show ?case by (simp only: rests_group)
qed (auto simp: image_iff)

lemma rmatch_iff: "t \<in> rests r s \<longleftrightarrow> (\<exists>w. s = w @ t \<and> in_lang r w)"
  using rmatch_sound rmatch_complete by blast

theorem match_full_iff: "match_full r s \<longleftrightarrow> in_lang r s"
proof -
  have "match_full r s \<longleftrightarrow> [] \<in> rests r s"
    by (force simp: match_full_def list_ex_iff image_iff)
  then show ?thesis by (simp add: rmatch_iff)
qed

lemma find_submatch_None: "find_submatch r s = None \<longleftrightarrow> (\<forall>xs ys. s = xs @ ys \<longrightarrow> rmatch r ys = [])"
proof (induction s rule: find_submatch.induct [of _ r])
  case (1 r s)
  show ?case
  proof (cases "rmatch r s")
    case (Cons m ms)
    then have "\<not> (\<forall>xs ys. s = xs @ ys \<longrightarrow> rmatch r ys = [])"
      by (metis append_Nil list.distinct(1))
    with Cons show ?thesis
      by (subst find_submatch.simps) (simp split: prod.splits)
  next
    case Nil
    show ?thesis
    proof (cases s)
      case (Cons c s')
      with Nil "1.IH" show ?thesis
        by (subst find_submatch.simps) (auto simp: append_eq_Cons_conv Cons_eq_append_conv)
    qed (use Nil in \<open>simp add: find_submatch.simps [of r]\<close>)
  qed
qed

text \<open>Repetitions of one character class.\<close>

lemma in_lang_star_set: "in_lang (RStar (RSet P)) w \<longleftrightarrow> list_all P w"
proof
  show "in_lang (RStar (RSet P)) w \<Longrightarrow> list_all P w"
    by (induction "RStar (RSet P)" w rule: in_lang.induct) auto
next
  show "list_all P w \<Longrightarrow> in_lang (RStar (RSet P)) w"
  proof (induction w)
    case (Cons c w)
    then have "in_lang (RStar (RSet P)) ([c] @ w)"
      by (intro lang_star_step) auto
    then show ?case by simp
  qed (rule lang_star_nil)
qed

lemma in_lang_plus_set: "in_lang (RPlus (RSet P)) w \<longleftrightarrow> w \<noteq> [] \<and> list_all P w"
proof
  assume "w \<noteq> [] \<and> list_all P w"
  then obtain a v where w: "w = [a] @ v" "P a" "list_all P v"
    by (cases w) auto
  then have "in_lang (RSeq (RSet P) (RStar (RSet P))) ([a] @ v)"
    by (intro lang_seq lang_set) (simp_all add: in_lang_star_set)
  with w show "in_lang (RPlus (RSet P)) w" by (simp add: RPlus_def)
qed (auto simp: RPlus_def in_lang_star_set)

end
