(* ===== verification/Go_Sha256.thy ===== *)
theory Go_Sha256
  imports Go_Strings
begin

unbundle bit_operations_syntax

text \<open>
  \<open>crypto/sha256\<close> (FIPS 180-4) and \<open>hex.EncodeToString\<close> of Go's standard library, which
  \<open>util.Hash\<close> calls: the message is padded to whole blocks of 64 bytes, each block is
  expanded to 64 words and mixed into the eight words of the state. The round constants are
  the first 32 bits of the fractional parts of the cube roots of the first 64 primes, in decimal.
\<close>

type_synonym u32 = "32 word"

definition sha256_init :: "u32 list" where
  "sha256_init =
     [0x6a09e667, 0xbb67ae85, 0x3c6ef372, 0xa54ff53a, 0x510e527f, 0x9b05688c, 0x1f83d9ab, 0x5be0cd19]"

definition sha256_k :: "u32 list" where
  "sha256_k =
     [1116352408, 1899447441, 3049323471, 3921009573, 961987163, 1508970993, 2453635748, 2870763221,
      3624381080, 310598401, 607225278, 1426881987, 1925078388, 2162078206, 2614888103, 3248222580,
      3835390401, 4022224774, 264347078, 604807628, 770255983, 1249150122, 1555081692, 1996064986,
      2554220882, 2821834349, 2952996808, 3210313671, 3336571891, 3584528711, 113926993, 338241895,
      666307205, 773529912, 1294757372, 1396182291, 1695183700, 1986661051, 2177026350, 2456956037,
      2730485921, 2820302411, 3259730800, 3345764771, 3516065817, 3600352804, 4094571909, 275423344,
      430227734, 506948616, 659060556, 883997877, 958139571, 1322822218, 1537002063, 1747873779,
      1955562222, 2024104815, 2227730452, 2361852424, 2428436474, 2756734187, 3204031479, 3329325298]"

text \<open>The bytes of a word of \<open>k\<close> bytes, most significant first.\<close>

definition be_bytes :: "nat \<Rightarrow> 'a::len word \<Rightarrow> u8 list" where
  "be_bytes k w = map (\<lambda>i. ucast (drop_bit (8 * (k - 1 - i)) w)) [0..<k]"

definition sha256_pad :: "u8 list \<Rightarrow> u8 list" where
  "sha256_pad m =
     m @ [0x80] @ replicate ((64 - (length m + 9) mod 64) mod 64) 0
       @ be_bytes 8 (8 * of_nat (length m) :: 64 word)"

fun words_of :: "u8 list \<Rightarrow> u32 list" where
  "words_of (a # b # c # d # xs) =
     (push_bit 24 (ucast a) OR push_bit 16 (ucast b) OR push_bit 8 (ucast c) OR ucast d) # words_of xs"
| "words_of _ = []"

text \<open>The message schedule: words 16 to 63, each from the words before it.\<close>

fun sha256_extend :: "nat \<Rightarrow> u32 list \<Rightarrow> u32 list" where
  "sha256_extend 0 w = w"
| "sha256_extend (Suc n) w =
     (let t = length w;
          x = w ! (t - 15);
          y = w ! (t - 2);
          s0 = word_rotr 7 x XOR word_rotr 18 x XOR drop_bit 3 x;
          s1 = word_rotr 17 y XOR word_rotr 19 y XOR drop_bit 10 y
      in sha256_extend n (w @ [w ! (t - 16) + s0 + w ! (t - 7) + s1]))"

fun sha256_round :: "u32 list \<Rightarrow> u32 \<times> u32 \<Rightarrow> u32 list" where
  "sha256_round [a, b, c, d, e, f, g, h] (k, w) =
     (let s1 = word_rotr 6 e XOR word_rotr 11 e XOR word_rotr 25 e;
          ch = (e AND f) XOR (NOT e AND g);
          t1 = h + s1 + ch + k + w;
          s0 = word_rotr 2 a XOR word_rotr 13 a XOR word_rotr 22 a;
          maj = (a AND b) XOR (a AND c) XOR (b AND c);
          t2 = s0 + maj
      in [t1 + t2, a, b, c, d + t1, e, f, g])"
| "sha256_round st _ = st"

definition sha256_block :: "u32 list \<Rightarrow> u32 list \<Rightarrow> u32 list" where
  "sha256_block st block =
     map2 (+) st (foldl sha256_round st (zip sha256_k (sha256_extend 48 block)))"

fun sha256_blocks :: "nat \<Rightarrow> u32 list \<Rightarrow> u32 list \<Rightarrow> u32 list" where
  "sha256_blocks 0 st ws = st"
| "sha256_blocks (Suc n) st ws = sha256_blocks n (sha256_block st (take 16 ws)) (drop 16 ws)"

text \<open>\<open>sha.Write([]byte(s))\<close> on a fresh hash, then \<open>sha.Sum(nil)\<close>: the bytes of the digest.\<close>

definition sha256 :: "string \<Rightarrow> u8 list" where
  "sha256 s =
     (let ws = words_of (sha256_pad (map of_char s))
      in concat (map (be_bytes 4) (sha256_blocks (length ws div 16) sha256_init ws)))"

text \<open>\<open>hex.EncodeToString\<close>.\<close>

definition hex_digit :: "u8 \<Rightarrow> char" where
  "hex_digit d = ''0123456789abcdef'' ! unat d"

definition hex_encode :: "u8 list \<Rightarrow> string" where
  "hex_encode bs = concat (map (\<lambda>b. [hex_digit (drop_bit 4 b), hex_digit (b AND 15)]) bs)"

section \<open>Shape of the digest\<close>

lemma length_be_bytes [simp]: "length (be_bytes k n) = k"
  by (simp add: be_bytes_def)

text \<open>The padded message is a whole number of blocks, with room for the length.\<close>

lemma length_sha256_pad: "length (sha256_pad m) mod 64 = 0" "length m + 9 \<le> length (sha256_pad m)"
proof -
  have "length (sha256_pad m) = length m + 9 + (64 - (length m + 9) mod 64) mod 64"
    by (simp add: sha256_pad_def)
  moreover have "(n + (64 - n mod 64) mod 64) mod 64 = (n mod 64 + (64 - n mod 64)) mod 64" for n :: nat
    by (simp only: mod_add_left_eq mod_add_right_eq)
  ultimately show "length (sha256_pad m) mod 64 = 0" "length m + 9 \<le> length (sha256_pad m)"
    by simp_all
qed

lemma length_sha256_round: "length st = 8 \<Longrightarrow> length (sha256_round st kw) = 8"
  by (cases "(st, kw)" rule: sha256_round.cases) (simp_all add: Let_def del: length_0_conv)

lemma length_sha256_extend: "length (sha256_extend n w) = length w + n"
  by (induction n arbitrary: w) (simp_all add: Let_def)

lemma length_sha256_block: "length st = 8 \<Longrightarrow> length (sha256_block st b) = 8"
proof -
  assume st: "length st = 8"
  have "length (foldl sha256_round s xs) = 8" if "length s = 8" for s xs
    using that by (induction xs arbitrary: s) (simp_all add: length_sha256_round)
  with st show ?thesis by (simp add: sha256_block_def)
qed

lemma length_sha256_blocks: "length st = 8 \<Longrightarrow> length (sha256_blocks n st ws) = 8"
  by (induction n arbitrary: st ws) (simp_all add: length_sha256_block)

lemma length_sha256: "length (sha256 s) = 32"
proof -
  have "length (sha256_blocks n sha256_init ws) = 8" for n ws
    by (rule length_sha256_blocks) (simp add: sha256_init_def)
  then show ?thesis
    by (simp add: sha256_def Let_def length_concat comp_def sum_list_triv)
qed

lemma length_hex_encode: "length (hex_encode bs) = 2 * length bs"
  by (simp add: hex_encode_def length_concat comp_def sum_list_triv)

definition is_hex :: "char \<Rightarrow> bool" where
  "is_hex c \<longleftrightarrow> is_digit c \<or> (97 \<le> byte c \<and> byte c \<le> 102)"

lemma is_hex_hex_digit: "unat d < 16 \<Longrightarrow> is_hex (hex_digit d)"
proof -
  have "\<forall>c \<in> set ''0123456789abcdef''. is_hex c"
    by (simp add: is_hex_def is_digit_def byte_def)
  moreover assume "unat d < 16"
  then have "hex_digit d \<in> set ''0123456789abcdef''"
    unfolding hex_digit_def by (intro nth_mem) simp
  ultimately show ?thesis by blast
qed

lemma hex_encode_is_hex: "c \<in> set (hex_encode bs) \<Longrightarrow> is_hex c"
proof -
  have "unat (drop_bit 4 b) < 16" for b :: u8
    using unsigned_less [where 'a = nat, of b] by (simp add: drop_bit_eq_div unat_div)
  moreover have "unat (b AND 15) < 16" for b :: u8
    using word_and_le1 [of b 15] by (simp add: word_le_nat_alt)
  moreover assume "c \<in> set (hex_encode bs)"
  ultimately show ?thesis
    by (auto simp: hex_encode_def intro: is_hex_hex_digit)
qed

end
