(* ===== verification/Util.thy ===== *)
theory Util
  imports Go_Regexp Go_Sha256
begin

text \<open>
  \<open>util/parse.go\<close> and \<open>util/hash.go\<close>: the instance index in the name of a pod, the registry
  host of an image reference, and the short hash that ends the name of a stateful set.
\<close>

section \<open>ParseAppIndex\<close>

definition parse_app_index :: "string \<Rightarrow> go_error + int" where
  "parse_app_index podName =
     (let sl = split_on (CHR ''-'') podName
      in if length sl \<le> 1 then Inl (NewError ''could not parse app name'')
         else case atoi (last sl) of
                Inl err \<Rightarrow> Inl (Wrap ''pod name does not contain an index'' err)
              | Inr index \<Rightarrow> Inr index)"

text \<open>The pods of a stateful set are named after it, with their ordinal.\<close>

definition pod_name :: "string \<Rightarrow> nat \<Rightarrow> string" where
  "pod_name stset n = stset @ ''-'' @ itoa (int n)"

lemma parse_app_index_append:
  assumes "CHR ''-'' \<notin> set idx"
  shows "parse_app_index (name @ ''-'' @ idx) =
           (case atoi idx of Inl err \<Rightarrow> Inl (Wrap ''pod name does not contain an index'' err)
                           | Inr i \<Rightarrow> Inr i)"
  using split_on_append [OF assms, of name] split_on_not_Nil [of "CHR ''-''" name]
  by (auto simp: parse_app_index_def Let_def)

lemma parse_app_index_nonneg:
  assumes "parse_app_index name = Inr i"
  shows "0 \<le> i \<and> i < 2 ^ 63"
proof -
  let ?sl = "split_on (CHR ''-'') name"
  from assms have i: "atoi (last ?sl) = Inr i"
    by (auto simp: parse_app_index_def Let_def split: if_splits sum.splits)
  have "CHR ''-'' \<notin> set (last ?sl)"
    using split_on_pieces [of "last ?sl" "CHR ''-''" name] by simp
  with i show ?thesis
    using atoi_no_minus atoi_ok by blast
qed

lemma parse_pod_index: "n < 2 ^ 63 \<Longrightarrow> parse_app_index (pod_name stset n) = Inr (int n)"
proof -
  assume "n < 2 ^ 63"
  moreover have "CHR ''-'' \<notin> set (digits n)"
    using digits_are_digits [of "CHR ''-''" n] by (auto simp: is_digit_def byte_def)
  ultimately show ?thesis
    using parse_app_index_append [of "digits n" stset] by (simp add: pod_name_def itoa_nonneg atoi_digits)
qed

section \<open>Hash\<close>

definition max_hash_length :: nat where
  "max_hash_length = 10"

text \<open>Writing to a SHA-256 hash never fails, so the error branch of the source is dead.\<close>

definition hash :: "string \<Rightarrow> go_error + string" where
  "hash s = Inr (take max_hash_length (hex_encode (sha256 s)))"

lemma hash_shape:
  obtains h where "hash s = Inr h" "length h = 10" "\<forall>c \<in> set h. is_hex c"
proof -
  have "\<forall>c \<in> set (take max_hash_length (hex_encode (sha256 s))). is_hex c"
    using hex_encode_is_hex by (auto dest!: in_set_takeD)
  moreover have "length (take max_hash_length (hex_encode (sha256 s))) = 10"
    by (simp add: max_hash_length_def length_hex_encode length_sha256)
  ultimately show ?thesis
    using that by (simp add: hash_def)
qed

section \<open>ParseImageRegistryHost\<close>

definition docker_hub_host :: string where
  "docker_hub_host = ''index.docker.io/v1/''"

definition host_char :: "char \<Rightarrow> bool" where
  "host_char c \<longleftrightarrow> is_lower c \<or> is_upper c \<or> is_digit c \<or> c = CHR ''.'' \<or> c = CHR ''-''"

text \<open>The class \<open>\S\<close>: everything but tab, newline, form feed, carriage return and space.\<close>

definition non_space :: "char \<Rightarrow> bool" where
  "non_space c \<longleftrightarrow> byte c \<notin> {9, 10, 12, 13, 32}"

definition docker_rx :: regex where
  "docker_rx =
     RSeq (RGroup 1 (RPlus (RSet host_char)))
       (RSeq (ROpt (RGroup 2 (RSeq (RSet (\<lambda>c. c = CHR '':'')) (RGroup 3 (RPlus (RSet is_digit))))))
         (RSeq (RSet (\<lambda>c. c = CHR ''/''))
           (RGroup 4 (RSeq (RPlus (RSet non_space))
             (RSeq (RSet (\<lambda>c. c = CHR ''/'')) (RPlus (RSet non_space)))))))"

definition parse_image_registry_host :: "string \<Rightarrow> string" where
  "parse_image_registry_host imageURL =
     (case find_submatch docker_rx imageURL of
        None \<Rightarrow> docker_hub_host
      | Some matches \<Rightarrow> capture matches 1)"

text \<open>The groups an expression can capture.\<close>

fun groups :: "regex \<Rightarrow> nat set" where
  "groups (RSet P) = {}"
| "groups (RSeq r1 r2) = groups r1 \<union> groups r2"
| "groups (ROpt r) = groups r"
| "groups (RStar r) = groups r"
| "groups (RGroup i r) = insert i (groups r)"

lemma rmatch_groups: "(t, c) \<in> set (rmatch r s) \<Longrightarrow> fst ` set c \<subseteq> groups r"
proof (induction r s arbitrary: t c rule: rmatch.induct)
  case (2 r1 r2 s)
  then show ?case by fastforce
next
  case (4 r s)
  show ?case
  proof (cases "(t, c) = (s, [])")
    case False
    with "4.prems" obtain u c1 c2 where
      u: "(u, c1) \<in> set (rmatch r s)" "length u < length s" "(t, c2) \<in> set (rmatch (RStar r) u)"
      and c: "c = c2 @ c1"
      by (auto simp: rmatch.simps(4) [of r s] split: if_splits)
    from "4.IH"(1) [OF u(1)] "4.IH"(2) [OF u(1) refl u(2) u(3)] c show ?thesis by auto
  qed simp
next
  case (5 i r s)
  then obtain c' where "(t, c') \<in> set (rmatch r s)" "fst ` set c = insert i (fst ` set c')"
    by auto
  with "5.IH" show ?case by auto
qed (auto split: list.splits if_splits)

lemma capture_append: "i \<notin> fst ` set c2 \<Longrightarrow> capture (c2 @ c1) i = capture c1 i"
proof -
  assume "i \<notin> fst ` set c2"
  then have "map_of c2 i = None" by (simp add: map_of_eq_None_iff)
  then show ?thesis by (simp add: capture_def map_add_def)
qed

text \<open>
  The first group of a match is the whole run of host characters at its start: what follows
  the group is a colon or a slash, neither of which is a host character.
\<close>

lemma docker_rx_capture:
  assumes "(t, c) \<in> set (rmatch docker_rx s)"
  shows "capture c 1 = takeWhile host_char s" "takeWhile host_char s \<noteq> []"
    "\<exists>d post. s = takeWhile host_char s @ d # post \<and> (d = CHR '':'' \<or> d = CHR ''/'')"
proof -
  define g where "g = RGroup 1 (RPlus (RSet host_char))"
  define rest where "rest = (RSeq (ROpt (RGroup 2 (RSeq (RSet (\<lambda>c. c = CHR '':'')) (RGroup 3 (RPlus (RSet is_digit))))))
         (RSeq (RSet (\<lambda>c. c = CHR ''/''))
           (RGroup 4 (RSeq (RPlus (RSet non_space))
             (RSeq (RSet (\<lambda>c. c = CHR ''/'')) (RPlus (RSet non_space)))))))"
  from assms obtain u c1 c2 where
    u: "(u, c1) \<in> set (rmatch g s)" and t: "(t, c2) \<in> set (rmatch rest u)" and c: "c = c2 @ c1"
    using rmatch_seq_elem [of t c g rest s] by (auto simp: docker_rx_def g_def rest_def simp del: rmatch.simps(1-3,5))
  from u have "u \<in> rests g s" by force
  then obtain w where w: "s = w @ u" "w \<noteq> []" "list_all host_char w"
    unfolding rmatch_iff by (auto simp: g_def in_lang_plus_set)
  from t have "t \<in> rests rest u" by force
  then obtain v where "u = v @ t" "in_lang rest v"
    unfolding rmatch_iff by blast
  then obtain d post where d: "u = d # post" "d = CHR '':'' \<or> d = CHR ''/''"
    by (auto simp: rest_def)
  then have "\<not> host_char d"
    by (auto simp: host_char_def is_lower_def is_upper_def is_digit_def byte_def)
  with w d have tw: "takeWhile host_char s = w"
    by (simp add: takeWhile_append list_all_iff)
  have "1 \<notin> fst ` set c2"
    using rmatch_groups [OF t] by (auto simp: rest_def RPlus_def)
  moreover have "capture c1 1 = w"
    using u w by (auto simp: g_def capture_def)
  ultimately show "capture c 1 = takeWhile host_char s"
    by (simp add: c tw capture_append)
  show "takeWhile host_char s \<noteq> []" using w tw by simp
  show "\<exists>d post. s = takeWhile host_char s @ d # post \<and> (d = CHR '':'' \<or> d = CHR ''/'')"
    using w d tw by auto
qed

text \<open>A match needs two slashes.\<close>

lemma docker_rx_slashes:
  assumes "in_lang docker_rx w"
  shows "2 \<le> count_list w (CHR ''/'')"
  using assms by (auto simp: docker_rx_def)

lemma parse_host_of_match:
  assumes "in_lang docker_rx w"
  shows "parse_image_registry_host (w @ t) = takeWhile host_char (w @ t)"
proof -
  have "t \<in> rests docker_rx (w @ t)"
    using assms by (rule rmatch_complete)
  then obtain u c ms where m: "rmatch docker_rx (w @ t) = (u, c) # ms"
    by (cases "rmatch docker_rx (w @ t)") auto
  then have "find_submatch docker_rx (w @ t) = Some c"
    by (subst find_submatch.simps) simp
  moreover have "capture c 1 = takeWhile host_char (w @ t)"
    using docker_rx_capture(1) [of u c "w @ t"] m by simp
  ultimately show ?thesis
    by (simp add: parse_image_registry_host_def)
qed

lemma parse_host_default:
  assumes "count_list url (CHR ''/'') < 2"
  shows "parse_image_registry_host url = docker_hub_host"
proof -
  have "rmatch docker_rx ys = []" if "url = xs @ ys" for xs ys
  proof (rule ccontr)
    assume "rmatch docker_rx ys \<noteq> []"
    then obtain t c where "(t, c) \<in> set (rmatch docker_rx ys)"
      by (cases "rmatch docker_rx ys") auto
    then have "t \<in> rests docker_rx ys" by force
    then obtain w where "ys = w @ t" "in_lang docker_rx w"
      unfolding rmatch_iff by blast
    with docker_rx_slashes [of w] assms that show False by simp
  qed
  then have "find_submatch docker_rx url = None"
    by (simp add: find_submatch_None)
  then show ?thesis by (simp add: parse_image_registry_host_def)
qed

text \<open>An image reference with a registry host, perhaps a port, and a path of two parts.\<close>

lemma docker_rx_host:
  assumes "host \<noteq> []" "list_all host_char host" "repo \<noteq> []" "list_all non_space repo"
    and "name \<noteq> []" "list_all non_space name"
    and "port = [] \<or> (\<exists>ds. port = CHR '':'' # ds \<and> ds \<noteq> [] \<and> list_all is_digit ds)"
  shows "in_lang docker_rx (host @ port @ ''/'' @ repo @ ''/'' @ name)"
proof -
  have slash: "in_lang (RSet (\<lambda>c. c = CHR ''/'')) ''/''"
    by (intro lang_set) simp
  have port: "in_lang (ROpt (RGroup 2 (RSeq (RSet (\<lambda>c. c = CHR '':'')) (RGroup 3 (RPlus (RSet is_digit)))))) port"
  proof (cases "port = []")
    case True
    then show ?thesis by (simp add: lang_opt_none)
  next
    case False
    with assms(7) obtain ds where ds: "port = '':'' @ ds" "ds \<noteq> []" "list_all is_digit ds" by auto
    show ?thesis
      unfolding ds(1) using ds(2,3)
      by (intro lang_opt_some lang_group lang_seq lang_set) (simp_all add: in_lang_plus_set)
  qed
  show ?thesis
    unfolding docker_rx_def
    using assms(1-6) by (intro lang_seq lang_group port slash) (simp_all add: in_lang_plus_set)
qed

section \<open>Properties\<close>

text \<open>
  \<open>ParseAppIndex\<close> reads back the ordinal of a pod of a stateful set, whatever the name of
  the stateful set; and an index that it returns is never negative.
\<close>

theorem parse_app_index_pod_name:
  assumes "n < 2 ^ 63"
  shows "parse_app_index (pod_name stset n) = Inr (int n)
    \<and> (\<forall>name i. parse_app_index name = Inr i \<longrightarrow> 0 \<le> i \<and> i < 2 ^ 63)"
  using parse_pod_index [OF assms] by (blast dest: parse_app_index_nonneg)

theorem parse_app_index_pod_name_witness:
  "parse_app_index (pod_name ''my-app-12'' 7) = Inr 7"
  using parse_app_index_pod_name [of 7 "''my-app-12''"] by simp

text \<open>
  \<open>ParseImageRegistryHost\<close> returns the host of an image reference that has one and a path of
  two parts, without its port.
\<close>

theorem parse_host_of_reference:
  assumes "host \<noteq> []" "list_all host_char host" "repo \<noteq> []" "list_all non_space repo"
    and "name \<noteq> []" "list_all non_space name"
    and "port = [] \<or> (\<exists>ds. port = CHR '':'' # ds \<and> ds \<noteq> [] \<and> list_all is_digit ds)"
  shows "parse_image_registry_host (host @ port @ ''/'' @ repo @ ''/'' @ name) = host"
proof -
  have "takeWhile host_char (host @ port @ ''/'' @ repo @ ''/'' @ name) = host"
    using assms(2,7)
    by (auto simp: takeWhile_append list_all_iff host_char_def is_lower_def is_upper_def is_digit_def byte_def)
  then show ?thesis
    using parse_host_of_match [OF docker_rx_host [OF assms], of "[]"] by simp
qed

theorem parse_host_of_reference_witness:
  "parse_image_registry_host ''my-registry.io:5000/repo/image:latest'' = ''my-registry.io''"
  using parse_host_of_reference [of "''my-registry.io''" "''repo''" "''image:latest''" "'':5000''"]
  by (simp add: host_char_def is_lower_def is_upper_def is_digit_def byte_def non_space_def)

text \<open>
  A reference with fewer than two slashes is taken to be one of Docker Hub, even when it
  starts with the host of another registry.
\<close>

theorem parse_host_short_reference:
  assumes "CHR ''/'' \<notin> set host" and "CHR ''/'' \<notin> set name"
  shows "parse_image_registry_host (host @ ''/'' @ name) = docker_hub_host"
  using assms by (intro parse_host_default) simp

theorem parse_host_short_reference_witness:
  "parse_image_registry_host ''my-registry.io:5000/image'' = ''index.docker.io/v1/''"
  using parse_host_short_reference [of "''my-registry.io:5000''" "''image''"]
  by (simp add: docker_hub_host_def)

end
