(* ===== verification/Api_Types.thy ===== *)
theory Api_Types
  imports Go_Prelude
begin

text \<open>
  The objects the controller reads and writes. The custom resources LRP and Task are the Go
  types of \<open>pkg/apis/eirini/v1\<close>, field by field. Of the Kubernetes objects (stateful sets,
  jobs, pods, events, secrets, pod disruption budgets) the fields that the code reads or writes
  are kept, under their Kubernetes names. Pointers are options; a slice or map of a custom
  resource may be nil (\<open>None\<close>).
\<close>

section \<open>Metadata\<close>

record owner_reference =
  or_api_version :: string
  or_kind :: string
  or_name :: string
  or_uid :: string
  or_controller :: "bool option"

record object_meta =
  om_name :: string
  om_generate_name :: string
  om_namespace :: string
  om_uid :: string
  om_labels :: gomap
  om_annotations :: gomap
  om_owner_references :: "owner_reference list"

text \<open>The zero value of the struct.\<close>

definition empty_meta :: object_meta where
  "empty_meta = \<lparr>om_name = [], om_generate_name = [], om_namespace = [], om_uid = [],
     om_labels = None, om_annotations = None, om_owner_references = []\<rparr>"

type_synonym namespaced_name = "string \<times> string"

abbreviation meta_key :: "object_meta \<Rightarrow> namespaced_name" where
  "meta_key m \<equiv> (om_namespace m, om_name m)"

section \<open>Containers and pods\<close>

text \<open>An environment variable: a value, or a reference to a field of the pod.\<close>

datatype env_var_source =
    FieldRef string
  | OtherSource string

record env_var =
  ev_name :: string
  ev_value :: string
  ev_value_from :: "env_var_source option"

text \<open>
  A quantity, as the call of the \<open>resource\<close> package that built it: \<open>NewScaledQuantity(v, s)\<close>,
  or \<open>Set(v)\<close> on a quantity of the binary format.
\<close>

datatype quantity_scale = Milli | Mega

datatype quantity =
    ScaledQuantity i64 quantity_scale
  | BinaryQuantity i64

type_synonym resource_list = "(string \<times> quantity) list"

record resource_requirements =
  rr_limits :: resource_list
  rr_requests :: resource_list

datatype int_or_string = IntVal i32 | StrVal string

datatype probe_handler =
    HTTPGet string int_or_string
  | TCPSocket int_or_string

record probe =
  pr_handler :: probe_handler
  pr_initial_delay_seconds :: i32
  pr_failure_threshold :: i32

record security_context =
  sc_allow_privilege_escalation :: "bool option"
  sc_run_as_non_root :: "bool option"
  sc_capabilities_drop :: "string list"
  sc_seccomp_profile :: string

record mount =
  mt_name :: string
  mt_mount_path :: string

record volume =
  vo_name :: string
  vo_claim_name :: string

record container =
  co_name :: string
  co_image :: string
  co_image_pull_policy :: string
  co_command :: "string list"
  co_env :: "env_var list"
  co_ports :: "i32 list"
  co_security_context :: "security_context option"
  co_resources :: resource_requirements
  co_liveness_probe :: "probe option"
  co_readiness_probe :: "probe option"
  co_volume_mounts :: "mount list"

text \<open>A container whose other fields are the zero values.\<close>

definition empty_container :: container where
  "empty_container = \<lparr>co_name = [], co_image = [], co_image_pull_policy = [], co_command = [],
     co_env = [], co_ports = [], co_security_context = None,
     co_resources = \<lparr>rr_limits = [], rr_requests = []\<rparr>,
     co_liveness_probe = None, co_readiness_probe = None, co_volume_mounts = []\<rparr>"

record selector_requirement =
  sr_key :: string
  sr_operator :: string
  sr_values :: "string list"

record affinity_term =
  at_weight :: i32
  at_topology_key :: string
  at_match_expressions :: "selector_requirement list"

record pod_spec =
  ps_containers :: "container list"
  ps_image_pull_secrets :: "string list"
  ps_service_account_name :: string
  ps_automount_token :: "bool option"
  ps_volumes :: "volume list"
  ps_anti_affinity :: "affinity_term list"
  ps_restart_policy :: string

definition empty_pod_spec :: pod_spec where
  "empty_pod_spec = \<lparr>ps_containers = [], ps_image_pull_secrets = [], ps_service_account_name = [],
     ps_automount_token = None, ps_volumes = [], ps_anti_affinity = [], ps_restart_policy = []\<rparr>"

record pod_template =
  pt_labels :: gomap
  pt_annotations :: gomap
  pt_spec :: pod_spec

record terminated_state =
  ts_exit_code :: i32
  ts_reason :: string
  ts_finished_at :: gotime

record container_state =
  cs_running :: "gotime option"
  cs_terminated :: "terminated_state option"

record container_status =
  ct_name :: string
  ct_state :: container_state
  ct_last_termination_state :: container_state
  ct_restart_count :: i32

record pod =
  po_meta :: object_meta
  po_spec :: pod_spec
  po_container_statuses :: "container_status list"

section \<open>Workloads and the objects around them\<close>

record stateful_set =
  st_meta :: object_meta
  st_pod_management_policy :: string
  st_replicas :: "i32 option"
  st_selector :: gomap
  st_template :: pod_template
  st_ready_replicas :: i32

record job_condition =
  jc_type :: string
  jc_last_transition_time :: gotime

record job_status =
  js_start_time :: "gotime option"
  js_completion_time :: "gotime option"
  js_succeeded :: i32
  js_failed :: i32
  js_conditions :: "job_condition list"

record job =
  jb_meta :: object_meta
  jb_parallelism :: "i32 option"
  jb_completions :: "i32 option"
  jb_backoff_limit :: "i32 option"
  jb_template :: pod_template
  jb_status :: job_status

record secret =
  se_meta :: object_meta
  se_type :: string
  se_string_data :: gomap

record pod_disruption_budget =
  pd_meta :: object_meta
  pd_min_available :: int_or_string
  pd_selector :: gomap

record object_reference =
  ob_kind :: string
  ob_name :: string
  ob_uid :: string
  ob_api_version :: string
  ob_namespace :: string
  ob_field_path :: string

record event =
  en_meta :: object_meta
  en_involved_object :: object_reference
  en_reason :: string
  en_message :: string
  en_source_component :: string
  en_first_timestamp :: gotime
  en_last_timestamp :: gotime
  en_event_time :: gotime
  en_count :: i32
  en_type :: string
  en_reporting_controller :: string
  en_action :: string
  en_reporting_instance :: string

section \<open>The custom resources\<close>

record private_registry =
  pv_username :: string
  pv_password :: string

record sidecar =
  sd_name :: string
  sd_command :: "string list option"
  sd_memory_mb :: i64
  sd_env :: gomap

record volume_mount =
  vm_mount_path :: string
  vm_claim_name :: string

record healthcheck =
  hc_type :: string
  hc_port :: i32
  hc_endpoint :: string
  hc_timeout_ms :: u64

record lrp_spec =
  ls_guid :: string
  ls_version :: string
  ls_process_type :: string
  ls_app_name :: string
  ls_app_guid :: string
  ls_org_name :: string
  ls_org_guid :: string
  ls_space_name :: string
  ls_space_guid :: string
  ls_image :: string
  ls_command :: "string list option"
  ls_sidecars :: "sidecar list option"
  ls_private_registry :: "private_registry option"
  ls_env :: gomap
  ls_environment :: "env_var list option"
  ls_health :: healthcheck
  ls_ports :: "i32 list option"
  ls_instances :: i64
  ls_memory_mb :: i64
  ls_disk_mb :: i64
  ls_cpu_weight :: u8
  ls_volume_mounts :: "volume_mount list option"
  ls_user_defined_annotations :: gomap

record lrp =
  lr_meta :: object_meta
  lr_spec :: lrp_spec
  lr_status_replicas :: i32

record task_spec =
  ta_guid :: string
  ta_name :: string
  ta_image :: string
  ta_image_pull_secrets :: "string list option"
  ta_env :: gomap
  ta_environment :: "env_var list option"
  ta_command :: "string list option"
  ta_app_name :: string
  ta_app_guid :: string
  ta_org_name :: string
  ta_org_guid :: string
  ta_space_name :: string
  ta_space_guid :: string
  ta_memory_mb :: i64
  ta_disk_mb :: i64
  ta_cpu_millis :: i64

record condition =
  cd_type :: string
  cd_status :: string
  cd_last_transition_time :: gotime
  cd_reason :: string
  cd_message :: string

record task =
  tk_meta :: object_meta
  tk_spec :: task_spec
  tk_conditions :: "condition list"

definition task_initialized_condition_type :: string where
  "task_initialized_condition_type = ''Initialized''"

definition task_started_condition_type :: string where
  "task_started_condition_type = ''Started''"

definition task_succeeded_condition_type :: string where
  "task_succeeded_condition_type = ''Succeeded''"

definition task_failed_condition_type :: string where
  "task_failed_condition_type = ''Failed''"

end
