(* ===== verification/Samples.thy ===== *)
theory Samples
  imports Api_Types
begin

text \<open>The concrete objects on which the witnesses evaluate the theorems.\<close>

definition sample_lrp_spec :: lrp_spec where
  "sample_lrp_spec = \<lparr>ls_guid = ''guid'', ls_version = ''version'', ls_process_type = ''web'',
     ls_app_name = ''app'', ls_app_guid = ''app-guid'', ls_org_name = ''org'', ls_org_guid = ''org-guid'',
     ls_space_name = ''space'', ls_space_guid = ''space-guid'', ls_image = ''eirini/dorini'',
     ls_command = None, ls_sidecars = None, ls_private_registry = None, ls_env = None,
     ls_environment = None,
     ls_health = \<lparr>hc_type = ''http'', hc_port = 8080, hc_endpoint = ''/health'', hc_timeout_ms = 5000\<rparr>,
     ls_ports = Some [8080], ls_instances = 2, ls_memory_mb = 256, ls_disk_mb = 256, ls_cpu_weight = 10,
     ls_volume_mounts = None, ls_user_defined_annotations = None\<rparr>"

definition sample_lrp :: lrp where
  "sample_lrp = \<lparr>lr_meta = empty_meta\<lparr>om_name := ''mylrp'', om_namespace := ''cf-workloads''\<rparr>,
     lr_spec = sample_lrp_spec, lr_status_replicas = 0\<rparr>"

definition sample_task_spec :: task_spec where
  "sample_task_spec = \<lparr>ta_guid = ''task-guid'', ta_name = ''foo'', ta_image = ''eirini/busybox'',
     ta_image_pull_secrets = Some [''pull''], ta_env = Some [(''A'', ''1''), (''B'', ''2'')],
     ta_environment = None, ta_command = Some [''/bin/echo'', ''Hello!''], ta_app_name = ''app'',
     ta_app_guid = ''app-guid'', ta_org_name = ''org'', ta_org_guid = ''org-guid'',
     ta_space_name = ''space'', ta_space_guid = ''space-guid'', ta_memory_mb = 256, ta_disk_mb = 256,
     ta_cpu_millis = 10\<rparr>"

definition sample_task :: task where
  "sample_task = \<lparr>tk_meta = empty_meta\<lparr>om_name := ''mytask'', om_namespace := ''cf-workloads''\<rparr>,
     tk_spec = sample_task_spec, tk_conditions = []\<rparr>"

lemmas sample_defs = sample_lrp_spec_def sample_lrp_def sample_task_spec_def sample_task_def empty_meta_def

end
