(* ===== verification/Names.thy ===== *)
theory Names
  imports Util Samples
begin

text \<open>
  \<open>k8s/utils/names.go\<close> and \<open>k8s/utils/envvar.go\<close>: the names of the stateful set of an LRP
  and of the job of a task, and the conversion of a map to environment variables. The regular
  expression of valid names is shown to accept exactly the DNS subdomains of RFC 1123.
\<close>

section \<open>Definitions\<close>

definition sanitized_name_max_len :: nat where
  "sanitized_name_max_len = 40"

definition sanitized_job_name_max_len :: nat where
  "sanitized_job_name_max_len = 50"

definition alnum :: "char \<Rightarrow> bool" where
  "alnum c \<longleftrightarrow> is_lower c \<or> is_digit c"

definition alnum_dash :: "char \<Rightarrow> bool" where
  "alnum_dash c \<longleftrightarrow> c = CHR ''-'' \<or> alnum c"

text \<open>\<open>[a-z0-9]([-a-z0-9]*[a-z0-9])?\<close>, with the number of its group.\<close>

definition label_rx :: "nat \<Rightarrow> regex" where
  "label_rx i =
     RSeq (RSet alnum) (ROpt (RGroup i (RSeq (RStar (RSet alnum_dash)) (RSet alnum))))"

definition valid_name_rx :: regex where
  "valid_name_rx =
     RSeq (label_rx 1) (RStar (RGroup 2 (RSeq (RSet (\<lambda>c. c = CHR ''.'')) (label_rx 3))))"

definition truncate_string :: "string \<Rightarrow> nat \<Rightarrow> string" where
  "truncate_string str num = (if num < length str then take num str else str)"

definition sanitize_name_with_max_string_len :: "string \<Rightarrow> string \<Rightarrow> nat \<Rightarrow> string" where
  "sanitize_name_with_max_string_len name fallback maxStringLen =
     (let sanitizedName = replace_char (CHR ''_'') (CHR ''-'') (to_lower name)
      in if match_full valid_name_rx sanitizedName
         then truncate_string sanitizedName maxStringLen
         else truncate_string fallback maxStringLen)"

definition sanitize_name :: "string \<Rightarrow> string \<Rightarrow> string" where
  "sanitize_name name fallback =
     sanitize_name_with_max_string_len name fallback sanitized_name_max_len"

definition get_statefulset_name :: "lrp \<Rightarrow> go_error + string" where
  "get_statefulset_name l =
     (case hash (ls_guid (lr_spec l) @ ''-'' @ ls_version (lr_spec l)) of
        Inl err \<Rightarrow> Inl (Wrap ''failed to generate hash'' err)
      | Inr nameSuffix \<Rightarrow>
          (let namePrefix = ls_app_name (lr_spec l) @ ''-'' @ ls_space_name (lr_spec l);
               namePrefix = sanitize_name namePrefix (ls_guid (lr_spec l))
           in Inr (namePrefix @ ''-'' @ nameSuffix)))"

definition get_job_name :: "task \<Rightarrow> string" where
  "get_job_name t =
     (let name = ta_app_name (tk_spec t) @ ''-'' @ ta_space_name (tk_spec t);
          sanitizedName = sanitize_name name (ta_guid (tk_spec t));
          sanitizedName =
            (if ta_name (tk_spec t) \<noteq> [] then sanitizedName @ ''-'' @ ta_name (tk_spec t)
             else sanitizedName)
      in sanitize_name_with_max_string_len sanitizedName (ta_guid (tk_spec t))
           sanitized_job_name_max_len)"

text \<open>\<open>MapToEnvVar\<close>; \<open>i\<close> is the number of the \<open>range\<close> statement that visits the map.\<close>

definition map_to_env_var :: "range_order \<Rightarrow> nat \<Rightarrow> gomap \<Rightarrow> env_var list" where
  "map_to_env_var rng i env =
     map (\<lambda>(k, v). \<lparr>ev_name = k, ev_value = v, ev_value_from = None\<rparr>) (rng i (entries env))"

section \<open>Valid names are DNS subdomains\<close>

definition dns_label :: "string \<Rightarrow> bool" where
  "dns_label l \<longleftrightarrow> l \<noteq> [] \<and> alnum (hd l) \<and> alnum (last l) \<and> list_all alnum_dash l"

definition dns_subdomain :: "string \<Rightarrow> bool" where
  "dns_subdomain w \<longleftrightarrow> list_all dns_label (split_on (CHR ''.'') w)"

lemma alnum_imp_dash: "alnum c \<Longrightarrow> alnum_dash c"
  by (simp add: alnum_dash_def)

lemma dot_not_alnum_dash: "\<not> alnum_dash (CHR ''.'')" "\<not> alnum (CHR ''-'')"
  by (simp_all add: alnum_dash_def alnum_def is_lower_def is_digit_def byte_def)

lemma in_lang_label: "in_lang (label_rx i) l \<longleftrightarrow> dns_label l"
proof
  assume "in_lang (label_rx i) l"
  then show "dns_label l"
    by (auto simp: label_rx_def dns_label_def in_lang_star_set alnum_imp_dash)
next
  assume l: "dns_label l"
  then obtain c u where cu: "l = c # u" by (cases l) (auto simp: dns_label_def)
  show "in_lang (label_rx i) l"
  proof (cases u rule: rev_cases)
    case Nil
    with l cu have "in_lang (label_rx i) ([c] @ [])"
      unfolding label_rx_def by (intro lang_seq lang_set lang_opt_none) (simp add: dns_label_def)
    with Nil cu show ?thesis by simp
  next
    case (snoc v d)
    with l cu have "l = [c] @ (v @ [d])" "alnum c" "alnum d" "list_all alnum_dash v"
      by (simp_all add: dns_label_def)
    moreover from this have "in_lang (RSeq (RStar (RSet alnum_dash)) (RSet alnum)) (v @ [d])"
      by (intro lang_seq lang_set) (simp add: in_lang_star_set)
    ultimately show ?thesis
      unfolding label_rx_def by (metis lang_group lang_opt_some lang_seq lang_set)
  qed
qed

lemma dns_label_no_dot: "dns_label l \<Longrightarrow> CHR ''.'' \<notin> set l"
  using dot_not_alnum_dash by (auto simp: dns_label_def list_all_iff)

lemma split_on_append_first: "c \<notin> set xs \<Longrightarrow> split_on c (xs @ c # ys) = xs # split_on c ys"
  by (induction xs) auto

lemma dns_subdomain_single: "dns_label l \<Longrightarrow> dns_subdomain l"
  by (simp add: dns_subdomain_def split_on_no_sep dns_label_no_dot)

lemma dns_subdomain_step: "dns_label l \<Longrightarrow> dns_subdomain (l @ CHR ''.'' # u) = dns_subdomain u"
  by (simp add: dns_subdomain_def split_on_append_first dns_label_no_dot)

text \<open>The first label of a subdomain, and the rest.\<close>

lemma dns_subdomain_cases:
  assumes "dns_subdomain w"
  obtains "dns_label w" | l u where "w = l @ CHR ''.'' # u" "dns_label l" "dns_subdomain u"
proof (cases "CHR ''.'' \<in> set w")
  case True
  then obtain l u where w: "w = l @ CHR ''.'' # u" "CHR ''.'' \<notin> set l"
    by (metis split_list_first)
  with assms have "dns_label l" "dns_subdomain u"
    by (auto simp: dns_subdomain_def split_on_append_first)
  with w that(2) show ?thesis by blast
next
  case False
  with assms that(1) show ?thesis by (simp add: dns_subdomain_def split_on_no_sep)
qed

abbreviation dotted_rx :: regex where
  "dotted_rx \<equiv> RGroup 2 (RSeq (RSet (\<lambda>c. c = CHR ''.'')) (label_rx 3))"

lemma in_lang_dotted: "in_lang dotted_rx w \<longleftrightarrow> (\<exists>l. w = CHR ''.'' # l \<and> dns_label l)"
  by (auto simp: in_lang_label intro!: exI [of _ "''.''"])

lemma in_lang_star_dotted:
  "in_lang (RStar dotted_rx) w \<Longrightarrow> w = [] \<or> (\<exists>u. w = CHR ''.'' # u \<and> dns_subdomain u)"
proof (induction "RStar dotted_rx" w rule: in_lang.induct)
  case (lang_star_step v w)
  then obtain l where l: "v = CHR ''.'' # l" "dns_label l"
    using in_lang_dotted by blast
  with lang_star_step show ?case
    by (auto simp: dns_subdomain_single dns_subdomain_step)
qed simp

lemma star_dotted_in_lang: "dns_subdomain u \<Longrightarrow> in_lang (RStar dotted_rx) (CHR ''.'' # u)"
proof (induction u rule: length_induct)
  case (1 u)
  have step: "in_lang (RStar dotted_rx) ((CHR ''.'' # l) @ w)"
    if "dns_label l" "in_lang (RStar dotted_rx) w" for l w
    using that in_lang_dotted by (intro lang_star_step) auto
  from "1.prems" show ?case
  proof (cases rule: dns_subdomain_cases)
    case 1
    then show ?thesis using step [of u "[]"] by (simp add: lang_star_nil)
  next
    case (2 l v)
    then have "in_lang (RStar dotted_rx) (CHR ''.'' # v)"
      using "1.IH" by auto
    with 2 show ?thesis using step [of l] by simp
  qed
qed

lemma valid_name_iff: "match_full valid_name_rx w \<longleftrightarrow> dns_subdomain w"
proof
  assume "match_full valid_name_rx w"
  then obtain l r where "w = l @ r" "dns_label l" "in_lang (RStar dotted_rx) r"
    by (auto simp: match_full_iff valid_name_rx_def in_lang_label)
  then show "dns_subdomain w"
    using in_lang_star_dotted [of r] by (auto simp: dns_subdomain_single dns_subdomain_step)
next
  assume "dns_subdomain w"
  then show "match_full valid_name_rx w"
  proof (cases rule: dns_subdomain_cases)
    case 1
    then have "in_lang valid_name_rx (w @ [])"
      unfolding valid_name_rx_def by (intro lang_seq) (simp_all add: in_lang_label lang_star_nil)
    then show ?thesis by (simp add: match_full_iff)
  next
    case (2 l u)
    then show ?thesis
      unfolding match_full_iff valid_name_rx_def 2(1)
      by (intro lang_seq star_dotted_in_lang) (simp_all add: in_lang_label)
  qed
qed

section \<open>Sanitized names\<close>

lemma to_lower_chars: "c \<in> set (to_lower s) \<Longrightarrow> c \<in> set s \<or> is_lower c"
proof (induction s rule: to_lower.induct)
  case (2 x s)
  then show ?case
    by (auto simp: ascii_lower_def is_upper_def is_lower_def byte_def split: if_splits
        dest: in_set_dropD)
qed simp

lemma sanitized_no_dot:
  "CHR ''.'' \<notin> set s \<Longrightarrow> CHR ''.'' \<notin> set (replace_char (CHR ''_'') (CHR ''-'') (to_lower s))"
  using to_lower_chars [of "CHR ''.''" s] by (auto simp: replace_char_def is_lower_def byte_def)

lemma dns_subdomain_no_dot: "CHR ''.'' \<notin> set w \<Longrightarrow> dns_subdomain w = dns_label w"
  by (simp add: dns_subdomain_def split_on_no_sep)

lemma length_truncate_string: "length (truncate_string s n) = min (length s) n"
  by (simp add: truncate_string_def)

lemma truncate_string_take: "truncate_string s n = take n s"
  by (simp add: truncate_string_def)

lemma length_sanitize: "length (sanitize_name_with_max_string_len s f n) \<le> n"
  by (simp add: sanitize_name_with_max_string_len_def Let_def length_truncate_string)

text \<open>A non-empty prefix of a label is a label unless it ends in a dash.\<close>

lemma dns_label_take:
  assumes l: "dns_label l" and n: "0 < n"
  shows "dns_label (take n l) \<longleftrightarrow> length l \<le> n \<or> l ! (n - 1) \<noteq> CHR ''-''"
proof (cases "length l \<le> n")
  case False
  with n have last: "last (take n l) = l ! (n - 1)"
    by (subst last_conv_nth) auto
  have "alnum_dash (l ! (n - 1))"
    using l False by (auto simp: dns_label_def list_all_iff)
  then have "alnum (l ! (n - 1)) \<longleftrightarrow> l ! (n - 1) \<noteq> CHR ''-''"
    using dot_not_alnum_dash by (auto simp: alnum_dash_def)
  moreover have "list_all alnum_dash (take n l)" "hd (take n l) = hd l" "take n l \<noteq> []"
    using l n by (auto simp: dns_label_def list_all_iff dest: in_set_takeD)
  ultimately show ?thesis
    using l False by (auto simp: dns_label_def last)
qed (use l in simp)

text \<open>
  A prefix of a label, a dash and something made of label characters that ends well is a label
  again: the dash may repeat one the prefix ends in.
\<close>

lemma dns_label_join:
  assumes "dns_label l" "0 < n" "suf \<noteq> []" "list_all alnum_dash suf" "alnum (last suf)"
  shows "dns_label (take n l @ CHR ''-'' # suf)"
  using assms by (cases l; cases n) (auto simp: dns_label_def list_all_iff alnum_dash_def dest: in_set_takeD)

lemma is_hex_alnum: "is_hex c \<Longrightarrow> alnum c"
  by (auto simp: is_hex_def alnum_def is_lower_def)

lemma get_statefulset_name_eq:
  obtains h where
    "get_statefulset_name l =
       Inr (sanitize_name (ls_app_name (lr_spec l) @ ''-'' @ ls_space_name (lr_spec l))
              (ls_guid (lr_spec l)) @ ''-'' @ h)"
    "hash (ls_guid (lr_spec l) @ ''-'' @ ls_version (lr_spec l)) = Inr h"
    "length h = 10" "\<forall>c \<in> set h. is_hex c"
proof -
  obtain h where "hash (ls_guid (lr_spec l) @ ''-'' @ ls_version (lr_spec l)) = Inr h"
    "length h = 10" "\<forall>c \<in> set h. is_hex c"
    by (rule hash_shape)
  then show ?thesis
    using that by (simp add: get_statefulset_name_def)
qed

lemma sanitize_label:
  assumes "CHR ''.'' \<notin> set s" "dns_label f" "0 < n"
  obtains l where "sanitize_name_with_max_string_len s f n = take n l" "dns_label l"
proof -
  let ?s = "replace_char (CHR ''_'') (CHR ''-'') (to_lower s)"
  show ?thesis
  proof (cases "match_full valid_name_rx ?s")
    case True
    then have "dns_label ?s"
      using assms(1) by (simp add: valid_name_iff dns_subdomain_no_dot sanitized_no_dot)
    then show ?thesis
      using True that [of ?s]
      by (simp add: sanitize_name_with_max_string_len_def truncate_string_take)
  next
    case False
    then show ?thesis
      using assms(2) that [of f]
      by (simp add: sanitize_name_with_max_string_len_def truncate_string_take)
  qed
qed

section \<open>Properties of the names\<close>

text \<open>
  C40: the regular expression that \<open>sanitizeNameWithMaxStringLen\<close> compiles, run by the
  backtracking matcher, accepts a string exactly when every piece between two dots is a non-empty
  label of lower case letters, digits and dashes that starts and ends with a letter or digit: it
  recognises the DNS subdomains of RFC 1123, and nothing else.
\<close>

theorem valid_name_regex_is_dns_subdomain:
  "match_full valid_name_rx w \<longleftrightarrow>
     (\<forall>l \<in> set (split_on (CHR ''.'') w).
        l \<noteq> [] \<and> alnum (hd l) \<and> alnum (last l) \<and> (\<forall>c \<in> set l. c = CHR ''-'' \<or> alnum c))"
  by (simp add: valid_name_iff dns_subdomain_def dns_label_def alnum_dash_def [abs_def] list_all_iff)

theorem valid_name_regex_is_dns_subdomain_witness:
  "match_full valid_name_rx ''my-app.cf1'' \<and> \<not> match_full valid_name_rx ''my-app.'' \<and>
   \<not> match_full valid_name_rx ''My-app''"
  unfolding valid_name_regex_is_dns_subdomain
  by (simp add: alnum_def is_lower_def is_digit_def byte_def)

text \<open>
  C32: \<open>GetStatefulsetName\<close> never fails. For an LRP whose GUID is a DNS label and whose app and
  space names hold no dot, the name is a DNS label of at most 51 bytes (so that the pods of the
  stateful set, which append their ordinal, have valid names), whatever else the names hold and
  wherever the prefix is cut off, and it ends in a dash and the hash of GUID and version.
\<close>

theorem statefulset_name_valid:
  assumes "dns_label (ls_guid (lr_spec l))"
    and "CHR ''.'' \<notin> set (ls_app_name (lr_spec l) @ ls_space_name (lr_spec l))"
  shows "\<exists>name h p. get_statefulset_name l = Inr name \<and> dns_label name \<and> length name \<le> 51
    \<and> hash (ls_guid (lr_spec l) @ ''-'' @ ls_version (lr_spec l)) = Inr h
    \<and> name = p @ ''-'' @ h \<and> length h = 10"
proof -
  let ?n = "ls_app_name (lr_spec l) @ ''-'' @ ls_space_name (lr_spec l)"
  obtain h where h: "get_statefulset_name l = Inr (sanitize_name ?n (ls_guid (lr_spec l)) @ ''-'' @ h)"
    "hash (ls_guid (lr_spec l) @ ''-'' @ ls_version (lr_spec l)) = Inr h"
    "length h = 10" "\<forall>c \<in> set h. is_hex c"
    by (rule get_statefulset_name_eq)
  obtain p where p: "sanitize_name ?n (ls_guid (lr_spec l)) = take 40 p" "dns_label p"
    using assms sanitize_label [of ?n "ls_guid (lr_spec l)" 40]
    by (auto simp: sanitize_name_def sanitized_name_max_len_def)
  have "list_all alnum_dash h" "h \<noteq> []" "alnum (last h)"
    using h(3,4) last_in_set [of h] by (fastforce simp: list_all_iff intro: alnum_imp_dash is_hex_alnum)+
  then have "dns_label (take 40 p @ ''-'' @ h)"
    using dns_label_join [OF p(2), of 40 h] by simp
  then show ?thesis using h p by auto
qed

theorem statefulset_name_valid_witness:
  "\<exists>name h p. get_statefulset_name sample_lrp = Inr name \<and> dns_label name \<and> length name \<le> 51
    \<and> hash (''guid-version'') = Inr h \<and> name = p @ ''-'' @ h \<and> length h = 10"
proof -
  have "dns_label (ls_guid (lr_spec sample_lrp))"
    and "CHR ''.'' \<notin> set (ls_app_name (lr_spec sample_lrp) @ ls_space_name (lr_spec sample_lrp))"
    by (simp_all add: sample_lrp_def sample_lrp_spec_def dns_label_def alnum_dash_def alnum_def
        is_lower_def is_digit_def byte_def)
  from statefulset_name_valid [OF this] show ?thesis
    by (simp add: sample_lrp_def sample_lrp_spec_def)
qed

text \<open>
  The job of a task without a name: whatever its app and space are called, if the GUID is
  a DNS label of at most 50 bytes, \<open>GetJobName\<close> is a valid object name of at most 50 bytes. The
  prefix of 40 bytes is checked a second time, so that a cut that ends in a dash or a dot falls
  back to the GUID.
\<close>

theorem unnamed_job_name_valid:
  assumes "ta_name (tk_spec t) = []"
    and "dns_label (ta_guid (tk_spec t))" and "length (ta_guid (tk_spec t)) \<le> 50"
  shows "dns_subdomain (get_job_name t) \<and> length (get_job_name t) \<le> 50"
proof -
  define p where "p = sanitize_name (ta_app_name (tk_spec t) @ ''-'' @ ta_space_name (tk_spec t))
    (ta_guid (tk_spec t))"
  define q where "q = replace_char (CHR ''_'') (CHR ''-'') (to_lower p)"
  have p: "length p \<le> 40"
    unfolding p_def sanitize_name_def sanitized_name_max_len_def by (rule length_sanitize)
  have job: "get_job_name t = sanitize_name_with_max_string_len p (ta_guid (tk_spec t)) 50"
    using assms(1) by (simp add: get_job_name_def p_def sanitized_job_name_max_len_def)
  have "dns_subdomain (get_job_name t)"
  proof (cases "match_full valid_name_rx q")
    case True
    have "length (to_lower u) \<le> length u" for u
      by (induction u rule: to_lower.induct) auto
    from this [of p] have "length q \<le> 50" using p by (simp add: q_def replace_char_def)
    with True show ?thesis
      by (simp add: job sanitize_name_with_max_string_len_def Let_def q_def [symmetric]
          truncate_string_def valid_name_iff)
  next
    case False
    then show ?thesis
      using assms(2,3)
      by (simp add: job sanitize_name_with_max_string_len_def Let_def q_def [symmetric]
          truncate_string_def dns_subdomain_single)
  qed
  moreover have "length (get_job_name t) \<le> 50"
    unfolding job by (rule length_sanitize)
  ultimately show ?thesis by simp
qed

theorem unnamed_job_name_valid_witness:
  "dns_subdomain (get_job_name (sample_task\<lparr>tk_spec := (tk_spec sample_task)\<lparr>ta_name := []\<rparr>\<rparr>))"
proof -
  let ?t = "sample_task\<lparr>tk_spec := (tk_spec sample_task)\<lparr>ta_name := []\<rparr>\<rparr>"
  have "ta_name (tk_spec ?t) = []" and "dns_label (ta_guid (tk_spec ?t))"
    and "length (ta_guid (tk_spec ?t)) \<le> 50"
    by (simp_all add: sample_task_def sample_task_spec_def dns_label_def alnum_dash_def alnum_def
        is_lower_def is_digit_def byte_def)
  then show ?thesis by (rule unnamed_job_name_valid [THEN conjunct1])
qed

text \<open>
  C37: a task with a name: when the whole name (app, space and task name, joined with dashes) is
  made of label characters and holds no dot, the name \<open>GetJobName\<close> returns is valid exactly when
  it was not cut at 50 bytes or the cut does not end in a dash; a name cut after a dash is
  returned although the API server refuses it.
\<close>

theorem named_job_name_valid_iff:
  assumes "ta_name (tk_spec t) \<noteq> []"
    and "s = sanitize_name (ta_app_name (tk_spec t) @ ''-'' @ ta_space_name (tk_spec t))
               (ta_guid (tk_spec t)) @ ''-'' @ ta_name (tk_spec t)"
    and "l = replace_char (CHR ''_'') (CHR ''-'') (to_lower s)"
    and "dns_label l"
  shows "dns_subdomain (get_job_name t) \<longleftrightarrow> length l \<le> 50 \<or> l ! 49 \<noteq> CHR ''-''"
proof -
  have "match_full valid_name_rx l"
    using assms(4) by (simp add: valid_name_iff dns_subdomain_single)
  then have job: "get_job_name t = take 50 l"
    using assms(1-3)
    by (simp add: get_job_name_def sanitized_job_name_max_len_def sanitize_name_with_max_string_len_def
        truncate_string_take)
  have "CHR ''.'' \<notin> set (take 50 l)"
    using dns_label_no_dot [OF assms(4)] by (auto dest: in_set_takeD)
  then have "dns_subdomain (get_job_name t) = dns_label (take 50 l)"
    by (simp add: job dns_subdomain_no_dot)
  also have "\<dots> = (length l \<le> 50 \<or> l ! 49 \<noteq> CHR ''-'')"
    using dns_label_take [OF assms(4), of 50] by simp
  finally show ?thesis .
qed

lemmas name_eval =
  sanitize_name_def sanitize_name_with_max_string_len_def truncate_string_take
  sanitized_name_max_len_def valid_name_iff dns_subdomain_def dns_label_def alnum_dash_def
  alnum_def is_lower_def is_upper_def is_digit_def byte_def ascii_lower_def replace_char_def

definition cut_task :: task where
  "cut_task = sample_task\<lparr>tk_spec := (tk_spec sample_task)
     \<lparr>ta_name := ''migrate-the-database-to-its-new-layouts-'' @ ''b''\<rparr>\<rparr>"

theorem named_job_name_valid_iff_witness:
  "\<not> dns_subdomain (get_job_name cut_task)"
proof -
  let ?s = "''app-space-migrate-the-database-to-its-new-layouts-'' @ ''b''"
  have "ta_name (tk_spec cut_task) \<noteq> []"
    by (simp add: cut_task_def)
  moreover have "?s = sanitize_name (ta_app_name (tk_spec cut_task) @ ''-'' @ ta_space_name (tk_spec cut_task))
               (ta_guid (tk_spec cut_task)) @ ''-'' @ ta_name (tk_spec cut_task)"
    by (simp add: cut_task_def sample_defs name_eval)
  moreover have "?s = replace_char (CHR ''_'') (CHR ''-'') (to_lower ?s)"
    by (simp add: name_eval)
  moreover have "dns_label ?s"
    by (simp add: name_eval)
  ultimately have "dns_subdomain (get_job_name cut_task) \<longleftrightarrow> length ?s \<le> 50 \<or> ?s ! 49 \<noteq> CHR ''-''"
    by (rule named_job_name_valid_iff)
  then show ?thesis by simp
qed

end
