(* ===== verification/Labels.thy ===== *)
theory Labels
  imports Samples
begin

text \<open>
  The constants of \<open>models.go\<close>, \<open>k8s/stset/package.go\<close>, \<open>k8s/jobs/package.go\<close> and
  \<open>k8s/reconciler/package.go\<close>: the names of environment variables, labels, annotations,
  containers and event indexes. \<open>label_defs\<close> unfolds them all, which decides every comparison
  between two of them.
\<close>

section \<open>models.go\<close>

definition env_eirini_certs_dir :: string where "env_eirini_certs_dir = ''EIRINI_CERTS_DIR''"
definition env_pod_name :: string where "env_pod_name = ''POD_NAME''"
definition env_cf_instance_ip :: string where "env_cf_instance_ip = ''CF_INSTANCE_IP''"
definition env_cf_instance_index :: string where "env_cf_instance_index = ''CF_INSTANCE_INDEX''"
definition env_cf_instance_guid :: string where "env_cf_instance_guid = ''CF_INSTANCE_GUID''"
definition env_cf_instance_internal_ip :: string where
  "env_cf_instance_internal_ip = ''CF_INSTANCE_INTERNAL_IP''"
definition env_cf_instance_addr :: string where "env_cf_instance_addr = ''CF_INSTANCE_ADDR''"
definition env_cf_instance_port :: string where "env_cf_instance_port = ''CF_INSTANCE_PORT''"
definition env_cf_instance_ports :: string where "env_cf_instance_ports = ''CF_INSTANCE_PORTS''"
definition eirini_certs_dir :: string where "eirini_certs_dir = ''/etc/eirini/certs''"

section \<open>k8s/stset/package.go\<close>

definition app_source_type :: string where "app_source_type = ''APP''"
definition annotation_app_name :: string where
  "annotation_app_name = ''korifi.cloudfoundry.org/application-name''"
definition annotation_version :: string where
  "annotation_version = ''korifi.cloudfoundry.org/version''"
definition annotation_app_id :: string where
  "annotation_app_id = ''korifi.cloudfoundry.org/application-id''"
definition annotation_space_name :: string where
  "annotation_space_name = ''korifi.cloudfoundry.org/space-name''"
definition annotation_org_name :: string where
  "annotation_org_name = ''korifi.cloudfoundry.org/org-name''"
definition annotation_org_guid :: string where
  "annotation_org_guid = ''korifi.cloudfoundry.org/org-guid''"
definition annotation_space_guid :: string where
  "annotation_space_guid = ''korifi.cloudfoundry.org/space-guid''"
definition annotation_process_guid :: string where
  "annotation_process_guid = ''korifi.cloudfoundry.org/process-guid''"
definition annotation_last_reported_lrp_crash :: string where
  "annotation_last_reported_lrp_crash = ''korifi.cloudfoundry.org/last-reported-lrp-crash''"
definition label_guid :: string where "label_guid = ''korifi.cloudfoundry.org/guid''"
definition label_org_guid :: string where "label_org_guid = annotation_org_guid"
definition label_org_name :: string where "label_org_name = annotation_org_name"
definition label_space_guid :: string where "label_space_guid = annotation_space_guid"
definition label_space_name :: string where "label_space_name = annotation_space_name"
definition label_version :: string where "label_version = ''korifi.cloudfoundry.org/version''"
definition label_app_guid :: string where "label_app_guid = ''korifi.cloudfoundry.org/app-guid''"
definition label_process_type :: string where
  "label_process_type = ''korifi.cloudfoundry.org/process-type''"
definition label_source_type :: string where
  "label_source_type = ''korifi.cloudfoundry.org/source-type''"
definition application_container_name :: string where "application_container_name = ''opi''"
definition private_registry_secret_generate_name :: string where
  "private_registry_secret_generate_name = ''private-registry-''"

section \<open>k8s/jobs/package.go\<close>

definition task_source_type :: string where "task_source_type = ''TASK''"
definition annotation_guid :: string where "annotation_guid = ''korifi.cloudfoundry.org/guid''"
definition annotation_task_container_name :: string where
  "annotation_task_container_name = ''korifi.cloudfoundry.org/opi-task-container-name''"
definition label_name :: string where "label_name = ''korifi.cloudfoundry.org/name''"

section \<open>k8s/reconciler/package.go\<close>

definition index_event_involved_object_name :: string where
  "index_event_involved_object_name = ''.index.eventOwner.name''"
definition index_event_involved_object_kind :: string where
  "index_event_involved_object_kind = ''.index.eventOwner.kind''"
definition index_event_reason :: string where "index_event_reason = ''.index.reason''"

lemmas label_defs =
  env_eirini_certs_dir_def env_pod_name_def env_cf_instance_ip_def env_cf_instance_index_def
  env_cf_instance_guid_def env_cf_instance_internal_ip_def env_cf_instance_addr_def
  env_cf_instance_port_def env_cf_instance_ports_def eirini_certs_dir_def
  app_source_type_def annotation_app_name_def annotation_version_def annotation_app_id_def
  annotation_space_name_def annotation_org_name_def annotation_org_guid_def annotation_space_guid_def
  annotation_process_guid_def annotation_last_reported_lrp_crash_def
  label_guid_def label_org_guid_def label_org_name_def label_space_guid_def label_space_name_def
  label_version_def label_app_guid_def label_process_type_def label_source_type_def
  application_container_name_def private_registry_secret_generate_name_def
  task_source_type_def annotation_guid_def annotation_task_container_name_def label_name_def
  index_event_involved_object_name_def index_event_involved_object_kind_def index_event_reason_def

end
