(* ===== verification/Probes.thy ===== *)
theory Probes
  imports Samples
begin

text \<open>
  \<open>k8s/probe.go\<close> and \<open>k8s/security_context.go\<close>: the health checks of the application
  container and the security context of every container the controller creates. The locale
  \<open>probe_creator\<close> is the contract of the function type \<open>ProbeCreator\<close> that the stateful
  set converter is given; the two creators of this file interpret it.
\<close>

section \<open>Definitions\<close>

definition liveness_failure_threshold :: i32 where
  "liveness_failure_threshold = 4"

definition readiness_failure_threshold :: i32 where
  "readiness_failure_threshold = 1"

text \<open>\<open>int32(millis / 1000)\<close>: the quotient of the 64 bit number, cut to 32 bits.\<close>

definition to_seconds :: "u64 \<Rightarrow> i32" where
  "to_seconds millis = ucast (millis div 1000)"

definition http_get_action :: "lrp \<Rightarrow> probe_handler" where
  "http_get_action l = HTTPGet (hc_endpoint (ls_health (lr_spec l))) (IntVal (hc_port (ls_health (lr_spec l))))"

definition tcp_socket_action :: "lrp \<Rightarrow> probe_handler" where
  "tcp_socket_action l = TCPSocket (IntVal (hc_port (ls_health (lr_spec l))))"

definition create_port_probe :: "lrp \<Rightarrow> i32 \<Rightarrow> i32 \<Rightarrow> probe" where
  "create_port_probe l initialDelay failureThreshold =
     \<lparr>pr_handler = tcp_socket_action l, pr_initial_delay_seconds = initialDelay,
      pr_failure_threshold = failureThreshold\<rparr>"

definition create_http_probe :: "lrp \<Rightarrow> i32 \<Rightarrow> i32 \<Rightarrow> probe" where
  "create_http_probe l initialDelay failureThreshold =
     \<lparr>pr_handler = http_get_action l, pr_initial_delay_seconds = initialDelay,
      pr_failure_threshold = failureThreshold\<rparr>"

definition create_liveness_probe :: "lrp \<Rightarrow> probe option" where
  "create_liveness_probe l =
     (let initialDelay = to_seconds (hc_timeout_ms (ls_health (lr_spec l)))
      in if hc_type (ls_health (lr_spec l)) = ''http''
         then Some (create_http_probe l initialDelay liveness_failure_threshold)
         else if hc_type (ls_health (lr_spec l)) = ''port''
         then Some (create_port_probe l initialDelay liveness_failure_threshold)
         else None)"

definition create_readiness_probe :: "lrp \<Rightarrow> probe option" where
  "create_readiness_probe l =
     (if hc_type (ls_health (lr_spec l)) = ''http''
      then Some (create_http_probe l 0 readiness_failure_threshold)
      else if hc_type (ls_health (lr_spec l)) = ''port''
      then Some (create_port_probe l 0 readiness_failure_threshold)
      else None)"

definition container_security_context :: security_context where
  "container_security_context =
     \<lparr>sc_allow_privilege_escalation = Some False, sc_run_as_non_root = Some True,
      sc_capabilities_drop = [''ALL''], sc_seccomp_profile = ''RuntimeDefault''\<rparr>"

section \<open>The contract of a probe creator\<close>

text \<open>
  A creator makes a probe for the health checks \<open>http\<close> and \<open>port\<close> and none otherwise; the
  probe asks the port of the health check, over HTTP at its endpoint or by connecting; and only
  the health check of the LRP matters.
\<close>

locale probe_creator =
  fixes create :: "lrp \<Rightarrow> probe option"
  assumes http: "hc_type (ls_health (lr_spec l)) = ''http'' \<Longrightarrow>
      \<exists>p. create l = Some p \<and> pr_handler p =
        HTTPGet (hc_endpoint (ls_health (lr_spec l))) (IntVal (hc_port (ls_health (lr_spec l))))"
    and port: "hc_type (ls_health (lr_spec l)) = ''port'' \<Longrightarrow>
      \<exists>p. create l = Some p \<and> pr_handler p = TCPSocket (IntVal (hc_port (ls_health (lr_spec l))))"
    and other: "hc_type (ls_health (lr_spec l)) \<notin> {''http'', ''port''} \<Longrightarrow> create l = None"
    and health_only: "ls_health (lr_spec l) = ls_health (lr_spec l') \<Longrightarrow> create l = create l'"
begin

lemma creates_iff: "create l \<noteq> None \<longleftrightarrow> hc_type (ls_health (lr_spec l)) \<in> {''http'', ''port''}"
  using http [of l] port [of l] other [of l] by (cases "create l") auto

lemma probes_health_port:
  assumes "create l = Some p"
  shows "pr_handler p \<in> {HTTPGet (hc_endpoint (ls_health (lr_spec l))) (IntVal (hc_port (ls_health (lr_spec l)))),
                         TCPSocket (IntVal (hc_port (ls_health (lr_spec l))))}"
  using assms creates_iff [of l] http [of l] port [of l] by fastforce

end

lemmas probe_defs =
  create_liveness_probe_def create_readiness_probe_def create_http_probe_def create_port_probe_def
  http_get_action_def tcp_socket_action_def

interpretation liveness: probe_creator create_liveness_probe
  by unfold_locales (auto simp: probe_defs Let_def)

interpretation readiness: probe_creator create_readiness_probe
  by unfold_locales (auto simp: probe_defs)

section \<open>Properties\<close>

text \<open>
  \<open>CreateLivenessProbe\<close> and \<open>CreateReadinessProbe\<close> agree: an LRP gets both probes or
  neither, they address the same endpoint and port, and they differ only in the initial delay
  (zero for readiness) and the failure threshold (4 and 1).
\<close>

theorem probes_agree:
  "case (create_liveness_probe l, create_readiness_probe l) of
     (Some lp, Some rp) \<Rightarrow>
       pr_handler lp = pr_handler rp
       \<and> pr_handler lp \<in> {HTTPGet (hc_endpoint (ls_health (lr_spec l))) (IntVal (hc_port (ls_health (lr_spec l)))),
                          TCPSocket (IntVal (hc_port (ls_health (lr_spec l))))}
       \<and> pr_initial_delay_seconds rp = 0
       \<and> pr_failure_threshold lp = 4 \<and> pr_failure_threshold rp = 1
   | (None, None) \<Rightarrow> hc_type (ls_health (lr_spec l)) \<notin> {''http'', ''port''}
   | _ \<Rightarrow> False"
proof (cases "create_liveness_probe l")
  case None
  then show ?thesis
    using liveness.creates_iff [of l] readiness.creates_iff [of l] by simp
next
  case (Some lp)
  then show ?thesis
    using liveness.probes_health_port [OF Some] liveness.creates_iff [of l]
    by (auto simp: probe_defs liveness_failure_threshold_def readiness_failure_threshold_def
        Let_def split: if_splits)
qed

text \<open>
  The initial delay of the liveness probe is the timeout of the health check in whole
  seconds, rounded down, as long as that number of seconds fits in 31 bits (a timeout below
  2147483648000 ms).
\<close>

theorem liveness_delay_seconds:
  assumes "create_liveness_probe l = Some p"
    and "unat (hc_timeout_ms (ls_health (lr_spec l))) < 2147483648000"
  shows "sint (pr_initial_delay_seconds p) = int (unat (hc_timeout_ms (ls_health (lr_spec l))) div 1000)"
proof -
  let ?ms = "hc_timeout_ms (ls_health (lr_spec l))"
  have p: "pr_initial_delay_seconds p = to_seconds ?ms"
    using assms(1) by (auto simp: probe_defs Let_def split: if_splits)
  have q: "unat (?ms div 1000) = unat ?ms div 1000"
    by (simp add: unat_div)
  with assms(2) have "unat (?ms div 1000) < 2 ^ 31" by simp
  then have "unat (to_seconds ?ms) = unat (?ms div 1000)"
    by (simp add: to_seconds_def unsigned_ucast_eq take_bit_nat_eq_self)
  moreover from this have "sint (to_seconds ?ms) = int (unat (to_seconds ?ms))"
    using \<open>unat (?ms div 1000) < 2 ^ 31\<close> by (intro sint_small_i32) simp
  ultimately show ?thesis using p q by simp
qed

theorem liveness_delay_seconds_witness:
  "\<exists>p. create_liveness_probe sample_lrp = Some p \<and> sint (pr_initial_delay_seconds p) = 5"
proof -
  obtain p where p: "create_liveness_probe sample_lrp = Some p"
    by (simp add: create_liveness_probe_def sample_defs)
  have "unat (hc_timeout_ms (ls_health (lr_spec sample_lrp))) < 2147483648000"
    by (simp add: sample_defs)
  from liveness_delay_seconds [OF p this] have "sint (pr_initial_delay_seconds p) = 5"
    by (simp add: sample_defs)
  with p show ?thesis by blast
qed

end
