(* ===== verification/Kube_Client.thy ===== *)
theory Kube_Client
  imports Api_Types
begin

text \<open>
  The interface to the outside. The Kubernetes client of controller-runtime, and through it the
  API server, is not part of the repository: it is a parameter of the model, the record
  \<open>client\<close>, one component per operation and kind of object that the code uses, each a
  computation over a state of the world \<open>'w\<close> of which nothing is known.

  \<^item> \<open>Get\<close> returns the object or an error.
  \<^item> \<open>Create\<close> and \<open>Patch\<close> take a pointer and overwrite the object with the server's answer:
    they return an optional error and the object as it is after the call, whatever the client
    made of it. A patch is given the modified object and the original it is computed from.
  \<^item> \<open>List\<close> takes the namespace, the labels and the indexed fields to match.
  \<^item> \<open>DeleteAllOf\<close> takes the namespace and the name to match.

  The pure functions of Kubernetes libraries that the code calls are the record \<open>kube_lib\<close>.
  \<open>logged\<close> is the client that records every call it passes on; \<open>calls\<close> is the logic by which
  the other theories bound the calls of an operation.
\<close>

section \<open>The client\<close>

record 'w client =
  get_lrp :: "namespaced_name \<Rightarrow> ('w, go_error + lrp) io"
  patch_lrp_status :: "lrp \<Rightarrow> lrp \<Rightarrow> ('w, go_error option \<times> lrp) io"
  get_task :: "namespaced_name \<Rightarrow> ('w, go_error + task) io"
  patch_task_status :: "task \<Rightarrow> task \<Rightarrow> ('w, go_error option \<times> task) io"
  get_stset :: "namespaced_name \<Rightarrow> ('w, go_error + stateful_set) io"
  create_stset :: "stateful_set \<Rightarrow> ('w, go_error option \<times> stateful_set) io"
  patch_stset :: "stateful_set \<Rightarrow> stateful_set \<Rightarrow> ('w, go_error option \<times> stateful_set) io"
  get_job :: "namespaced_name \<Rightarrow> ('w, go_error + job) io"
  create_job :: "job \<Rightarrow> ('w, go_error option \<times> job) io"
  delete_all_jobs :: "string \<Rightarrow> string \<Rightarrow> ('w, go_error option) io"
  get_pod :: "namespaced_name \<Rightarrow> ('w, go_error + pod) io"
  list_pods :: "string \<Rightarrow> (string \<times> string) list \<Rightarrow> ('w, go_error + pod list) io"
  patch_pod :: "pod \<Rightarrow> pod \<Rightarrow> ('w, go_error option \<times> pod) io"
  list_events :: "string \<Rightarrow> (string \<times> string) list \<Rightarrow> (string \<times> string) list
    \<Rightarrow> ('w, go_error + event list) io"
  create_event :: "event \<Rightarrow> ('w, go_error option \<times> event) io"
  update_event :: "event \<Rightarrow> ('w, go_error option \<times> event) io"
  create_secret :: "secret \<Rightarrow> ('w, go_error option \<times> secret) io"
  patch_secret :: "secret \<Rightarrow> secret \<Rightarrow> ('w, go_error option \<times> secret) io"
  delete_secret :: "secret \<Rightarrow> ('w, go_error option) io"
  create_pdb :: "pod_disruption_budget \<Rightarrow> ('w, go_error option \<times> pod_disruption_budget) io"
  delete_all_pdbs :: "string \<Rightarrow> string \<Rightarrow> ('w, go_error option) io"
  time_now :: "('w, gotime) io"

text \<open>The result of a reconciliation: the delay after which to requeue (0: not), and the error.\<close>

type_synonym reconcile_result = "i64 \<times> go_error option"

section \<open>Library functions\<close>

text \<open>
  \<open>set_controller_reference kind owner obj\<close> and \<open>set_owner_reference kind owner obj\<close> return
  the metadata of \<open>obj\<close> with the reference added, or an error. \<open>set_status_condition now\<close>,
  \<open>find_status_condition\<close> and \<open>is_status_condition_true\<close> are the functions of apimachinery's
  \<open>meta\<close> package. \<open>multierror_append\<close> and \<open>error_or_nil\<close> are go-multierror's \<open>Append\<close> and
  \<open>ErrorOrNil\<close>, on the list of the errors collected so far.
\<close>

record kube_lib =
  is_not_found :: "go_error \<Rightarrow> bool"
  is_already_exists :: "go_error \<Rightarrow> bool"
  set_controller_reference :: "string \<Rightarrow> object_meta \<Rightarrow> object_meta \<Rightarrow> go_error + object_meta"
  set_owner_reference :: "string \<Rightarrow> object_meta \<Rightarrow> object_meta \<Rightarrow> go_error + object_meta"
  set_status_condition :: "gotime \<Rightarrow> condition list \<Rightarrow> condition \<Rightarrow> condition list"
  find_status_condition :: "condition list \<Rightarrow> string \<Rightarrow> condition option"
  is_status_condition_true :: "condition list \<Rightarrow> string \<Rightarrow> bool"
  multierror_append :: "go_error list \<Rightarrow> go_error option \<Rightarrow> go_error list"
  error_or_nil :: "go_error list \<Rightarrow> go_error option"

text \<open>
  What is documented of these functions and relied on. Setting an owner changes nothing but the
  list of owners. \<open>Append\<close> ignores a nil error and adds any other at the end, and an error with
  nothing collected is nil.
\<close>

definition owner_laws :: "kube_lib \<Rightarrow> bool" where
  "owner_laws lib \<longleftrightarrow>
     (\<forall>k ow m m'. set_controller_reference lib k ow m = Inr m' \<longrightarrow>
        m'\<lparr>om_owner_references := om_owner_references m\<rparr> = m) \<and>
     (\<forall>k ow m m'. set_owner_reference lib k ow m = Inr m' \<longrightarrow>
        m'\<lparr>om_owner_references := om_owner_references m\<rparr> = m)"

text \<open>
  When they fail, as far as the code can bring it about. Both refuse an owner that is in another
  namespace than the object (an owner without a namespace may own anything), and
  \<open>SetControllerReference\<close> refuses an object that has a controller already. Otherwise the
  reference is set, for the kinds that the controller's scheme knows and the code uses as owners.
\<close>

definition owner_kinds :: "string list" where
  "owner_kinds = [''LRP'', ''Task'', ''StatefulSet'']"

definition placeable :: "object_meta \<Rightarrow> object_meta \<Rightarrow> bool" where
  "placeable ow m \<longleftrightarrow> om_namespace ow = [] \<or> om_namespace ow = om_namespace m"

definition uncontrolled :: "object_meta \<Rightarrow> bool" where
  "uncontrolled m \<longleftrightarrow> list_all (\<lambda>r. or_controller r \<noteq> Some True) (om_owner_references m)"

definition owners_settable :: "kube_lib \<Rightarrow> bool" where
  "owners_settable lib \<longleftrightarrow>
     (\<forall>k ow m. k \<in> set owner_kinds \<longrightarrow> placeable ow m \<longrightarrow>
        (\<exists>m'. set_owner_reference lib k ow m = Inr m') \<and>
        (uncontrolled m \<longrightarrow> (\<exists>m'. set_controller_reference lib k ow m = Inr m')))"

lemma owner_settable:
  assumes "owners_settable lib" "k \<in> set owner_kinds" "placeable ow m"
  shows "uncontrolled m \<Longrightarrow> set_controller_reference lib k ow m \<noteq> Inl e"
    and "set_owner_reference lib k ow m \<noteq> Inl e"
  using assms unfolding owners_settable_def by (metis sum.distinct(1))+

lemma owner_set:
  assumes "owners_settable lib" "k \<in> set owner_kinds" "placeable ow m"
  shows "uncontrolled m \<Longrightarrow> \<exists>m'. set_controller_reference lib k ow m = Inr m'"
    and "\<exists>m'. set_owner_reference lib k ow m = Inr m'"
  using assms unfolding owners_settable_def by simp_all

lemma owner_kinds_mem [simp]:
  "''LRP'' \<in> set owner_kinds" "''Task'' \<in> set owner_kinds" "''StatefulSet'' \<in> set owner_kinds"
  by (simp_all add: owner_kinds_def)

definition multierror_laws :: "kube_lib \<Rightarrow> bool" where
  "multierror_laws lib \<longleftrightarrow>
     (\<forall>es. multierror_append lib es None = es) \<and>
     (\<forall>es m e. multierror_append lib es (Some (Wrap m e)) = es @ [Wrap m e]) \<and>
     (\<forall>es. (error_or_nil lib es = None) = (es = []))"

text \<open>
  Status conditions: a list holds at most one condition per type that counts, the one \<open>find\<close>
  returns. Setting a condition makes it the one of its type, with its status, reason and message,
  and leaves the other types alone; the time of the last transition is that of the new condition
  (the current time if it has none) when the type is new or its status changes, and is kept
  otherwise. A condition is true when there is one of the type and its status is \<open>True\<close>.
\<close>

definition condition_true :: string where
  "condition_true = ''True''"

definition condition_laws :: "kube_lib \<Rightarrow> bool" where
  "condition_laws lib \<longleftrightarrow>
     (\<forall>t. find_status_condition lib [] t = None) \<and>
     (\<forall>cs t c. find_status_condition lib cs t = Some c \<longrightarrow> cd_type c = t) \<and>
     (\<forall>now cs c t. cd_type c \<noteq> t \<longrightarrow>
        find_status_condition lib (set_status_condition lib now cs c) t
          = find_status_condition lib cs t) \<and>
     (\<forall>now cs c. \<exists>d. find_status_condition lib (set_status_condition lib now cs c) (cd_type c) = Some d
        \<and> cd_status d = cd_status c
        \<and> cd_last_transition_time d =
            (case find_status_condition lib cs (cd_type c) of
               Some old \<Rightarrow>
                 if cd_status old = cd_status c then cd_last_transition_time old
                 else if cd_last_transition_time c \<noteq> zero_time then cd_last_transition_time c else now
             | None \<Rightarrow>
                 if cd_last_transition_time c \<noteq> zero_time then cd_last_transition_time c else now)) \<and>
     (\<forall>cs t. is_status_condition_true lib cs t =
        (case find_status_condition lib cs t of None \<Rightarrow> False | Some c \<Rightarrow> cd_status c = condition_true))"

section \<open>The calls an operation makes\<close>

datatype api_call =
    GetLRP namespaced_name
  | PatchLRPStatus lrp lrp
  | GetTask namespaced_name
  | PatchTaskStatus task task
  | GetStset namespaced_name
  | CreateStset stateful_set
  | PatchStset stateful_set stateful_set
  | GetJob namespaced_name
  | CreateJob job
  | DeleteAllJobs string string
  | GetPod namespaced_name
  | ListPods string "(string \<times> string) list"
  | PatchPod pod pod
  | ListEvents string "(string \<times> string) list" "(string \<times> string) list"
  | CreateEvent event
  | UpdateEvent event
  | CreateSecret secret
  | PatchSecret secret secret
  | DeleteSecret secret
  | CreatePDB pod_disruption_budget
  | DeleteAllPDBs string string

type_synonym 'w logged_world = "'w \<times> api_call list"

text \<open>Run a computation on the world under the log, after writing the call to the log.\<close>

definition log_call :: "api_call \<Rightarrow> ('w, 'a) io \<Rightarrow> ('w logged_world, 'a) io" where
  "log_call c m = State (\<lambda>(w, l). case run_state m w of (a, w') \<Rightarrow> (a, (w', l @ [c])))"

definition unlogged :: "('w, 'a) io \<Rightarrow> ('w logged_world, 'a) io" where
  "unlogged m = State (\<lambda>(w, l). case run_state m w of (a, w') \<Rightarrow> (a, (w', l)))"

definition logged :: "'w client \<Rightarrow> 'w logged_world client" where
  "logged cl = \<lparr>
     get_lrp = (\<lambda>k. log_call (GetLRP k) (get_lrp cl k)),
     patch_lrp_status = (\<lambda>n old. log_call (PatchLRPStatus n old) (patch_lrp_status cl n old)),
     get_task = (\<lambda>k. log_call (GetTask k) (get_task cl k)),
     patch_task_status = (\<lambda>n old. log_call (PatchTaskStatus n old) (patch_task_status cl n old)),
     get_stset = (\<lambda>k. log_call (GetStset k) (get_stset cl k)),
     create_stset = (\<lambda>x. log_call (CreateStset x) (create_stset cl x)),
     patch_stset = (\<lambda>n old. log_call (PatchStset n old) (patch_stset cl n old)),
     get_job = (\<lambda>k. log_call (GetJob k) (get_job cl k)),
     create_job = (\<lambda>x. log_call (CreateJob x) (create_job cl x)),
     delete_all_jobs = (\<lambda>ns n. log_call (DeleteAllJobs ns n) (delete_all_jobs cl ns n)),
     get_pod = (\<lambda>k. log_call (GetPod k) (get_pod cl k)),
     list_pods = (\<lambda>ns ls. log_call (ListPods ns ls) (list_pods cl ns ls)),
     patch_pod = (\<lambda>n old. log_call (PatchPod n old) (patch_pod cl n old)),
     list_events = (\<lambda>ns ls fs. log_call (ListEvents ns ls fs) (list_events cl ns ls fs)),
     create_event = (\<lambda>x. log_call (CreateEvent x) (create_event cl x)),
     update_event = (\<lambda>x. log_call (UpdateEvent x) (update_event cl x)),
     create_secret = (\<lambda>x. log_call (CreateSecret x) (create_secret cl x)),
     patch_secret = (\<lambda>n old. log_call (PatchSecret n old) (patch_secret cl n old)),
     delete_secret = (\<lambda>x. log_call (DeleteSecret x) (delete_secret cl x)),
     create_pdb = (\<lambda>x. log_call (CreatePDB x) (create_pdb cl x)),
     delete_all_pdbs = (\<lambda>ns n. log_call (DeleteAllPDBs ns n) (delete_all_pdbs cl ns n)),
     time_now = unlogged (time_now cl)\<rparr>"

text \<open>What an operation returns, and the calls it makes, from a world.\<close>

definition result :: "('w, 'a) io \<Rightarrow> 'w \<Rightarrow> 'a" where
  "result m w = fst (run_state m w)"

definition trace :: "('w logged_world, 'a) io \<Rightarrow> 'w \<Rightarrow> api_call list" where
  "trace m w = snd (snd (run_state m (w, [])))"

lemma run_log_call [simp]:
  "run_state (log_call c m) (w, l) = (fst (run_state m w), (snd (run_state m w), l @ [c]))"
  by (simp add: log_call_def split: prod.split)

lemma run_unlogged [simp]:
  "run_state (unlogged m) (w, l) = (fst (run_state m w), (snd (run_state m w), l))"
  by (simp add: unlogged_def split: prod.split)

text \<open>
  \<open>calls P m Q\<close>: from every world, \<open>m\<close> adds to the log only calls that satisfy \<open>P\<close>, and
  returns a value that satisfies \<open>Q\<close>.
\<close>

definition calls :: "(api_call \<Rightarrow> bool) \<Rightarrow> ('w logged_world, 'a) io \<Rightarrow> ('a \<Rightarrow> bool) \<Rightarrow> bool" where
  "calls P m Q \<longleftrightarrow> (\<forall>w l. \<exists>a w' cs. run_state m (w, l) = (a, (w', l @ cs)) \<and> list_all P cs \<and> Q a)"

lemma calls_ret [calls_intros]: "Q a \<Longrightarrow> calls P (ret a) Q"
  by (simp add: calls_def)

lemma calls_bind:
  assumes "calls P m Q" and "\<And>a. Q a \<Longrightarrow> calls P (f a) R"
  shows "calls P (State_Monad.bind m f) R"
  unfolding calls_def
proof (intro allI)
  fix w l
  from assms(1) obtain a w1 cs where
    1: "run_state m (w, l) = (a, (w1, l @ cs))" "list_all P cs" "Q a"
    unfolding calls_def by blast
  with assms(2) obtain b w2 ds where
    "run_state (f a) (w1, l @ cs) = (b, (w2, (l @ cs) @ ds))" "list_all P ds" "R b"
    unfolding calls_def by blast
  with 1 show "\<exists>b w' cs. run_state (State_Monad.bind m f) (w, l) = (b, (w', l @ cs)) \<and> list_all P cs \<and> R b"
    by (intro exI [of _ b] exI [of _ w2] exI [of _ "cs @ ds"]) simp
qed

lemma calls_log_call:
  assumes "P c" and "\<And>w. Q (fst (run_state m w))"
  shows "calls P (log_call c m) Q"
  using assms by (auto simp: calls_def)

lemma calls_unlogged [calls_intros]: "calls P (unlogged m) (\<lambda>_. True)"
  by (auto simp: calls_def)

lemma calls_if [calls_intros]:
  "(b \<Longrightarrow> calls P m Q) \<Longrightarrow> (\<not> b \<Longrightarrow> calls P m' Q) \<Longrightarrow> calls P (if b then m else m') Q"
  by simp

lemma calls_case_sum [calls_intros]:
  "(\<And>e. x = Inl e \<Longrightarrow> calls P (f e) Q) \<Longrightarrow> (\<And>a. x = Inr a \<Longrightarrow> calls P (g a) Q) \<Longrightarrow>
   calls P (case x of Inl e \<Rightarrow> f e | Inr a \<Rightarrow> g a) Q"
  by (simp split: sum.split)

lemma calls_case_option [calls_intros]:
  "(x = None \<Longrightarrow> calls P f Q) \<Longrightarrow> (\<And>a. x = Some a \<Longrightarrow> calls P (g a) Q) \<Longrightarrow>
   calls P (case x of None \<Rightarrow> f | Some a \<Rightarrow> g a) Q"
  by (simp split: option.split)

lemma calls_case_prod [calls_intros]:
  "(\<And>a b. x = (a, b) \<Longrightarrow> calls P (f a b) Q) \<Longrightarrow> calls P (case x of (a, b) \<Rightarrow> f a b) Q"
  by (simp split: prod.split)

lemma calls_case_outcome [calls_intros]:
  "(x = Panics \<Longrightarrow> calls P f Q) \<Longrightarrow> (\<And>a. x = Returns a \<Longrightarrow> calls P (g a) Q) \<Longrightarrow>
   calls P (case x of Panics \<Rightarrow> f | Returns a \<Rightarrow> g a) Q"
  by (simp split: outcome.split)

lemma calls_any [calls_intros]: "P c \<Longrightarrow> calls P (log_call c m) (\<lambda>_. True)"
  by (rule calls_log_call) simp_all

text \<open>Steps in sequence, when what the first returns does not matter.\<close>

lemma calls_seq [calls_intros]:
  "calls P m (\<lambda>_. True) \<Longrightarrow> (\<And>a. calls P (f a) R) \<Longrightarrow> calls P (State_Monad.bind m f) R"
  by (rule calls_bind)

lemma calls_weaken: "calls P m Q \<Longrightarrow> (\<And>c. P c \<Longrightarrow> P' c) \<Longrightarrow> (\<And>a. Q a \<Longrightarrow> Q' a) \<Longrightarrow> calls P' m Q'"
  unfolding calls_def list_all_iff by fast

lemma calls_subset: "calls P m (\<lambda>_. True) \<Longrightarrow> (\<And>c. P c \<Longrightarrow> P' c) \<Longrightarrow> calls P' m (\<lambda>_. True)"
  by (erule calls_weaken) simp_all

lemma calls_trace: "calls P m Q \<Longrightarrow> list_all P (trace m w) \<and> Q (result m (w, []))"
  unfolding calls_def trace_def result_def by (metis append_Nil fst_conv snd_conv)

text \<open>\<open>calls_at\<close> is the same from one world, for operations whose later calls depend on its answers.\<close>

definition calls_at ::
  "(api_call \<Rightarrow> bool) \<Rightarrow> 'w \<Rightarrow> ('w logged_world, 'a) io \<Rightarrow> ('a \<Rightarrow> bool) \<Rightarrow> bool" where
  "calls_at P w m Q \<longleftrightarrow> (\<forall>l. \<exists>a w' cs. run_state m (w, l) = (a, (w', l @ cs)) \<and> list_all P cs \<and> Q a)"

lemma calls_iff_at: "calls P m Q \<longleftrightarrow> (\<forall>w. calls_at P w m Q)"
  by (simp add: calls_def calls_at_def)

lemma calls_at_ret: "Q a \<Longrightarrow> calls_at P w (ret a) Q"
  by (simp add: calls_at_def)

lemma calls_at_log_call: "P c \<Longrightarrow> Q (result m w) \<Longrightarrow> calls_at P w (log_call c m) Q"
  by (simp add: calls_at_def result_def)

lemma calls_at_bind:
  assumes "calls_at P w m Q" and "\<And>a. Q a \<Longrightarrow> calls P (f a) R"
  shows "calls_at P w (State_Monad.bind m f) R"
  unfolding calls_at_def
proof (intro allI)
  fix l
  from assms(1) obtain a w1 cs where
    1: "run_state m (w, l) = (a, (w1, l @ cs))" "list_all P cs" "Q a"
    unfolding calls_at_def by blast
  with assms(2) obtain b w2 ds where
    "run_state (f a) (w1, l @ cs) = (b, (w2, (l @ cs) @ ds))" "list_all P ds" "R b"
    unfolding calls_def by blast
  with 1 show "\<exists>b w' cs. run_state (State_Monad.bind m f) (w, l) = (b, (w', l @ cs)) \<and> list_all P cs \<and> R b"
    by (intro exI [of _ b] exI [of _ w2] exI [of _ "cs @ ds"]) simp
qed

lemma calls_at_trace: "calls_at P w m Q \<Longrightarrow> list_all P (trace m w) \<and> Q (result m (w, []))"
  unfolding calls_at_def trace_def result_def by (metis append_Nil fst_conv snd_conv)

lemma calls_at_weaken:
  "calls_at P w m Q \<Longrightarrow> (\<And>c. P c \<Longrightarrow> P' c) \<Longrightarrow> (\<And>a. Q a \<Longrightarrow> Q' a) \<Longrightarrow> calls_at P' w m Q'"
  unfolding calls_at_def list_all_iff by fast

lemma logged_simps [simp]:
  "get_lrp (logged cl) = (\<lambda>k. log_call (GetLRP k) (get_lrp cl k))"
  "patch_lrp_status (logged cl) = (\<lambda>n old. log_call (PatchLRPStatus n old) (patch_lrp_status cl n old))"
  "get_task (logged cl) = (\<lambda>k. log_call (GetTask k) (get_task cl k))"
  "patch_task_status (logged cl) = (\<lambda>n old. log_call (PatchTaskStatus n old) (patch_task_status cl n old))"
  "get_stset (logged cl) = (\<lambda>k. log_call (GetStset k) (get_stset cl k))"
  "create_stset (logged cl) = (\<lambda>x. log_call (CreateStset x) (create_stset cl x))"
  "patch_stset (logged cl) = (\<lambda>n old. log_call (PatchStset n old) (patch_stset cl n old))"
  "get_job (logged cl) = (\<lambda>k. log_call (GetJob k) (get_job cl k))"
  "create_job (logged cl) = (\<lambda>x. log_call (CreateJob x) (create_job cl x))"
  "delete_all_jobs (logged cl) = (\<lambda>ns n. log_call (DeleteAllJobs ns n) (delete_all_jobs cl ns n))"
  "get_pod (logged cl) = (\<lambda>k. log_call (GetPod k) (get_pod cl k))"
  "list_pods (logged cl) = (\<lambda>ns ls. log_call (ListPods ns ls) (list_pods cl ns ls))"
  "patch_pod (logged cl) = (\<lambda>n old. log_call (PatchPod n old) (patch_pod cl n old))"
  "list_events (logged cl) = (\<lambda>ns ls fs. log_call (ListEvents ns ls fs) (list_events cl ns ls fs))"
  "create_event (logged cl) = (\<lambda>x. log_call (CreateEvent x) (create_event cl x))"
  "update_event (logged cl) = (\<lambda>x. log_call (UpdateEvent x) (update_event cl x))"
  "create_secret (logged cl) = (\<lambda>x. log_call (CreateSecret x) (create_secret cl x))"
  "patch_secret (logged cl) = (\<lambda>n old. log_call (PatchSecret n old) (patch_secret cl n old))"
  "delete_secret (logged cl) = (\<lambda>x. log_call (DeleteSecret x) (delete_secret cl x))"
  "create_pdb (logged cl) = (\<lambda>x. log_call (CreatePDB x) (create_pdb cl x))"
  "delete_all_pdbs (logged cl) = (\<lambda>ns n. log_call (DeleteAllPDBs ns n) (delete_all_pdbs cl ns n))"
  "time_now (logged cl) = unlogged (time_now cl)"
  by (simp_all add: logged_def)

lemma result_log_call: "result (log_call c m) (w, l) = result m w"
  by (simp add: result_def)

section \<open>Names and namespaces\<close>

text \<open>The namespace a call acts on.\<close>

fun call_namespace :: "api_call \<Rightarrow> string" where
  "call_namespace (GetLRP k) = fst k"
| "call_namespace (PatchLRPStatus n old) = om_namespace (lr_meta n)"
| "call_namespace (GetTask k) = fst k"
| "call_namespace (PatchTaskStatus n old) = om_namespace (tk_meta n)"
| "call_namespace (GetStset k) = fst k"
| "call_namespace (CreateStset x) = om_namespace (st_meta x)"
| "call_namespace (PatchStset n old) = om_namespace (st_meta n)"
| "call_namespace (GetJob k) = fst k"
| "call_namespace (CreateJob x) = om_namespace (jb_meta x)"
| "call_namespace (DeleteAllJobs ns n) = ns"
| "call_namespace (GetPod k) = fst k"
| "call_namespace (ListPods ns ls) = ns"
| "call_namespace (PatchPod n old) = om_namespace (po_meta n)"
| "call_namespace (ListEvents ns ls fs) = ns"
| "call_namespace (CreateEvent x) = om_namespace (en_meta x)"
| "call_namespace (UpdateEvent x) = om_namespace (en_meta x)"
| "call_namespace (CreateSecret x) = om_namespace (se_meta x)"
| "call_namespace (PatchSecret n old) = om_namespace (se_meta n)"
| "call_namespace (DeleteSecret x) = om_namespace (se_meta x)"
| "call_namespace (CreatePDB x) = om_namespace (pd_meta x)"
| "call_namespace (DeleteAllPDBs ns n) = ns"

abbreviation in_namespace :: "string \<Rightarrow> api_call \<Rightarrow> bool" where
  "in_namespace ns c \<equiv> call_namespace c = ns"

text \<open>
  What the API server guarantees about identity: \<open>Get\<close> answers with the object of the key it is
  given, \<open>List\<close> with objects of the namespace, and \<open>Create\<close> and \<open>Patch\<close> with the object they
  were given, as far as its namespace and name go (the name of a secret may be generated).
\<close>

definition key_laws :: "'w client \<Rightarrow> bool" where
  "key_laws cl \<longleftrightarrow>
     (\<forall>k w x. result (get_lrp cl k) w = Inr x \<longrightarrow> meta_key (lr_meta x) = k) \<and>
     (\<forall>n old w. meta_key (lr_meta (snd (result (patch_lrp_status cl n old) w))) = meta_key (lr_meta n)) \<and>
     (\<forall>k w x. result (get_task cl k) w = Inr x \<longrightarrow> meta_key (tk_meta x) = k) \<and>
     (\<forall>n old w. meta_key (tk_meta (snd (result (patch_task_status cl n old) w))) = meta_key (tk_meta n)) \<and>
     (\<forall>k w x. result (get_stset cl k) w = Inr x \<longrightarrow> meta_key (st_meta x) = k) \<and>
     (\<forall>st w. meta_key (st_meta (snd (result (create_stset cl st) w))) = meta_key (st_meta st)) \<and>
     (\<forall>k w x. result (get_job cl k) w = Inr x \<longrightarrow> meta_key (jb_meta x) = k) \<and>
     (\<forall>j w. meta_key (jb_meta (snd (result (create_job cl j) w))) = meta_key (jb_meta j)) \<and>
     (\<forall>s w. om_namespace (se_meta (snd (result (create_secret cl s) w))) = om_namespace (se_meta s)) \<and>
     (\<forall>k w x. result (get_pod cl k) w = Inr x \<longrightarrow> meta_key (po_meta x) = k) \<and>
     (\<forall>ns ls w xs. result (list_pods cl ns ls) w = Inr xs \<longrightarrow> (\<forall>x \<in> set xs. om_namespace (po_meta x) = ns)) \<and>
     (\<forall>ns ls fs w xs. result (list_events cl ns ls fs) w = Inr xs \<longrightarrow> (\<forall>x \<in> set xs. om_namespace (en_meta x) = ns))"

lemma key_laws_rules:
  assumes "key_laws cl"
  shows get_lrp_key: "result (get_lrp cl k) w = Inr x1 \<Longrightarrow> meta_key (lr_meta x1) = k"
    and patch_lrp_status_key:
      "meta_key (lr_meta (snd (result (patch_lrp_status cl n1 old1) w))) = meta_key (lr_meta n1)"
    and get_task_key: "result (get_task cl k) w = Inr x2 \<Longrightarrow> meta_key (tk_meta x2) = k"
    and patch_task_status_key:
      "meta_key (tk_meta (snd (result (patch_task_status cl n2 old2) w))) = meta_key (tk_meta n2)"
    and get_stset_key: "result (get_stset cl k) w = Inr x3 \<Longrightarrow> meta_key (st_meta x3) = k"
    and create_stset_key:
      "meta_key (st_meta (snd (result (create_stset cl st) w))) = meta_key (st_meta st)"
    and get_job_key: "result (get_job cl k) w = Inr x4 \<Longrightarrow> meta_key (jb_meta x4) = k"
    and create_job_key: "meta_key (jb_meta (snd (result (create_job cl j) w))) = meta_key (jb_meta j)"
    and get_pod_key: "result (get_pod cl k) w = Inr x5 \<Longrightarrow> meta_key (po_meta x5) = k"
  using assms by (cases k; simp add: key_laws_def)+

lemma calls_get:
  assumes "P c" and "\<And>w x. result m w = Inr x \<Longrightarrow> Q x"
  shows "calls P (log_call c m) (\<lambda>r. case r of Inl _ \<Rightarrow> True | Inr x \<Rightarrow> Q x)"
  using assms by (intro calls_log_call) (auto simp: result_def split: sum.split)

lemma calls_answer:
  assumes "P c" and "\<And>w. Q (snd (result m w))"
  shows "calls P (log_call c m) (\<lambda>r. Q (snd r))"
  using assms by (intro calls_log_call) (auto simp: result_def)

lemma owner_namespace:
  assumes "owner_laws lib"
  shows "set_controller_reference lib k ow m = Inr m' \<Longrightarrow> meta_key m' = meta_key m"
    and "set_owner_reference lib k ow m = Inr m' \<Longrightarrow> meta_key m' = meta_key m"
  using assms unfolding owner_laws_def
  by (metis object_meta.select_convs(1,3) object_meta.surjective object_meta.update_convs(7))+

section \<open>Operations only append to the log\<close>

text \<open>
  \<open>appends m\<close>: what \<open>m\<close> does and returns does not depend on the log, to which it adds its
  trace. So the trace of a sequence is the concatenation of the traces.
\<close>

definition appends :: "('w logged_world, 'a) io \<Rightarrow> bool" where
  "appends m \<longleftrightarrow> (\<forall>w l. run_state m (w, l) =
     (result m (w, []), (fst (snd (run_state m (w, []))), l @ trace m w)))"

lemma appendsD:
  "appends m \<Longrightarrow> run_state m (w, l) = (result m (w, []), (fst (snd (run_state m (w, []))), l @ trace m w))"
  unfolding appends_def by blast

lemma appendsI:
  assumes "\<And>w l. run_state m (w, l) = (a w, (b w, l @ c w))"
  shows "appends m"
  using assms by (simp add: appends_def result_def trace_def)

lemma appends_ret [appends_intros]: "appends (ret a)"
  by (rule appendsI [where a = "\<lambda>_. a" and b = "\<lambda>w. w" and c = "\<lambda>_. []"]) simp

lemma appends_log_call [appends_intros]: "appends (log_call c m)"
  by (rule appendsI) simp

lemma appends_unlogged [appends_intros]: "appends (unlogged m)"
  by (rule appendsI [where c = "\<lambda>_. []"]) simp

lemma appends_bind [appends_intros]:
  assumes "appends m" and "\<And>a. appends (f a)"
  shows "appends (State_Monad.bind m f)"
proof (rule appendsI)
  fix w l
  let ?a = "result m (w, [])" and ?w = "fst (snd (run_state m (w, [])))"
  show "run_state (State_Monad.bind m f) (w, l) =
      (result (f ?a) (?w, []), (fst (snd (run_state (f ?a) (?w, []))), l @ (trace m w @ trace (f ?a) ?w)))"
    using appendsD [OF assms(1), of w l] appendsD [OF assms(2) [of ?a], of ?w "l @ trace m w"] by simp
qed

lemma trace_bind:
  assumes "appends m" and "\<And>a. appends (f a)"
  shows "trace (State_Monad.bind m f) w =
    trace m w @ trace (f (result m (w, []))) (fst (snd (run_state m (w, []))))"
proof -
  obtain a w1 where m: "run_state m (w, []) = (a, (w1, trace m w))"
    using appendsD [OF assms(1), of w "[]"] by (metis append_Nil)
  then show ?thesis
    using appendsD [OF assms(2), of a w1 "trace m w"]
    by (simp add: trace_def [of "State_Monad.bind m f"] result_def)
qed

lemma trace_log_call [simp]: "trace (log_call c m) w = [c]"
  by (simp add: trace_def)

lemma trace_unlogged [simp]: "trace (unlogged m) w = []"
  by (simp add: trace_def)

lemma trace_ret [simp]: "trace (ret a) w = []"
  by (simp add: trace_def)

lemma appends_if [appends_intros]: "appends m \<Longrightarrow> appends m' \<Longrightarrow> appends (if b then m else m')"
  by simp

lemma appends_case_sum [appends_intros]:
  "(\<And>e. appends (f e)) \<Longrightarrow> (\<And>a. appends (g a)) \<Longrightarrow> appends (case x of Inl e \<Rightarrow> f e | Inr a \<Rightarrow> g a)"
  by (simp split: sum.split)

lemma appends_case_option [appends_intros]:
  "appends f \<Longrightarrow> (\<And>a. appends (g a)) \<Longrightarrow> appends (case x of None \<Rightarrow> f | Some a \<Rightarrow> g a)"
  by (simp split: option.split)

lemma appends_case_prod [appends_intros]:
  "(\<And>a b. appends (f a b)) \<Longrightarrow> appends (case x of (a, b) \<Rightarrow> f a b)"
  by (simp split: prod.split)

lemma appends_case_outcome [appends_intros]:
  "appends f \<Longrightarrow> (\<And>a. appends (g a)) \<Longrightarrow> appends (case x of Panics \<Rightarrow> f | Returns a \<Rightarrow> g a)"
  by (simp split: outcome.split)

end
