(* ===== verification/Stset_Convert.thy ===== *)
theory Stset_Convert
  imports Names Labels Probes Kube_Client
begin

text \<open>
  \<open>k8s/stset/lrp_to_statefulset.go\<close>: the stateful set of an LRP. The converter is a record of
  its configuration and its two probe creators. The \<open>range\<close> statements are numbered: 0 visits
  the environment of the LRP, 1 the labels of the selector, 2 the user defined annotations, and
  \<open>3 + j\<close> the environment of sidecar \<open>j\<close>.
\<close>

record stset_converter_config =
  cv_application_service_account :: string
  cv_registry_secret_name :: string
  cv_allow_automount :: bool
  cv_liveness_probe_creator :: "lrp \<Rightarrow> probe option"
  cv_readiness_probe_creator :: "lrp \<Rightarrow> probe option"

definition new_lrp_to_stset_converter ::
  "string \<Rightarrow> string \<Rightarrow> bool \<Rightarrow> (lrp \<Rightarrow> probe option) \<Rightarrow> (lrp \<Rightarrow> probe option) \<Rightarrow> stset_converter_config" where
  "new_lrp_to_stset_converter applicationServiceAccount registrySecretName allowAutomount
     livenessProbeCreator readinessProbeCreator =
     \<lparr>cv_application_service_account = applicationServiceAccount,
      cv_registry_secret_name = registrySecretName,
      cv_allow_automount = allowAutomount,
      cv_liveness_probe_creator = livenessProbeCreator,
      cv_readiness_probe_creator = readinessProbeCreator\<rparr>"

definition pod_affinity_term_weight :: i32 where
  "pod_affinity_term_weight = 100"

section \<open>Parts of the stateful set\<close>

definition calculate_image_pull_secrets :: "stset_converter_config \<Rightarrow> secret option \<Rightarrow> string list" where
  "calculate_image_pull_secrets c privateRegistrySecret =
     [cv_registry_secret_name c] @
     (case privateRegistrySecret of None \<Rightarrow> [] | Some s \<Rightarrow> [om_name (se_meta s)])"

definition get_volume_specs :: "volume_mount list option \<Rightarrow> volume list \<times> mount list" where
  "get_volume_specs lrpVolumeMounts =
     (map (\<lambda>vm. \<lparr>vo_name = vm_claim_name vm, vo_claim_name = vm_claim_name vm\<rparr>) (entries lrpVolumeMounts),
      map (\<lambda>vm. \<lparr>mt_name = vm_claim_name vm, mt_mount_path = vm_mount_path vm\<rparr>) (entries lrpVolumeMounts))"

text \<open>\<open>miB * 1024 * 1024\<close> in 64 bits.\<close>

definition mebibyte_quantity :: "i64 \<Rightarrow> quantity" where
  "mebibyte_quantity miB = BinaryQuantity (miB * 1024 * 1024)"

definition to_cpu_millicores :: "u8 \<Rightarrow> quantity" where
  "to_cpu_millicores cpuPercentage = ScaledQuantity (ucast cpuPercentage) Milli"

definition get_container_resources :: "u8 \<Rightarrow> i64 \<Rightarrow> i64 \<Rightarrow> resource_requirements" where
  "get_container_resources cpuWeight memoryMB diskMB =
     (let memory = mebibyte_quantity memoryMB;
          cpu = to_cpu_millicores cpuWeight;
          ephemeralStorage = mebibyte_quantity diskMB
      in \<lparr>rr_limits = [(''memory'', memory), (''ephemeral-storage'', ephemeralStorage)],
          rr_requests = [(''memory'', memory), (''cpu'', cpu)]\<rparr>)"

definition sidecar_container :: "range_order \<Rightarrow> lrp \<Rightarrow> nat \<times> sidecar \<Rightarrow> container" where
  "sidecar_container rng l = (\<lambda>(j, s). empty_container
     \<lparr>co_name := sd_name s,
      co_command := entries (sd_command s),
      co_image := ls_image (lr_spec l),
      co_env := map_to_env_var rng (3 + j) (sd_env s),
      co_resources := get_container_resources (ls_cpu_weight (lr_spec l)) (sd_memory_mb s)
        (ls_disk_mb (lr_spec l))\<rparr>)"

definition get_sidecar_containers :: "range_order \<Rightarrow> lrp \<Rightarrow> container list" where
  "get_sidecar_containers rng l =
     map (sidecar_container rng l) (enumerate 0 (entries (ls_sidecars (lr_spec l))))"

definition stset_label_selector :: "lrp \<Rightarrow> smap" where
  "stset_label_selector l =
     [(label_guid, ls_guid (lr_spec l)),
      (label_version, ls_version (lr_spec l)),
      (label_source_type, app_source_type)]"

definition to_label_selector_requirements :: "range_order \<Rightarrow> smap \<Rightarrow> selector_requirement list" where
  "to_label_selector_requirements rng labels =
     map (\<lambda>(label, value). \<lparr>sr_key = label, sr_operator = ''In'', sr_values = [value]\<rparr>) (rng 1 labels)"

definition stset_field_envs :: "env_var list" where
  "stset_field_envs =
     [\<lparr>ev_name = env_pod_name, ev_value = [], ev_value_from = Some (FieldRef ''metadata.name'')\<rparr>,
      \<lparr>ev_name = env_cf_instance_guid, ev_value = [], ev_value_from = Some (FieldRef ''metadata.uid'')\<rparr>,
      \<lparr>ev_name = env_cf_instance_ip, ev_value = [], ev_value_from = Some (FieldRef ''status.hostIP'')\<rparr>,
      \<lparr>ev_name = env_cf_instance_internal_ip, ev_value = [], ev_value_from = Some (FieldRef ''status.podIP'')\<rparr>]"

definition stset_labels :: "lrp \<Rightarrow> smap" where
  "stset_labels l =
     [(label_org_guid, ls_org_guid (lr_spec l)),
      (label_org_name, ls_org_name (lr_spec l)),
      (label_space_guid, ls_space_guid (lr_spec l)),
      (label_space_name, ls_space_name (lr_spec l)),
      (label_guid, ls_guid (lr_spec l)),
      (label_process_type, ls_process_type (lr_spec l)),
      (label_version, ls_version (lr_spec l)),
      (label_app_guid, ls_app_guid (lr_spec l)),
      (label_source_type, app_source_type)]"

definition stset_base_annotations :: "lrp \<Rightarrow> smap" where
  "stset_base_annotations l =
     [(annotation_space_name, ls_space_name (lr_spec l)),
      (annotation_space_guid, ls_space_guid (lr_spec l)),
      (annotation_app_id, ls_app_guid (lr_spec l)),
      (annotation_version, ls_version (lr_spec l)),
      (annotation_process_guid, ls_guid (lr_spec l) @ ''-'' @ ls_version (lr_spec l)),
      (annotation_app_name, ls_app_name (lr_spec l)),
      (annotation_org_name, ls_org_name (lr_spec l)),
      (annotation_org_guid, ls_org_guid (lr_spec l))]"

section \<open>Convert\<close>

definition app_container :: "stset_converter_config \<Rightarrow> range_order \<Rightarrow> lrp \<Rightarrow> container" where
  "app_container c rng l =
     (let envs = map_to_env_var rng 0 (ls_env (lr_spec l));
          envs = envs @ entries (ls_environment (lr_spec l));
          envs = envs @ stset_field_envs
      in \<lparr>co_name = application_container_name,
          co_image = ls_image (lr_spec l),
          co_image_pull_policy = ''Always'',
          co_command = entries (ls_command (lr_spec l)),
          co_env = envs,
          co_ports = entries (ls_ports (lr_spec l)),
          co_security_context = Some container_security_context,
          co_resources = get_container_resources (ls_cpu_weight (lr_spec l)) (ls_memory_mb (lr_spec l))
            (ls_disk_mb (lr_spec l)),
          co_liveness_probe = cv_liveness_probe_creator c l,
          co_readiness_probe = cv_readiness_probe_creator c l,
          co_volume_mounts = snd (get_volume_specs (ls_volume_mounts (lr_spec l)))\<rparr>)"

definition convert ::
  "stset_converter_config \<Rightarrow> range_order \<Rightarrow> string \<Rightarrow> lrp \<Rightarrow> secret option \<Rightarrow> go_error + stateful_set" where
  "convert c rng statefulSetName l privateRegistrySecret =
     (let volumes = fst (get_volume_specs (ls_volume_mounts (lr_spec l)));
          imagePullSecrets = calculate_image_pull_secrets c privateRegistrySecret;
          containers = [app_container c rng l] @ get_sidecar_containers rng l;
          selector = stset_label_selector l;
          labels = stset_labels l;
          annotations = put_all (rng 2 (entries (ls_user_defined_annotations (lr_spec l))))
            (stset_base_annotations l)
      in Inr \<lparr>st_meta = empty_meta\<lparr>om_name := statefulSetName, om_labels := Some labels,
                om_annotations := Some annotations\<rparr>,
              st_pod_management_policy = ''Parallel'',
              st_replicas = Some (to_int32 (ls_instances (lr_spec l))),
              st_selector = Some selector,
              st_template = \<lparr>pt_labels = Some labels, pt_annotations = Some annotations,
                pt_spec = empty_pod_spec
                  \<lparr>ps_containers := containers,
                   ps_image_pull_secrets := imagePullSecrets,
                   ps_service_account_name := cv_application_service_account c,
                   ps_volumes := volumes,
                   ps_automount_token := (if cv_allow_automount c then None else Some False),
                   ps_anti_affinity := [\<lparr>at_weight = pod_affinity_term_weight,
                     at_topology_key = ''kubernetes.io/hostname'',
                     at_match_expressions = to_label_selector_requirements rng selector\<rparr>]\<rparr>\<rparr>,
              st_ready_replicas = 0\<rparr>)"

section \<open>The contract of a converter\<close>

text \<open>
  What the desirer relies on when it is given an \<open>LRPToStatefulSetConverter\<close>: the stateful
  set has the name asked for and no namespace, owner or status yet; it wants as many replicas as
  the LRP has instances; its selector is the one the pod disruption budget uses and selects the
  pods of its template; the credentials of the private registry are among the pull secrets; and
  every container runs the image of the LRP, one of them being the application.
\<close>

locale lrp_to_stset_converter =
  fixes conv :: "string \<Rightarrow> lrp \<Rightarrow> secret option \<Rightarrow> go_error + stateful_set"
  assumes name: "conv n l s = Inr st \<Longrightarrow> om_name (st_meta st) = n"
    and fresh: "conv n l s = Inr st \<Longrightarrow> om_owner_references (st_meta st) = [] \<and> om_uid (st_meta st) = []"
    and replicas: "conv n l s = Inr st \<Longrightarrow> st_replicas st = Some (to_int32 (ls_instances (lr_spec l)))"
    and selector: "conv n l s = Inr st \<Longrightarrow> st_selector st = Some (stset_label_selector l)"
    and template: "conv n l s = Inr st \<Longrightarrow>
      map_of (stset_label_selector l) \<subseteq>\<^sub>m map_of (entries (pt_labels (st_template st)))"
    and pull_secret: "conv n l (Some sec) = Inr st \<Longrightarrow>
      om_name (se_meta sec) \<in> set (ps_image_pull_secrets (pt_spec (st_template st)))"
    and images: "conv n l s = Inr st \<Longrightarrow> co \<in> set (ps_containers (pt_spec (st_template st))) \<Longrightarrow>
      co_image co = ls_image (lr_spec l)"
    and app: "conv n l s = Inr st \<Longrightarrow>
      \<exists>co \<in> set (ps_containers (pt_spec (st_template st))). co_name co = application_container_name"
begin

lemma selects_own_pods:
  assumes "conv n l s = Inr st" and "(k, v) \<in> set (entries (st_selector st))"
  shows "map_get (pt_labels (st_template st)) k = v"
proof -
  have "map_of (stset_label_selector l) k = Some v"
    using assms(2) selector [OF assms(1)]
    by (intro map_of_is_SomeI) (auto simp: stset_label_selector_def label_defs)
  then have "map_of (entries (pt_labels (st_template st))) k = Some v"
    using template [OF assms(1)] by (auto simp: map_le_def dom_def)
  then show ?thesis by (simp add: map_get_def smap_get_def)
qed

end

section \<open>Lemmas\<close>

lemma stset_labels_distinct [simp]: "distinct (map fst (stset_labels l))"
  by (simp add: stset_labels_def label_defs)

lemma selector_le_labels: "map_of (stset_label_selector l) \<subseteq>\<^sub>m map_of (stset_labels l)"
  by (auto simp: map_le_def stset_label_selector_def stset_labels_def label_defs)

lemma sidecar_image [simp]: "co_image (sidecar_container rng l js) = ls_image (lr_spec l)"
  by (simp add: sidecar_container_def split_beta)

lemma app_container_fields [simp]:
  "co_name (app_container c rng l) = application_container_name"
  "co_image (app_container c rng l) = ls_image (lr_spec l)"
  by (simp_all add: app_container_def)

interpretation converter: lrp_to_stset_converter "convert c rng"
  by unfold_locales
    (auto simp: convert_def Let_def empty_meta_def calculate_image_pull_secrets_def selector_le_labels
      get_sidecar_containers_def)

section \<open>What a pod sees\<close>

text \<open>
  A container's environment is a list, in which the kubelet lets a later variable replace an
  earlier one of the same name.
\<close>

definition effective_env :: "env_var list \<Rightarrow> string \<Rightarrow> env_var option" where
  "effective_env evs n = find (\<lambda>e. ev_name e = n) (rev evs)"

lemma find_append: "find P (xs @ ys) = (case find P xs of None \<Rightarrow> find P ys | Some x \<Rightarrow> Some x)"
  by (induction xs) simp_all

lemma effective_env_append:
  "effective_env (xs @ ys) n = (case effective_env ys n of None \<Rightarrow> effective_env xs n | Some e \<Rightarrow> Some e)"
  by (simp add: effective_env_def find_append split: option.split)

definition literal_env :: "string \<Rightarrow> string \<Rightarrow> env_var" where
  "literal_env n v = \<lparr>ev_name = n, ev_value = v, ev_value_from = None\<rparr>"

lemma effective_env_literals:
  assumes "distinct (map fst m)"
  shows "effective_env (map (\<lambda>(k, v). \<lparr>ev_name = k, ev_value = v, ev_value_from = None\<rparr>) m) n
       = map_option (literal_env n) (map_of m n)"
  using assms
proof (induction m)
  case Nil
  then show ?case by (simp add: effective_env_def)
next
  case (Cons kv m)
  obtain k v where kv: "kv = (k, v)" by (cases kv)
  let ?f = "\<lambda>(k, v). \<lparr>ev_name = k, ev_value = v, ev_value_from = None\<rparr> :: env_var"
  have "effective_env (map ?f (kv # m)) n
      = (case effective_env (map ?f m) n of None \<Rightarrow> effective_env [?f kv] n | Some e \<Rightarrow> Some e)"
    using effective_env_append [of "[?f kv]" "map ?f m"] by simp
  moreover have "map_of m k = None"
    using Cons.prems by (simp add: kv map_of_eq_None_iff)
  ultimately show ?case
    using Cons by (auto simp: kv effective_env_def literal_env_def split: option.splits)
qed

lemma effective_env_map:
  assumes "lawful_order rng" and "distinct (map fst (entries env))"
  shows "effective_env (map_to_env_var rng i env) n = map_option (literal_env n) (map_of (entries env) n)"
  using assms
  by (simp add: map_to_env_var_def effective_env_literals lawful_order_distinct lawful_order_map_of)

text \<open>The value of a quantity, in bytes or in thousandths.\<close>

fun binary_value :: "quantity \<Rightarrow> int" where
  "binary_value (BinaryQuantity v) = sint v"
| "binary_value (ScaledQuantity v s) = 0"

lemma mebibyte_quantity_value:
  assumes "0 \<le> sint m" and "sint m < 2 ^ 43"
  shows "binary_value (mebibyte_quantity m) = sint m * 1048576"
proof -
  have "sint (m * 1024 * 1024) = signed_take_bit 63 (sint m * 1048576)"
    by (simp add: sint_word_ariths mult.assoc signed_take_bit_mult)
  also have "\<dots> = sint m * 1048576"
    using assms by (intro signed_take_bit_int_eq_self) simp_all
  finally show ?thesis by (simp add: mebibyte_quantity_def)
qed

lemma map_enumerate_snd: "map (\<lambda>js. f (snd js)) (enumerate i xs) = map f xs"
  using map_map [of f snd "enumerate i xs"] by (simp add: comp_def)

lemma sidecars_map:
  assumes "\<And>j s. f (sidecar_container rng l (j, s)) = g s"
  shows "map f (get_sidecar_containers rng l) = map g (entries (ls_sidecars (lr_spec l)))"
proof -
  have "f (sidecar_container rng l js) = g (snd js)" for js
    using assms [of "fst js" "snd js"] by simp
  then show ?thesis
    by (simp add: get_sidecar_containers_def comp_def map_enumerate_snd)
qed

lemma requirements_image:
  assumes "lawful_order rng"
  shows "(\<lambda>r. (sr_key r, sr_operator r, sr_values r)) ` set (to_label_selector_requirements rng m)
       = (\<lambda>(k, v). (k, ''In'', [v])) ` set m"
  by (simp add: to_label_selector_requirements_def image_image split_beta lawful_order_set [OF assms])

section \<open>Properties\<close>

lemmas convert_unfold = convert_def Let_def

text \<open>
  C24: the stateful set of an LRP selects its own pods: every label of its selector is a label of
  its pod template with the same value, so the API server accepts it; and the pods it asks the
  scheduler to keep apart are those same pods: the anti-affinity term requires exactly the labels
  of the selector, whatever the order in which the code visits them.
\<close>

theorem stset_selects_its_pods:
  assumes "lawful_order rng" and "convert c rng n l s = Inr st"
  shows "(\<forall>(k, v) \<in> set (entries (st_selector st)). map_get (pt_labels (st_template st)) k = v)
    \<and> (\<exists>t. ps_anti_affinity (pt_spec (st_template st)) = [t]
        \<and> (\<lambda>r. (sr_key r, sr_operator r, sr_values r)) ` set (at_match_expressions t)
          = (\<lambda>(k, v). (k, ''In'', [v])) ` set (entries (st_selector st)))"
proof (intro conjI)
  show "\<forall>(k, v) \<in> set (entries (st_selector st)). map_get (pt_labels (st_template st)) k = v"
    using converter.selects_own_pods [OF assms(2)] by blast
  show "\<exists>t. ps_anti_affinity (pt_spec (st_template st)) = [t]
        \<and> (\<lambda>r. (sr_key r, sr_operator r, sr_values r)) ` set (at_match_expressions t)
          = (\<lambda>(k, v). (k, ''In'', [v])) ` set (entries (st_selector st))"
    using assms(2) by (auto simp: convert_unfold requirements_image [OF assms(1)])
qed

text \<open>
  C36: the environment of the application container does not depend on the order in which the code
  visits the map \<open>Env\<close> of the LRP: the variables that the controller takes from the pod (its
  name, its uid and the addresses of the pod and its host) win over the list \<open>Environment\<close>,
  which wins over \<open>Env\<close>; an LRP cannot redefine \<open>POD_NAME\<close>.
\<close>

theorem app_env_precedence:
  assumes "lawful_order rng" and "distinct (map fst (entries (ls_env (lr_spec l))))"
  shows "effective_env (co_env (app_container c rng l)) n =
      (case effective_env stset_field_envs n of
         Some e \<Rightarrow> Some e
       | None \<Rightarrow> (case effective_env (entries (ls_environment (lr_spec l))) n of
           Some e \<Rightarrow> Some e
         | None \<Rightarrow> map_option (literal_env n) (map_of (entries (ls_env (lr_spec l))) n)))
    \<and> map_option ev_value_from (effective_env (co_env (app_container c rng l)) env_pod_name)
        = Some (Some (FieldRef ''metadata.name''))"
proof (intro conjI)
  show "effective_env (co_env (app_container c rng l)) n =
      (case effective_env stset_field_envs n of
         Some e \<Rightarrow> Some e
       | None \<Rightarrow> (case effective_env (entries (ls_environment (lr_spec l))) n of
           Some e \<Rightarrow> Some e
         | None \<Rightarrow> map_option (literal_env n) (map_of (entries (ls_env (lr_spec l))) n)))"
    by (simp add: app_container_def Let_def effective_env_append effective_env_map [OF assms]
        split: option.split)
  show "map_option ev_value_from (effective_env (co_env (app_container c rng l)) env_pod_name)
      = Some (Some (FieldRef ''metadata.name''))"
    by (simp add: app_container_def Let_def effective_env_append)
      (simp add: effective_env_def stset_field_envs_def label_defs)
qed

text \<open>
  The annotations of the stateful set and of its pods are those the LRP defines, and for the
  other keys those the controller derives from the LRP: a user defined annotation replaces a
  standard one of the same key, in every order of visiting them.
\<close>

theorem user_annotations_win:
  assumes "lawful_order rng" and "distinct (map fst (entries (ls_user_defined_annotations (lr_spec l))))"
    and "convert c rng n l s = Inr st"
  shows "map_get (om_annotations (st_meta st)) k =
      (case map_of (entries (ls_user_defined_annotations (lr_spec l))) k of
         Some v \<Rightarrow> v | None \<Rightarrow> smap_get (stset_base_annotations l) k)
    \<and> pt_annotations (st_template st) = om_annotations (st_meta st)"
proof -
  let ?u = "entries (ls_user_defined_annotations (lr_spec l))"
  have "distinct (map fst (rng 2 ?u))" "map_of (rng 2 ?u) = map_of ?u"
    using assms(1,2) by (simp_all add: lawful_order_distinct lawful_order_map_of)
  then show ?thesis
    using assms(3) by (auto simp: convert_unfold map_get_def smap_get_put_all split: option.split)
qed

text \<open>
  C25: the application container is limited to the memory and disk of the LRP in bytes, and
  requests that memory and its CPU weight in thousandths of a CPU, for sizes below \<open>2 ^ 43\<close>
  mebibytes (beyond which the product leaves 64 bits); the stateful set wants as many replicas as
  the LRP has instances, for counts that fit in 32 bits.
\<close>

theorem convert_sizes:
  assumes "convert c rng n l s = Inr st"
    and "0 \<le> sint (ls_memory_mb (lr_spec l))" "sint (ls_memory_mb (lr_spec l)) < 2 ^ 43"
    and "0 \<le> sint (ls_disk_mb (lr_spec l))" "sint (ls_disk_mb (lr_spec l)) < 2 ^ 43"
    and "- (2 ^ 31) \<le> sint (ls_instances (lr_spec l))" "sint (ls_instances (lr_spec l)) < 2 ^ 31"
  shows "let rr = co_resources (hd (ps_containers (pt_spec (st_template st)))) in
      map_option binary_value (map_of (rr_limits rr) ''memory'') = Some (sint (ls_memory_mb (lr_spec l)) * 1048576)
    \<and> map_option binary_value (map_of (rr_limits rr) ''ephemeral-storage'') = Some (sint (ls_disk_mb (lr_spec l)) * 1048576)
    \<and> map_of (rr_requests rr) ''memory'' = map_of (rr_limits rr) ''memory''
    \<and> map_of (rr_requests rr) ''cpu'' = Some (ScaledQuantity (ucast (ls_cpu_weight (lr_spec l))) Milli)
    \<and> map_option sint (st_replicas st) = Some (sint (ls_instances (lr_spec l)))"
  using assms
  by (auto simp: convert_unfold app_container_def get_container_resources_def to_cpu_millicores_def
      mebibyte_quantity_value sint_to_int32)

text \<open>
  The pod template holds the application container first and then one container per sidecar,
  with its name and command and the image of the LRP. The application container may not gain
  privileges, run as root or keep capabilities; the sidecars have no such security context.
\<close>

theorem convert_containers:
  "\<exists>st app side. convert c rng n l s = Inr st
    \<and> ps_containers (pt_spec (st_template st)) = app # side
    \<and> co_name app = application_container_name
    \<and> co_security_context app = Some container_security_context
    \<and> map (\<lambda>co. (co_name co, co_command co, co_image co)) side
        = map (\<lambda>sd. (sd_name sd, entries (sd_command sd), ls_image (lr_spec l))) (entries (ls_sidecars (lr_spec l)))
    \<and> map co_security_context side = map (\<lambda>_. None) (entries (ls_sidecars (lr_spec l)))"
  by (simp add: convert_unfold app_container_def sidecars_map sidecar_container_def empty_container_def)

section \<open>Witnesses\<close>

text \<open>A converter, and an LRP with every optional part, on which the properties apply.\<close>

definition sample_converter :: stset_converter_config where
  "sample_converter = new_lrp_to_stset_converter ''eirini'' ''registry-secret'' False
     create_liveness_probe create_readiness_probe"

definition sample_full_lrp :: lrp where
  "sample_full_lrp = sample_lrp\<lparr>lr_spec := sample_lrp_spec
     \<lparr>ls_env := Some [(''POD_NAME'', ''mine''), (''A'', ''1'')],
      ls_environment := Some [literal_env ''A'' ''2''],
      ls_sidecars := Some [\<lparr>sd_name = ''side'', sd_command = Some [''/bin/side''], sd_memory_mb = 64,
        sd_env = None\<rparr>],
      ls_user_defined_annotations :=
        Some [(''korifi.cloudfoundry.org/version'', ''mine''), (''prometheus.io/scrape'', ''yes'')]\<rparr>\<rparr>"

lemmas full_defs = sample_full_lrp_def sample_defs

theorem stset_selects_its_pods_witness:
  "\<exists>st. convert sample_converter (\<lambda>_. rev) ''st'' sample_lrp None = Inr st
    \<and> map_get (pt_labels (st_template st)) label_guid = ''guid''"
proof -
  have lawful: "lawful_order (\<lambda>_. rev)" by (simp add: lawful_order_def)
  obtain st where st: "convert sample_converter (\<lambda>_. rev) ''st'' sample_lrp None = Inr st"
    by (simp add: convert_unfold)
  have "(label_guid, ''guid'') \<in> set (entries (st_selector st))"
    using converter.selector [OF st] by (simp add: stset_label_selector_def sample_defs)
  from bspec [OF stset_selects_its_pods [OF lawful st, THEN conjunct1] this] st show ?thesis by simp
qed

theorem app_env_precedence_witness:
  "map_option ev_value (effective_env (co_env (app_container sample_converter (\<lambda>_. rev) sample_full_lrp)) ''A'')
     = Some ''2''"
proof -
  have lawful: "lawful_order (\<lambda>_. rev)" by (simp add: lawful_order_def)
  have keys: "distinct (map fst (entries (ls_env (lr_spec sample_full_lrp))))"
    by (simp add: full_defs)
  from app_env_precedence [OF lawful keys, THEN conjunct1] show ?thesis
    by (simp add: effective_env_def stset_field_envs_def label_defs full_defs literal_env_def)
qed

theorem user_annotations_win_witness:
  "\<exists>st. convert sample_converter (\<lambda>_. rev) ''st'' sample_full_lrp None = Inr st
    \<and> map_get (om_annotations (st_meta st)) annotation_version = ''mine''
    \<and> map_get (om_annotations (st_meta st)) annotation_app_id = ''app-guid''"
proof -
  have lawful: "lawful_order (\<lambda>_. rev)" by (simp add: lawful_order_def)
  have keys: "distinct (map fst (entries (ls_user_defined_annotations (lr_spec sample_full_lrp))))"
    by (simp add: full_defs)
  obtain st where st: "convert sample_converter (\<lambda>_. rev) ''st'' sample_full_lrp None = Inr st"
    by (simp add: convert_unfold)
  show ?thesis
    using user_annotations_win [OF lawful keys st, THEN conjunct1] st
    by (simp add: full_defs label_defs stset_base_annotations_def)
qed

theorem convert_sizes_witness:
  "\<exists>st. convert sample_converter (\<lambda>_. rev) ''st'' sample_lrp None = Inr st
    \<and> map_option sint (st_replicas st) = Some 2"
proof -
  obtain st where st: "convert sample_converter (\<lambda>_. rev) ''st'' sample_lrp None = Inr st"
    by (simp add: convert_unfold)
  have "map_option sint (st_replicas st) = Some (sint (ls_instances (lr_spec sample_lrp)))"
    using convert_sizes [OF st] by (simp add: sample_defs Let_def)
  with st show ?thesis by (simp add: sample_defs)
qed

end
