(* ===== verification/Sample_Cluster.thy ===== *)
theory Sample_Cluster
  imports Kube_Client Samples
begin

text \<open>
  A concrete Kubernetes library and a concrete client on which the witnesses evaluate the
  theorems about operations that talk to the cluster: they show that the laws the theorems
  assume of these parameters can hold. The client answers for a cluster that holds an LRP and a
  task and nothing else, and accepts every change.
\<close>

section \<open>A library\<close>

definition owned :: "bool \<Rightarrow> string \<Rightarrow> object_meta \<Rightarrow> object_meta \<Rightarrow> object_meta" where
  "owned controller kind ow m = m\<lparr>om_owner_references := om_owner_references m @
     [\<lparr>or_api_version = ''v1'', or_kind = kind, or_name = om_name ow, or_uid = om_uid ow,
       or_controller = (if controller then Some True else None)\<rparr>]\<rparr>"

definition owner_refused :: "go_error + object_meta" where
  "owner_refused = Inl (NewError ''owner refused'')"

fun set_condition :: "gotime \<Rightarrow> condition list \<Rightarrow> condition \<Rightarrow> condition list" where
  "set_condition now [] c =
     [if cd_last_transition_time c \<noteq> zero_time then c else c\<lparr>cd_last_transition_time := now\<rparr>]"
| "set_condition now (d # cs) c =
     (if cd_type d \<noteq> cd_type c then d # set_condition now cs c
      else if cd_status d = cd_status c
        then c\<lparr>cd_last_transition_time := cd_last_transition_time d\<rparr> # cs
      else (if cd_last_transition_time c \<noteq> zero_time then c else c\<lparr>cd_last_transition_time := now\<rparr>) # cs)"

definition status_reason :: "string \<Rightarrow> go_error \<Rightarrow> bool" where
  "status_reason r e = (as_status_error e = Some r)"

text \<open>It refuses the owners that controller-runtime refuses.\<close>

definition sample_lib :: kube_lib where
  "sample_lib = \<lparr>
     is_not_found = status_reason ''NotFound'',
     is_already_exists = status_reason ''AlreadyExists'',
     set_controller_reference = (\<lambda>k ow m. if placeable ow m \<and> uncontrolled m then Inr (owned True k ow m) else owner_refused),
     set_owner_reference = (\<lambda>k ow m. if placeable ow m then Inr (owned False k ow m) else owner_refused),
     set_status_condition = set_condition,
     find_status_condition = (\<lambda>cs t. find (\<lambda>c. cd_type c = t) cs),
     is_status_condition_true = (\<lambda>cs t. case find (\<lambda>c. cd_type c = t) cs of
        None \<Rightarrow> False | Some c \<Rightarrow> cd_status c = condition_true),
     multierror_append = (\<lambda>es e. es @ (case e of None \<Rightarrow> [] | Some x \<Rightarrow> [x])),
     error_or_nil = (\<lambda>es. if es = [] then None else Some (MultiError es))\<rparr>"

lemma sample_lib_simps [simp]:
  "is_not_found sample_lib = status_reason ''NotFound''"
  "is_already_exists sample_lib = status_reason ''AlreadyExists''"
  "set_controller_reference sample_lib k ow m = (if placeable ow m \<and> uncontrolled m then Inr (owned True k ow m) else owner_refused)"
  "set_owner_reference sample_lib k ow m = (if placeable ow m then Inr (owned False k ow m) else owner_refused)"
  "set_status_condition sample_lib = set_condition"
  "find_status_condition sample_lib cs t = find (\<lambda>c. cd_type c = t) cs"
  "is_status_condition_true sample_lib cs t = (case find (\<lambda>c. cd_type c = t) cs of
        None \<Rightarrow> False | Some c \<Rightarrow> cd_status c = condition_true)"
  "multierror_append sample_lib es e = es @ (case e of None \<Rightarrow> [] | Some x \<Rightarrow> [x])"
  "error_or_nil sample_lib es = (if es = [] then None else Some (MultiError es))"
  by (simp_all add: sample_lib_def)

lemma sample_owner_laws: "owner_laws sample_lib"
  by (simp add: owner_laws_def owned_def owner_refused_def)

lemma sample_owners_settable: "owners_settable sample_lib"
  by (simp add: owners_settable_def)

lemma sample_multierror_laws: "multierror_laws sample_lib"
  by (simp add: multierror_laws_def)

lemma set_condition_other:
  "cd_type c \<noteq> t \<Longrightarrow> find (\<lambda>d. cd_type d = t) (set_condition now cs c) = find (\<lambda>d. cd_type d = t) cs"
  by (induction now cs c rule: set_condition.induct) auto

lemma set_condition_same:
  "\<exists>d. find (\<lambda>d. cd_type d = cd_type c) (set_condition now cs c) = Some d
     \<and> cd_status d = cd_status c
     \<and> cd_last_transition_time d =
         (case find (\<lambda>d. cd_type d = cd_type c) cs of
            Some old \<Rightarrow>
              if cd_status old = cd_status c then cd_last_transition_time old
              else if cd_last_transition_time c \<noteq> zero_time then cd_last_transition_time c else now
          | None \<Rightarrow> if cd_last_transition_time c \<noteq> zero_time then cd_last_transition_time c else now)"
  by (induction now cs c rule: set_condition.induct) auto

lemma sample_find_type: "find (\<lambda>c. cd_type c = t) cs = Some c \<Longrightarrow> cd_type c = t"
  by (metis (mono_tags, lifting) find_Some_iff)

lemma sample_condition_laws: "condition_laws sample_lib"
  unfolding condition_laws_def sample_lib_simps
  by (intro conjI allI impI)
    (rule find.simps(1), erule sample_find_type, erule set_condition_other, rule set_condition_same, rule refl)

section \<open>A client\<close>

definition not_found :: "go_error + 'a" where
  "not_found = Inl (StatusError ''NotFound'' ''not found'')"

definition sample_client :: "gotime client" where
  "sample_client = \<lparr>
     get_lrp = (\<lambda>k. ret (Inr (sample_lrp\<lparr>lr_meta := (lr_meta sample_lrp)
        \<lparr>om_namespace := fst k, om_name := snd k\<rparr>\<rparr>))),
     patch_lrp_status = (\<lambda>n old. ret (None, n)),
     get_task = (\<lambda>k. ret (Inr (sample_task\<lparr>tk_meta := (tk_meta sample_task)
        \<lparr>om_namespace := fst k, om_name := snd k\<rparr>\<rparr>))),
     patch_task_status = (\<lambda>n old. ret (None, n)),
     get_stset = (\<lambda>k. ret not_found),
     create_stset = (\<lambda>x. ret (None, x)),
     patch_stset = (\<lambda>n old. ret (None, n)),
     get_job = (\<lambda>k. ret not_found),
     create_job = (\<lambda>x. ret (None, x)),
     delete_all_jobs = (\<lambda>ns n. ret None),
     get_pod = (\<lambda>k. ret not_found),
     list_pods = (\<lambda>ns ls. ret (Inr [])),
     patch_pod = (\<lambda>n old. ret (None, n)),
     list_events = (\<lambda>ns ls fs. ret (Inr [])),
     create_event = (\<lambda>x. ret (None, x)),
     update_event = (\<lambda>x. ret (None, x)),
     create_secret = (\<lambda>x. ret (None, x\<lparr>se_meta := (se_meta x)\<lparr>om_name := om_generate_name (se_meta x) @ ''abcde''\<rparr>\<rparr>)),
     patch_secret = (\<lambda>n old. ret (None, n)),
     delete_secret = (\<lambda>x. ret None),
     create_pdb = (\<lambda>x. ret (None, x)),
     delete_all_pdbs = (\<lambda>ns n. ret None),
     time_now = State_Monad.get\<rparr>"

text \<open>A client that fails in everything, for the clients of particular clusters to start from.\<close>

definition no_answer :: go_error where
  "no_answer = StatusError ''ServiceUnavailable'' ''no answer''"

definition dead_client :: "'w client" where
  "dead_client = \<lparr>
     get_lrp = (\<lambda>k. ret (Inl no_answer)),
     patch_lrp_status = (\<lambda>n old. ret (Some no_answer, n)),
     get_task = (\<lambda>k. ret (Inl no_answer)),
     patch_task_status = (\<lambda>n old. ret (Some no_answer, n)),
     get_stset = (\<lambda>k. ret (Inl no_answer)),
     create_stset = (\<lambda>x. ret (Some no_answer, x)),
     patch_stset = (\<lambda>n old. ret (Some no_answer, n)),
     get_job = (\<lambda>k. ret (Inl no_answer)),
     create_job = (\<lambda>x. ret (Some no_answer, x)),
     delete_all_jobs = (\<lambda>ns n. ret (Some no_answer)),
     get_pod = (\<lambda>k. ret (Inl no_answer)),
     list_pods = (\<lambda>ns ls. ret (Inl no_answer)),
     patch_pod = (\<lambda>n old. ret (Some no_answer, n)),
     list_events = (\<lambda>ns ls fs. ret (Inl no_answer)),
     create_event = (\<lambda>x. ret (Some no_answer, x)),
     update_event = (\<lambda>x. ret (Some no_answer, x)),
     create_secret = (\<lambda>x. ret (Some no_answer, x)),
     patch_secret = (\<lambda>n old. ret (Some no_answer, n)),
     delete_secret = (\<lambda>x. ret (Some no_answer)),
     create_pdb = (\<lambda>x. ret (Some no_answer, x)),
     delete_all_pdbs = (\<lambda>ns n. ret (Some no_answer)),
     time_now = ret 0\<rparr>"

lemma result_ret [simp]: "result (ret a) w = a"
  by (simp add: result_def)

lemma sample_key_laws: "key_laws sample_client"
  by (simp add: key_laws_def sample_client_def not_found_def)

end
