(* ===== verification/Pdb.thy ===== *)
theory Pdb
  imports Stset_Convert Sample_Cluster
begin

text \<open>
  \<open>k8s/pdb/update.go\<close>: the pod disruption budget of a stateful set, which exists while the LRP
  has more than one instance. The locale \<open>pdb_updater\<close> is the contract of the interface
  \<open>PodDisruptionBudgetUpdater\<close>, which the desirer and the updater of stateful sets use.
\<close>

section \<open>Definitions\<close>

definition pdb_min_available_instances :: string where
  "pdb_min_available_instances = ''50%''"

text \<open>The budget before its owner is set.\<close>

definition new_pdb :: "stateful_set \<Rightarrow> lrp \<Rightarrow> pod_disruption_budget" where
  "new_pdb statefulSet l =
     \<lparr>pd_meta = empty_meta
        \<lparr>om_name := om_name (st_meta statefulSet),
         om_namespace := om_namespace (st_meta statefulSet),
         om_labels := Some [(label_guid, ls_guid (lr_spec l)), (label_version, ls_version (lr_spec l))]\<rparr>,
      pd_min_available = StrVal pdb_min_available_instances,
      pd_selector = Some (stset_label_selector l)\<rparr>"

definition pdb_create :: "'w client \<Rightarrow> kube_lib \<Rightarrow> stateful_set \<Rightarrow> lrp \<Rightarrow> ('w, go_error option) io" where
  "pdb_create cl lib statefulSet l =
     (let pdb = new_pdb statefulSet l
      in case set_owner_reference lib ''StatefulSet'' (st_meta statefulSet) (pd_meta pdb) of
           Inl err \<Rightarrow> ret (Some (Wrap ''pdb-updated-failed-to-set-owner-ref'' err))
         | Inr m \<Rightarrow> do {
             (err, _) \<leftarrow> create_pdb cl (pdb\<lparr>pd_meta := m\<rparr>);
             ret (case err of
                    None \<Rightarrow> None
                  | Some e \<Rightarrow>
                      if is_already_exists lib e then None
                      else Some (Wrap ''failed to create pod distruption budget'' e))
           })"

definition pdb_delete :: "'w client \<Rightarrow> stateful_set \<Rightarrow> ('w, go_error option) io" where
  "pdb_delete cl statefulSet = do {
     err \<leftarrow> delete_all_pdbs cl (om_namespace (st_meta statefulSet)) (om_name (st_meta statefulSet));
     ret (wrap_err ''failed to delete pod distruption budget'' err)
   }"

definition pdb_update :: "'w client \<Rightarrow> kube_lib \<Rightarrow> stateful_set \<Rightarrow> lrp \<Rightarrow> ('w, go_error option) io" where
  "pdb_update cl lib statefulSet l =
     (if 1 < sint (ls_instances (lr_spec l)) then pdb_create cl lib statefulSet l
      else pdb_delete cl statefulSet)"

section \<open>The contract of an updater\<close>

text \<open>
  An updater only creates or deletes the budget that has the namespace and the name of the
  stateful set (as long as setting an owner keeps them).
\<close>

fun own_budget_call :: "namespaced_name \<Rightarrow> api_call \<Rightarrow> bool" where
  "own_budget_call k (CreatePDB p) = (meta_key (pd_meta p) = k)"
| "own_budget_call k (DeleteAllPDBs ns n) = (k = (ns, n))"
| "own_budget_call k _ = False"

lemma own_budget_namespace: "own_budget_call k c \<Longrightarrow> in_namespace (fst k) c"
  by (cases c) auto

locale pdb_updater =
  fixes lib :: kube_lib
    and upd :: "stateful_set \<Rightarrow> lrp \<Rightarrow> ('w logged_world, go_error option) io"
  assumes own_budget: "owner_laws lib \<Longrightarrow>
    calls (own_budget_call (meta_key (st_meta st))) (upd st l) (\<lambda>_. True)"
begin

lemma stays_in_namespace:
  assumes "owner_laws lib" and "om_namespace (st_meta st) = ns"
  shows "calls (in_namespace ns) (upd st l) (\<lambda>_. True)"
  using own_budget [OF assms(1)] by (rule calls_subset) (use assms(2) own_budget_namespace in fastforce)

end

lemma new_pdb_key [simp]: "meta_key (pd_meta (new_pdb st l)) = meta_key (st_meta st)"
  by (simp add: new_pdb_def)

interpretation pdb: pdb_updater lib "pdb_update (logged cl) lib" for lib cl
proof
  fix st l
  assume laws: "owner_laws lib"
  show "calls (own_budget_call (meta_key (st_meta st))) (pdb_update (logged cl) lib st l) (\<lambda>_. True)"
    unfolding pdb_update_def pdb_create_def pdb_delete_def Let_def logged_simps
    by (intro calls_intros TrueI) (use owner_namespace(2) [OF laws] in auto)
qed

section \<open>What an update does\<close>

lemma pdb_update_trace:
  "trace (pdb_update (logged cl) lib st l) w =
     (if 1 < sint (ls_instances (lr_spec l))
      then (case set_owner_reference lib ''StatefulSet'' (st_meta st) (pd_meta (new_pdb st l)) of
              Inl e \<Rightarrow> []
            | Inr m \<Rightarrow> [CreatePDB (new_pdb st l\<lparr>pd_meta := m\<rparr>)])
      else [DeleteAllPDBs (om_namespace (st_meta st)) (om_name (st_meta st))])"
  by (simp add: trace_def pdb_update_def pdb_create_def pdb_delete_def Let_def split: sum.split prod.split)

lemma pdb_update_appends [appends_intros]: "appends (pdb_update (logged cl) lib st l)"
  unfolding pdb_update_def pdb_create_def pdb_delete_def Let_def logged_simps by (intro appends_intros)

lemma pdb_update_result:
  "result (pdb_update cl lib st l) w =
     (if 1 < sint (ls_instances (lr_spec l))
      then (case set_owner_reference lib ''StatefulSet'' (st_meta st) (pd_meta (new_pdb st l)) of
              Inl e \<Rightarrow> Some (Wrap ''pdb-updated-failed-to-set-owner-ref'' e)
            | Inr m \<Rightarrow> (case fst (result (create_pdb cl (new_pdb st l\<lparr>pd_meta := m\<rparr>)) w) of
                None \<Rightarrow> None
              | Some e \<Rightarrow> if is_already_exists lib e then None
                  else Some (Wrap ''failed to create pod distruption budget'' e)))
      else wrap_err ''failed to delete pod distruption budget''
        (result (delete_all_pdbs cl (om_namespace (st_meta st)) (om_name (st_meta st))) w))"
  by (simp add: result_def pdb_update_def pdb_create_def pdb_delete_def Let_def split: sum.split prod.split)

section \<open>Properties\<close>

text \<open>
  the budget of an LRP with several instances covers exactly the pods of its stateful set: it
  has the name and the namespace of the stateful set, its selector is the one \<open>Convert\<close> gave the
  stateful set, it keeps half of the pods available, and finding it already there is no error. An
  LRP with at most one instance has its budget deleted and none created.
\<close>

theorem pdb_covers_stset:
  assumes "owner_laws lib" and "convert c rng n l s = Inr st0" and "st = st0\<lparr>st_meta := m\<rparr>"
  shows "(1 < sint (ls_instances (lr_spec l)) \<longrightarrow>
        (\<forall>call \<in> set (trace (pdb_update (logged cl) lib st l) w). \<exists>p. call = CreatePDB p
          \<and> meta_key (pd_meta p) = meta_key m \<and> pd_selector p = st_selector st
          \<and> pd_min_available p = StrVal ''50%'')
        \<and> (\<forall>w'. result (pdb_update cl lib st l) w' \<noteq> None \<longrightarrow>
            (\<forall>p e. fst (result (create_pdb cl p) w') = Some e \<longrightarrow> is_already_exists lib e) \<longrightarrow>
            (\<exists>e. set_owner_reference lib ''StatefulSet'' m (pd_meta (new_pdb st l)) = Inl e)))
    \<and> (sint (ls_instances (lr_spec l)) \<le> 1 \<longrightarrow>
        trace (pdb_update (logged cl) lib st l) w = [DeleteAllPDBs (om_namespace m) (om_name m)])"
proof -
  have "st_selector st = Some (stset_label_selector l)"
    using converter.selector [OF assms(2)] assms(3) by simp
  then show ?thesis
    using owner_namespace(2) [OF assms(1)] assms(3)
    by (auto simp: pdb_update_trace pdb_update_result new_pdb_def pdb_min_available_instances_def
        split: sum.splits option.splits if_splits)
qed

theorem pdb_covers_stset_witness:
  "\<exists>st. convert sample_converter (\<lambda>_ m. m) ''st'' sample_lrp None = Inr st
    \<and> (\<forall>call \<in> set (trace (pdb_update (logged sample_client) sample_lib st sample_lrp) 0).
        \<exists>p. call = CreatePDB p \<and> pd_selector p = st_selector st)"
proof -
  obtain st where st: "convert sample_converter (\<lambda>_ m. m) ''st'' sample_lrp None = Inr st"
    by (simp add: convert_unfold)
  have m: "st = st\<lparr>st_meta := st_meta st\<rparr>" by simp
  have two: "1 < sint (ls_instances (lr_spec sample_lrp))" by (simp add: sample_defs)
  note covers = pdb_covers_stset [OF sample_owner_laws st m, THEN conjunct1, THEN mp, OF two, THEN conjunct1]
  show ?thesis
    by (intro exI [of _ st] conjI st ballI, drule bspec [OF covers]) auto
qed

end
