(* ===== verification/Go_Encoding.thy ===== *)
theory Go_Encoding
  imports Go_Strings
begin

text \<open>
  Two encodings of Go's standard library that the registry credentials go through:
  \<open>base64.StdEncoding.EncodeToString\<close>, and the quoting of strings by \<open>json.Marshal\<close> (Go 1.18),
  which escapes the characters that are special in JSON or HTML and replaces bytes that are not
  UTF-8. For each, the decoder that the reader of the secret runs, and the round trip.
\<close>

section \<open>Base 64\<close>

definition base64_alphabet :: string where
  "base64_alphabet = ''ABCDEFGHIJKLMNOPQRSTUVWXYZabcdefghijklmnopqrstuvwxyz0123456789+/''"

definition enc64 :: "nat \<Rightarrow> char" where
  "enc64 i = base64_alphabet ! i"

fun base64_encode :: "string \<Rightarrow> string" where
  "base64_encode [] = []"
| "base64_encode [a] =
     [enc64 (byte a div 4), enc64 (byte a mod 4 * 16), CHR ''='', CHR ''='']"
| "base64_encode [a, b] =
     [enc64 (byte a div 4), enc64 (byte a mod 4 * 16 + byte b div 16), enc64 (byte b mod 16 * 4), CHR ''='']"
| "base64_encode (a # b # c # s) =
     [enc64 (byte a div 4), enc64 (byte a mod 4 * 16 + byte b div 16),
      enc64 (byte b mod 16 * 4 + byte c div 64), enc64 (byte c mod 64)] @ base64_encode s"

definition dec64 :: "char \<Rightarrow> nat" where
  "dec64 c = length (takeWhile (\<lambda>d. d \<noteq> c) base64_alphabet)"

fun base64_decode :: "string \<Rightarrow> string option" where
  "base64_decode [] = Some []"
| "base64_decode (w # x # y # z # s) =
     (if dec64 w < 64 \<and> dec64 x < 64 \<and> y = CHR ''='' \<and> z = CHR ''='' \<and> s = []
      then Some [char_of (dec64 w * 4 + dec64 x div 16)]
      else if dec64 w < 64 \<and> dec64 x < 64 \<and> dec64 y < 64 \<and> z = CHR ''='' \<and> s = []
      then Some [char_of (dec64 w * 4 + dec64 x div 16), char_of (dec64 x mod 16 * 16 + dec64 y div 4)]
      else if dec64 w < 64 \<and> dec64 x < 64 \<and> dec64 y < 64 \<and> dec64 z < 64
      then map_option ((@) [char_of (dec64 w * 4 + dec64 x div 16),
             char_of (dec64 x mod 16 * 16 + dec64 y div 4), char_of (dec64 y mod 4 * 64 + dec64 z)])
           (base64_decode s)
      else None)"
| "base64_decode s = None"

lemma byte_less [simp]: "byte c < 256"
  using UNIV_char_of_nat by (simp add: byte_def)

lemma char_of_byte [simp]: "char_of (byte c) = c"
  by (simp add: byte_def)

lemma enc64_table:
  "list_all (\<lambda>i. dec64 (enc64 i) = i \<and> enc64 i \<noteq> CHR ''='' \<and> byte (enc64 i) < 128) [0..<64]"
  by code_simp

lemma enc64_props [simp]:
  assumes "i < 64"
  shows "dec64 (enc64 i) = i" "enc64 i \<noteq> CHR ''=''" "byte (enc64 i) < 128"
  using enc64_table assms by (auto simp: list_all_iff)

lemma enc64_bounds [simp]:
  "byte a div 4 < 64" "byte a mod 4 * 16 < 64" "byte a mod 4 * 16 + byte b div 16 < 64"
  "byte b mod 16 * 4 < 64" "byte b mod 16 * 4 + byte c div 64 < 64" "byte c mod 64 < 64"
proof -
  have "byte a div 4 < 64" "byte b div 16 < 16" "byte c div 64 < 4"
    using byte_less [of a] byte_less [of b] byte_less [of c] by linarith+
  moreover have "byte a mod 4 < 4" "byte b mod 16 < 16" by simp_all
  ultimately show "byte a div 4 < 64" "byte a mod 4 * 16 < 64" "byte a mod 4 * 16 + byte b div 16 < 64"
    "byte b mod 16 * 4 < 64" "byte b mod 16 * 4 + byte c div 64 < 64" "byte c mod 64 < 64"
    by linarith+
qed

lemma byte_parts [simp]:
  "byte b div 16 div 16 = 0" "byte c div 64 div 4 = 0"
  "byte b div 16 mod 16 = byte b div 16" "byte c div 64 mod 4 = byte c div 64"
proof -
  have "byte b div 16 < 16" and "byte c div 64 < 4"
    using byte_less [of b] byte_less [of c] by linarith+
  then show "byte b div 16 div 16 = 0" "byte c div 64 div 4 = 0"
    "byte b div 16 mod 16 = byte b div 16" "byte c div 64 mod 4 = byte c div 64"
    by simp_all
qed

lemma base64_roundtrip: "base64_decode (base64_encode s) = Some s"
  by (induction s rule: base64_encode.induct) simp_all

lemma base64_ascii: "\<forall>c \<in> set (base64_encode s). byte c < 128"
  by (induction s rule: base64_encode.induct) (simp_all add: byte_def [of "CHR ''=''"])

section \<open>UTF-8\<close>

definition next_in :: "nat \<Rightarrow> nat \<Rightarrow> string \<Rightarrow> bool" where
  "next_in lo hi s = (case s of [] \<Rightarrow> False | c # _ \<Rightarrow> lo \<le> byte c \<and> byte c \<le> hi)"

abbreviation cont :: "string \<Rightarrow> bool" where
  "cont \<equiv> next_in 128 191"

text \<open>
  The width of the code point that a string starts with, as \<open>utf8.DecodeRuneInString\<close> accepts
  them: no overlong forms, no surrogates, nothing above U+10FFFF. It is 0 where the bytes are not
  UTF-8 (Go's \<open>RuneError\<close> of width 1).
\<close>

definition utf8_width :: "string \<Rightarrow> nat" where
  "utf8_width s = (case s of
     [] \<Rightarrow> 0
   | a # r \<Rightarrow>
       if byte a < 128 then 1
       else if 194 \<le> byte a \<and> byte a \<le> 223 \<and> cont r then 2
       else if 224 \<le> byte a \<and> byte a \<le> 239
         \<and> next_in (if byte a = 224 then 160 else 128) (if byte a = 237 then 159 else 191) r
         \<and> cont (drop 1 r) then 3
       else if 240 \<le> byte a \<and> byte a \<le> 244
         \<and> next_in (if byte a = 240 then 144 else 128) (if byte a = 244 then 143 else 191) r
         \<and> cont (drop 1 r) \<and> cont (drop 2 r) then 4
       else 0)"

lemma next_in_cont: "next_in lo hi s \<Longrightarrow> 128 \<le> lo \<Longrightarrow> hi \<le> 191 \<Longrightarrow> cont s"
  by (auto simp: next_in_def split: list.splits)

definition high_bytes :: "nat \<Rightarrow> string \<Rightarrow> bool" where
  "high_bytes k s \<longleftrightarrow> k \<le> length s \<and> (\<forall>c \<in> set (take k s). 128 \<le> byte c)"

lemma high_bytes_next:
  assumes "high_bytes k s" and "cont (drop k s)" and "n = Suc k"
  shows "high_bytes n s"
proof -
  from assms(2) obtain c t where c: "drop k s = c # t" "128 \<le> byte c"
    by (auto simp: next_in_def split: list.splits)
  then have "k < length s" by (metis drop_eq_Nil leI list.distinct(1))
  moreover have "take (Suc k) s = take k s @ [c]"
    using take_add [of k 1 s] c by simp
  ultimately show ?thesis using assms(1,3) c by (auto simp: high_bytes_def)
qed

lemma utf8_width_cases:
  assumes "128 \<le> byte a" and "0 < utf8_width (a # s)"
  obtains k where "utf8_width (a # s) = Suc k" "high_bytes k s"
proof -
  have w: "cont s \<and> utf8_width (a # s) \<in> {2, 3, 4}
      \<and> (3 \<le> utf8_width (a # s) \<longrightarrow> cont (drop 1 s)) \<and> (4 \<le> utf8_width (a # s) \<longrightarrow> cont (drop 2 s))"
    using assms by (auto simp: utf8_width_def split: if_splits elim: next_in_cont)
  have h0: "high_bytes 0 s" by (simp add: high_bytes_def)
  have h1: "high_bytes 1 s"
    by (rule high_bytes_next [OF h0]) (simp_all add: w)
  have h2: "high_bytes 2 s" if "3 \<le> utf8_width (a # s)"
    by (rule high_bytes_next [OF h1]) (use w that in simp_all)
  have h3: "high_bytes 3 s" if "4 \<le> utf8_width (a # s)"
    by (rule high_bytes_next [OF h2]) (use w that in simp_all)
  from w have "utf8_width (a # s) = Suc 1 \<or> utf8_width (a # s) = Suc 2 \<or> utf8_width (a # s) = Suc 3"
    by auto
  then show ?thesis
    using that h1 h2 h3 by auto
qed

function utf8_valid :: "string \<Rightarrow> bool" where
  "utf8_valid [] = True"
| "utf8_valid (c # s) = (0 < utf8_width (c # s) \<and> utf8_valid (drop (utf8_width (c # s) - 1) s))"
  by pat_completeness auto
termination by (relation "measure length") auto

lemma utf8_valid_ascii: "\<forall>c \<in> set s. byte c < 128 \<Longrightarrow> utf8_valid s"
  by (induction s) (auto simp: utf8_width_def)

section \<open>JSON strings\<close>

definition hex_digit :: "nat \<Rightarrow> char" where
  "hex_digit n = (if n < 10 then char_of (48 + n) else char_of (87 + n))"

text \<open>The escape of a byte below 128.\<close>

definition json_escape_byte :: "char \<Rightarrow> string" where
  "json_escape_byte c =
     (if c = CHR ''\<newline>'' then [CHR 0x5C, CHR ''n'']
      else if c = CHR 0x0D then [CHR 0x5C, CHR ''r'']
      else if c = CHR 0x09 then [CHR 0x5C, CHR ''t'']
      else if c = CHR 0x22 \<or> c = CHR 0x5C then [CHR 0x5C, c]
      else if byte c < 32 \<or> c = CHR ''<'' \<or> c = CHR ''>'' \<or> c = CHR ''&''
      then [CHR 0x5C, CHR ''u'', CHR ''0'', CHR ''0'', hex_digit (byte c div 16), hex_digit (byte c mod 16)]
      else [c])"

definition line_separator :: "string \<Rightarrow> bool" where
  "line_separator w \<longleftrightarrow> w = [CHR 0xE2, CHR 0x80, CHR 0xA8] \<or> w = [CHR 0xE2, CHR 0x80, CHR 0xA9]"

function json_escape :: "string \<Rightarrow> string" where
  "json_escape [] = []"
| "json_escape (c # s) =
     (if byte c < 128 then json_escape_byte c @ json_escape s
      else if utf8_width (c # s) = 0 then [CHR 0x5C] @ ''ufffd'' @ json_escape s
      else if line_separator (take (utf8_width (c # s)) (c # s))
      then [CHR 0x5C] @ ''u202'' @ [hex_digit (byte (s ! 1) mod 16)] @ json_escape (drop (utf8_width (c # s) - 1) s)
      else take (utf8_width (c # s)) (c # s) @ json_escape (drop (utf8_width (c # s) - 1) s))"
  by pat_completeness auto
termination by (relation "measure length") auto

definition json_string :: "string \<Rightarrow> string" where
  "json_string s = [CHR 0x22] @ json_escape s @ [CHR 0x22]"

text \<open>
  What a JSON parser reads after the opening quote: the string up to the closing one, and the
  rest of the text. Of the escapes \<open>\uXXXX\<close> it knows those that the encoder writes.
\<close>

definition hex_value :: "char \<Rightarrow> nat" where
  "hex_value c = (if byte c < 58 then byte c - 48 else byte c - 87)"

fun json_scan :: "string \<Rightarrow> (string \<times> string) option" where
  "json_scan [] = None"
| "json_scan (c # s) =
     (if c = CHR 0x22 then Some ([], s)
      else if c \<noteq> CHR 0x5C then map_option (apfst ((#) c)) (json_scan s)
      else (case s of
          [] \<Rightarrow> None
        | e # t \<Rightarrow>
            if e = CHR ''n'' then map_option (apfst ((#) (CHR ''\<newline>''))) (json_scan t)
            else if e = CHR ''r'' then map_option (apfst ((#) (CHR 0x0D))) (json_scan t)
            else if e = CHR ''t'' then map_option (apfst ((#) (CHR 0x09))) (json_scan t)
            else if e = CHR 0x22 \<or> e = CHR 0x5C then map_option (apfst ((#) e)) (json_scan t)
            else if e = CHR ''u'' then (case t of
                h1 # h2 # h3 # h4 # u \<Rightarrow>
                  if h1 = CHR ''0'' \<and> h2 = CHR ''0''
                  then map_option (apfst ((#) (char_of (hex_value h3 * 16 + hex_value h4)))) (json_scan u)
                  else if [h1, h2, h3] = ''202''
                  then map_option (apfst ((@) [CHR 0xE2, CHR 0x80, char_of (160 + hex_value h4)])) (json_scan u)
                  else None
              | _ \<Rightarrow> None)
            else None))"

lemma hex_value_digit: "n < 16 \<Longrightarrow> hex_value (hex_digit n) = n"
  by (auto simp: hex_value_def hex_digit_def byte_def)

lemma json_scan_escape_byte:
  assumes "byte c < 128"
  shows "json_scan (json_escape_byte c @ t) = map_option (apfst ((#) c)) (json_scan t)"
proof -
  have "hex_value (hex_digit (byte c div 16)) * 16 + hex_value (hex_digit (byte c mod 16)) = byte c"
    using assms by (simp add: hex_value_digit)
  then show ?thesis
    by (simp add: json_escape_byte_def)
qed

lemma json_scan_high:
  "\<forall>c \<in> set w. 128 \<le> byte c \<Longrightarrow> json_scan (w @ t) = map_option (apfst ((@) w)) (json_scan t)"
proof (induction w)
  case Nil
  then show ?case by (cases "json_scan t") (auto simp: apfst_def map_prod_def)
next
  case (Cons c w)
  then have "c \<noteq> CHR 0x22" "c \<noteq> CHR 0x5C" by (auto simp: byte_def)
  with Cons show ?case by (cases "json_scan t") (auto simp: apfst_def map_prod_def)
qed

lemma separator_chars: "char_of (168 :: nat) = CHR 0xA8" "char_of (169 :: nat) = CHR 0xA9"
  by code_simp+

lemma json_scan_escape:
  "utf8_valid s \<Longrightarrow> json_scan (json_escape s @ [CHR 0x22] @ t) = Some (s, t)"
proof (induction s rule: json_escape.induct)
  case 1
  then show ?case by simp
next
  case (2 c s)
  show ?case
  proof (cases "byte c < 128")
    case True
    with 2 show ?thesis
      by (simp add: json_scan_escape_byte utf8_width_def)
  next
    case False
    have "128 \<le> byte c" "0 < utf8_width (c # s)"
      using False 2(5) by simp_all
    then obtain k where k: "utf8_width (c # s) = Suc k" "high_bytes k s"
      by (rule utf8_width_cases)
    with 2(5) have v: "utf8_valid (drop k s)" by simp
    show ?thesis
    proof (cases "line_separator (take (Suc k) (c # s))")
      case True
      then obtain x where x: "c = CHR 0xE2" "take k s = [CHR 0x80, x]" "x = CHR 0xA8 \<or> x = CHR 0xA9"
        unfolding line_separator_def take_Suc_Cons list.inject by blast
      have "length (take k s) = 2" using x(2) by simp
      with k(2) have k2: "k = 2" by (simp add: high_bytes_def)
      define r where "r = drop 2 s"
      have s: "s = CHR 0x80 # x # r"
        using append_take_drop_id [of 2 s, symmetric] x(2) unfolding k2 r_def
        by (simp del: append_take_drop_id)
      have esc: "json_escape (c # s) = [CHR 0x5C] @ ''u202'' @ [hex_digit (byte x mod 16)] @ json_escape r"
        using False k True s by (simp add: k2)
      have "json_scan (json_escape r @ [CHR 0x22] @ t) = Some (r, t)"
        using 2(3) [OF False] k True v by (simp add: k2 s)
      then show ?thesis
        unfolding esc using x(1,3) by (auto simp: s byte_def hex_digit_def hex_value_def separator_chars)
    next
      case not_sep: False
      have "\<forall>d \<in> set (c # take k s). 128 \<le> byte d"
        using False k(2) by (auto simp: high_bytes_def)
      from json_scan_high [OF this, of "json_escape (drop k s) @ [CHR 0x22] @ t"]
      show ?thesis
        using 2(4) [OF False] False k v not_sep by simp
    qed
  qed
qed

lemma json_scan_string:
  "utf8_valid s \<Longrightarrow> \<exists>u. json_string s @ t = CHR 0x22 # u \<and> json_scan u = Some (s, t)"
  using json_scan_escape [of s t] by (simp add: json_string_def)

end
