(* ===== verification/Docker_Config.thy ===== *)
theory Docker_Config
  imports Go_Encoding "HOL-Library.List_Lexorder"
begin

text \<open>
  \<open>k8s/utils/dockerutils/config.go\<close>: the Docker configuration that holds the credentials of a
  private registry, and its JSON text, which becomes the content of the pull secret. The reader
  of the secret is modelled as the parser of the text that \<open>JSON\<close> writes.
\<close>

definition docker_config_key :: string where
  "docker_config_key = ''.dockerconfigjson''"

record docker_auth =
  da_user :: string
  da_password :: string
  da_auth :: string

record docker_config =
  dc_auths :: "(string \<times> docker_auth) list option"

definition new_docker_config :: "string \<Rightarrow> string \<Rightarrow> string \<Rightarrow> docker_config" where
  "new_docker_config host user password =
     \<lparr>dc_auths = Some [(host, \<lparr>da_user = user, da_password = password,
        da_auth = base64_encode (user @ '':'' @ password)\<rparr>)]\<rparr>"

text \<open>
  \<open>json.Marshal\<close> writes the fields of a struct in their order, under the names of their tags, and
  the entries of a map sorted by key. It cannot fail on these types.
\<close>

definition json_key :: "string \<Rightarrow> string" where
  "json_key k = json_string k @ '':''"

definition auth_json :: "docker_auth \<Rightarrow> string" where
  "auth_json a = ''{'' @ json_key ''username'' @ json_string (da_user a)
     @ '','' @ json_key ''password'' @ json_string (da_password a)
     @ '','' @ json_key ''auth'' @ json_string (da_auth a) @ ''}''"

definition docker_config_json :: "docker_config \<Rightarrow> go_error + string" where
  "docker_config_json c = Inr (''{'' @ json_key ''auths'' @
     (case dc_auths c of
        None \<Rightarrow> ''null''
      | Some m \<Rightarrow> ''{'' @ join '','' (map (\<lambda>(host, a). json_key host @ auth_json a)
          (sort_key (\<lambda>(host, a). map byte host) m)) @ ''}'')
     @ ''}'')"

section \<open>Reading the configuration back\<close>

text \<open>A parser of a literal text, and of a string.\<close>

definition expect :: "string \<Rightarrow> string \<Rightarrow> string option" where
  "expect w t = (if take (length w) t = w then Some (drop (length w) t) else None)"

definition read_string :: "string \<Rightarrow> (string \<times> string) option" where
  "read_string t = (case t of [] \<Rightarrow> None | c # u \<Rightarrow> if c = CHR 0x22 then json_scan u else None)"

definition read_field :: "string \<Rightarrow> string \<Rightarrow> (string \<times> string) option" where
  "read_field name t = Option.bind (expect (json_key name) t) read_string"

definition read_docker_config :: "string \<Rightarrow> (string \<times> docker_auth) option" where
  "read_docker_config t0 =
     Option.bind (expect (''{'' @ json_key ''auths'' @ ''{'') t0) (\<lambda>t1.
     Option.bind (read_string t1) (\<lambda>(host, t2).
     Option.bind (expect '':{'' t2) (\<lambda>t3.
     Option.bind (read_field ''username'' t3) (\<lambda>(user, t4).
     Option.bind (expect '','' t4) (\<lambda>t5.
     Option.bind (read_field ''password'' t5) (\<lambda>(password, t6).
     Option.bind (expect '','' t6) (\<lambda>t7.
     Option.bind (read_field ''auth'' t7) (\<lambda>(auth, t8).
       if t8 = ''}}}'' then Some (host, \<lparr>da_user = user, da_password = password, da_auth = auth\<rparr>)
       else None))))))))"

lemma expect_append [simp]: "expect w (w @ t) = Some t"
  by (simp add: expect_def)

lemma read_string_json [simp]: "utf8_valid s \<Longrightarrow> read_string (json_string s @ t) = Some (s, t)"
  using json_scan_string [of s t] by (auto simp: read_string_def)

lemma read_field_json [simp]:
  "utf8_valid s \<Longrightarrow> read_field name (json_key name @ json_string s @ t) = Some (s, t)"
  by (simp add: read_field_def)

lemma docker_config_json_new:
  "docker_config_json (new_docker_config host user password) = Inr ((''{'' @ json_key ''auths'' @ ''{'')
     @ json_string host @ '':{''
     @ json_key ''username'' @ json_string user @ '',''
     @ json_key ''password'' @ json_string password @ '',''
     @ json_key ''auth'' @ json_string (base64_encode (user @ '':'' @ password)) @ ''}}}'')"
  by (simp add: docker_config_json_def new_docker_config_def auth_json_def json_key_def)

section \<open>Properties\<close>

text \<open>
  C33: the credentials survive the pull secret: a reader of the JSON text that \<open>JSON\<close> makes of
  \<open>NewDockerConfig(host, user, password)\<close> finds one registry, with the same host, user name and
  password, and an \<open>auth\<close> field that decodes to \<open>user:password\<close>, for every three strings that are
  UTF-8, whatever special characters they contain.
\<close>

theorem docker_config_roundtrip:
  assumes "utf8_valid host" "utf8_valid user" "utf8_valid password"
  shows "\<exists>text auth. docker_config_json (new_docker_config host user password) = Inr text
    \<and> read_docker_config text = Some (host, \<lparr>da_user = user, da_password = password, da_auth = auth\<rparr>)
    \<and> base64_decode auth = Some (user @ '':'' @ password)"
proof -
  have "utf8_valid (base64_encode (user @ '':'' @ password))"
    by (rule utf8_valid_ascii [OF base64_ascii])
  then show ?thesis
    unfolding docker_config_json_new read_docker_config_def
    by (simp only: sum.inject ex_simps simp_thms expect_append read_string_json read_field_json assms
        bind.bind_lunit prod.case if_True base64_roundtrip option.inject prod.inject docker_auth.ext_inject)
qed

theorem docker_config_roundtrip_witness:
  "\<exists>text auth. docker_config_json (new_docker_config ''my.io'' ''a<b'' [CHR 0x22, CHR 0x5C]) = Inr text
    \<and> read_docker_config text = Some (''my.io'', \<lparr>da_user = ''a<b'', da_password = [CHR 0x22, CHR 0x5C], da_auth = auth\<rparr>)
    \<and> base64_decode auth = Some (''a<b'' @ '':'' @ [CHR 0x22, CHR 0x5C])"
  by (rule docker_config_roundtrip) (simp_all add: utf8_width_def byte_def)

end
