(* ===== verification/Stset_Desire.thy ===== *)
theory Stset_Desire
  imports Pdb Docker_Config
begin

text \<open>
  \<open>k8s/stset/desire.go\<close>: creating the stateful set of an LRP, with the secret that holds the
  credentials of its private registry before it and its pod disruption budget after it. The
  desirer is a record of the converter and the budget updater it is given (the interfaces
  \<open>LRPToStatefulSetConverter\<close> and \<open>PodDisruptionBudgetUpdater\<close>), the client and the library.
\<close>

section \<open>The desirer\<close>

record 'w stset_desirer =
  de_converter :: "string \<Rightarrow> lrp \<Rightarrow> secret option \<Rightarrow> go_error + stateful_set"
  de_pdb_creator :: "stateful_set \<Rightarrow> lrp \<Rightarrow> ('w, go_error option) io"
  de_client :: "'w client"
  de_lib :: kube_lib

definition new_stset_desirer ::
  "(string \<Rightarrow> lrp \<Rightarrow> secret option \<Rightarrow> go_error + stateful_set) \<Rightarrow>
   (stateful_set \<Rightarrow> lrp \<Rightarrow> ('w, go_error option) io) \<Rightarrow> 'w client \<Rightarrow> kube_lib \<Rightarrow> 'w stset_desirer" where
  "new_stset_desirer converter pdbCreator cl lib =
     \<lparr>de_converter = converter, de_pdb_creator = pdbCreator, de_client = cl, de_lib = lib\<rparr>"

section \<open>The registry secret\<close>

text \<open>The caller has checked that the LRP has a private registry.\<close>

definition generate_registry_creds_secret :: "lrp \<Rightarrow> private_registry \<Rightarrow> go_error + secret" where
  "generate_registry_creds_secret l registry =
     (let dockerConfig = new_docker_config (parse_image_registry_host (ls_image (lr_spec l)))
            (pv_username registry) (pv_password registry)
      in case docker_config_json dockerConfig of
           Inl err \<Rightarrow> Inl (Wrap ''failed to generate privete registry config'' err)
         | Inr dockerConfigJSON \<Rightarrow>
             Inr \<lparr>se_meta = empty_meta
                    \<lparr>om_namespace := om_namespace (lr_meta l),
                     om_generate_name := private_registry_secret_generate_name\<rparr>,
                  se_type = ''kubernetes.io/dockerconfigjson'',
                  se_string_data = Some [(docker_config_key, dockerConfigJSON)]\<rparr>)"

definition create_registry_creds_secret_if_required ::
  "'w client \<Rightarrow> lrp \<Rightarrow> ('w, secret option \<times> go_error option) io" where
  "create_registry_creds_secret_if_required cl l =
     (case ls_private_registry (lr_spec l) of
        None \<Rightarrow> ret (None, None)
      | Some registry \<Rightarrow>
          (case generate_registry_creds_secret l registry of
             Inl err \<Rightarrow> ret (None, Some (Wrap ''failed to generate private registry secret for statefulset'' err))
           | Inr secret \<Rightarrow> do {
               (err, secret) \<leftarrow> create_secret cl secret;
               ret (Some secret, wrap_err ''failed to create private registry secret for statefulset'' err)
             }))"

definition set_secret_owner ::
  "'w client \<Rightarrow> kube_lib \<Rightarrow> secret option \<Rightarrow> stateful_set \<Rightarrow> ('w, go_error option) io" where
  "set_secret_owner cl lib privateRegistrySecret stSet =
     (case privateRegistrySecret of
        None \<Rightarrow> ret None
      | Some secret \<Rightarrow>
          (case set_owner_reference lib ''StatefulSet'' (st_meta stSet) (se_meta secret) of
             Inl err \<Rightarrow> ret (Some (Wrap ''secret-client-set-owner-ref-failed'' err))
           | Inr m \<Rightarrow> do {
               (err, _) \<leftarrow> patch_secret cl (secret\<lparr>se_meta := m\<rparr>) secret;
               ret err
             }))"

text \<open>The result is never nil: it is a pointer to the collected errors.\<close>

definition cleanup_and_error ::
  "'w client \<Rightarrow> kube_lib \<Rightarrow> go_error \<Rightarrow> secret option \<Rightarrow> ('w, go_error option) io" where
  "cleanup_and_error cl lib stsetCreationError privateRegistrySecret =
     (let resultError = multierror_append lib [] (Some stsetCreationError)
      in case privateRegistrySecret of
           None \<Rightarrow> ret (Some (MultiError resultError))
         | Some secret \<Rightarrow> do {
             err \<leftarrow> delete_secret cl secret;
             ret (Some (MultiError
               (case err of
                  None \<Rightarrow> resultError
                | Some e \<Rightarrow> multierror_append lib resultError
                    (Some (Wrap ''failed to cleanup registry secret'' e)))))
           })"

section \<open>Desire\<close>

definition desire :: "'w stset_desirer \<Rightarrow> lrp \<Rightarrow> ('w, go_error option) io" where
  "desire d l =
     (case get_statefulset_name l of
        Inl err \<Rightarrow> ret (Some err)
      | Inr statefulSetName \<Rightarrow> do {
          (privateRegistrySecret, err) \<leftarrow> create_registry_creds_secret_if_required (de_client d) l;
          case err of
            Some err \<Rightarrow> ret (Some err)
          | None \<Rightarrow>
              (case de_converter d statefulSetName l privateRegistrySecret of
                 Inl err \<Rightarrow> ret (Some err)
               | Inr st \<Rightarrow>
                   (let st = st\<lparr>st_meta := (st_meta st)\<lparr>om_namespace := om_namespace (lr_meta l)\<rparr>\<rparr>
                    in case set_controller_reference (de_lib d) ''LRP'' (lr_meta l) (st_meta st) of
                         Inl err \<Rightarrow> ret (Some (Wrap ''failed to set controller reference'' err))
                       | Inr m \<Rightarrow> do {
                           (err, st) \<leftarrow> create_stset (de_client d) (st\<lparr>st_meta := m\<rparr>);
                           case err of
                             Some err \<Rightarrow>
                               if as_status_error err = Some ''AlreadyExists'' then ret None
                               else cleanup_and_error (de_client d) (de_lib d)
                                 (Wrap ''failed to create statefulset'' err) privateRegistrySecret
                           | None \<Rightarrow> do {
                               err \<leftarrow> set_secret_owner (de_client d) (de_lib d) privateRegistrySecret st;
                               case err of
                                 Some err \<Rightarrow> ret (Some (Wrap ''failed to set owner to the registry secret'' err))
                               | None \<Rightarrow> do {
                                   err \<leftarrow> de_pdb_creator d st l;
                                   ret (wrap_err ''failed to create pod disruption budget'' err)
                                 }
                             }
                         }))
        })"

section \<open>The contract of a desirer\<close>

text \<open>
  The secret that desiring an LRP creates from a world: what the server answers to the creation of
  the secret generated for the private registry of the LRP, none when it has no such registry.
\<close>

definition created_secret :: "'w client \<Rightarrow> lrp \<Rightarrow> 'w \<Rightarrow> secret option" where
  "created_secret cl l w =
     (case ls_private_registry (lr_spec l) of
        None \<Rightarrow> None
      | Some r \<Rightarrow> (case generate_registry_creds_secret l r of
          Inl _ \<Rightarrow> None | Inr s \<Rightarrow> Some (snd (result (create_secret cl s) w))))"

text \<open>
  The calls by which an LRP may be desired, when \<open>sec\<close> is the secret created for it: in the
  namespace of the LRP, the creation of the secret of its registry, a change of the owners of that
  secret or its deletion, the creation of its stateful set as the LRP describes it, pulling with
  that secret, and of its budget.
\<close>

fun desire_call :: "secret option \<Rightarrow> lrp \<Rightarrow> api_call \<Rightarrow> bool" where
  "desire_call sec l (CreateSecret s) =
     (om_namespace (se_meta s) = om_namespace (lr_meta l) \<and>
      (\<exists>r. ls_private_registry (lr_spec l) = Some r \<and> generate_registry_creds_secret l r = Inr s))"
| "desire_call sec l (PatchSecret n old) =
     (sec = Some old \<and> om_namespace (se_meta n) = om_namespace (lr_meta l) \<and>
      n\<lparr>se_meta := (se_meta n)\<lparr>om_owner_references := om_owner_references (se_meta old)\<rparr>\<rparr> = old)"
| "desire_call sec l (DeleteSecret s) =
     (sec = Some s \<and> om_namespace (se_meta s) = om_namespace (lr_meta l))"
| "desire_call sec l (CreateStset st) =
     (om_namespace (st_meta st) = om_namespace (lr_meta l) \<and>
      get_statefulset_name l = Inr (om_name (st_meta st)) \<and>
      st_replicas st = Some (to_int32 (ls_instances (lr_spec l))) \<and>
      st_selector st = Some (stset_label_selector l) \<and>
      (\<forall>(k, v) \<in> set (entries (st_selector st)). map_get (pt_labels (st_template st)) k = v) \<and>
      (\<forall>co \<in> set (ps_containers (pt_spec (st_template st))). co_image co = ls_image (lr_spec l)) \<and>
      (\<forall>s. sec = Some s \<longrightarrow> om_name (se_meta s) \<in> set (ps_image_pull_secrets (pt_spec (st_template st)))))"
| "desire_call sec l (CreatePDB p) =
     (\<exists>n. get_statefulset_name l = Inr n \<and> meta_key (pd_meta p) = (om_namespace (lr_meta l), n))"
| "desire_call sec l (DeleteAllPDBs ns n) =
     (ns = om_namespace (lr_meta l) \<and> get_statefulset_name l = Inr n)"
| "desire_call sec l _ = False"

lemma desire_call_namespace: "desire_call sec l c \<Longrightarrow> in_namespace (om_namespace (lr_meta l)) c"
  by (cases c) auto

locale lrp_desirer =
  fixes laws :: bool
    and des :: "lrp \<Rightarrow> ('w logged_world, go_error option) io"
  assumes own_calls: "laws \<Longrightarrow> calls (\<lambda>c. \<exists>sec. desire_call sec l c) (des l) (\<lambda>_. True)"
begin

lemma stays_in_namespace:
  "laws \<Longrightarrow> calls (in_namespace (om_namespace (lr_meta l))) (des l) (\<lambda>_. True)"
  by (rule calls_subset [OF own_calls]) (auto dest: desire_call_namespace)

end

section \<open>Desiring with any converter and updater\<close>

text \<open>
  The desirer meets its contract with every converter and every budget updater that meet theirs.
\<close>

lemma calls_create_secret:
  "calls_at (desire_call (created_secret cl l w) l) w (create_registry_creds_secret_if_required (logged cl) l)
    (\<lambda>r. snd r = None \<longrightarrow> fst r = created_secret cl l w)"
proof (cases "ls_private_registry (lr_spec l)")
  case None
  then show ?thesis
    by (simp add: create_registry_creds_secret_if_required_def created_secret_def calls_at_ret)
next
  case (Some r)
  show ?thesis
  proof (cases "generate_registry_creds_secret l r")
    case (Inl e)
    with Some show ?thesis
      by (simp add: create_registry_creds_secret_if_required_def calls_at_ret)
  next
    case (Inr s)
    then have "om_namespace (se_meta s) = om_namespace (lr_meta l)"
      by (auto simp: generate_registry_creds_secret_def Let_def split: sum.splits)
    with Some Inr have call: "calls_at (desire_call (created_secret cl l w) l) w
        (log_call (CreateSecret s) (create_secret cl s)) (\<lambda>r. Some (snd r) = created_secret cl l w)"
      by (intro calls_at_log_call) (simp_all add: created_secret_def)
    from Some Inr show ?thesis
      by (simp add: create_registry_creds_secret_if_required_def)
        (rule calls_at_bind [OF call], auto intro!: calls_ret calls_case_prod)
  qed
qed

lemma created_secret_namespace:
  assumes "key_laws cl" "created_secret cl l w = Some s"
  shows "om_namespace (se_meta s) = om_namespace (lr_meta l)"
  using assms by (auto simp: created_secret_def key_laws_def generate_registry_creds_secret_def Let_def
    split: option.splits sum.splits)

lemma calls_set_secret_owner:
  assumes "owner_laws lib" and "\<forall>s. sec = Some s \<longrightarrow> om_namespace (se_meta s) = om_namespace (lr_meta l)"
  shows "calls (desire_call sec l) (set_secret_owner (logged cl) lib sec st) (\<lambda>_. True)"
proof -
  have "desire_call sec l (PatchSecret (s\<lparr>se_meta := m\<rparr>) s)"
    if "sec = Some s" "set_owner_reference lib k ow (se_meta s) = Inr m" for s k ow m
    using assms that owner_namespace(2) [OF assms(1) that(2)]
    by (auto simp: owner_laws_def)
  then show ?thesis
    unfolding set_secret_owner_def logged_simps
    by (intro calls_intros TrueI) auto
qed

lemma calls_cleanup:
  assumes "\<forall>s. sec = Some s \<longrightarrow> om_namespace (se_meta s) = om_namespace (lr_meta l)"
  shows "calls (desire_call sec l) (cleanup_and_error (logged cl) lib e sec) (\<lambda>_. True)"
  unfolding cleanup_and_error_def logged_simps Let_def
  by (intro calls_intros TrueI) (use assms in auto)

locale stset_desiring = lrp_to_stset_converter conv + pdb_updater lib upd
  for conv lib and upd :: "stateful_set \<Rightarrow> lrp \<Rightarrow> ('w logged_world, go_error option) io"
begin

lemma calls_create_stset:
  assumes "owner_laws lib" "key_laws cl" "get_statefulset_name l = Inr n" "conv n l sec = Inr st"
    and "set_controller_reference lib k ow ((st_meta st)\<lparr>om_namespace := om_namespace (lr_meta l)\<rparr>) = Inr m"
    and "st' = st\<lparr>st_meta := (st_meta st)\<lparr>om_namespace := om_namespace (lr_meta l)\<rparr>\<rparr>"
  shows "calls (desire_call sec l)
      (log_call (CreateStset (st'\<lparr>st_meta := m\<rparr>)) (create_stset cl (st'\<lparr>st_meta := m\<rparr>)))
      (\<lambda>r. meta_key (st_meta (snd r)) = (om_namespace (lr_meta l), n))"
proof -
  have key: "meta_key m = (om_namespace (lr_meta l), n)"
    using owner_namespace(1) [OF assms(1,5)] name [OF assms(4)] by simp
  have "desire_call sec l (CreateStset (st'\<lparr>st_meta := m\<rparr>))"
    using key assms(3,4,6) replicas [OF assms(4)] selector [OF assms(4)] selects_own_pods [OF assms(4)]
      images [OF assms(4)] pull_secret [of n l _ st] by auto
  then show ?thesis
    using key assms(2)
    by (intro calls_answer [where Q = "\<lambda>x. meta_key (st_meta x) = (om_namespace (lr_meta l), n)"])
      (simp_all add: key_laws_def)
qed

lemma desire_calls_at:
  assumes "owner_laws lib" "key_laws cl"
  shows "calls_at (desire_call (created_secret cl l w) l) w
    (desire (new_stset_desirer conv upd (logged cl) lib) l) (\<lambda>_. True)"
proof (cases "get_statefulset_name l")
  case (Inl e)
  then show ?thesis by (simp add: desire_def calls_at_ret)
next
  case (Inr n)
  let ?sec = "created_secret cl l w"
  have budget: "own_budget_call (om_namespace (lr_meta l), n) c \<Longrightarrow> desire_call ?sec l c" for c
    using Inr by (cases c) auto
  have upd: "calls (desire_call ?sec l) (upd st l) (\<lambda>_. True)"
    if "meta_key (st_meta st) = (om_namespace (lr_meta l), n)" for st
    using own_budget [OF assms(1), of st l] budget that by (auto intro: calls_subset)
  have ns: "\<forall>s. ?sec = Some s \<longrightarrow> om_namespace (se_meta s) = om_namespace (lr_meta l)"
    using created_secret_namespace [OF assms(2)] by blast
  show ?thesis
    unfolding desire_def new_stset_desirer_def stset_desirer.simps Inr sum.case Let_def
  proof (rule calls_at_bind [OF calls_create_secret], goal_cases)
    case (1 r)
    obtain sec err where r: "r = (sec, err)" by (cases r)
    show ?case
    proof (cases err)
      case (Some e)
      then show ?thesis by (simp add: r calls_ret)
    next
      case None
      with 1 r have sec: "sec = ?sec" by simp
      show ?thesis
        unfolding r prod.case None option.case sec logged_simps
        by (intro calls_case_sum calls_case_option calls_case_prod calls_if calls_ret TrueI
          calls_bind [OF calls_create_stset [OF assms Inr _ _ refl]]
          calls_bind [OF calls_set_secret_owner [OF assms(1) ns]] calls_cleanup [OF ns] calls_bind [OF upd]) auto
    qed
  qed
qed

lemma desire_own_calls:
  assumes "owner_laws lib" "key_laws cl"
  shows "calls (\<lambda>c. \<exists>sec. desire_call sec l c) (desire (new_stset_desirer conv upd (logged cl) lib) l) (\<lambda>_. True)"
  unfolding calls_iff_at by (intro allI calls_at_weaken [OF desire_calls_at [OF assms]]) auto

end

section \<open>The desirer of the controller\<close>

text \<open>The desirer with the converter and the budget updater that the controller wires into it.\<close>

definition controller_desirer ::
  "stset_converter_config \<Rightarrow> range_order \<Rightarrow> 'w client \<Rightarrow> kube_lib \<Rightarrow> 'w stset_desirer" where
  "controller_desirer c rng cl lib = new_stset_desirer (convert c rng) (pdb_update cl lib) cl lib"

interpretation desiring: stset_desiring "convert c rng" lib "pdb_update (logged cl) lib" for c rng lib cl
  by unfold_locales

interpretation desirer: lrp_desirer "owner_laws lib \<and> key_laws cl"
  "desire (controller_desirer c rng (logged cl) lib)" for lib cl c rng
  by unfold_locales (simp add: controller_desirer_def desiring.desire_own_calls)

lemma run_result: "run_state m w = (result m w, snd (run_state m w))"
  by (simp add: result_def)

lemmas desire_unfold =
  controller_desirer_def new_stset_desirer_def desire_def create_registry_creds_secret_if_required_def
  Let_def trace_def result_def

text \<open>The metadata that a converted stateful set has when its controller is set.\<close>

abbreviation desired_meta :: "lrp \<Rightarrow> stateful_set \<Rightarrow> object_meta" where
  "desired_meta l st \<equiv> (st_meta st)\<lparr>om_namespace := om_namespace (lr_meta l)\<rparr>"

text \<open>The desirer up to the creation of the stateful set, when there is a private registry.\<close>

lemma desire_private_registry:
  assumes "ls_private_registry (lr_spec l) = Some r" and "generate_registry_creds_secret l r = Inr s"
    and "run_state (create_secret cl s) w = ((None, s'), w1)"
  obtains n st where "get_statefulset_name l = Inr n" "convert c rng n l (Some s') = Inr st"
    "run_state (desire (controller_desirer c rng (logged cl) lib) l) (w, []) =
      (case set_controller_reference lib ''LRP'' (lr_meta l) (desired_meta l st) of
         Inl e \<Rightarrow> (Some (Wrap ''failed to set controller reference'' e), (w1, [CreateSecret s]))
       | Inr m \<Rightarrow>
           (case run_state (create_stset cl (st\<lparr>st_meta := m\<rparr>)) w1 of
              ((Some e, _), w2) \<Rightarrow>
                if as_status_error e = Some ''AlreadyExists''
                then (None, (w2, [CreateSecret s, CreateStset (st\<lparr>st_meta := m\<rparr>)]))
                else run_state (cleanup_and_error (logged cl) lib (Wrap ''failed to create statefulset'' e) (Some s'))
                  (w2, [CreateSecret s, CreateStset (st\<lparr>st_meta := m\<rparr>)])
            | ((None, st'), w2) \<Rightarrow>
                run_state (do {
                  err \<leftarrow> set_secret_owner (logged cl) lib (Some s') st';
                  case err of
                    Some err \<Rightarrow> ret (Some (Wrap ''failed to set owner to the registry secret'' err))
                  | None \<Rightarrow> do {
                      err \<leftarrow> pdb_update (logged cl) lib st' l;
                      ret (wrap_err ''failed to create pod disruption budget'' err)
                    }
                }) (w2, [CreateSecret s, CreateStset (st\<lparr>st_meta := m\<rparr>)])))"
proof -
  obtain n where n: "get_statefulset_name l = Inr n"
    by (rule get_statefulset_name_eq) blast
  obtain st where st: "convert c rng n l (Some s') = Inr st"
    by (simp add: convert_unfold)
  show ?thesis
    by (rule that [OF n st]) (use assms n st in \<open>auto simp: desire_unfold split: sum.splits prod.splits option.splits\<close>)
qed

text \<open>A converted stateful set has no owner yet, so that the LRP can be made its controller.\<close>

lemma converted_controllable:
  assumes "owners_settable lib" "convert c rng n l sec = Inr st"
  obtains m where "set_controller_reference lib ''LRP'' (lr_meta l) (desired_meta l st) = Inr m"
  using owner_set(1) [OF assms(1), of "''LRP''" "lr_meta l" "desired_meta l st"] converter.fresh [OF assms(2)]
  by (auto simp: placeable_def uncontrolled_def)

section \<open>Properties\<close>

text \<open>
  C5: desiring an LRP touches nothing but what belongs to it, from every state of the cluster and
  whatever fails on the way: the calls create the secret of its registry (with its credentials);
  set the owner of the very secret that the server answered with (and change nothing else in it) or
  delete it, and no other; create the stateful set of its name, with its number of instances, its
  image in every container, a selector that matches the labels of its pods, and that secret to pull
  with; and create or delete the budget of that name; all in the namespace of the LRP.
\<close>

theorem desire_only_own_objects:
  assumes "owner_laws lib" and "key_laws cl"
  shows "list_all (desire_call (created_secret cl l w) l)
    (trace (desire (controller_desirer c rng (logged cl) lib) l) w)"
  unfolding controller_desirer_def by (rule calls_at_trace [OF desiring.desire_calls_at [OF assms], THEN conjunct1])

text \<open>
  C19: an LRP whose stateful set cannot be created. The error of the API server is returned and the
  secret that was created for the LRP is deleted; an error of the deletion is reported as well. But
  when it is the LRP that cannot be made the controller of the stateful set, so that it is not even
  sent, the error is returned at once and the secret stays behind.
\<close>

theorem desire_failure_cleans_up:
  assumes "multierror_laws lib"
    and "ls_private_registry (lr_spec l) = Some r" "generate_registry_creds_secret l r = Inr s"
    and "run_state (create_secret cl s) w = ((None, s'), w1)"
    and "\<And>st. fst (result (create_stset cl st) w1) = Some e" "as_status_error e \<noteq> Some ''AlreadyExists''"
  shows "\<exists>n st. get_statefulset_name l = Inr n \<and> convert c rng n l (Some s') = Inr st \<and>
    (case set_controller_reference lib ''LRP'' (lr_meta l) ((st_meta st)\<lparr>om_namespace := om_namespace (lr_meta l)\<rparr>) of
       Inl e0 \<Rightarrow> run_state (desire (controller_desirer c rng (logged cl) lib) l) (w, []) =
         (Some (Wrap ''failed to set controller reference'' e0), (w1, [CreateSecret s]))
     | Inr m \<Rightarrow> \<exists>es. run_state (desire (controller_desirer c rng (logged cl) lib) l) (w, []) =
         (Some (MultiError (Wrap ''failed to create statefulset'' e # es)),
          (snd (run_state (delete_secret cl s') (snd (run_state (create_stset cl (st\<lparr>st_meta := m\<rparr>)) w1))),
           [CreateSecret s, CreateStset (st\<lparr>st_meta := m\<rparr>), DeleteSecret s']))
       \<and> (es = []) = (result (delete_secret cl s') (snd (run_state (create_stset cl (st\<lparr>st_meta := m\<rparr>)) w1)) = None))"
proof (rule desire_private_registry [OF assms(2-4), of c rng lib], goal_cases)
  case (1 n st)
  have cleanup: "\<exists>es. run_state (cleanup_and_error (logged cl) lib (Wrap ''failed to create statefulset'' e) (Some s')) (w2, cs)
      = (Some (MultiError (Wrap ''failed to create statefulset'' e # es)),
          (snd (run_state (delete_secret cl s') w2), cs @ [DeleteSecret s']))
      \<and> (es = []) = (result (delete_secret cl s') w2 = None)" for w2 cs
    using assms(1)
    by (auto simp: cleanup_and_error_def multierror_laws_def result_def Let_def split: prod.split option.split)
  show ?case
  proof (cases "set_controller_reference lib ''LRP'' (lr_meta l) (desired_meta l st)")
    case (Inl e0)
    with 1 show ?thesis by (intro exI [of _ n] exI [of _ st]) simp
  next
    case (Inr m)
    obtain st' w2 where st': "run_state (create_stset cl (st\<lparr>st_meta := m\<rparr>)) w1 = ((Some e, st'), w2)"
      using assms(5) [of "st\<lparr>st_meta := m\<rparr>"] unfolding result_def by (metis prod.collapse)
    with 1 Inr assms(6) cleanup [of w2 "[CreateSecret s, CreateStset (st\<lparr>st_meta := m\<rparr>)]"] show ?thesis
      by (intro exI [of _ n] exI [of _ st]) simp
  qed
qed

text \<open>
  C38: when the stateful set turns out to exist already, the LRP counts as desired and nothing is
  cleaned up: the secret that was just created for it stays behind, without an owner.
\<close>

theorem desire_existing_keeps_secret:
  assumes "owners_settable lib"
    and "ls_private_registry (lr_spec l) = Some r" "generate_registry_creds_secret l r = Inr s"
    and "run_state (create_secret cl s) w = ((None, s'), w1)"
    and "\<And>st. fst (result (create_stset cl st) w1) = Some e" "as_status_error e = Some ''AlreadyExists''"
  shows "result (desire (controller_desirer c rng (logged cl) lib) l) (w, []) = None
    \<and> (\<exists>st. trace (desire (controller_desirer c rng (logged cl) lib) l) w = [CreateSecret s, CreateStset st])"
proof (rule desire_private_registry [OF assms(2-4), of c rng lib], goal_cases)
  case (1 n st)
  obtain m where m: "set_controller_reference lib ''LRP'' (lr_meta l) (desired_meta l st) = Inr m"
    by (rule converted_controllable [OF assms(1) 1(2)])
  obtain st' w2 where "run_state (create_stset cl (st\<lparr>st_meta := m\<rparr>)) w1 = ((Some e, st'), w2)"
    using assms(5) [of "st\<lparr>st_meta := m\<rparr>"] unfolding result_def by (metis prod.collapse)
  with 1 m assms(6) show ?case by (simp add: result_def trace_def)
qed

text \<open>
  C18: when nothing fails, an LRP with a private registry and several instances gets, in this
  order, the secret, the stateful set, whose pods pull with that very secret, the stateful set as
  the owner of the secret, and the budget of the name of the stateful set.
\<close>

theorem desire_creates_everything:
  assumes "owner_laws lib" "owners_settable lib" "key_laws cl"
    and "ls_private_registry (lr_spec l) = Some r" "generate_registry_creds_secret l r = Inr s"
    and "1 < sint (ls_instances (lr_spec l))"
    and "run_state (create_secret cl s) w = ((None, s'), w1)"
    and "\<And>st w. fst (result (create_stset cl st) w) = None"
    and "\<And>n old w. fst (result (patch_secret cl n old) w) = None"
    and "\<And>p w. fst (result (create_pdb cl p) w) = None"
  shows "\<exists>st n p. run_state (desire (controller_desirer c rng (logged cl) lib) l) (w, []) =
        (None, (snd (run_state (create_pdb cl p) (snd (run_state (patch_secret cl n s')
                  (snd (run_state (create_stset cl st) w1))))),
          [CreateSecret s, CreateStset st, PatchSecret n s', CreatePDB p]))
      \<and> om_name (se_meta s') \<in> set (ps_image_pull_secrets (pt_spec (st_template st)))
      \<and> set_owner_reference lib ''StatefulSet'' (st_meta (snd (result (create_stset cl st) w1))) (se_meta s')
          = Inr (se_meta n)
      \<and> meta_key (pd_meta p) = meta_key (st_meta st)"
proof (rule desire_private_registry [OF assms(4,5,7), of c rng lib], goal_cases)
  case (1 n st0)
  obtain m where m: "set_controller_reference lib ''LRP'' (lr_meta l) (desired_meta l st0) = Inr m"
    by (rule converted_controllable [OF assms(2) 1(2)])
  let ?st = "st0\<lparr>st_meta := m\<rparr>"
  have ns: "om_namespace m = om_namespace (lr_meta l)"
    using owner_namespace(1) [OF assms(1) m] by simp
  obtain st' w2 where st': "run_state (create_stset cl ?st) w1 = ((None, st'), w2)"
    using assms(8) [of ?st w1] unfolding result_def by (metis prod.collapse)
  have st'_key: "meta_key (st_meta st') = meta_key m"
    using create_stset_key [OF assms(3), of ?st w1] st' by (simp add: result_def)
  have "created_secret cl l w = Some s'"
    using assms(4,5,7) by (simp add: created_secret_def result_def)
  then have "om_namespace (se_meta s') = om_namespace (lr_meta l)"
    by (rule created_secret_namespace [OF assms(3)])
  then obtain ms where ms: "set_owner_reference lib ''StatefulSet'' (st_meta st') (se_meta s') = Inr ms"
    using owner_set(2) [OF assms(2), of "''StatefulSet''" "st_meta st'" "se_meta s'"] st'_key ns
    by (auto simp: placeable_def)
  let ?n = "s'\<lparr>se_meta := ms\<rparr>"
  obtain n' w3 where n': "run_state (patch_secret cl ?n s') w2 = ((None, n'), w3)"
    using assms(9) [of ?n s' w2] unfolding result_def by (metis prod.collapse)
  obtain mp where mp: "set_owner_reference lib ''StatefulSet'' (st_meta st') (pd_meta (new_pdb st' l)) = Inr mp"
    using owner_set(2) [OF assms(2), of "''StatefulSet''" "st_meta st'" "pd_meta (new_pdb st' l)"]
    by (auto simp: placeable_def new_pdb_def)
  let ?p = "new_pdb st' l\<lparr>pd_meta := mp\<rparr>"
  obtain p' w4 where p': "run_state (create_pdb cl ?p) w3 = ((None, p'), w4)"
    using assms(10) [of ?p w3] unfolding result_def by (metis prod.collapse)
  have key: "meta_key (pd_meta ?p) = meta_key (st_meta ?st)"
    using owner_namespace(2) [OF assms(1) mp] st'_key by simp
  have pull: "om_name (se_meta s') \<in> set (ps_image_pull_secrets (pt_spec (st_template ?st)))"
    using converter.pull_secret [OF 1(2)] by simp
  show ?case
    by (rule exI [of _ ?st], rule exI [of _ ?n], rule exI [of _ ?p])
      (use 1(3) m st' n' p' ms mp assms(6) key pull in
        \<open>simp add: set_secret_owner_def pdb_update_def pdb_create_def Let_def result_def\<close>)
qed

section \<open>Witnesses\<close>

definition private_lrp :: lrp where
  "private_lrp = sample_lrp\<lparr>lr_spec := sample_lrp_spec
     \<lparr>ls_private_registry := Some \<lparr>pv_username = ''user'', pv_password = ''secret''\<rparr>\<rparr>\<rparr>"

definition refusing_client :: "string \<Rightarrow> gotime client" where
  "refusing_client reason = sample_client\<lparr>create_stset := \<lambda>x. ret (Some (StatusError reason ''no''), x)\<rparr>"

lemma private_lrp_secret:
  obtains r s where "ls_private_registry (lr_spec private_lrp) = Some r"
    "generate_registry_creds_secret private_lrp r = Inr s"
  by (simp add: private_lrp_def generate_registry_creds_secret_def docker_config_json_def Let_def)

theorem desire_only_own_objects_witness:
  "created_secret sample_client private_lrp 0 \<noteq> None \<and>
   list_all (desire_call (created_secret sample_client private_lrp 0) private_lrp)
     (trace (desire (controller_desirer sample_converter (\<lambda>_ m. m) (logged sample_client) sample_lib) private_lrp) 0)"
proof
  show "created_secret sample_client private_lrp 0 \<noteq> None"
    by (simp add: created_secret_def private_lrp_def generate_registry_creds_secret_def docker_config_json_def Let_def)
qed (rule desire_only_own_objects [OF sample_owner_laws sample_key_laws])

definition refusing_lib :: kube_lib where
  "refusing_lib = sample_lib\<lparr>set_controller_reference := \<lambda>k ow m. owner_refused\<rparr>"

theorem desire_failure_cleans_up_witness:
  "(\<exists>st s s' es. run_state (desire (controller_desirer sample_converter (\<lambda>_ m. m)
          (logged (refusing_client ''Forbidden'')) sample_lib) private_lrp) (0, []) =
      (Some (MultiError (Wrap ''failed to create statefulset'' (StatusError ''Forbidden'' ''no'') # es)),
       (0, [CreateSecret s, CreateStset st, DeleteSecret s'])))
   \<and> (\<exists>s e. run_state (desire (controller_desirer sample_converter (\<lambda>_ m. m)
          (logged (refusing_client ''Forbidden'')) refusing_lib) private_lrp) (0, []) =
      (Some (Wrap ''failed to set controller reference'' e), (0, [CreateSecret s])))"
proof -
  obtain r s where s: "ls_private_registry (lr_spec private_lrp) = Some r"
    "generate_registry_creds_secret private_lrp r = Inr s"
    by (rule private_lrp_secret)
  let ?cl = "refusing_client ''Forbidden''"
  obtain s' where s': "run_state (create_secret ?cl s) 0 = ((None, s'), 0)"
    by (simp add: refusing_client_def sample_client_def)
  have no_stset: "\<And>st. fst (result (create_stset ?cl st) 0) = Some (StatusError ''Forbidden'' ''no'')"
    by (simp add: refusing_client_def)
  have other: "as_status_error (StatusError ''Forbidden'' ''no'') \<noteq> Some ''AlreadyExists''" by simp
  have world: "snd (run_state (delete_secret ?cl s') (snd (run_state (create_stset ?cl st) 0))) = 0" for st
    by (simp add: refusing_client_def sample_client_def)
  have laws: "multierror_laws refusing_lib"
    using sample_multierror_laws by (simp add: multierror_laws_def refusing_lib_def)
  show ?thesis
  proof
    from desire_failure_cleans_up [OF sample_multierror_laws s s' no_stset other, of sample_converter "\<lambda>_ m. m"]
    show "\<exists>st s s' es. run_state (desire (controller_desirer sample_converter (\<lambda>_ m. m)
          (logged ?cl) sample_lib) private_lrp) (0, []) =
      (Some (MultiError (Wrap ''failed to create statefulset'' (StatusError ''Forbidden'' ''no'') # es)),
       (0, [CreateSecret s, CreateStset st, DeleteSecret s']))"
    proof (elim exE conjE, goal_cases)
      case (1 n st)
      obtain m where "set_controller_reference sample_lib ''LRP'' (lr_meta private_lrp) (desired_meta private_lrp st) = Inr m"
        by (rule converted_controllable [OF sample_owners_settable 1(2)])
      with 1(3) show ?case unfolding world by (simp only: sum.case) blast
    qed
  next
    from desire_failure_cleans_up [OF laws s s' no_stset other, of sample_converter "\<lambda>_ m. m"]
    show "\<exists>s e. run_state (desire (controller_desirer sample_converter (\<lambda>_ m. m) (logged ?cl) refusing_lib) private_lrp) (0, []) =
      (Some (Wrap ''failed to set controller reference'' e), (0, [CreateSecret s]))"
      by (auto simp: refusing_lib_def owner_refused_def)
  qed
qed

theorem desire_existing_keeps_secret_witness:
  "\<exists>s st. trace (desire (controller_desirer sample_converter (\<lambda>_ m. m)
       (logged (refusing_client ''AlreadyExists'')) sample_lib) private_lrp) 0 = [CreateSecret s, CreateStset st]"
proof -
  obtain r s where s: "ls_private_registry (lr_spec private_lrp) = Some r"
    "generate_registry_creds_secret private_lrp r = Inr s"
    by (rule private_lrp_secret)
  let ?cl = "refusing_client ''AlreadyExists''"
  obtain s' where s': "run_state (create_secret ?cl s) 0 = ((None, s'), 0)"
    by (simp add: refusing_client_def sample_client_def)
  have no_stset: "\<And>st. fst (result (create_stset ?cl st) 0) = Some (StatusError ''AlreadyExists'' ''no'')"
    by (simp add: refusing_client_def)
  have exists: "as_status_error (StatusError ''AlreadyExists'' ''no'') = Some ''AlreadyExists''" by simp
  show ?thesis
    using desire_existing_keeps_secret [OF sample_owners_settable s s' no_stset exists,
        of sample_converter "\<lambda>_ m. m"] by blast
qed

theorem desire_creates_everything_witness:
  "\<exists>s s' st n p. trace (desire (controller_desirer sample_converter (\<lambda>_ m. m) (logged sample_client) sample_lib)
       private_lrp) 0 = [CreateSecret s, CreateStset st, PatchSecret n s', CreatePDB p]
     \<and> om_name (se_meta s') \<in> set (ps_image_pull_secrets (pt_spec (st_template st)))"
proof -
  obtain r s where s: "ls_private_registry (lr_spec private_lrp) = Some r"
    "generate_registry_creds_secret private_lrp r = Inr s"
    by (rule private_lrp_secret)
  obtain s' where s': "run_state (create_secret sample_client s) 0 = ((None, s'), 0)"
    by (simp add: sample_client_def)
  have two: "1 < sint (ls_instances (lr_spec private_lrp))"
    by (simp add: private_lrp_def sample_defs)
  have ok: "\<And>st w. fst (result (create_stset sample_client st) w) = None"
    "\<And>n old w. fst (result (patch_secret sample_client n old) w) = None"
    "\<And>p w. fst (result (create_pdb sample_client p) w) = None"
    by (simp_all add: sample_client_def)
  from desire_creates_everything [OF sample_owner_laws sample_owners_settable sample_key_laws s two s' ok,
      of sample_converter "\<lambda>_ m. m"]
  show ?thesis unfolding trace_def by (metis snd_conv)
qed

end
