(* ===== verification/Stset_Update.thy ===== *)
theory Stset_Update
  imports Stset_Desire
begin

text \<open>
  \<open>k8s/stset/update.go\<close>: bringing the stateful set of an LRP up to date with it. Only the number
  of replicas and the image of the application container are ever changed, which is what the
  admission webhook lets a user change. The locale \<open>lrp_updater\<close> is the contract of the
  interface \<open>LRPUpdater\<close> of the reconciler.
\<close>

section \<open>Definitions\<close>

record 'w stset_updater =
  up_client :: "'w client"
  up_pdb_updater :: "stateful_set \<Rightarrow> lrp \<Rightarrow> ('w, go_error option) io"

definition new_stset_updater ::
  "'w client \<Rightarrow> (stateful_set \<Rightarrow> lrp \<Rightarrow> ('w, go_error option) io) \<Rightarrow> 'w stset_updater" where
  "new_stset_updater cl pdbUpdater = \<lparr>up_client = cl, up_pdb_updater = pdbUpdater\<rparr>"

text \<open>The loop over the containers: the containers after it, and whether it changed any.\<close>

fun update_app_image :: "string \<Rightarrow> container list \<Rightarrow> container list \<times> bool" where
  "update_app_image img [] = ([], False)"
| "update_app_image img (co # cs) =
     (let (cs', updated) = update_app_image img cs
      in if co_name co = application_container_name \<and> co_image co \<noteq> img
         then (co\<lparr>co_image := img\<rparr> # cs', True)
         else (co # cs', updated))"

text \<open>A stateful set without a number of replicas is a nil pointer that the code follows.\<close>

definition get_updated_stset_obj :: "stateful_set \<Rightarrow> i64 \<Rightarrow> string \<Rightarrow> (stateful_set \<times> bool) outcome" where
  "get_updated_stset_obj sts instances img =
     (case st_replicas sts of
        None \<Rightarrow> Panics
      | Some replicas \<Rightarrow>
          (let count = to_int32 instances;
               updated = (replicas \<noteq> count);
               updatedSts = (if replicas \<noteq> count then sts\<lparr>st_replicas := Some count\<rparr> else sts)
           in if img \<noteq> [] then
                (let spec = pt_spec (st_template updatedSts);
                     (cs, changed) = update_app_image img (ps_containers spec)
                 in Returns (updatedSts\<lparr>st_template := (st_template updatedSts)
                      \<lparr>pt_spec := spec\<lparr>ps_containers := cs\<rparr>\<rparr>\<rparr>, updated \<or> changed))
              else Returns (updatedSts, updated)))"

definition stset_update ::
  "'w stset_updater \<Rightarrow> lrp \<Rightarrow> stateful_set \<Rightarrow> ('w, go_error option outcome) io" where
  "stset_update u l stSet =
     (case get_updated_stset_obj stSet (ls_instances (lr_spec l)) (ls_image (lr_spec l)) of
        Panics \<Rightarrow> ret Panics
      | Returns (updatedStatefulSet, updated) \<Rightarrow>
          if \<not> updated then ret (Returns None)
          else do {
            (err, _) \<leftarrow> patch_stset (up_client u) updatedStatefulSet stSet;
            case err of
              Some err \<Rightarrow> ret (Returns (Some (Wrap ''failed to patch statefulset'' err)))
            | None \<Rightarrow> do {
                err \<leftarrow> up_pdb_updater u stSet l;
                ret (Returns (wrap_err ''failed to delete pod disruption budget'' err))
              }
          })"

section \<open>What an update changes\<close>

lemma update_app_image_unchanged: "snd (update_app_image img cs) = False \<Longrightarrow> fst (update_app_image img cs) = cs"
  by (induction cs) (auto simp: Let_def split: prod.splits if_splits)

lemma update_app_image_again: "update_app_image img (fst (update_app_image img cs)) = (fst (update_app_image img cs), False)"
  by (induction cs) (auto simp: Let_def split: prod.splits)

text \<open>Two lists of containers that agree but for the image of the application container.\<close>

definition same_but_app_image :: "container list \<Rightarrow> container list \<Rightarrow> bool" where
  "same_but_app_image cs ds \<longleftrightarrow> list_all2 (\<lambda>c d. c = d \<or>
     co_name c = application_container_name \<and> (\<exists>i. d = c\<lparr>co_image := i\<rparr>)) cs ds"

lemma update_app_image_frame: "same_but_app_image cs (fst (update_app_image img cs))"
  by (induction cs) (auto simp: same_but_app_image_def Let_def split: prod.split)

lemma update_app_image_others:
  "\<forall>co \<in> set cs. co_name co \<noteq> application_container_name \<Longrightarrow> update_app_image img cs = (cs, False)"
  by (induction cs) auto

lemma same_but_app_image_refl [simp]: "same_but_app_image cs cs"
  by (simp add: same_but_app_image_def list.rel_refl)

text \<open>A stateful set that agrees with another but for the replicas and the image of the application.\<close>

definition updates_only :: "stateful_set \<Rightarrow> stateful_set \<Rightarrow> bool" where
  "updates_only old new \<longleftrightarrow>
     new\<lparr>st_replicas := st_replicas old,
         st_template := (st_template new)\<lparr>pt_spec := (pt_spec (st_template new))
           \<lparr>ps_containers := ps_containers (pt_spec (st_template old))\<rparr>\<rparr>\<rparr> = old
     \<and> same_but_app_image (ps_containers (pt_spec (st_template old))) (ps_containers (pt_spec (st_template new)))"

lemma updated_frame: "get_updated_stset_obj st i img = Returns (st', u) \<Longrightarrow> updates_only st st'"
  using update_app_image_frame [of "ps_containers (pt_spec (st_template st))" img]
  by (auto simp: get_updated_stset_obj_def updates_only_def Let_def split: option.splits if_splits prod.splits)

lemma updated_replicas:
  "get_updated_stset_obj st i img = Returns (st', u) \<Longrightarrow> st_replicas st' = Some (to_int32 i)"
  by (auto simp: get_updated_stset_obj_def Let_def split: option.splits if_splits prod.splits)

lemma updated_panics: "get_updated_stset_obj st i img = Panics \<longleftrightarrow> st_replicas st = None"
  by (auto simp: get_updated_stset_obj_def Let_def split: option.splits if_splits prod.splits)

lemma stset_update_panics: "result (stset_update u l st) w = Panics \<longleftrightarrow> st_replicas st = None"
proof (cases "get_updated_stset_obj st (ls_instances (lr_spec l)) (ls_image (lr_spec l))")
  case Panics
  then show ?thesis
    using updated_panics [of st] by (simp add: stset_update_def result_def)
next
  case (Returns x)
  moreover have "st_replicas st \<noteq> None"
    using Returns updated_panics [of st "ls_instances (lr_spec l)" "ls_image (lr_spec l)"] by auto
  ultimately show ?thesis
    by (cases x) (simp add: stset_update_def result_def split: prod.split option.split)
qed

lemma updated_same:
  "get_updated_stset_obj st i img = Returns (st', False) \<Longrightarrow> st' = st"
  using update_app_image_unchanged [of img "ps_containers (pt_spec (st_template st))"]
  by (auto simp: get_updated_stset_obj_def Let_def split: option.splits if_splits prod.splits)

lemma updated_again:
  assumes "get_updated_stset_obj st i img = Returns (st', u)"
  shows "get_updated_stset_obj st' i img = Returns (st', False)"
  using assms update_app_image_again [of img "ps_containers (pt_spec (st_template st))"]
  by (auto simp: get_updated_stset_obj_def Let_def split: option.splits if_splits prod.splits)

section \<open>Settled stateful sets\<close>

text \<open>The stateful set is what the LRP asks for: its number of instances, and its image in the application.\<close>

definition settled :: "lrp \<Rightarrow> stateful_set \<Rightarrow> bool" where
  "settled l st \<longleftrightarrow> st_replicas st = Some (to_int32 (ls_instances (lr_spec l))) \<and>
     (ls_image (lr_spec l) \<noteq> [] \<longrightarrow> (\<forall>co \<in> set (ps_containers (pt_spec (st_template st))).
        co_name co = application_container_name \<longrightarrow> co_image co = ls_image (lr_spec l)))"

lemma update_app_image_idle:
  "snd (update_app_image img cs) = False \<longleftrightarrow> (\<forall>co \<in> set cs. co_name co = application_container_name \<longrightarrow> co_image co = img)"
  by (induction cs) (auto simp: Let_def split: prod.splits)

text \<open>The updater leaves a stateful set alone just when it is settled, and otherwise settles it.\<close>

lemma settled_iff:
  "settled l st \<longleftrightarrow> get_updated_stset_obj st (ls_instances (lr_spec l)) (ls_image (lr_spec l)) = Returns (st, False)"
proof -
  let ?img = "ls_image (lr_spec l)" and ?cs = "ps_containers (pt_spec (st_template st))"
  have "st\<lparr>st_template := (st_template st)\<lparr>pt_spec := (pt_spec (st_template st))\<lparr>ps_containers := ?cs\<rparr>\<rparr>\<rparr> = st"
    by simp
  then show ?thesis
    using update_app_image_idle [of ?img ?cs] update_app_image_unchanged [of ?img ?cs]
    by (cases "update_app_image ?img ?cs") (auto simp: settled_def get_updated_stset_obj_def Let_def split: option.split)
qed

lemma updated_settled:
  assumes "get_updated_stset_obj st (ls_instances (lr_spec l)) (ls_image (lr_spec l)) = Returns (st', u)"
  shows "settled l st'"
  unfolding settled_iff by (rule updated_again [OF assms])

text \<open>What a stateful set becomes by an update: the replicas and the images that the LRP asks for.\<close>

definition settle :: "lrp \<Rightarrow> stateful_set \<Rightarrow> stateful_set" where
  "settle l st = st\<lparr>st_replicas := Some (to_int32 (ls_instances (lr_spec l))),
     st_template := (st_template st)\<lparr>pt_spec := (pt_spec (st_template st))\<lparr>ps_containers :=
       map (\<lambda>co. if ls_image (lr_spec l) \<noteq> [] \<and> co_name co = application_container_name
                  then co\<lparr>co_image := ls_image (lr_spec l)\<rparr> else co) (ps_containers (pt_spec (st_template st)))\<rparr>\<rparr>\<rparr>"

lemma update_app_image_map:
  "fst (update_app_image img cs) = map (\<lambda>co. if co_name co = application_container_name then co\<lparr>co_image := img\<rparr> else co) cs"
  by (induction cs) (auto simp: Let_def split: prod.split)

lemma settle_settled: "settled l (settle l st)"
  by (auto simp: settled_def settle_def)

lemma updated_settle:
  assumes "st_replicas st \<noteq> None"
  shows "get_updated_stset_obj st (ls_instances (lr_spec l)) (ls_image (lr_spec l)) = Returns (settle l st, \<not> settled l st)"
proof -
  obtain st' u where upd: "get_updated_stset_obj st (ls_instances (lr_spec l)) (ls_image (lr_spec l)) = Returns (st', u)"
    using assms updated_panics [of st "ls_instances (lr_spec l)" "ls_image (lr_spec l)"]
    by (cases "get_updated_stset_obj st (ls_instances (lr_spec l)) (ls_image (lr_spec l))") auto
  have "st' = settle l st"
    using upd update_app_image_map [of "ls_image (lr_spec l)" "ps_containers (pt_spec (st_template st))"]
    by (auto simp: get_updated_stset_obj_def settle_def Let_def split: option.splits if_splits prod.splits)
  moreover have "settled l st = (\<not> u)"
    using upd updated_same [of st "ls_instances (lr_spec l)" "ls_image (lr_spec l)" st'] by (cases u) (auto simp: settled_iff)
  ultimately show ?thesis using upd by simp
qed

section \<open>The contract of an updater\<close>

text \<open>
  The calls by which a stateful set may be updated: a patch of it that changes only the replicas
  (to the instances of the LRP) and the image of the application, and calls on its budget.
\<close>

fun update_call :: "lrp \<Rightarrow> stateful_set \<Rightarrow> api_call \<Rightarrow> bool" where
  "update_call l st (PatchStset new old) =
     (old = st \<and> updates_only st new \<and> st_replicas new = Some (to_int32 (ls_instances (lr_spec l))))"
| "update_call l st c = own_budget_call (meta_key (st_meta st)) c"

lemma updates_only_meta: "updates_only st new \<Longrightarrow> st_meta new = st_meta st"
  by (auto simp: updates_only_def) (metis stateful_set.select_convs(1) stateful_set.surjective stateful_set.update_convs(3,5))

lemma update_call_namespace: "update_call l st c \<Longrightarrow> in_namespace (om_namespace (st_meta st)) c"
  by (cases c) (auto simp: updates_only_meta)

lemma own_budget_update_call: "own_budget_call (meta_key (st_meta st)) c \<Longrightarrow> update_call l st c"
  by (cases c) auto

locale lrp_updater =
  fixes laws :: bool
    and upd :: "lrp \<Rightarrow> stateful_set \<Rightarrow> ('w logged_world, go_error option outcome) io"
  assumes own_calls: "laws \<Longrightarrow> calls (update_call l st) (upd l st)
      (\<lambda>r. st_replicas st \<noteq> None \<longrightarrow> r \<noteq> Panics)"
begin

lemma stays_in_namespace:
  "laws \<Longrightarrow> calls (in_namespace (om_namespace (st_meta st))) (upd l st) (\<lambda>_. True)"
  by (rule calls_weaken [OF own_calls update_call_namespace]) simp_all

end

text \<open>The updater meets its contract with every budget updater that meets its own.\<close>

context pdb_updater
begin

lemma update_own_calls:
  assumes "owner_laws lib"
  shows "calls (update_call l st) (stset_update (new_stset_updater (logged cl) upd) l st)
    (\<lambda>r. st_replicas st \<noteq> None \<longrightarrow> r \<noteq> Panics)"
proof -
  have "calls (update_call l st) (upd st l) (\<lambda>_. True)"
    by (rule calls_subset [OF own_budget [OF assms] own_budget_update_call])
  then show ?thesis
    unfolding stset_update_def new_stset_updater_def stset_updater.simps logged_simps
    by (intro calls_intros) (auto simp: updated_panics dest: updated_frame updated_replicas)
qed

end

text \<open>The updater with the budget updater that the controller wires into it.\<close>

definition controller_updater :: "'w client \<Rightarrow> kube_lib \<Rightarrow> 'w stset_updater" where
  "controller_updater cl lib = new_stset_updater cl (pdb_update cl lib)"

interpretation updater: lrp_updater "owner_laws lib" "stset_update (controller_updater (logged cl) lib)" for lib cl
  unfolding controller_updater_def by unfold_locales (rule pdb.update_own_calls)

section \<open>Updating is converting again\<close>

text \<open>
  A converter whose probe creators meet their contract makes the same application container for
  an LRP with another number of instances and another image, but for the image.
\<close>

definition rescaled :: "lrp \<Rightarrow> i64 \<Rightarrow> string \<Rightarrow> lrp" where
  "rescaled l i img = l\<lparr>lr_spec := (lr_spec l)\<lparr>ls_instances := i, ls_image := img\<rparr>\<rparr>"

lemma rescaled_simps [simp]:
  "ls_instances (lr_spec (rescaled l i img)) = i" "ls_image (lr_spec (rescaled l i img)) = img"
  "ls_health (lr_spec (rescaled l i img)) = ls_health (lr_spec l)"
  by (simp_all add: rescaled_def)

locale converter_probes = live: probe_creator live + ready: probe_creator ready for live ready
begin

lemma app_container_rescaled:
  "app_container (new_lrp_to_stset_converter a r auto live ready) rng (rescaled l i img) =
     (app_container (new_lrp_to_stset_converter a r auto live ready) rng l)\<lparr>co_image := img\<rparr>"
  using live.health_only [of "rescaled l i img" l] ready.health_only [of "rescaled l i img" l]
  by (simp add: app_container_def new_lrp_to_stset_converter_def rescaled_def Let_def)

end

interpretation probes: converter_probes create_liveness_probe create_readiness_probe
  by unfold_locales

text \<open>The converter with the probe creators that the controller wires into it.\<close>

definition controller_converter :: "string \<Rightarrow> string \<Rightarrow> bool \<Rightarrow> stset_converter_config" where
  "controller_converter a r auto =
     new_lrp_to_stset_converter a r auto create_liveness_probe create_readiness_probe"

lemma update_app_container:
  assumes "\<forall>sd \<in> set (entries (ls_sidecars (lr_spec l))). sd_name sd \<noteq> application_container_name"
  shows "fst (update_app_image img (app_container (controller_converter a r auto) rng l # get_sidecar_containers rng l))
    = app_container (controller_converter a r auto) rng (rescaled l i img) # get_sidecar_containers rng l"
proof -
  have "map co_name (get_sidecar_containers rng l) = map sd_name (entries (ls_sidecars (lr_spec l)))"
    by (rule sidecars_map) (simp add: sidecar_container_def)
  then have "co_name ` set (get_sidecar_containers rng l) = sd_name ` set (entries (ls_sidecars (lr_spec l)))"
    by (metis set_map)
  then have "\<forall>co \<in> set (get_sidecar_containers rng l). co_name co \<noteq> application_container_name"
    using assms by (metis imageE imageI)
  then have "update_app_image img (get_sidecar_containers rng l) = (get_sidecar_containers rng l, False)"
    by (rule update_app_image_others)
  moreover have "co\<lparr>co_image := co_image co\<rparr> = co" for co :: container by simp
  ultimately show ?thesis
    unfolding controller_converter_def probes.app_container_rescaled
    by (auto simp: Let_def)
qed

section \<open>Properties\<close>

text \<open>
  C7: updating implements converting again. For an LRP without sidecars, updating the stateful
  set that was converted from it, to another number of instances and another image, gives exactly
  what \<open>Convert\<close> would make of the changed LRP, under the metadata and status that the stateful
  set has in the cluster.
\<close>

theorem update_refines_convert:
  assumes "entries (ls_sidecars (lr_spec l)) = []" and "img \<noteq> []"
    and "convert (controller_converter a r auto) rng n l s = Inr st0"
    and "get_updated_stset_obj (st0\<lparr>st_meta := m, st_ready_replicas := k\<rparr>) i img = Returns (st', u)"
  shows "\<exists>st1. convert (controller_converter a r auto) rng n (rescaled l i img) s = Inr st1
    \<and> st' = st1\<lparr>st_meta := m, st_ready_replicas := k\<rparr>"
proof -
  have none: "get_sidecar_containers rng l' = []" if "ls_sidecars (lr_spec l') = ls_sidecars (lr_spec l)" for l'
    using that assms(1) by (simp add: get_sidecar_containers_def)
  have app: "fst (update_app_image img [app_container (controller_converter a r auto) rng l])
      = [app_container (controller_converter a r auto) rng (rescaled l i img)]"
    using update_app_container [of l img a r auto rng i] assms(1) none by simp
  show ?thesis
    using assms(2-4) app none [of l] none [of "rescaled l i img"]
    by (auto simp: convert_unfold get_updated_stset_obj_def rescaled_def stset_label_selector_def
        stset_labels_def stset_base_annotations_def split: prod.splits if_splits)
qed

text \<open>
  C39: an update moves the application container to the image of the LRP, and leaves the sidecars
  on the image they were created with, although \<open>Convert\<close> gives them the image of the LRP.
\<close>

theorem update_leaves_sidecars:
  assumes "\<forall>sd \<in> set (entries (ls_sidecars (lr_spec l))). sd_name sd \<noteq> application_container_name"
    and "img \<noteq> []" and "convert (controller_converter a r auto) rng n l s = Inr st"
    and "get_updated_stset_obj st i img = Returns (st', u)"
  shows "map co_image (ps_containers (pt_spec (st_template st')))
      = img # map (\<lambda>_. ls_image (lr_spec l)) (entries (ls_sidecars (lr_spec l)))"
proof -
  have "map co_image (get_sidecar_containers rng l) = map (\<lambda>_. ls_image (lr_spec l)) (entries (ls_sidecars (lr_spec l)))"
    by (rule sidecars_map) simp
  with update_app_container [OF assms(1), of img a r auto rng i] assms(2-4) show ?thesis
    by (auto simp: convert_unfold get_updated_stset_obj_def split: prod.splits if_splits)
qed

text \<open>
  C26: \<open>Update\<close> makes no call when the stateful set has the number of replicas of the LRP and, unless the
  LRP names no image, its image in every application container. Otherwise it sends a patch that sets just
  these, and then, if the patch was accepted, updates the budget. Once the cluster holds the patched
  stateful set, updating it again makes no call at all: a budget that could not be updated is not tried again.
\<close>

theorem update_converges:
  assumes "st_replicas st \<noteq> None"
  shows "trace (stset_update (controller_updater (logged cl) lib) l st) w =
      (if settled l st then []
       else PatchStset (settle l st) st #
         (if fst (result (patch_stset cl (settle l st) st) w) = None
          then trace (pdb_update (logged cl) lib st l) (snd (run_state (patch_stset cl (settle l st) st) w))
          else []))
    \<and> settled l (settle l st)
    \<and> trace (stset_update (controller_updater (logged cl) lib) l (settle l st)) w' = []
    \<and> result (stset_update (controller_updater cl lib) l (settle l st)) w' = Returns None"
proof -
  have again: "get_updated_stset_obj (settle l st) (ls_instances (lr_spec l)) (ls_image (lr_spec l)) = Returns (settle l st, False)"
    using settle_settled [of l st] by (simp only: settled_iff)
  obtain e x w1 where p: "run_state (patch_stset cl (settle l st) st) w = ((e, x), w1)"
    by (metis prod.collapse)
  obtain r w2 where b: "run_state (pdb_update (logged cl) lib st l) (w1, [PatchStset (settle l st) st]) =
      (r, (w2, PatchStset (settle l st) st # trace (pdb_update (logged cl) lib st l) w1))"
    using appendsD [OF pdb_update_appends, of cl lib st l w1 "[PatchStset (settle l st) st]"] by (metis append_Cons append_Nil)
  have "trace (stset_update (controller_updater (logged cl) lib) l st) w =
      (if settled l st then []
       else PatchStset (settle l st) st # (if e = None then trace (pdb_update (logged cl) lib st l) w1 else []))"
    unfolding trace_def [of "stset_update (controller_updater (logged cl) lib) l st"]
    by (simp add: stset_update_def controller_updater_def new_stset_updater_def updated_settle [OF assms] p b split: option.split)
  then show ?thesis
    using again p settle_settled [of l st]
    by (simp add: stset_update_def controller_updater_def new_stset_updater_def trace_def result_def)
qed

section \<open>Witnesses\<close>

text \<open>The stateful set of an LRP, as the cluster holds it, and the LRP after a change.\<close>

definition the_stset :: "i32 \<Rightarrow> stateful_set" where
  "the_stset replicas = \<lparr>st_meta = empty_meta, st_pod_management_policy = ''Parallel'',
     st_replicas = Some replicas, st_selector = None,
     st_template = \<lparr>pt_labels = None, pt_annotations = None, pt_spec = empty_pod_spec\<rparr>,
     st_ready_replicas = 0\<rparr>"

lemma update_sample:
  assumes "convert (controller_converter a r auto) rng n l s = Inr st0"
  obtains st' u where
    "get_updated_stset_obj (st0\<lparr>st_meta := m, st_ready_replicas := k\<rparr>) i img = Returns (st', u)"
  using converter.replicas [OF assms] updated_panics [of "st0\<lparr>st_meta := m, st_ready_replicas := k\<rparr>" i img]
  by (cases "get_updated_stset_obj (st0\<lparr>st_meta := m, st_ready_replicas := k\<rparr>) i img") auto

theorem update_refines_convert_witness:
  "\<exists>st0 st1 u. convert (controller_converter ''eirini'' ''registry'' False) (\<lambda>_ m. m) ''st'' sample_lrp None = Inr st0
    \<and> get_updated_stset_obj (st0\<lparr>st_meta := lr_meta sample_lrp, st_ready_replicas := 2\<rparr>) 3 ''eirini/new''
       = Returns (st1\<lparr>st_meta := lr_meta sample_lrp, st_ready_replicas := 2\<rparr>, u)
    \<and> convert (controller_converter ''eirini'' ''registry'' False) (\<lambda>_ m. m) ''st''
        (rescaled sample_lrp 3 ''eirini/new'') None = Inr st1"
proof -
  have none: "entries (ls_sidecars (lr_spec sample_lrp)) = []" by (simp add: sample_defs)
  obtain st0 where st0: "convert (controller_converter ''eirini'' ''registry'' False) (\<lambda>_ m. m) ''st'' sample_lrp None = Inr st0"
    by (simp add: convert_unfold)
  obtain st' u where u: "get_updated_stset_obj (st0\<lparr>st_meta := lr_meta sample_lrp, st_ready_replicas := 2\<rparr>)
      3 ''eirini/new'' = Returns (st', u)"
    by (rule update_sample [OF st0])
  from update_refines_convert [OF none _ st0 u] u st0 show ?thesis by auto
qed

theorem update_leaves_sidecars_witness:
  "\<exists>st st' u. convert (controller_converter ''eirini'' ''registry'' False) (\<lambda>_ m. m) ''st'' sample_full_lrp None = Inr st
    \<and> get_updated_stset_obj st 3 ''eirini/new'' = Returns (st', u)
    \<and> map co_image (ps_containers (pt_spec (st_template st'))) = [''eirini/new'', ''eirini/dorini'']"
proof -
  have names: "\<forall>sd \<in> set (entries (ls_sidecars (lr_spec sample_full_lrp))). sd_name sd \<noteq> application_container_name"
    by (simp add: full_defs label_defs)
  obtain st where st: "convert (controller_converter ''eirini'' ''registry'' False) (\<lambda>_ m. m) ''st'' sample_full_lrp None = Inr st"
    by (simp add: convert_unfold)
  obtain st' u where u: "get_updated_stset_obj (st\<lparr>st_meta := st_meta st, st_ready_replicas := st_ready_replicas st\<rparr>)
      3 ''eirini/new'' = Returns (st', u)"
    by (rule update_sample [OF st])
  then have u: "get_updated_stset_obj st 3 ''eirini/new'' = Returns (st', u)" by simp
  from update_leaves_sidecars [OF names _ st u]
  have "map co_image (ps_containers (pt_spec (st_template st'))) = [''eirini/new'', ''eirini/dorini'']"
    by (simp add: full_defs)
  then show ?thesis
    by (intro exI [of _ st] exI [of _ st'] exI [of _ u] conjI st u)
qed

theorem update_converges_witness:
  "\<exists>p. trace (stset_update (controller_updater (logged sample_client) sample_lib) sample_lrp (the_stset 5)) 0
      = [PatchStset (the_stset 2) (the_stset 5), CreatePDB p]
    \<and> trace (stset_update (controller_updater (logged sample_client) sample_lib) sample_lrp (the_stset 2)) 0 = []"
proof -
  have two: "settle sample_lrp (the_stset 5) = the_stset 2" "\<not> settled sample_lrp (the_stset 5)"
    by (simp_all add: settle_def settled_def the_stset_def sample_defs to_int32_def empty_pod_spec_def)
  have given: "st_replicas (the_stset 5) \<noteq> None" by (simp add: the_stset_def)
  obtain p where "trace (pdb_update (logged sample_client) sample_lib (the_stset 5) sample_lrp) 0 = [CreatePDB p]"
    by (simp add: pdb_update_trace placeable_def new_pdb_def sample_defs)
  moreover have "run_state (patch_stset sample_client (the_stset 2) (the_stset 5)) 0 = ((None, the_stset 2), 0)"
    by (simp add: sample_client_def)
  ultimately show ?thesis
    using update_converges [OF given, of sample_client sample_lib sample_lrp 0 0] two by (simp add: result_def)
qed

end
