(* ===== verification/Prometheus_Desire.thy ===== *)
theory Prometheus_Desire
  imports Stset_Update
begin

text \<open>
  \<open>prometheus/desire.go\<close>: the decorator that counts and times the desiring of LRPs. The Prometheus
  library (the registry and the collectors) and the clock are parameters of the model, the record
  \<open>metrics\<close>; a collector in a registry is a counter, a histogram, or something else. The
  decorator is a desirer again: the sublocale shows that it keeps the contract.
\<close>

section \<open>The Prometheus library\<close>

datatype collector = CounterCollector string | HistogramCollector string | OtherCollector

text \<open>\<open>Register\<close> returns nil, an \<open>AlreadyRegisteredError\<close> with the collector it found, or another error.\<close>

datatype register_result = Registered | AlreadyRegistered collector | RegisterError go_error

record 'w metrics =
  mx_register :: "collector \<Rightarrow> ('w, register_result) io"
  mx_inc :: "collector \<Rightarrow> ('w, unit) io"
  mx_observe :: "collector \<Rightarrow> int \<Rightarrow> ('w, unit) io"
  mx_now :: "('w, gotime) io"
  mx_since :: "gotime \<Rightarrow> ('w, i64) io"

section \<open>Definitions\<close>

definition lrp_creations :: string where
  "lrp_creations = ''eirini_lrp_creations''"

definition lrp_creation_durations :: string where
  "lrp_creation_durations = ''eirini_lrp_creation_durations''"

text \<open>The type assertions on the collector found panic when it is of another type.\<close>

definition register_counter :: "'w metrics \<Rightarrow> string \<Rightarrow> ('w, (go_error + collector) outcome) io" where
  "register_counter mx name = do {
     err \<leftarrow> mx_register mx (CounterCollector name);
     ret (case err of
            Registered \<Rightarrow> Returns (Inr (CounterCollector name))
          | AlreadyRegistered existing \<Rightarrow>
              (case existing of CounterCollector n \<Rightarrow> Returns (Inr existing) | _ \<Rightarrow> Panics)
          | RegisterError err \<Rightarrow> Returns (Inl err))
   }"

definition register_histogram :: "'w metrics \<Rightarrow> string \<Rightarrow> ('w, (go_error + collector) outcome) io" where
  "register_histogram mx name = do {
     err \<leftarrow> mx_register mx (HistogramCollector name);
     ret (case err of
            Registered \<Rightarrow> Returns (Inr (HistogramCollector name))
          | AlreadyRegistered existing \<Rightarrow>
              (case existing of HistogramCollector n \<Rightarrow> Returns (Inr existing) | _ \<Rightarrow> Panics)
          | RegisterError err \<Rightarrow> Returns (Inl err))
   }"

record 'w desirer_decorator =
  dd_desirer :: "lrp \<Rightarrow> ('w, go_error option) io"
  dd_creations :: collector
  dd_creation_durations :: collector
  dd_metrics :: "'w metrics"

definition new_lrp_desirer_decorator ::
  "(lrp \<Rightarrow> ('w, go_error option) io) \<Rightarrow> 'w metrics \<Rightarrow> ('w, (go_error + 'w desirer_decorator) outcome) io" where
  "new_lrp_desirer_decorator desirer mx = do {
     creations \<leftarrow> register_counter mx lrp_creations;
     case creations of
       Panics \<Rightarrow> ret Panics
     | Returns (Inl err) \<Rightarrow> ret (Returns (Inl err))
     | Returns (Inr creations) \<Rightarrow> do {
         durations \<leftarrow> register_histogram mx lrp_creation_durations;
         ret (case durations of
                Panics \<Rightarrow> Panics
              | Returns (Inl err) \<Rightarrow> Returns (Inl err)
              | Returns (Inr creationDurations) \<Rightarrow>
                  Returns (Inr \<lparr>dd_desirer = desirer, dd_creations = creations,
                    dd_creation_durations = creationDurations, dd_metrics = mx\<rparr>))
       }
   }"

text \<open>\<open>Duration.Milliseconds()\<close>: the quotient of the nanoseconds, rounded towards zero.\<close>

definition milliseconds :: "i64 \<Rightarrow> int" where
  "milliseconds d = (if 0 \<le> sint d then sint d div 1000000 else - (- sint d div 1000000))"

definition decorated_desire :: "'w desirer_decorator \<Rightarrow> lrp \<Rightarrow> ('w, go_error option) io" where
  "decorated_desire d l = do {
     start \<leftarrow> mx_now (dd_metrics d);
     err \<leftarrow> dd_desirer d l;
     if err = None then do {
       _ \<leftarrow> mx_inc (dd_metrics d) (dd_creations d);
       elapsed \<leftarrow> mx_since (dd_metrics d) start;
       _ \<leftarrow> mx_observe (dd_metrics d) (dd_creation_durations d) (milliseconds elapsed);
       ret err
     }
     else ret err
   }"

section \<open>The decorator keeps the contract of the desirer\<close>

text \<open>The metrics make no calls of the API.\<close>

definition unlogged_metrics :: "'w metrics \<Rightarrow> 'w logged_world metrics" where
  "unlogged_metrics mx = \<lparr>mx_register = (\<lambda>c. unlogged (mx_register mx c)), mx_inc = (\<lambda>c. unlogged (mx_inc mx c)),
     mx_observe = (\<lambda>c i. unlogged (mx_observe mx c i)), mx_now = unlogged (mx_now mx),
     mx_since = (\<lambda>t. unlogged (mx_since mx t))\<rparr>"

text \<open>The decorator that \<open>NewLRPDesirerDecorator\<close> makes when both collectors can be registered.\<close>

definition decorate :: "'w metrics \<Rightarrow> (lrp \<Rightarrow> ('w, go_error option) io) \<Rightarrow> 'w desirer_decorator" where
  "decorate mx des = \<lparr>dd_desirer = des, dd_creations = CounterCollector lrp_creations,
     dd_creation_durations = HistogramCollector lrp_creation_durations, dd_metrics = mx\<rparr>"

lemma new_decorator_decorates:
  assumes "\<And>w. result (mx_register mx (CounterCollector lrp_creations)) w \<in>
      {Registered, AlreadyRegistered (CounterCollector lrp_creations)}"
    and "\<And>w. result (mx_register mx (HistogramCollector lrp_creation_durations)) w \<in>
      {Registered, AlreadyRegistered (HistogramCollector lrp_creation_durations)}"
  shows "result (new_lrp_desirer_decorator des mx) w = Returns (Inr (decorate mx des))"
proof -
  have c: "fst (run_state (mx_register mx (CounterCollector lrp_creations)) w) \<in>
      {Registered, AlreadyRegistered (CounterCollector lrp_creations)}" for w
    using assms(1) by (simp add: result_def)
  have h: "fst (run_state (mx_register mx (HistogramCollector lrp_creation_durations)) w) \<in>
      {Registered, AlreadyRegistered (HistogramCollector lrp_creation_durations)}" for w
    using assms(2) by (simp add: result_def)
  obtain w1 where r: "run_state (register_counter mx lrp_creations) w
      = (Returns (Inr (CounterCollector lrp_creations)), w1)"
    using c [of w] by (cases "run_state (mx_register mx (CounterCollector lrp_creations)) w")
      (auto simp: register_counter_def)
  obtain w2 where "run_state (register_histogram mx lrp_creation_durations) w1
      = (Returns (Inr (HistogramCollector lrp_creation_durations)), w2)"
    using h [of w1] by (cases "run_state (mx_register mx (HistogramCollector lrp_creation_durations)) w1")
      (auto simp: register_histogram_def)
  with r show ?thesis
    by (simp add: result_def new_lrp_desirer_decorator_def decorate_def)
qed

locale decorated_desirer = lrp_desirer laws des
  for laws and des :: "lrp \<Rightarrow> ('w logged_world, go_error option) io" +
  fixes mx :: "'w metrics"

sublocale decorated_desirer \<subseteq> decorated: lrp_desirer laws "decorated_desire (decorate (unlogged_metrics mx) des)"
  by unfold_locales
    (auto simp: decorated_desire_def decorate_def unlogged_metrics_def intro!: calls_intros own_calls)

interpretation counted: decorated_desirer "owner_laws lib \<and> key_laws cl"
  "desire (controller_desirer c rng (logged cl) lib)" mx for lib cl c rng mx
  by unfold_locales

section \<open>Properties\<close>

text \<open>
  the decorator is transparent and counts successes: it returns what the desirer returns, and
  when that is nil, and only then, it increments the counter of the LRPs created and observes the
  milliseconds since it started, in that order and after the desirer is done.
\<close>

theorem decorated_desire_counts:
  "run_state (decorated_desire (decorate mx des) l) w =
     (let (start, w1) = run_state (mx_now mx) w;
          (err, w2) = run_state (des l) w1
      in if err \<noteq> None then (err, w2)
         else let (_, w3) = run_state (mx_inc mx (CounterCollector lrp_creations)) w2;
                  (elapsed, w4) = run_state (mx_since mx start) w3;
                  (_, w5) = run_state (mx_observe mx (HistogramCollector lrp_creation_durations)
                    (milliseconds elapsed)) w4
              in (None, w5))"
  by (simp add: decorated_desire_def decorate_def Let_def split: prod.split)

end
