(* ===== verification/Lrp_Reconciler.thy ===== *)
theory Lrp_Reconciler
  imports Prometheus_Desire
begin

text \<open>
  \<open>k8s/reconciler/lrp.go\<close> and \<open>createLRPReconciler\<close> of \<open>cmd/wiring/lrp_reconciler.go\<close>: the
  reconciliation of one LRP. The desirer and the updater are the interfaces \<open>LRPDesirer\<close> and
  \<open>LRPUpdater\<close>; the locale \<open>lrp_reconciling\<close> shows what holds for every pair that meets its
  contract, and the wired reconciler interprets it.
\<close>

section \<open>Definitions\<close>

record 'w lrp_reconciler =
  rl_client :: "'w client"
  rl_lib :: kube_lib
  rl_desirer :: "lrp \<Rightarrow> ('w, go_error option) io"
  rl_updater :: "lrp \<Rightarrow> stateful_set \<Rightarrow> ('w, go_error option outcome) io"

definition new_lrp_reconciler ::
  "'w client \<Rightarrow> kube_lib \<Rightarrow> (lrp \<Rightarrow> ('w, go_error option) io) \<Rightarrow>
   (lrp \<Rightarrow> stateful_set \<Rightarrow> ('w, go_error option outcome) io) \<Rightarrow> 'w lrp_reconciler" where
  "new_lrp_reconciler cl lib desirer updater =
     \<lparr>rl_client = cl, rl_lib = lib, rl_desirer = desirer, rl_updater = updater\<rparr>"

text \<open>The patch overwrites the LRP with the answer of the server, whatever it is.\<close>

definition update_lrp_status :: "'w client \<Rightarrow> lrp \<Rightarrow> stateful_set \<Rightarrow> ('w, go_error option \<times> lrp) io" where
  "update_lrp_status cl l stSet =
     (let originalLRP = l;
          l = l\<lparr>lr_status_replicas := st_ready_replicas stSet\<rparr>
      in patch_lrp_status cl l originalLRP)"

definition lrp_do :: "'w lrp_reconciler \<Rightarrow> lrp \<Rightarrow> ('w, go_error option outcome) io" where
  "lrp_do r l =
     (case get_statefulset_name l of
        Inl err \<Rightarrow> ret (Returns (Some (Wrap ''failed to determine statefulset name for lrp'' err)))
      | Inr stSetName \<Rightarrow> do {
          res \<leftarrow> get_stset (rl_client r) (om_namespace (lr_meta l), stSetName);
          case res of
            Inl err \<Rightarrow>
              if is_not_found (rl_lib r) err then do {
                desireErr \<leftarrow> rl_desirer r l;
                ret (Returns (wrap_err ''failed to desire lrp'' desireErr))
              }
              else ret (Returns (Some (Wrap ''failed to get statefulSet'' err)))
          | Inr stSet \<Rightarrow> do {
              (err, l) \<leftarrow> update_lrp_status (rl_client r) l stSet;
              (let errs = multierror_append (rl_lib r) [] (wrap_err ''failed to update lrp status'' err)
               in do {
                 res \<leftarrow> rl_updater r l stSet;
                 ret (case res of
                        Panics \<Rightarrow> Panics
                      | Returns err \<Rightarrow> Returns (error_or_nil (rl_lib r)
                          (multierror_append (rl_lib r) errs (wrap_err ''failed to update app'' err))))
               })
            }
        })"

definition lrp_reconcile :: "'w lrp_reconciler \<Rightarrow> namespaced_name \<Rightarrow> ('w, reconcile_result outcome) io" where
  "lrp_reconcile r request = do {
     res \<leftarrow> get_lrp (rl_client r) request;
     case res of
       Inl err \<Rightarrow>
         if is_not_found (rl_lib r) err then ret (Returns (0, None))
         else ret (Returns (0, Some (Wrap ''failed to get lrp'' err)))
     | Inr l \<Rightarrow> do {
         res \<leftarrow> lrp_do r l;
         ret (case res of Panics \<Rightarrow> Panics | Returns err \<Rightarrow> Returns (0, err))
       }
   }"

text \<open>The configuration (\<open>ControllerConfig\<close> of \<open>models.go\<close>), and the reconciler as the controller wires it, with the decorated desirer.\<close>

record controller_config =
  cc_config_path :: string
  cc_application_service_account :: string
  cc_registry_secret_name :: string
  cc_unsafe_allow_automount :: bool
  cc_default_min_available_instances :: string
  cc_workloads_namespace :: string
  cc_prometheus_port :: i64
  cc_task_ttl_seconds :: i64
  cc_leader_election_id :: string
  cc_leader_election_namespace :: string
  cc_webhook_port :: i32

definition create_lrp_reconciler ::
  "'w client \<Rightarrow> kube_lib \<Rightarrow> 'w metrics \<Rightarrow> range_order \<Rightarrow> controller_config \<Rightarrow>
   ('w, (go_error + 'w lrp_reconciler) outcome) io" where
  "create_lrp_reconciler cl lib mx rng cfg =
     (let converter = controller_converter (cc_application_service_account cfg)
            (cc_registry_secret_name cfg) (cc_unsafe_allow_automount cfg);
          pdbUpdater = pdb_update cl lib;
          desirer = new_stset_desirer (convert converter rng) pdbUpdater cl lib;
          updater = new_stset_updater cl pdbUpdater
      in do {
        res \<leftarrow> new_lrp_desirer_decorator (desire desirer) mx;
        ret (case res of
               Panics \<Rightarrow> Panics
             | Returns (Inl err) \<Rightarrow> Returns (Inl err)
             | Returns (Inr decoratedDesirer) \<Rightarrow> Returns (Inr
                 (new_lrp_reconciler cl lib (decorated_desire decoratedDesirer) (stset_update updater))))
      })"

definition controller_lrp_reconciler ::
  "'w client \<Rightarrow> kube_lib \<Rightarrow> 'w metrics \<Rightarrow> range_order \<Rightarrow> controller_config \<Rightarrow> 'w lrp_reconciler" where
  "controller_lrp_reconciler cl lib mx rng cfg =
     (let converter = controller_converter (cc_application_service_account cfg)
            (cc_registry_secret_name cfg) (cc_unsafe_allow_automount cfg)
      in new_lrp_reconciler cl lib
           (decorated_desire (decorate mx (desire (controller_desirer converter rng cl lib))))
           (stset_update (controller_updater cl lib)))"

lemma create_lrp_reconciler_wires:
  assumes "\<And>w. result (mx_register mx (CounterCollector lrp_creations)) w \<in>
      {Registered, AlreadyRegistered (CounterCollector lrp_creations)}"
    and "\<And>w. result (mx_register mx (HistogramCollector lrp_creation_durations)) w \<in>
      {Registered, AlreadyRegistered (HistogramCollector lrp_creation_durations)}"
  shows "result (create_lrp_reconciler cl lib mx rng cfg) w
    = Returns (Inr (controller_lrp_reconciler cl lib mx rng cfg))"
proof -
  let ?d = "controller_desirer (controller_converter (cc_application_service_account cfg)
    (cc_registry_secret_name cfg) (cc_unsafe_allow_automount cfg)) rng cl lib"
  obtain w' where "run_state (new_lrp_desirer_decorator (desire ?d) mx) w
      = (Returns (Inr (decorate mx (desire ?d))), w')"
    using new_decorator_decorates [OF assms, of "desire ?d" w] unfolding result_def by (metis prod.collapse)
  then show ?thesis
    by (simp add: create_lrp_reconciler_def controller_lrp_reconciler_def controller_updater_def
        Let_def result_def flip: controller_desirer_def)
qed

section \<open>Reconciling with any desirer and updater\<close>

locale lrp_reconciling = des: lrp_desirer laws des + upd: lrp_updater laws upd
  for laws
    and des :: "lrp \<Rightarrow> ('w logged_world, go_error option) io"
    and upd :: "lrp \<Rightarrow> stateful_set \<Rightarrow> ('w logged_world, go_error option outcome) io"
begin

lemma do_stays_in_namespace:
  assumes "laws" and "key_laws cl"
  shows "calls (in_namespace (om_namespace (lr_meta l)))
    (lrp_do (new_lrp_reconciler (logged cl) lib des upd) l) (\<lambda>_. True)"
proof -
  let ?ns = "om_namespace (lr_meta l)"
  have get: "calls (in_namespace ?ns) (log_call (GetStset (?ns, n)) (get_stset cl (?ns, n)))
      (\<lambda>r. case r of Inl _ \<Rightarrow> True | Inr st \<Rightarrow> om_namespace (st_meta st) = ?ns)" for n
    by (rule calls_get) (auto dest: get_stset_key [OF assms(2)])
  have upd: "calls (in_namespace ?ns) (upd l' st) (\<lambda>_. True)" if "om_namespace (st_meta st) = ?ns" for l' st
    using upd.stays_in_namespace [OF assms(1), of st l'] that by simp
  show ?thesis
    unfolding lrp_do_def new_lrp_reconciler_def lrp_reconciler.simps logged_simps update_lrp_status_def Let_def
    by (intro calls_case_sum calls_ret calls_bind [OF get] calls_if calls_seq TrueI calls_case_prod
        calls_any des.stays_in_namespace [OF assms(1)] upd) auto
qed

lemma reconcile_stays_in_namespace:
  assumes "laws" and "key_laws cl"
  shows "calls (in_namespace ns) (lrp_reconcile (new_lrp_reconciler (logged cl) lib des upd) (ns, n)) (\<lambda>_. True)"
proof -
  have get: "calls (in_namespace ns) (log_call (GetLRP (ns, n)) (get_lrp cl (ns, n)))
      (\<lambda>r. case r of Inl _ \<Rightarrow> True | Inr l \<Rightarrow> om_namespace (lr_meta l) = ns)"
    by (rule calls_get) (auto dest: get_lrp_key [OF assms(2)])
  have do: "calls (in_namespace ns) (lrp_do (new_lrp_reconciler (logged cl) lib des upd) l) (\<lambda>_. True)"
    if "om_namespace (lr_meta l) = ns" for l
    using do_stays_in_namespace [OF assms, of l lib] that by simp
  have cl: "rl_client (new_lrp_reconciler (logged cl) lib des upd) = logged cl"
    by (simp add: new_lrp_reconciler_def)
  show ?thesis
    unfolding lrp_reconcile_def cl logged_simps
    by (intro calls_bind [OF get] calls_case_sum calls_if calls_ret TrueI calls_seq do) auto
qed

end

interpretation reconciling: lrp_reconciling "owner_laws lib \<and> key_laws cl"
  "decorated_desire (decorate (unlogged_metrics mx) (desire (controller_desirer c rng (logged cl) lib)))"
  "stset_update (controller_updater (logged cl) lib)" for lib cl mx c rng
proof
  show "calls (update_call l st) (stset_update (controller_updater (logged cl) lib) l st)
      (\<lambda>r. st_replicas st \<noteq> None \<longrightarrow> r \<noteq> Panics)" if "owner_laws lib \<and> key_laws cl" for l st
    using updater.own_calls that by blast
qed

section \<open>What the wired reconciler does\<close>

abbreviation wired_desire ::
  "'w client \<Rightarrow> kube_lib \<Rightarrow> 'w metrics \<Rightarrow> range_order \<Rightarrow> controller_config \<Rightarrow> lrp \<Rightarrow>
   ('w logged_world, go_error option) io" where
  "wired_desire cl lib mx rng cfg \<equiv> decorated_desire (decorate (unlogged_metrics mx)
     (desire (controller_desirer (controller_converter (cc_application_service_account cfg)
       (cc_registry_secret_name cfg) (cc_unsafe_allow_automount cfg)) rng (logged cl) lib)))"

abbreviation wired_reconcile ::
  "'w client \<Rightarrow> kube_lib \<Rightarrow> 'w metrics \<Rightarrow> range_order \<Rightarrow> controller_config \<Rightarrow> namespaced_name \<Rightarrow>
   ('w logged_world, reconcile_result outcome) io" where
  "wired_reconcile cl lib mx rng cfg \<equiv>
     lrp_reconcile (controller_lrp_reconciler (logged cl) lib (unlogged_metrics mx) rng cfg)"

lemma wired_fields:
  "rl_client (controller_lrp_reconciler (logged cl) lib (unlogged_metrics mx) rng cfg) = logged cl"
  "rl_lib (controller_lrp_reconciler (logged cl) lib (unlogged_metrics mx) rng cfg) = lib"
  "rl_desirer (controller_lrp_reconciler (logged cl) lib (unlogged_metrics mx) rng cfg)
     = wired_desire cl lib mx rng cfg"
  "rl_updater (controller_lrp_reconciler (logged cl) lib (unlogged_metrics mx) rng cfg)
     = stset_update (controller_updater (logged cl) lib)"
  by (simp_all add: controller_lrp_reconciler_def new_lrp_reconciler_def Let_def)

lemma desire_appends [appends_intros]: "appends (desire (controller_desirer c rng (logged cl) lib) l)"
  unfolding desire_def controller_desirer_def new_stset_desirer_def stset_desirer.simps
    create_registry_creds_secret_if_required_def set_secret_owner_def cleanup_and_error_def Let_def logged_simps
  by (intro appends_intros)

lemma wired_desire_appends [appends_intros]: "appends (wired_desire cl lib mx rng cfg l)"
  unfolding decorated_desire_def decorate_def unlogged_metrics_def desirer_decorator.simps metrics.simps
  by (intro appends_intros)

lemma update_appends [appends_intros]: "appends (stset_update (controller_updater (logged cl) lib) l st)"
  unfolding stset_update_def controller_updater_def new_stset_updater_def stset_updater.simps logged_simps
  by (intro appends_intros)

section \<open>Properties\<close>

text \<open>
  reconciling an LRP acts on nothing outside the namespace of the request, whatever the
  cluster contains and whatever fails.
\<close>

theorem reconcile_in_namespace:
  assumes "owner_laws lib" and "key_laws cl"
  shows "list_all (in_namespace ns) (trace (wired_reconcile cl lib mx rng cfg (ns, n)) w)"
proof -
  have "calls (in_namespace ns) (wired_reconcile cl lib mx rng cfg (ns, n)) (\<lambda>_. True)"
    using reconciling.reconcile_stays_in_namespace [of lib cl cl] assms
    by (simp add: controller_lrp_reconciler_def Let_def)
  from calls_trace [OF this] show ?thesis by blast
qed

text \<open>
  an LRP that is gone is no error and is left alone; an LRP without its stateful set is
  desired, and nothing else is done to it: the calls after the two look-ups are those of the
  desirer for this very LRP, and its error is the error of the reconciliation.
\<close>

theorem reconcile_desires_missing:
  assumes "run_state (get_lrp cl k) w = (Inr l, w1)" and "get_statefulset_name l = Inr name"
    and "run_state (get_stset cl (om_namespace (lr_meta l), name)) w1 = (Inl e, w2)" "is_not_found lib e"
    and "result (get_lrp cl k') w' = Inl e'" "is_not_found lib e'"
  shows "trace (wired_reconcile cl lib mx rng cfg k) w =
        GetLRP k # GetStset (om_namespace (lr_meta l), name) # trace (wired_desire cl lib mx rng cfg l) w2
    \<and> result (wired_reconcile cl lib mx rng cfg k) (w, []) =
        Returns (0, wrap_err ''failed to desire lrp'' (result (wired_desire cl lib mx rng cfg l) (w2, [])))
    \<and> trace (wired_reconcile cl lib mx rng cfg k') w' = [GetLRP k']
    \<and> result (wired_reconcile cl lib mx rng cfg k') (w', []) = Returns (0, None)"
proof -
  have "run_state (wired_desire cl lib mx rng cfg l) (w2, [GetLRP k, GetStset (om_namespace (lr_meta l), name)]) =
      (result (wired_desire cl lib mx rng cfg l) (w2, []),
       (fst (snd (run_state (wired_desire cl lib mx rng cfg l) (w2, []))),
        GetLRP k # GetStset (om_namespace (lr_meta l), name) # trace (wired_desire cl lib mx rng cfg l) w2))"
    by (subst appendsD [OF wired_desire_appends]) simp
  moreover obtain w3 where "run_state (get_lrp cl k') w' = (Inl e', w3)"
    using assms(5) by (metis result_def prod.collapse)
  ultimately show ?thesis
    using assms(1-4,6) by (simp add: lrp_reconcile_def lrp_do_def wired_fields trace_def result_def)
qed

text \<open>
  C8: an LRP that has its stateful set gets the number of ready replicas of the stateful set in
  its status, whatever else happens, and its stateful set brought up to date with the LRP that the
  server answered with; the second is tried even if the first fails, and the reconciliation
  succeeds just when both do. It does not panic when the stateful set has a number of replicas.
\<close>

theorem reconcile_updates_existing:
  assumes "multierror_laws lib" and "run_state (get_lrp cl k) w = (Inr l, w1)"
    and "get_statefulset_name l = Inr name"
    and "run_state (get_stset cl (om_namespace (lr_meta l), name)) w1 = (Inr st, w2)" "st_replicas st \<noteq> None"
    and "run_state (patch_lrp_status cl (l\<lparr>lr_status_replicas := st_ready_replicas st\<rparr>) l) w2 = ((e1, l'), w3)"
  shows "trace (wired_reconcile cl lib mx rng cfg k) w =
        [GetLRP k, GetStset (om_namespace (lr_meta l), name),
         PatchLRPStatus (l\<lparr>lr_status_replicas := st_ready_replicas st\<rparr>) l]
        @ trace (stset_update (controller_updater (logged cl) lib) l' st) w3
    \<and> (\<exists>e e2. result (wired_reconcile cl lib mx rng cfg k) (w, []) = Returns (0, e)
        \<and> result (stset_update (controller_updater (logged cl) lib) l' st) (w3, []) = Returns e2
        \<and> (e = None \<longleftrightarrow> e1 = None \<and> e2 = None))"
proof -
  let ?u = "stset_update (controller_updater (logged cl) lib) l' st"
  let ?cs = "[GetLRP k, GetStset (om_namespace (lr_meta l), name),
    PatchLRPStatus (l\<lparr>lr_status_replicas := st_ready_replicas st\<rparr>) l]"
  obtain e2 where e2: "result ?u (w3, []) = Returns e2"
    using stset_update_panics [of "controller_updater (logged cl) lib" l' st "(w3, [])"] assms(5)
    by (cases "result ?u (w3, [])") auto
  obtain w4 where u: "run_state ?u (w3, ?cs) = (Returns e2, (w4, ?cs @ trace ?u w3))"
    using appendsD [OF update_appends, of cl lib l' st w3 ?cs] e2 by metis
  have err: "error_or_nil lib (multierror_append lib (multierror_append lib [] (wrap_err m e1)) (wrap_err m' e2)) = None
      \<longleftrightarrow> e1 = None \<and> e2 = None" for m m'
    using assms(1) by (cases e1; cases e2) (auto simp: multierror_laws_def)
  show ?thesis
    using assms(2-4,6) u e2
    by (simp add: lrp_reconcile_def lrp_do_def update_lrp_status_def wired_fields trace_def result_def err Let_def)
qed

section \<open>Witnesses\<close>

definition sample_metrics :: "gotime metrics" where
  "sample_metrics = \<lparr>mx_register = (\<lambda>c. ret Registered), mx_inc = (\<lambda>c. ret ()),
     mx_observe = (\<lambda>c i. ret ()), mx_now = State_Monad.get, mx_since = (\<lambda>t. ret 0)\<rparr>"

definition sample_config :: controller_config where
  "sample_config = \<lparr>cc_config_path = [], cc_application_service_account = ''eirini'',
     cc_registry_secret_name = ''registry-secret'', cc_unsafe_allow_automount = False,
     cc_default_min_available_instances = [], cc_workloads_namespace = ''cf'', cc_prometheus_port = 8080,
     cc_task_ttl_seconds = 300, cc_leader_election_id = [], cc_leader_election_namespace = [],
     cc_webhook_port = 8443\<rparr>"

text \<open>The cluster after the LRP was desired, and the cluster after it was deleted.\<close>

definition desired_client :: "gotime client" where
  "desired_client = sample_client\<lparr>get_stset := \<lambda>k. ret (Inr ((the_stset 1)
     \<lparr>st_meta := empty_meta\<lparr>om_namespace := fst k, om_name := snd k\<rparr>, st_ready_replicas := 1\<rparr>))\<rparr>"

definition gone_client :: "gotime client" where
  "gone_client = sample_client\<lparr>get_lrp := \<lambda>k. ret (if k = (''cf'', ''gone'') then not_found
     else Inr (sample_lrp\<lparr>lr_meta := (lr_meta sample_lrp)\<lparr>om_namespace := fst k, om_name := snd k\<rparr>\<rparr>))\<rparr>"

lemma sample_name: obtains name where "get_statefulset_name l = Inr name"
  by (rule get_statefulset_name_eq [of l]) blast

theorem reconcile_in_namespace_witness:
  "list_all (in_namespace ''cf'')
     (trace (wired_reconcile sample_client sample_lib sample_metrics (\<lambda>_ m. m) sample_config (''cf'', ''mylrp'')) 0)"
  by (rule reconcile_in_namespace [OF sample_owner_laws sample_key_laws])

theorem reconcile_desires_missing_witness:
  "trace (wired_reconcile gone_client sample_lib sample_metrics (\<lambda>_ m. m) sample_config (''cf'', ''gone'')) 0
     = [GetLRP (''cf'', ''gone'')]"
proof -
  let ?l = "sample_lrp\<lparr>lr_meta := (lr_meta sample_lrp)\<lparr>om_namespace := ''cf'', om_name := ''mylrp''\<rparr>\<rparr>"
  obtain name where name: "get_statefulset_name ?l = Inr name" by (rule sample_name)
  have l: "run_state (get_lrp gone_client (''cf'', ''mylrp'')) 0 = (Inr ?l, 0)"
    by (simp add: gone_client_def)
  have st: "run_state (get_stset gone_client (om_namespace (lr_meta ?l), name)) 0
      = (Inl (StatusError ''NotFound'' ''not found''), 0)"
    by (simp add: gone_client_def sample_client_def not_found_def)
  have nf: "is_not_found sample_lib (StatusError ''NotFound'' ''not found'')"
    by (simp add: status_reason_def)
  have gone: "result (get_lrp gone_client (''cf'', ''gone'')) 0 = Inl (StatusError ''NotFound'' ''not found'')"
    by (simp add: gone_client_def not_found_def)
  from reconcile_desires_missing [OF l name st nf gone nf] show ?thesis by blast
qed

theorem reconcile_updates_existing_witness:
  "\<exists>e name l. result (wired_reconcile desired_client sample_lib sample_metrics (\<lambda>_ m. m) sample_config
      (''cf'', ''mylrp'')) (0, []) = Returns (0, e)
    \<and> take 3 (trace (wired_reconcile desired_client sample_lib sample_metrics (\<lambda>_ m. m) sample_config
      (''cf'', ''mylrp'')) 0) = [GetLRP (''cf'', ''mylrp''), GetStset (''cf'', name),
        PatchLRPStatus (l\<lparr>lr_status_replicas := 1\<rparr>) l]"
proof -
  let ?l = "sample_lrp\<lparr>lr_meta := (lr_meta sample_lrp)\<lparr>om_namespace := ''cf'', om_name := ''mylrp''\<rparr>\<rparr>"
  obtain name where name: "get_statefulset_name ?l = Inr name" by (rule sample_name)
  let ?st = "(the_stset 1)\<lparr>st_meta := empty_meta\<lparr>om_namespace := ''cf'', om_name := name\<rparr>, st_ready_replicas := 1\<rparr>"
  have l: "run_state (get_lrp desired_client (''cf'', ''mylrp'')) 0 = (Inr ?l, 0)"
    by (simp add: desired_client_def sample_client_def)
  have st: "run_state (get_stset desired_client (om_namespace (lr_meta ?l), name)) 0 = (Inr ?st, 0)"
    by (simp add: desired_client_def)
  have some: "st_replicas ?st \<noteq> None" by (simp add: the_stset_def)
  have patch: "run_state (patch_lrp_status desired_client (?l\<lparr>lr_status_replicas := st_ready_replicas ?st\<rparr>) ?l) 0
      = ((None, ?l\<lparr>lr_status_replicas := st_ready_replicas ?st\<rparr>), 0)"
    by (simp add: desired_client_def sample_client_def)
  note steps = reconcile_updates_existing [OF sample_multierror_laws l name st some patch,
      of sample_metrics "\<lambda>_ m. m" sample_config]
  obtain e where "result (wired_reconcile desired_client sample_lib sample_metrics (\<lambda>_ m. m) sample_config
      (''cf'', ''mylrp'')) (0, []) = Returns (0, e)"
    using steps by blast
  with steps [THEN conjunct1] show ?thesis
    by (intro exI [of _ e] exI [of _ name] exI [of _ ?l]) simp
qed

end
