(* ===== verification/Jobs_Convert.thy ===== *)
theory Jobs_Convert
  imports Stset_Convert
begin

text \<open>
  \<open>k8s/jobs/task_to_job.go\<close>: the job of a task. The labels of the job and of its pod template
  are one and the same Go map, and so are the annotations; \<open>Convert\<close> adds to the maps after they
  are shared. The model therefore builds the job in a store of maps: a draft of the job refers to
  its four maps by address, and \<open>resolve\<close> reads them when the draft is done.
\<close>

section \<open>A store of maps\<close>

type_synonym map_store = "smap list"

definition alloc :: "map_store \<Rightarrow> smap \<Rightarrow> map_store \<times> nat" where
  "alloc s m = (s @ [m], length s)"

definition store_put :: "map_store \<Rightarrow> nat \<Rightarrow> string \<Rightarrow> string \<Rightarrow> map_store" where
  "store_put s a k v = s[a := AList.update k v (s ! a)]"

text \<open>The job without its maps, and the addresses of these.\<close>

record job_draft =
  dj_job :: job
  dj_labels :: nat
  dj_annotations :: nat
  dj_template_labels :: nat
  dj_template_annotations :: nat

definition resolve :: "map_store \<Rightarrow> job_draft \<Rightarrow> job" where
  "resolve s d = (dj_job d)
     \<lparr>jb_meta := (jb_meta (dj_job d))
        \<lparr>om_labels := Some (s ! dj_labels d), om_annotations := Some (s ! dj_annotations d)\<rparr>,
      jb_template := (jb_template (dj_job d))
        \<lparr>pt_labels := Some (s ! dj_template_labels d), pt_annotations := Some (s ! dj_template_annotations d)\<rparr>\<rparr>"

section \<open>Definitions\<close>

definition task_container_name :: string where
  "task_container_name = ''opi-task''"

definition job_parallelism :: i32 where "job_parallelism = 1"
definition job_completions :: i32 where "job_completions = 1"

record task_converter =
  tc_service_account_name :: string
  tc_registry_secret_name :: string
  tc_allow_automount :: bool

definition new_task_to_job_converter :: "string \<Rightarrow> string \<Rightarrow> bool \<Rightarrow> task_converter" where
  "new_task_to_job_converter serviceAccountName registrySecretName allowAutomount =
     \<lparr>tc_service_account_name = serviceAccountName, tc_registry_secret_name = registrySecretName,
      tc_allow_automount = allowAutomount\<rparr>"

definition empty_job_status :: job_status where
  "empty_job_status = \<lparr>js_start_time = None, js_completion_time = None, js_succeeded = 0, js_failed = 0,
     js_conditions = []\<rparr>"

definition to_job :: "task_converter \<Rightarrow> map_store \<Rightarrow> task \<Rightarrow> map_store \<times> job_draft" where
  "to_job m s t =
     (let (s, labels) = alloc s
            [(label_guid, ta_guid (tk_spec t)), (label_app_guid, ta_app_guid (tk_spec t))];
          (s, annotations) = alloc s
            [(annotation_app_name, ta_app_name (tk_spec t)),
             (annotation_app_id, ta_app_guid (tk_spec t)),
             (annotation_org_name, ta_org_name (tk_spec t)),
             (annotation_org_guid, ta_org_guid (tk_spec t)),
             (annotation_space_name, ta_space_name (tk_spec t)),
             (annotation_space_guid, ta_space_guid (tk_spec t))]
      in (s, \<lparr>dj_job =
               \<lparr>jb_meta = empty_meta\<lparr>om_name := get_job_name t\<rparr>,
                jb_parallelism = Some job_parallelism,
                jb_completions = Some job_completions,
                jb_backoff_limit = Some 0,
                jb_template = \<lparr>pt_labels = None, pt_annotations = None,
                  pt_spec = empty_pod_spec
                    \<lparr>ps_restart_policy := ''Never'',
                     ps_automount_token := (if tc_allow_automount m then None else Some False)\<rparr>\<rparr>,
                jb_status = empty_job_status\<rparr>,
             dj_labels = labels, dj_annotations = annotations,
             dj_template_labels = labels, dj_template_annotations = annotations\<rparr>))"

definition task_field_envs :: "env_var list" where
  "task_field_envs = stset_field_envs @
     [\<lparr>ev_name = env_cf_instance_addr, ev_value = [], ev_value_from = None\<rparr>,
      \<lparr>ev_name = env_cf_instance_port, ev_value = [], ev_value_from = None\<rparr>,
      \<lparr>ev_name = env_cf_instance_ports, ev_value = ''[]'', ev_value_from = None\<rparr>]"

definition get_envs :: "range_order \<Rightarrow> task \<Rightarrow> env_var list" where
  "get_envs rng t =
     (let envs = map_to_env_var rng 0 (ta_env (tk_spec t))
      in envs @ task_field_envs)"

definition task_container :: "range_order \<Rightarrow> task \<Rightarrow> container" where
  "task_container rng t =
     (let envs = get_envs rng t;
          envs = envs @ entries (ta_environment (tk_spec t))
      in empty_container
           \<lparr>co_name := task_container_name,
            co_image := ta_image (tk_spec t),
            co_image_pull_policy := ''Always'',
            co_env := envs,
            co_command := entries (ta_command (tk_spec t)),
            co_resources :=
              \<lparr>rr_limits =
                 [(''memory'', ScaledQuantity (ta_memory_mb (tk_spec t)) Mega),
                  (''ephemeral-storage'', ScaledQuantity (ta_disk_mb (tk_spec t)) Mega)],
               rr_requests =
                 [(''memory'', ScaledQuantity (ta_memory_mb (tk_spec t)) Mega),
                  (''ephemeral-storage'', ScaledQuantity (ta_disk_mb (tk_spec t)) Mega),
                  (''cpu'', ScaledQuantity (ta_cpu_millis (tk_spec t)) Milli)]\<rparr>,
            co_security_context := Some container_security_context\<rparr>)"

definition job_convert :: "task_converter \<Rightarrow> range_order \<Rightarrow> task \<Rightarrow> job" where
  "job_convert m rng t =
     (let (s, d) = to_job m [] t;
          s = store_put s (dj_labels d) label_source_type task_source_type;
          s = store_put s (dj_labels d) label_name (ta_name (tk_spec t));
          s = store_put s (dj_template_annotations d) annotation_guid (ta_guid (tk_spec t));
          s = store_put s (dj_template_annotations d) annotation_task_container_name task_container_name;
          job = resolve s d;
          spec = pt_spec (jb_template job)
      in job\<lparr>jb_template := (jb_template job)\<lparr>pt_spec := spec
           \<lparr>ps_service_account_name := tc_service_account_name m,
            ps_image_pull_secrets := [tc_registry_secret_name m] @ entries (ta_image_pull_secrets (tk_spec t)),
            ps_containers := [task_container rng t]\<rparr>\<rparr>\<rparr>)"

section \<open>What the sharing of the maps amounts to\<close>

text \<open>The job and its pod template end up with the same labels and the same annotations.\<close>

definition job_labels :: "task \<Rightarrow> smap" where
  "job_labels t =
     [(label_guid, ta_guid (tk_spec t)), (label_app_guid, ta_app_guid (tk_spec t)),
      (label_source_type, task_source_type), (label_name, ta_name (tk_spec t))]"

definition job_annotations :: "task \<Rightarrow> smap" where
  "job_annotations t =
     [(annotation_app_name, ta_app_name (tk_spec t)),
      (annotation_app_id, ta_app_guid (tk_spec t)),
      (annotation_org_name, ta_org_name (tk_spec t)),
      (annotation_org_guid, ta_org_guid (tk_spec t)),
      (annotation_space_name, ta_space_name (tk_spec t)),
      (annotation_space_guid, ta_space_guid (tk_spec t)),
      (annotation_guid, ta_guid (tk_spec t)),
      (annotation_task_container_name, task_container_name)]"

lemma job_convert_eq:
  "job_convert m rng t =
     \<lparr>jb_meta = empty_meta\<lparr>om_name := get_job_name t, om_labels := Some (job_labels t),
        om_annotations := Some (job_annotations t)\<rparr>,
      jb_parallelism = Some 1, jb_completions = Some 1, jb_backoff_limit = Some 0,
      jb_template = \<lparr>pt_labels = Some (job_labels t), pt_annotations = Some (job_annotations t),
        pt_spec = empty_pod_spec
          \<lparr>ps_restart_policy := ''Never'',
           ps_automount_token := (if tc_allow_automount m then None else Some False),
           ps_service_account_name := tc_service_account_name m,
           ps_image_pull_secrets := [tc_registry_secret_name m] @ entries (ta_image_pull_secrets (tk_spec t)),
           ps_containers := [task_container rng t]\<rparr>\<rparr>,
      jb_status = empty_job_status\<rparr>"
  by (simp add: job_convert_def to_job_def alloc_def store_put_def resolve_def Let_def job_labels_def
      job_annotations_def job_parallelism_def job_completions_def label_defs empty_meta_def empty_pod_spec_def)

section \<open>The contract of a converter\<close>

text \<open>
  What the desirer and the status getter rely on: the job has the name of the task and neither
  namespace nor owner yet; it runs one pod once, without retries; and an annotation of its pods
  names their one container.
\<close>

locale task_to_job_converter =
  fixes conv :: "task \<Rightarrow> job"
  assumes name: "om_name (jb_meta (conv t)) = get_job_name t"
    and fresh: "om_owner_references (jb_meta (conv t)) = []"
    and once: "jb_parallelism (conv t) = Some 1 \<and> jb_completions (conv t) = Some 1 \<and>
      jb_backoff_limit (conv t) = Some 0 \<and> ps_restart_policy (pt_spec (jb_template (conv t))) = ''Never''"
    and container: "\<exists>co. ps_containers (pt_spec (jb_template (conv t))) = [co] \<and>
      map_get (pt_annotations (jb_template (conv t))) annotation_task_container_name = co_name co \<and>
      co_image co = ta_image (tk_spec t)"
begin

lemma annotated_container:
  assumes "co \<in> set (ps_containers (pt_spec (jb_template (conv t))))"
  shows "map_get (pt_annotations (jb_template (conv t))) annotation_task_container_name = co_name co"
  using container [of t] assms by auto

end

interpretation task_converter: task_to_job_converter "job_convert m rng" for m rng
  by unfold_locales
    (auto simp: job_convert_eq empty_meta_def empty_pod_spec_def job_annotations_def label_defs
      task_container_def Let_def)

section \<open>Properties\<close>

text \<open>
  C34: the job of a task runs its container once: one pod, no retry, never restarted. Job and pods
  carry the same labels, which identify the task, its app and its source type, and the same
  annotations, one of which names the container.
\<close>

theorem job_runs_once:
  "let j = job_convert m rng t; pod = jb_template j in
     jb_parallelism j = Some 1 \<and> jb_completions j = Some 1 \<and> jb_backoff_limit j = Some 0
   \<and> ps_restart_policy (pt_spec pod) = ''Never''
   \<and> om_labels (jb_meta j) = pt_labels pod \<and> om_annotations (jb_meta j) = pt_annotations pod
   \<and> map_get (pt_labels pod) label_guid = ta_guid (tk_spec t)
   \<and> map_get (pt_labels pod) label_app_guid = ta_app_guid (tk_spec t)
   \<and> map_get (pt_labels pod) label_source_type = task_source_type
   \<and> map_get (pt_labels pod) label_name = ta_name (tk_spec t)
   \<and> map_get (pt_annotations pod) annotation_guid = ta_guid (tk_spec t)
   \<and> map co_name (ps_containers (pt_spec pod)) = [map_get (pt_annotations pod) annotation_task_container_name]"
  by (simp add: job_convert_eq Let_def job_labels_def job_annotations_def task_container_def label_defs)

text \<open>
  The environment of a task does not depend on the order in which the code visits the map
  \<open>Env\<close>; the list \<open>Environment\<close> wins over the variables that the controller takes from the pod,
  which win over \<open>Env\<close>. Unlike an LRP, a task can thus redefine \<open>POD_NAME\<close>.
\<close>

theorem task_env_precedence:
  assumes "lawful_order rng" and "distinct (map fst (entries (ta_env (tk_spec t))))"
  shows "effective_env (co_env (task_container rng t)) n =
      (case effective_env (entries (ta_environment (tk_spec t))) n of
         Some e \<Rightarrow> Some e
       | None \<Rightarrow> (case effective_env task_field_envs n of
           Some e \<Rightarrow> Some e
         | None \<Rightarrow> map_option (literal_env n) (map_of (entries (ta_env (tk_spec t))) n)))"
  by (simp add: task_container_def get_envs_def Let_def effective_env_append effective_env_map [OF assms]
      split: option.split)

theorem task_env_precedence_witness:
  "map_option ev_value (effective_env (co_env (task_container (\<lambda>_. rev)
     (sample_task\<lparr>tk_spec := sample_task_spec\<lparr>ta_environment := Some [literal_env ''POD_NAME'' ''mine'']\<rparr>\<rparr>)))
     ''POD_NAME'') = Some ''mine''"
proof -
  let ?t = "sample_task\<lparr>tk_spec := sample_task_spec\<lparr>ta_environment := Some [literal_env ''POD_NAME'' ''mine'']\<rparr>\<rparr>"
  have lawful: "lawful_order (\<lambda>_. rev)" by (simp add: lawful_order_def)
  have keys: "distinct (map fst (entries (ta_env (tk_spec ?t))))"
    by (simp add: sample_defs)
  from task_env_precedence [OF lawful keys] show ?thesis
    by (simp add: effective_env_def literal_env_def)
qed

end
