(* ===== verification/Jobs_Desire.thy ===== *)
theory Jobs_Desire
  imports Jobs_Convert Sample_Cluster
begin

text \<open>
  \<open>k8s/jobs/desire.go\<close>: creating the job of a task. The locale \<open>task_desirer\<close> is the contract of
  the interface \<open>TaskDesirer\<close> of the reconciler.
\<close>

section \<open>Definitions\<close>

record 'w task_job_desirer =
  td_converter :: "task \<Rightarrow> job"
  td_client :: "'w client"
  td_lib :: kube_lib

definition new_task_job_desirer :: "(task \<Rightarrow> job) \<Rightarrow> 'w client \<Rightarrow> kube_lib \<Rightarrow> 'w task_job_desirer" where
  "new_task_job_desirer converter cl lib = \<lparr>td_converter = converter, td_client = cl, td_lib = lib\<rparr>"

definition task_desire :: "'w task_job_desirer \<Rightarrow> task \<Rightarrow> ('w, go_error + job) io" where
  "task_desire d t =
     (let job = td_converter d t;
          job = job\<lparr>jb_meta := (jb_meta job)\<lparr>om_namespace := om_namespace (tk_meta t)\<rparr>\<rparr>
      in case set_controller_reference (td_lib d) ''Task'' (tk_meta t) (jb_meta job) of
           Inl err \<Rightarrow> ret (Inl (Wrap ''failed to set controller reference'' err))
         | Inr m \<Rightarrow> do {
             (err, job) \<leftarrow> create_job (td_client d) (job\<lparr>jb_meta := m\<rparr>);
             ret (case err of Some err \<Rightarrow> Inl err | None \<Rightarrow> Inr job)
           })"

section \<open>The contract of a desirer\<close>

text \<open>
  Desiring a task makes at most one call: it creates the job of the task, which runs once, under
  the name and in the namespace of the task.
\<close>

fun own_job_call :: "task \<Rightarrow> api_call \<Rightarrow> bool" where
  "own_job_call t (CreateJob j) =
     (meta_key (jb_meta j) = (om_namespace (tk_meta t), get_job_name t) \<and>
      jb_parallelism j = Some 1 \<and> jb_completions j = Some 1 \<and> jb_backoff_limit j = Some 0 \<and>
      ps_restart_policy (pt_spec (jb_template j)) = ''Never'')"
| "own_job_call t _ = False"

lemma own_job_namespace: "own_job_call t c \<Longrightarrow> in_namespace (om_namespace (tk_meta t)) c"
  by (cases c) auto

locale task_desirer =
  fixes laws :: bool
    and des :: "task \<Rightarrow> ('w logged_world, go_error + job) io"
  assumes own_calls: "laws \<Longrightarrow> calls (own_job_call t) (des t)
      (\<lambda>r. case r of Inl _ \<Rightarrow> True | Inr j \<Rightarrow> meta_key (jb_meta j) = (om_namespace (tk_meta t), get_job_name t))"

context task_to_job_converter
begin

lemma desire_own_calls:
  assumes "owner_laws lib" "key_laws cl"
  shows "calls (own_job_call t) (task_desire (new_task_job_desirer conv (logged cl) lib) t)
    (\<lambda>r. case r of Inl _ \<Rightarrow> True | Inr j \<Rightarrow> meta_key (jb_meta j) = (om_namespace (tk_meta t), get_job_name t))"
proof -
  let ?key = "(om_namespace (tk_meta t), get_job_name t)"
  have create: "calls (own_job_call t) (log_call (CreateJob j) (create_job cl j))
      (\<lambda>r. meta_key (jb_meta (snd r)) = ?key)"
    if "set_controller_reference lib k ow ((jb_meta (conv t))\<lparr>om_namespace := om_namespace (tk_meta t)\<rparr>) = Inr m"
      and "j = (conv t)\<lparr>jb_meta := (jb_meta (conv t))\<lparr>om_namespace := om_namespace (tk_meta t)\<rparr>, jb_meta := m\<rparr>" for k ow m j
  proof -
    have "meta_key (jb_meta j) = ?key"
      using owner_namespace(1) [OF assms(1) that(1)] name [of t] that(2) by simp
    then show ?thesis
      using once [of t] that(2) create_job_key [OF assms(2), of j]
      by (intro calls_answer [where Q = "\<lambda>x. meta_key (jb_meta x) = ?key"]) auto
  qed
  show ?thesis
    unfolding task_desire_def new_task_job_desirer_def task_job_desirer.simps logged_simps Let_def
    by (intro calls_case_sum calls_ret calls_bind [OF create] calls_case_prod) (auto split: option.split)
qed

end

definition controller_task_desirer ::
  "task_converter \<Rightarrow> range_order \<Rightarrow> 'w client \<Rightarrow> kube_lib \<Rightarrow> 'w task_job_desirer" where
  "controller_task_desirer m rng cl lib = new_task_job_desirer (job_convert m rng) cl lib"

interpretation job_desirer: task_desirer "owner_laws lib \<and> key_laws cl"
  "task_desire (controller_task_desirer m rng (logged cl) lib)" for lib cl m rng
  unfolding controller_task_desirer_def
  by unfold_locales (blast intro: task_converter.desire_own_calls)

lemma task_desire_appends [appends_intros]: "appends (task_desire (controller_task_desirer m rng (logged cl) lib) t)"
  unfolding task_desire_def controller_task_desirer_def new_task_job_desirer_def task_job_desirer.simps
    Let_def logged_simps
  by (intro appends_intros)

end
