(* ===== verification/Jobs_Status.thy ===== *)
theory Jobs_Status
  imports Jobs_Desire
begin

text \<open>
  \<open>k8s/jobs/status.go\<close>: the conditions of a task, read off its job, and for a failed job off the
  state of the task container in its pod. The locale \<open>task_status_getter\<close> is the contract of
  the interface \<open>TaskStatusGetter\<close> of the reconciler.
\<close>

section \<open>Definitions\<close>

text \<open>The loop over the conditions of the job; the accumulator is \<open>lastFailure\<close>.\<close>

fun last_failure :: "gotime option \<Rightarrow> job_condition list \<Rightarrow> gotime option" where
  "last_failure lastFailure [] = lastFailure"
| "last_failure lastFailure (c # cs) =
     (if jc_type c \<noteq> ''Failed'' then last_failure lastFailure cs
      else (case lastFailure of
          None \<Rightarrow> last_failure (Some (jc_last_transition_time c)) cs
        | Some t \<Rightarrow>
            if t < jc_last_transition_time c then last_failure (Some (jc_last_transition_time c)) cs
            else last_failure lastFailure cs))"

definition get_last_failure_timestamp :: "job_status \<Rightarrow> gotime option" where
  "get_last_failure_timestamp s = last_failure None (js_conditions s)"

text \<open>The loop over the statuses of the containers of the pod.\<close>

fun find_terminated :: "string \<Rightarrow> container_status list \<Rightarrow> go_error + terminated_state" where
  "find_terminated name [] = Inl (NewError ''no task container found for job'')"
| "find_terminated name (s # ss) =
     (if ct_name s \<noteq> name then find_terminated name ss
      else (case cs_terminated (ct_state s) of
          None \<Rightarrow> Inl (NewError ''no terminated state found for job'')
        | Some t \<Rightarrow> Inr t))"

definition get_failed_container_status :: "'w client \<Rightarrow> job \<Rightarrow> ('w, go_error + terminated_state) io" where
  "get_failed_container_status cl job = do {
     res \<leftarrow> list_pods cl (om_namespace (jb_meta job)) [(''job-name'', om_name (jb_meta job))];
     ret (case res of
            Inl err \<Rightarrow> Inl err
          | Inr jobPods \<Rightarrow>
              if 1 < length jobPods then Inl (NewError ''found more than one pod for job'')
              else if length jobPods = 0 then Inl (NewError ''no pods found for job'')
              else (let jobPod = hd jobPods
                    in find_terminated
                         (map_get (om_annotations (po_meta jobPod)) annotation_task_container_name)
                         (po_container_statuses jobPod)))
   }"

definition new_condition :: "string \<Rightarrow> gotime \<Rightarrow> string \<Rightarrow> string \<Rightarrow> condition" where
  "new_condition type time reason message = \<lparr>cd_type = type, cd_status = condition_true,
     cd_last_transition_time = time, cd_reason = reason, cd_message = message\<rparr>"

definition get_status_conditions :: "'w client \<Rightarrow> job \<Rightarrow> ('w, go_error + condition list) io" where
  "get_status_conditions cl job =
     (let conditions = [new_condition task_initialized_condition_type zero_time ''job_created'' ''Job created'']
      in case js_start_time (jb_status job) of
           None \<Rightarrow> ret (Inr conditions)
         | Some startTime \<Rightarrow>
             (let conditions = conditions @
                    [new_condition task_started_condition_type startTime ''job_started'' ''Job started''];
                  conditions =
                    (if 0 < sint (js_succeeded (jb_status job)) then
                       (case js_completion_time (jb_status job) of
                          None \<Rightarrow> conditions
                        | Some completionTime \<Rightarrow> conditions @
                            [new_condition task_succeeded_condition_type completionTime
                               ''job_succeeded'' ''Job succeeded''])
                     else conditions);
                  lastFailureTimestamp = get_last_failure_timestamp (jb_status job)
              in if 0 < sint (js_failed (jb_status job)) then
                   (case lastFailureTimestamp of
                      None \<Rightarrow> ret (Inr conditions)
                    | Some failureTime \<Rightarrow> do {
                        res \<leftarrow> get_failed_container_status cl job;
                        ret (case res of
                               Inl err \<Rightarrow> Inl (Wrap ''failed to get container status'' err)
                             | Inr terminationState \<Rightarrow> Inr (conditions @
                                 [new_condition task_failed_condition_type failureTime (ts_reason terminationState)
                                    (''Failed with exit code: '' @ itoa (sint (ts_exit_code terminationState)))]))
                      })
                 else ret (Inr conditions)))"

section \<open>The last failure\<close>

lemma last_failure_Max:
  "last_failure acc cs =
     (let ts = map jc_last_transition_time (filter (\<lambda>c. jc_type c = ''Failed'') cs) @ (case acc of None \<Rightarrow> [] | Some t \<Rightarrow> [t])
      in if ts = [] then None else Some (Max (set ts)))"
proof (induction acc cs rule: last_failure.induct)
  case (2 acc c cs)
  show ?case
  proof (cases "jc_type c = ''Failed''")
    case True
    let ?t = "jc_last_transition_time c"
    let ?F = "set (map jc_last_transition_time (filter (\<lambda>c. jc_type c = ''Failed'') cs))"
    have "Max (insert ?t (insert t ?F)) = Max (insert (max ?t t) ?F)" for t
      by (cases "?F = {}") (auto simp: max.assoc)
    then show ?thesis
      using True 2 by (auto simp: Let_def max_def insert_commute split: option.splits)
  next
    case False
    then show ?thesis using 2 by simp
  qed
qed (simp add: Let_def split: option.split)

section \<open>The contract of a status getter\<close>

text \<open>
  A getter only lists pods in the namespace of the job, and answers with conditions that hold
  (their status is \<open>True\<close>), of different types, the first of which is \<open>Initialized\<close>.
\<close>

definition holding_conditions :: "condition list \<Rightarrow> bool" where
  "holding_conditions cs \<longleftrightarrow>
     (\<forall>c \<in> set cs. cd_status c = condition_true) \<and> distinct (map cd_type cs) \<and>
     map cd_type (take 1 cs) = [task_initialized_condition_type]"

fun list_pods_call :: "string \<Rightarrow> api_call \<Rightarrow> bool" where
  "list_pods_call ns (ListPods ns' ls) = (ns' = ns)"
| "list_pods_call ns _ = False"

lemma list_pods_namespace: "list_pods_call ns c \<Longrightarrow> in_namespace ns c"
  by (cases c) auto

locale task_status_getter =
  fixes get :: "job \<Rightarrow> ('w logged_world, go_error + condition list) io"
  assumes own_calls: "calls (list_pods_call (om_namespace (jb_meta j))) (get j)
      (\<lambda>r. case r of Inl _ \<Rightarrow> True | Inr cs \<Rightarrow> holding_conditions cs)"
begin

lemma stays_in_namespace: "calls (in_namespace (om_namespace (jb_meta j))) (get j) (\<lambda>_. True)"
  by (rule calls_weaken [OF own_calls list_pods_namespace]) simp_all

end

lemmas task_condition_types =
  task_initialized_condition_type_def task_started_condition_type_def
  task_succeeded_condition_type_def task_failed_condition_type_def

interpretation status_getter: task_status_getter "get_status_conditions (logged cl)" for cl
proof
  fix j
  show "calls (list_pods_call (om_namespace (jb_meta j))) (get_status_conditions (logged cl) j)
      (\<lambda>r. case r of Inl _ \<Rightarrow> True | Inr cs \<Rightarrow> holding_conditions cs)"
    unfolding get_status_conditions_def get_failed_container_status_def Let_def logged_simps
    by (intro calls_intros)
      (auto simp: holding_conditions_def new_condition_def task_condition_types split: sum.split option.split)
qed

lemma get_status_appends [appends_intros]: "appends (get_status_conditions (logged cl) j)"
  unfolding get_status_conditions_def get_failed_container_status_def Let_def logged_simps
  by (intro appends_intros)

section \<open>Properties\<close>

definition failure_times :: "job \<Rightarrow> gotime list" where
  "failure_times j = map jc_last_transition_time (filter (\<lambda>c. jc_type c = ''Failed'') (js_conditions (jb_status j)))"

lemma last_failure_timestamp:
  "get_last_failure_timestamp (jb_status j) = (if failure_times j = [] then None else Some (Max (set (failure_times j))))"
  by (simp add: get_last_failure_timestamp_def last_failure_Max failure_times_def Let_def)

text \<open>
  C27: the conditions of a task say what its job says: it is initialized; it has started when the
  job has a start time; it has succeeded when, besides, a pod succeeded and the job has a completion
  time, which is the time of the condition; and it has failed when a pod failed and the job has a
  condition that says so, the latest of which gives the time. They all hold. Only a failed job can
  make the getter fail, or make it look at pods.
\<close>

theorem status_conditions_of_job:
  "(case result (get_status_conditions (logged cl) j) (w, []) of
      Inl e \<Rightarrow> js_start_time (jb_status j) \<noteq> None \<and> 0 < sint (js_failed (jb_status j)) \<and> failure_times j \<noteq> []
    | Inr cs \<Rightarrow>
        map (\<lambda>c. (cd_type c, cd_status c, cd_last_transition_time c)) cs =
          (task_initialized_condition_type, condition_true, zero_time) #
          (case js_start_time (jb_status j) of
             None \<Rightarrow> []
           | Some t0 \<Rightarrow> (task_started_condition_type, condition_true, t0) #
               (case js_completion_time (jb_status j) of
                  None \<Rightarrow> []
                | Some t1 \<Rightarrow> if 0 < sint (js_succeeded (jb_status j))
                    then [(task_succeeded_condition_type, condition_true, t1)] else []) @
               (if 0 < sint (js_failed (jb_status j)) \<and> failure_times j \<noteq> []
                then [(task_failed_condition_type, condition_true, Max (set (failure_times j)))] else [])))
   \<and> trace (get_status_conditions (logged cl) j) w =
       (if js_start_time (jb_status j) \<noteq> None \<and> 0 < sint (js_failed (jb_status j)) \<and> failure_times j \<noteq> []
        then [ListPods (om_namespace (jb_meta j)) [(''job-name'', om_name (jb_meta j))]] else [])"
  by (simp add: get_status_conditions_def get_failed_container_status_def last_failure_timestamp
      trace_def result_def Let_def new_condition_def split: option.split sum.split prod.split)

text \<open>
  C35: the reason and the exit code of a failed task come from its own container: the annotation
  that \<open>Convert\<close> put on the pods of the job leads the getter to the status of the container that
  \<open>Convert\<close> put into them, among any others.
\<close>

theorem failed_task_reason:
  assumes "run_state (list_pods cl (om_namespace (jb_meta j)) [(''job-name'', om_name (jb_meta j))]) w = (Inr [p], w')"
    and "map_get (om_annotations (po_meta p)) annotation_task_container_name
      = map_get (pt_annotations (jb_template (job_convert m rng t))) annotation_task_container_name"
    and "co \<in> set (ps_containers (pt_spec (jb_template (job_convert m rng t))))"
    and "distinct (map ct_name (po_container_statuses p))"
    and "s \<in> set (po_container_statuses p)" "ct_name s = co_name co" "cs_terminated (ct_state s) = Some ts"
    and "js_start_time (jb_status j) \<noteq> None" "0 < sint (js_failed (jb_status j))" "failure_times j \<noteq> []"
  shows "\<exists>cs. result (get_status_conditions cl j) w = Inr (cs @
    [new_condition task_failed_condition_type (Max (set (failure_times j))) (ts_reason ts)
       (''Failed with exit code: '' @ itoa (sint (ts_exit_code ts)))])"
proof -
  have "find_terminated (ct_name s) ss = Inr ts"
    if "distinct (map ct_name ss)" "s \<in> set ss" "cs_terminated (ct_state s) = Some ts" for ss
    using that by (induction ss) auto
  from this [OF assms(4,5,7)]
  have "find_terminated (map_get (om_annotations (po_meta p)) annotation_task_container_name)
      (po_container_statuses p) = Inr ts"
    using task_converter.annotated_container [OF assms(3)] assms(2,6) by simp
  then show ?thesis
    using assms(1,8-10)
    by (auto simp: get_status_conditions_def get_failed_container_status_def last_failure_timestamp
        result_def Let_def split: option.split)
qed

section \<open>Witnesses\<close>

text \<open>A failed job with its pod, in which a second container is still running.\<close>

definition failed_pod :: pod where
  "failed_pod = \<lparr>po_meta = empty_meta\<lparr>om_annotations := Some (job_annotations sample_task)\<rparr>,
     po_spec = empty_pod_spec,
     po_container_statuses =
       [\<lparr>ct_name = ''proxy'', ct_state = \<lparr>cs_running = Some 5, cs_terminated = None\<rparr>,
          ct_last_termination_state = \<lparr>cs_running = None, cs_terminated = None\<rparr>, ct_restart_count = 0\<rparr>,
        \<lparr>ct_name = ''opi-task'', ct_state = \<lparr>cs_running = None,
            cs_terminated = Some \<lparr>ts_exit_code = 137, ts_reason = ''OOMKilled'', ts_finished_at = 6\<rparr>\<rparr>,
          ct_last_termination_state = \<lparr>cs_running = None, cs_terminated = None\<rparr>, ct_restart_count = 0\<rparr>]\<rparr>"

definition failed_job :: job where
  "failed_job = (job_convert (new_task_to_job_converter ''eirini'' ''registry'' False) (\<lambda>_ m. m) sample_task)
     \<lparr>jb_status := \<lparr>js_start_time = Some 3, js_completion_time = None, js_succeeded = 0, js_failed = 1,
        js_conditions = [\<lparr>jc_type = ''Failed'', jc_last_transition_time = 7\<rparr>]\<rparr>\<rparr>"

theorem failed_task_reason_witness:
  "\<exists>cs. result (get_status_conditions (sample_client\<lparr>list_pods := \<lambda>ns ls. ret (Inr [failed_pod])\<rparr>) failed_job) 0
     = Inr (cs @ [new_condition task_failed_condition_type 7 ''OOMKilled'' ''Failed with exit code: 137''])"
proof -
  let ?cl = "sample_client\<lparr>list_pods := \<lambda>ns ls. ret (Inr [failed_pod])\<rparr>"
  let ?m = "new_task_to_job_converter ''eirini'' ''registry'' False" and ?rng = "\<lambda>(_ :: nat) (m :: smap). m"
  have list: "run_state (list_pods ?cl (om_namespace (jb_meta failed_job)) [(''job-name'', om_name (jb_meta failed_job))]) 0
      = (Inr [failed_pod], 0)" by simp
  have note_: "map_get (om_annotations (po_meta failed_pod)) annotation_task_container_name
      = map_get (pt_annotations (jb_template (job_convert ?m ?rng sample_task))) annotation_task_container_name"
    by (simp add: failed_pod_def job_convert_eq)
  have co: "task_container ?rng sample_task \<in> set (ps_containers (pt_spec (jb_template (job_convert ?m ?rng sample_task))))"
    by (simp add: job_convert_eq)
  have names: "distinct (map ct_name (po_container_statuses failed_pod))" by (simp add: failed_pod_def)
  let ?ts = "\<lparr>ts_exit_code = 137, ts_reason = ''OOMKilled'', ts_finished_at = 6\<rparr>"
  let ?s = "\<lparr>ct_name = ''opi-task'', ct_state = \<lparr>cs_running = None, cs_terminated = Some ?ts\<rparr>,
          ct_last_termination_state = \<lparr>cs_running = None, cs_terminated = None\<rparr>, ct_restart_count = 0\<rparr>"
  have s: "?s \<in> set (po_container_statuses failed_pod)" by (simp add: failed_pod_def)
  have name: "ct_name ?s = co_name (task_container ?rng sample_task)"
    by (simp add: task_container_def Let_def task_container_name_def)
  have ts: "cs_terminated (ct_state ?s) = Some ?ts" by simp
  have st: "js_start_time (jb_status failed_job) \<noteq> None" "0 < sint (js_failed (jb_status failed_job))"
    "failure_times failed_job = [7]"
    by (simp_all add: failed_job_def failure_times_def)
  have times: "failure_times failed_job \<noteq> []" using st(3) by simp
  obtain cs where "result (get_status_conditions ?cl failed_job) 0 = Inr (cs @
    [new_condition task_failed_condition_type (Max (set (failure_times failed_job))) (ts_reason ?ts)
       (''Failed with exit code: '' @ itoa (sint (ts_exit_code ?ts)))])"
    using failed_task_reason [OF list note_ co names s name ts st(1,2) times] by blast
  moreover have "itoa 137 = ''137''"
    by code_simp
  ultimately show ?thesis by (auto simp: st(3))
qed

end
