(* ===== verification/Task_Reconciler.thy ===== *)
theory Task_Reconciler
  imports Jobs_Status
begin

text \<open>
  \<open>k8s/reconciler/task.go\<close>: the reconciliation of one task. A task moves from absent job to
  running job to a final condition (succeeded or failed), after which its job is kept for a time
  to live and then deleted. The desirer and the status getter are the interfaces \<open>TaskDesirer\<close>
  and \<open>TaskStatusGetter\<close>; the locale \<open>task_reconciling\<close> shows what holds for every pair that
  meets its contract.
\<close>

section \<open>Definitions\<close>

record 'w task_reconciler =
  tr_client :: "'w client"
  tr_lib :: kube_lib
  tr_desirer :: "task \<Rightarrow> ('w, go_error + job) io"
  tr_status_getter :: "job \<Rightarrow> ('w, go_error + condition list) io"
  tr_ttl_seconds :: i64

definition new_task_reconciler ::
  "'w client \<Rightarrow> kube_lib \<Rightarrow> (task \<Rightarrow> ('w, go_error + job) io) \<Rightarrow>
   (job \<Rightarrow> ('w, go_error + condition list) io) \<Rightarrow> i64 \<Rightarrow> 'w task_reconciler" where
  "new_task_reconciler cl lib desirer statusGetter ttlSeconds =
     \<lparr>tr_client = cl, tr_lib = lib, tr_desirer = desirer, tr_status_getter = statusGetter,
      tr_ttl_seconds = ttlSeconds\<rparr>"

definition task_has_completed :: "kube_lib \<Rightarrow> task \<Rightarrow> bool" where
  "task_has_completed lib t \<longleftrightarrow>
     is_status_condition_true lib (tk_conditions t) task_succeeded_condition_type \<or>
     is_status_condition_true lib (tk_conditions t) task_failed_condition_type"

text \<open>A \<open>time.Duration\<close> is 64 bits of nanoseconds; the product may wrap around.\<close>

definition duration_seconds :: "i64 \<Rightarrow> i64" where
  "duration_seconds s = s * 1000000000"

definition task_has_expired :: "'w task_reconciler \<Rightarrow> task \<Rightarrow> ('w, bool) io" where
  "task_has_expired r t = do {
     now \<leftarrow> time_now (tr_client r);
     (let ttlExpire = now + sint (duration_seconds (- tr_ttl_seconds r))
      in ret (case find_status_condition (tr_lib r) (tk_conditions t) task_succeeded_condition_type of
           Some condition \<Rightarrow> cd_last_transition_time condition < ttlExpire
         | None \<Rightarrow>
             (case find_status_condition (tr_lib r) (tk_conditions t) task_failed_condition_type of
                Some condition \<Rightarrow> cd_last_transition_time condition < ttlExpire
              | None \<Rightarrow> False)))
   }"

definition handle_expired_task :: "'w task_reconciler \<Rightarrow> task \<Rightarrow> ('w, reconcile_result) io" where
  "handle_expired_task r t = do {
     expired \<leftarrow> task_has_expired r t;
     if expired then do {
       err \<leftarrow> delete_all_jobs (tr_client r) (om_namespace (tk_meta t)) (get_job_name t);
       ret (0, wrap_err ''failed to delete job'' err)
     }
     else ret (0, None)
   }"

text \<open>The loop that sets the conditions; \<open>SetStatusCondition\<close> may read the clock.\<close>

fun set_conditions :: "'w client \<Rightarrow> kube_lib \<Rightarrow> condition list \<Rightarrow> condition list \<Rightarrow> ('w, condition list) io" where
  "set_conditions cl lib existing [] = ret existing"
| "set_conditions cl lib existing (c # cs) = do {
     now \<leftarrow> time_now cl;
     set_conditions cl lib (set_status_condition lib now existing c) cs
   }"

definition update_task_status :: "'w task_reconciler \<Rightarrow> task \<Rightarrow> job \<Rightarrow> ('w, go_error option \<times> task) io" where
  "update_task_status r t job = do {
     res \<leftarrow> tr_status_getter r job;
     case res of
       Inl err \<Rightarrow> ret (Some (Wrap ''failed to get status conditions for job'' err), t)
     | Inr conditions \<Rightarrow> do {
         cs \<leftarrow> set_conditions (tr_client r) (tr_lib r) (tk_conditions t) conditions;
         patch_task_status (tr_client r) (t\<lparr>tk_conditions := cs\<rparr>) t
       }
   }"

definition desire_task :: "'w task_reconciler \<Rightarrow> task \<Rightarrow> ('w, reconcile_result) io" where
  "desire_task r t = do {
     res \<leftarrow> tr_desirer r t;
     case res of
       Inl err \<Rightarrow> ret (0, Some (Wrap ''failed to desire task'' err))
     | Inr job \<Rightarrow> do {
         (err, _) \<leftarrow> update_task_status r t job;
         ret (0, wrap_err ''failed to update task status'' err)
       }
   }"

definition task_reconcile :: "'w task_reconciler \<Rightarrow> namespaced_name \<Rightarrow> ('w, reconcile_result) io" where
  "task_reconcile r request = do {
     res \<leftarrow> get_task (tr_client r) request;
     case res of
       Inl err \<Rightarrow>
         if is_not_found (tr_lib r) err then ret (0, None)
         else ret (0, Some (Wrap ''could not fetch task'' err))
     | Inr t \<Rightarrow>
         if task_has_completed (tr_lib r) t then handle_expired_task r t
         else do {
           res \<leftarrow> get_job (tr_client r) (om_namespace (tk_meta t), get_job_name t);
           case res of
             Inl err \<Rightarrow>
               if is_not_found (tr_lib r) err then desire_task r t
               else ret (0, Some (Wrap ''failed to get job'' err))
           | Inr job \<Rightarrow> do {
               (err, t) \<leftarrow> update_task_status r t job;
               case err of
                 Some err \<Rightarrow> ret (0, Some (Wrap ''failed to update task status'' err))
               | None \<Rightarrow>
                   if task_has_completed (tr_lib r) t then ret (duration_seconds (tr_ttl_seconds r), None)
                   else ret (0, None)
             }
         }
   }"

text \<open>\<open>createTaskReconciler\<close> of \<open>cmd/wiring/task_reconciler.go\<close>.\<close>

definition create_task_reconciler ::
  "'w client \<Rightarrow> kube_lib \<Rightarrow> range_order \<Rightarrow> string \<Rightarrow> string \<Rightarrow> bool \<Rightarrow> i64 \<Rightarrow> 'w task_reconciler" where
  "create_task_reconciler cl lib rng applicationServiceAccount registrySecretName allowAutomount ttlSeconds =
     (let taskToJobConverter = new_task_to_job_converter applicationServiceAccount registrySecretName allowAutomount;
          desirer = controller_task_desirer taskToJobConverter rng cl lib
      in new_task_reconciler cl lib (task_desire desirer) (get_status_conditions cl) ttlSeconds)"

section \<open>Reconciling with any desirer and status getter\<close>

lemma set_conditions_calls [calls_intros]:
  "calls P (set_conditions (logged cl) lib existing cs) (\<lambda>_. True)"
  by (induction cs arbitrary: existing) (auto intro!: calls_intros)

lemma set_conditions_appends [appends_intros]: "appends (set_conditions (logged cl) lib existing cs)"
  by (induction cs arbitrary: existing) (auto intro!: appends_intros)

locale task_reconciling = des: task_desirer laws des + get: task_status_getter getter
  for laws
    and des :: "task \<Rightarrow> ('w logged_world, go_error + job) io"
    and getter :: "job \<Rightarrow> ('w logged_world, go_error + condition list) io"
begin

lemma desire_stays_in_namespace:
  assumes "laws"
  shows "calls (in_namespace (om_namespace (tk_meta t))) (des t)
    (\<lambda>r. case r of Inl _ \<Rightarrow> True | Inr j \<Rightarrow> om_namespace (jb_meta j) = om_namespace (tk_meta t))"
  by (rule calls_weaken [OF des.own_calls [OF assms] own_job_namespace]) (auto split: sum.splits)

lemma update_status_stays_in_namespace:
  assumes "om_namespace (jb_meta j) = om_namespace (tk_meta t)"
  shows "calls (in_namespace (om_namespace (tk_meta t)))
    (update_task_status (new_task_reconciler (logged cl) lib des getter ttl) t j) (\<lambda>_. True)"
  unfolding update_task_status_def new_task_reconciler_def task_reconciler.simps logged_simps
  using get.stays_in_namespace [of j] assms by (intro calls_intros) auto

lemma reconcile_stays_in_namespace:
  assumes "laws" and "key_laws cl"
  shows "calls (in_namespace ns)
    (task_reconcile (new_task_reconciler (logged cl) lib des getter ttl) (ns, n)) (\<lambda>_. True)"
proof -
  let ?r = "new_task_reconciler (logged cl) lib des getter ttl"
  have cl: "tr_client ?r = logged cl" "tr_desirer ?r = des"
    by (simp_all add: new_task_reconciler_def)
  have get: "calls (in_namespace ns) (log_call (GetTask (ns, n)) (get_task cl (ns, n)))
      (\<lambda>r. case r of Inl _ \<Rightarrow> True | Inr t \<Rightarrow> om_namespace (tk_meta t) = ns)"
    by (rule calls_get) (auto dest: get_task_key [OF assms(2)])
  have job: "calls (in_namespace ns)
      (log_call (GetJob (om_namespace (tk_meta t), n)) (get_job cl (om_namespace (tk_meta t), n)))
      (\<lambda>r. case r of Inl _ \<Rightarrow> True | Inr j \<Rightarrow> om_namespace (jb_meta j) = ns)"
    if "om_namespace (tk_meta t) = ns" for n and t :: task
    using that by (intro calls_get) (auto dest: get_job_key [OF assms(2)])
  have upd: "calls (in_namespace ns) (update_task_status ?r t j) (\<lambda>_. True)"
    if "om_namespace (tk_meta t) = ns" "om_namespace (jb_meta j) = ns" for t j
    using update_status_stays_in_namespace [of j t] that by simp
  have des: "calls (in_namespace ns) (desire_task ?r t) (\<lambda>_. True)" if "om_namespace (tk_meta t) = ns" for t
    unfolding desire_task_def cl
    using that
    by (intro calls_bind [OF desire_stays_in_namespace [OF assms(1), of t, unfolded that]]
        calls_case_sum calls_ret calls_seq calls_case_prod TrueI upd) auto
  have exp: "calls (in_namespace ns) (handle_expired_task ?r t) (\<lambda>_. True)" if "om_namespace (tk_meta t) = ns" for t
    unfolding handle_expired_task_def task_has_expired_def cl logged_simps Let_def
    using that by (intro calls_intros) auto
  show ?thesis
    unfolding task_reconcile_def cl logged_simps
    by (intro calls_bind [OF get] calls_case_sum calls_if calls_ret TrueI exp des
        calls_bind [OF job] calls_seq calls_case_prod calls_case_option upd) auto
qed

end

interpretation wired_task: task_reconciling "owner_laws lib \<and> key_laws cl"
  "task_desire (controller_task_desirer m rng (logged cl) lib)" "get_status_conditions (logged cl)" for lib cl m rng
  by unfold_locales

section \<open>The life of the conditions\<close>

text \<open>
  The abstract view of a task: its conditions, and one kind of step, in which conditions that hold
  are set, at some times. What the reconciler writes into the status of a task is always such a
  step from what it read.
\<close>

definition set_all :: "kube_lib \<Rightarrow> (gotime \<times> condition) list \<Rightarrow> condition list \<Rightarrow> condition list" where
  "set_all lib ncs existing = fold (\<lambda>(now, c) cs. set_status_condition lib now cs c) ncs existing"

inductive conditions_step :: "kube_lib \<Rightarrow> condition list \<Rightarrow> condition list \<Rightarrow> bool" for lib where
  set_step: "holding_conditions (map snd ncs) \<Longrightarrow> conditions_step lib cs (set_all lib ncs cs)"

inductive_cases conditions_stepE: "conditions_step lib cs cs'"

lemma set_all_simps [simp]:
  "set_all lib [] cs = cs"
  "set_all lib ((now, c) # ncs) cs = set_all lib ncs (set_status_condition lib now cs c)"
  by (simp_all add: set_all_def)

lemma set_conditions_sets:
  "calls P (set_conditions (logged cl) lib existing cs)
     (\<lambda>r. \<exists>ncs. map snd ncs = cs \<and> r = set_all lib ncs existing)"
proof (induction cs arbitrary: existing)
  case Nil
  then show ?case by (auto intro!: calls_ret exI [of _ "[]"])
next
  case (Cons c cs)
  have cons: "\<exists>ncs'. map snd ncs' = c # cs \<and> r = set_all lib ncs' existing"
    if "map snd ncs = cs" "r = set_all lib ncs (set_status_condition lib now existing c)" for ncs r now
    by (rule exI [of _ "(now, c) # ncs"]) (simp add: that)
  have "calls P (set_conditions (logged cl) lib (set_status_condition lib now existing c) cs)
      (\<lambda>r. \<exists>ncs. map snd ncs = c # cs \<and> r = set_all lib ncs existing)" for now
    by (rule calls_weaken [OF Cons.IH]) (use cons in blast)+
  then show ?case
    unfolding set_conditions.simps logged_simps by (intro calls_seq calls_unlogged)
qed

text \<open>A condition that holds is never lost, and the time since when it holds never changes.\<close>

definition holds_since :: "kube_lib \<Rightarrow> string \<Rightarrow> condition list \<Rightarrow> gotime \<Rightarrow> bool" where
  "holds_since lib type cs t \<longleftrightarrow> (\<exists>c. find_status_condition lib cs type = Some c
     \<and> cd_status c = condition_true \<and> cd_last_transition_time c = t)"

lemma set_condition_keeps:
  assumes "condition_laws lib" "cd_status c = condition_true" "holds_since lib type cs t"
  shows "holds_since lib type (set_status_condition lib now cs c) t"
proof (cases "cd_type c = type")
  case True
  from assms(1) have "\<exists>d. find_status_condition lib (set_status_condition lib now cs c) (cd_type c) = Some d
        \<and> cd_status d = cd_status c
        \<and> cd_last_transition_time d =
            (case find_status_condition lib cs (cd_type c) of
               Some old \<Rightarrow>
                 if cd_status old = cd_status c then cd_last_transition_time old
                 else if cd_last_transition_time c \<noteq> zero_time then cd_last_transition_time c else now
             | None \<Rightarrow>
                 if cd_last_transition_time c \<noteq> zero_time then cd_last_transition_time c else now)"
    unfolding condition_laws_def by blast
  with assms(2,3) True show ?thesis by (auto simp: holds_since_def)
next
  case False
  then have "find_status_condition lib (set_status_condition lib now cs c) type = find_status_condition lib cs type"
    using assms(1) unfolding condition_laws_def by blast
  with assms(3) show ?thesis by (simp add: holds_since_def)
qed

lemma set_all_keeps:
  "condition_laws lib \<Longrightarrow> \<forall>c \<in> set (map snd ncs). cd_status c = condition_true \<Longrightarrow> holds_since lib type cs t \<Longrightarrow>
   holds_since lib type (set_all lib ncs cs) t"
  by (induction ncs arbitrary: cs) (auto simp: set_condition_keeps)

lemma steps_keep:
  assumes "(conditions_step lib)\<^sup>*\<^sup>* cs cs'" "condition_laws lib" "holds_since lib type cs t"
  shows "holds_since lib type cs' t"
  using assms
proof (induction rule: rtranclp_induct)
  case (step y z)
  then show ?case
    by (auto elim!: conditions_stepE intro!: set_all_keeps simp: holding_conditions_def)
qed

lemma completed_iff:
  assumes "condition_laws lib"
  shows "task_has_completed lib t \<longleftrightarrow>
    (\<exists>time. holds_since lib task_succeeded_condition_type (tk_conditions t) time) \<or>
    (\<exists>time. holds_since lib task_failed_condition_type (tk_conditions t) time)"
proof -
  have "is_status_condition_true lib cs ty =
        (case find_status_condition lib cs ty of None \<Rightarrow> False | Some c \<Rightarrow> cd_status c = condition_true)" for cs ty
    using assms unfolding condition_laws_def by blast
  then show ?thesis by (auto simp: task_has_completed_def holds_since_def split: option.splits)
qed

text \<open>The wired reconciler; its patches are steps.\<close>

abbreviation wired_task_reconciler ::
  "'w client \<Rightarrow> kube_lib \<Rightarrow> range_order \<Rightarrow> task_converter \<Rightarrow> i64 \<Rightarrow> 'w logged_world task_reconciler" where
  "wired_task_reconciler cl lib rng m ttl \<equiv> new_task_reconciler (logged cl) lib
     (task_desire (controller_task_desirer m rng (logged cl) lib)) (get_status_conditions (logged cl)) ttl"

lemma create_task_reconciler_wires:
  "create_task_reconciler (logged cl) lib rng a r auto ttl =
     wired_task_reconciler cl lib rng (new_task_to_job_converter a r auto) ttl"
  by (simp add: create_task_reconciler_def Let_def)

fun status_step_call :: "kube_lib \<Rightarrow> api_call \<Rightarrow> bool" where
  "status_step_call lib (PatchTaskStatus new old) =
     (new\<lparr>tk_conditions := tk_conditions old\<rparr> = old \<and> conditions_step lib (tk_conditions old) (tk_conditions new))"
| "status_step_call lib _ = True"

text \<open>Updating the status of a task sends the difference to the task that it was given.\<close>

fun task_patch_call :: "kube_lib \<Rightarrow> task \<Rightarrow> api_call \<Rightarrow> bool" where
  "task_patch_call lib t (PatchTaskStatus new old) =
     (old = t \<and> new = t\<lparr>tk_conditions := tk_conditions new\<rparr> \<and> conditions_step lib (tk_conditions t) (tk_conditions new))"
| "task_patch_call lib t _ = True"

lemma task_patch_step: "task_patch_call lib t c \<Longrightarrow> status_step_call lib c"
proof (cases c)
  case (PatchTaskStatus new old)
  assume "task_patch_call lib t c"
  with PatchTaskStatus have "old = t" "new = t\<lparr>tk_conditions := tk_conditions new\<rparr>"
    "conditions_step lib (tk_conditions t) (tk_conditions new)"
    by simp_all
  then show ?thesis
    unfolding PatchTaskStatus by (metis status_step_call.simps(1) task.surjective task.update_convs(3))
qed simp_all

context task_reconciling
begin

lemma update_status_patches:
  "calls (task_patch_call lib t) (update_task_status (new_task_reconciler (logged cl) lib des getter ttl) t j) (\<lambda>_. True)"
proof -
  have get: "calls (task_patch_call lib t) (getter j) (\<lambda>r. case r of Inl _ \<Rightarrow> True | Inr cs \<Rightarrow> holding_conditions cs)"
    by (rule calls_weaken [OF get.own_calls]) (auto elim: list_pods_call.elims)
  have set: "calls (task_patch_call lib t) (set_conditions (logged cl) lib (tk_conditions t) cs)
      (\<lambda>r. conditions_step lib (tk_conditions t) r)" if "holding_conditions cs" for cs
    by (rule calls_weaken [OF set_conditions_sets]) (use that in \<open>auto intro: set_step\<close>)
  show ?thesis
    unfolding update_task_status_def new_task_reconciler_def task_reconciler.simps logged_simps
    by (intro calls_bind [OF get] calls_case_sum calls_ret calls_bind [OF set] calls_any) auto
qed

lemma update_status_steps:
  "calls (status_step_call lib) (update_task_status (new_task_reconciler (logged cl) lib des getter ttl) t j) (\<lambda>_. True)"
  by (rule calls_subset [OF update_status_patches task_patch_step])

lemma reconcile_steps:
  assumes "laws"
  shows "calls (status_step_call lib) (task_reconcile (new_task_reconciler (logged cl) lib des getter ttl) k) (\<lambda>_. True)"
proof -
  let ?r = "new_task_reconciler (logged cl) lib des getter ttl"
  have cl: "tr_client ?r = logged cl" "tr_desirer ?r = des"
    by (simp_all add: new_task_reconciler_def)
  have des: "calls (status_step_call lib) (des t) (\<lambda>_. True)" for t
    by (rule calls_weaken [OF des.own_calls [OF assms]]) (auto elim: own_job_call.elims)
  show ?thesis
    unfolding task_reconcile_def desire_task_def handle_expired_task_def task_has_expired_def cl logged_simps Let_def
    by (intro calls_intros update_status_steps des TrueI) auto
qed

end

section \<open>Updates of the status over time\<close>

text \<open>
  What becomes of a task through updates of its status, in any number: each starts from the task that
  the one before has sent to the server, with any state of any job and in any state of the cluster.
\<close>

inductive status_updates :: "'w client \<Rightarrow> kube_lib \<Rightarrow> task \<Rightarrow> task \<Rightarrow> bool" for cl lib where
  no_update: "status_updates cl lib t t"
| one_update: "status_updates cl lib t t1 \<Longrightarrow>
    PatchTaskStatus t2 old \<in> set (trace (update_task_status (wired_task_reconciler cl lib rng m ttl) t1 j) w) \<Longrightarrow>
    status_updates cl lib t t2"

lemma updates_are_steps:
  "status_updates cl lib t t' \<Longrightarrow> (conditions_step lib)\<^sup>*\<^sup>* (tk_conditions t) (tk_conditions t')"
proof (induction rule: status_updates.induct)
  case (one_update t t1 t2 old rng m ttl j w)
  have "task_patch_call lib t1 (PatchTaskStatus t2 old)"
    using calls_trace [OF wired_task.update_status_patches [of lib t1 cl m rng cl lib ttl j], THEN conjunct1, of w]
      one_update.hyps(2)
    unfolding list_all_iff by blast
  then have "conditions_step lib (tk_conditions t1) (tk_conditions t2)" by simp
  with one_update.IH show ?case by simp
qed simp

section \<open>Expiry\<close>

text \<open>The time the code takes for the end of a completed task.\<close>

definition completion_time :: "kube_lib \<Rightarrow> task \<Rightarrow> gotime option" where
  "completion_time lib t =
     (case find_status_condition lib (tk_conditions t) task_succeeded_condition_type of
        Some c \<Rightarrow> Some (cd_last_transition_time c)
      | None \<Rightarrow> map_option cd_last_transition_time
          (find_status_condition lib (tk_conditions t) task_failed_condition_type))"

lemma task_has_expired_eq:
  "run_state (task_has_expired r t) w =
     ((case completion_time (tr_lib r) t of
         None \<Rightarrow> False
       | Some e \<Rightarrow> e < fst (run_state (time_now (tr_client r)) w) + sint (duration_seconds (- tr_ttl_seconds r))),
      snd (run_state (time_now (tr_client r)) w))"
  by (simp add: task_has_expired_def completion_time_def Let_def split: option.split prod.split)

lemma duration_seconds_value:
  assumes "\<bar>sint s\<bar> \<le> 9223372036"
  shows "sint (duration_seconds s) = sint s * 1000000000"
    and "sint (duration_seconds (- s)) = - (sint s * 1000000000)"
proof -
  have b: "- (2 ^ 63) \<le> sint s * 1000000000" "sint s * 1000000000 < 2 ^ 63"
    "- (2 ^ 63) \<le> - (sint s * 1000000000)" "- (sint s * 1000000000) < 2 ^ 63"
    using assms by (auto simp: abs_le_iff)
  have "sint (duration_seconds s) = signed_take_bit 63 (sint s * 1000000000)"
    by (simp add: duration_seconds_def sint_word_ariths signed_take_bit_mult)
  also have "\<dots> = sint s * 1000000000"
    using b by (intro signed_take_bit_int_eq_self) simp_all
  finally show "sint (duration_seconds s) = sint s * 1000000000" .
  have "duration_seconds (- s) = - duration_seconds s"
    by (simp add: duration_seconds_def)
  also have "sint \<dots> = signed_take_bit 63 (- (sint s * 1000000000))"
    using \<open>sint (duration_seconds s) = sint s * 1000000000\<close> by (simp add: sint_word_ariths)
  also have "\<dots> = - (sint s * 1000000000)"
    using b by (intro signed_take_bit_int_eq_self) simp_all
  finally show "sint (duration_seconds (- s)) = - (sint s * 1000000000)" .
qed

section \<open>Properties\<close>

text \<open>
  reconciling a task acts on nothing outside the namespace of the request, whatever the
  cluster contains and whatever fails.
\<close>

theorem task_reconcile_in_namespace:
  assumes "owner_laws lib" and "key_laws cl"
  shows "list_all (in_namespace ns) (trace (task_reconcile (wired_task_reconciler cl lib rng m ttl) (ns, n)) w)"
proof -
  have "calls (in_namespace ns) (task_reconcile (wired_task_reconciler cl lib rng m ttl) (ns, n)) (\<lambda>_. True)"
    using wired_task.reconcile_stays_in_namespace [where cl = cl] assms by blast
  from calls_trace [OF this] show ?thesis by blast
qed

text \<open>
  C10: what the reconciler writes into the status of a task is an abstract step from what it read:
  conditions that hold are set, and nothing else of the task is changed.
\<close>

theorem task_status_patches_are_steps:
  assumes "owner_laws lib" and "key_laws cl"
    and "PatchTaskStatus new old \<in> set (trace (task_reconcile (wired_task_reconciler cl lib rng m ttl) k) w)"
  shows "conditions_step lib (tk_conditions old) (tk_conditions new)
    \<and> new = old\<lparr>tk_conditions := tk_conditions new\<rparr>"
proof -
  have "calls (status_step_call lib) (task_reconcile (wired_task_reconciler cl lib rng m ttl) k) (\<lambda>_. True)"
    using wired_task.reconcile_steps [where cl = cl] assms by blast
  from calls_trace [OF this, of w] assms(3)
  have "status_step_call lib (PatchTaskStatus new old)"
    unfolding list_all_iff by blast
  then show ?thesis
    by (metis status_step_call.simps(1) task.surjective task.update_convs(3))
qed

text \<open>
  C9: completion is final. Once a task has succeeded, or has failed, it stays so through every sequence
  of updates of its status by the reconciler, whatever state the jobs are in that the updates look at,
  and the time of its completion does not move.
\<close>

theorem completion_is_final:
  assumes "condition_laws lib" and "status_updates cl lib t t'" and "task_has_completed lib t"
  shows "task_has_completed lib t'
    \<and> (holds_since lib task_succeeded_condition_type (tk_conditions t) time \<longrightarrow>
         holds_since lib task_succeeded_condition_type (tk_conditions t') time)
    \<and> (holds_since lib task_failed_condition_type (tk_conditions t) time \<longrightarrow>
         holds_since lib task_failed_condition_type (tk_conditions t') time)"
  using steps_keep [OF updates_are_steps [OF assms(2)] assms(1)] assms(3) completed_iff [OF assms(1)] by blast

text \<open>
  C6: a completed task never runs again: reconciling it makes no job, even when its job is gone.
  Its job is deleted when the completion is more than the time to live ago, for times to live up
  to 292 years; otherwise nothing is done, and the task is not queued to be looked at again.
\<close>

theorem completed_task_not_rerun:
  assumes "run_state (get_task cl k) w = (Inr t, w1)" and "task_has_completed lib t"
    and "run_state (time_now cl) w1 = (now, w2)"
    and "\<bar>sint ttl\<bar> \<le> 9223372036" and "completion_time lib t = Some e"
  shows "trace (task_reconcile (wired_task_reconciler cl lib rng m ttl) k) w = GetTask k #
        (if e < now - sint ttl * 1000000000 then [DeleteAllJobs (om_namespace (tk_meta t)) (get_job_name t)] else [])
    \<and> result (task_reconcile (wired_task_reconciler cl lib rng m ttl) k) (w, []) =
        (0, if e < now - sint ttl * 1000000000
            then wrap_err ''failed to delete job'' (result (delete_all_jobs cl (om_namespace (tk_meta t)) (get_job_name t)) w2)
            else None)"
  using assms duration_seconds_value(2) [OF assms(4)]
  by (simp add: task_reconcile_def handle_expired_task_def task_has_expired_eq new_task_reconciler_def
      trace_def result_def split: prod.split)

text \<open>
  a task that has not completed is desired when its job is missing, and has its status updated
  when it is there. After the update the task is queued again just when it has completed, after
  the time to live, by which time, at any later clock, its job has expired.
\<close>

theorem running_task_requeued:
  assumes "run_state (get_task cl k) w = (Inr t, w1)" and "\<not> task_has_completed lib t"
    and "run_state (get_job cl (om_namespace (tk_meta t), get_job_name t)) w1 = (res, w2)"
    and "run_state (update_task_status (wired_task_reconciler cl lib rng m ttl) t j)
          (w2, [GetTask k, GetJob (om_namespace (tk_meta t), get_job_name t)]) = ((e, t'), s)"
    and "0 \<le> sint ttl" "sint ttl \<le> 9223372036"
  shows "(res = Inr j \<longrightarrow> run_state (task_reconcile (wired_task_reconciler cl lib rng m ttl) k) (w, []) =
      ((case e of
          Some err \<Rightarrow> (0, Some (Wrap ''failed to update task status'' err))
        | None \<Rightarrow> (if task_has_completed lib t' then duration_seconds ttl else 0, None)), s))
    \<and> (\<forall>err. res = Inl err \<longrightarrow> is_not_found lib err \<longrightarrow>
        run_state (task_reconcile (wired_task_reconciler cl lib rng m ttl) k) (w, []) =
        run_state (desire_task (wired_task_reconciler cl lib rng m ttl) t)
          (w2, [GetTask k, GetJob (om_namespace (tk_meta t), get_job_name t)]))
    \<and> (\<forall>end now. completion_time lib t' = Some end \<longrightarrow> end + sint (duration_seconds ttl) < now \<longrightarrow>
        (\<forall>r w. tr_lib r = lib \<longrightarrow> tr_ttl_seconds r = ttl \<longrightarrow> fst (run_state (time_now (tr_client r)) w) = now \<longrightarrow>
          fst (run_state (task_has_expired r t') w)))"
proof -
  have ttl: "\<bar>sint ttl\<bar> \<le> 9223372036" using assms(5,6) by simp
  have fields: "tr_client (wired_task_reconciler cl lib rng m ttl) = logged cl"
    "tr_lib (wired_task_reconciler cl lib rng m ttl) = lib"
    "tr_ttl_seconds (wired_task_reconciler cl lib rng m ttl) = ttl"
    by (simp_all add: new_task_reconciler_def)
  show ?thesis
    using assms(1-4) duration_seconds_value [OF ttl]
    by (auto simp: task_reconcile_def fields task_has_expired_eq split: option.split)
qed

section \<open>Witnesses\<close>

definition sample_task_converter :: task_converter where
  "sample_task_converter = new_task_to_job_converter ''eirini'' ''registry'' False"

definition done_task :: task where
  "done_task = sample_task\<lparr>tk_conditions :=
     [new_condition task_succeeded_condition_type 1000000000000 ''job_succeeded'' ''Job succeeded'']\<rparr>"

definition done_client :: "gotime client" where
  "done_client = sample_client\<lparr>get_task := \<lambda>k. ret (Inr done_task)\<rparr>"

theorem task_reconcile_in_namespace_witness:
  "list_all (in_namespace ''cf'')
     (trace (task_reconcile (wired_task_reconciler sample_client sample_lib (\<lambda>_ m. m) sample_task_converter 60)
       (''cf'', ''mytask'')) 0)"
  by (rule task_reconcile_in_namespace [OF sample_owner_laws sample_key_laws])

theorem task_status_patches_are_steps_witness:
  "\<exists>new old. PatchTaskStatus new old \<in> set (trace (task_reconcile
       (wired_task_reconciler sample_client sample_lib (\<lambda>_ m. m) sample_task_converter 60) (''cf'', ''mytask'')) 0)
    \<and> conditions_step sample_lib (tk_conditions old) (tk_conditions new)"
proof -
  have "task_has_completed sample_lib (sample_task\<lparr>tk_meta := m\<rparr>) = False" for m
    by (simp add: task_has_completed_def sample_defs)
  then have "\<exists>new old. PatchTaskStatus new old \<in> set (trace (task_reconcile
       (wired_task_reconciler sample_client sample_lib (\<lambda>_ m. m) sample_task_converter 60) (''cf'', ''mytask'')) 0)"
    by (simp add: task_reconcile_def new_task_reconciler_def desire_task_def update_task_status_def
        sample_client_def not_found_def status_reason_def task_desire_def controller_task_desirer_def
        new_task_job_desirer_def get_status_conditions_def job_convert_eq empty_job_status_def trace_def Let_def
        placeable_def uncontrolled_def empty_meta_def)
  then show ?thesis
    using task_status_patches_are_steps [OF sample_owner_laws sample_key_laws] by metis
qed

theorem completion_is_final_witness:
  "\<exists>t'. status_updates sample_client sample_lib done_task t' \<and> t' \<noteq> done_task \<and> task_has_completed sample_lib t'
    \<and> holds_since sample_lib task_succeeded_condition_type (tk_conditions t') 1000000000000"
proof -
  let ?j = "job_convert sample_task_converter (\<lambda>_ m. m) sample_task"
  let ?cs = "set_all sample_lib [(5, new_condition task_initialized_condition_type zero_time ''job_created'' ''Job created'')]
    (tk_conditions done_task)"
  have "trace (update_task_status (wired_task_reconciler sample_client sample_lib (\<lambda>_ m. m) sample_task_converter 60) done_task ?j) 5
      = [PatchTaskStatus (done_task\<lparr>tk_conditions := ?cs\<rparr>) done_task]"
    by (simp add: update_task_status_def new_task_reconciler_def get_status_conditions_def job_convert_eq
        empty_job_status_def sample_client_def trace_def Let_def)
  then have step: "status_updates sample_client sample_lib done_task (done_task\<lparr>tk_conditions := ?cs\<rparr>)"
    by (intro one_update [OF no_update, where old = done_task and rng = "\<lambda>_ m. m" and m = sample_task_converter
        and ttl = 60 and j = ?j and w = 5]) (simp only: list.set insertI1)
  have done_: "task_has_completed sample_lib done_task"
    and since: "holds_since sample_lib task_succeeded_condition_type (tk_conditions done_task) 1000000000000"
    by (simp_all add: task_has_completed_def holds_since_def done_task_def new_condition_def)
  have "tk_conditions (done_task\<lparr>tk_conditions := ?cs\<rparr>) \<noteq> tk_conditions done_task"
    by (simp add: done_task_def new_condition_def task_condition_types)
  then have "done_task\<lparr>tk_conditions := ?cs\<rparr> \<noteq> done_task" by metis
  with completion_is_final [OF sample_condition_laws step done_] since step show ?thesis by blast
qed

lemma done_run:
  "run_state (get_task done_client (''cf'', ''mytask'')) w = (Inr done_task, w)"
  "task_has_completed sample_lib done_task"
  "run_state (time_now done_client) w = (w, w)"
  "completion_time sample_lib done_task = Some 1000000000000"
  by (simp_all add: done_client_def sample_client_def task_has_completed_def completion_time_def done_task_def
      new_condition_def)

theorem completed_task_not_rerun_witness:
  "trace (task_reconcile (wired_task_reconciler done_client sample_lib (\<lambda>_ m. m) sample_task_converter 60)
      (''cf'', ''mytask'')) 1060000000001
     = [GetTask (''cf'', ''mytask''), DeleteAllJobs ''cf-workloads'' (get_job_name done_task)]"
proof -
  have ttl: "\<bar>sint (60 :: i64)\<bar> \<le> 9223372036" by simp
  have ns: "om_namespace (tk_meta done_task) = ''cf-workloads''"
    by (simp add: done_task_def sample_defs)
  show ?thesis
    using completed_task_not_rerun [OF done_run(1,2,3) ttl done_run(4),
        where rng = "\<lambda>_ m. m" and m = sample_task_converter]
    by (simp add: ns)
qed

text \<open>A cluster that holds the job of the task, and answers that the task is done.\<close>

definition finishing_client :: "gotime client" where
  "finishing_client = sample_client
     \<lparr>get_job := \<lambda>k. ret (Inr (job_convert sample_task_converter (\<lambda>_ m. m) sample_task)),
      patch_task_status := \<lambda>n old. ret (None, done_task)\<rparr>"

theorem running_task_requeued_witness:
  "result (task_reconcile (wired_task_reconciler finishing_client sample_lib (\<lambda>_ m. m) sample_task_converter 60)
      (''cf'', ''mytask'')) (0, []) = (duration_seconds 60, None)"
proof -
  let ?r = "wired_task_reconciler finishing_client sample_lib (\<lambda>_ m. m) sample_task_converter 60"
  let ?t = "sample_task\<lparr>tk_meta := (tk_meta sample_task)\<lparr>om_namespace := ''cf'', om_name := ''mytask''\<rparr>\<rparr>"
  let ?j = "job_convert sample_task_converter (\<lambda>_ m. m) sample_task"
  let ?log = "[GetTask (''cf'', ''mytask''), GetJob (om_namespace (tk_meta ?t), get_job_name ?t)]"
  have get: "run_state (get_task finishing_client (''cf'', ''mytask'')) 0 = (Inr ?t, 0)"
    by (simp add: finishing_client_def sample_client_def)
  have job: "run_state (get_job finishing_client (om_namespace (tk_meta ?t), get_job_name ?t)) 0 = (Inr ?j, 0)"
    by (simp add: finishing_client_def)
  have running: "\<not> task_has_completed sample_lib ?t"
    by (simp add: task_has_completed_def sample_defs)
  obtain s where upd: "run_state (update_task_status ?r ?t ?j) (0, ?log) = ((None, done_task), s)"
    by (simp add: update_task_status_def new_task_reconciler_def get_status_conditions_def job_convert_eq
        empty_job_status_def finishing_client_def sample_client_def Let_def)
  have ttl: "0 \<le> sint (60 :: i64)" "sint (60 :: i64) \<le> 9223372036" by simp_all
  from running_task_requeued [OF get running job upd ttl, THEN conjunct1] done_run(2) show ?thesis
    by (simp add: result_def)
qed

end
