(* ===== verification/Crash_Event.thy ===== *)
theory Crash_Event
  imports Stset_Convert Sample_Cluster
begin

text \<open>
  \<open>k8s/event/crash_event_generator.go\<close>, with the type \<open>CrashEvent\<close> of
  \<open>k8s/reconciler/pod_crash.go\<close>: whether a pod of an application has crashed, and what to report.
  The locale \<open>crash_event_generator\<close> is the contract of the interface \<open>CrashEventGenerator\<close>.
\<close>

section \<open>Definitions\<close>

record crash_event =
  ce_process_guid :: string
  ce_reason :: string
  ce_instance :: string
  ce_index :: int
  ce_exit_code :: int
  ce_crash_count :: int
  ce_crash_timestamp :: int

definition event_killing :: string where
  "event_killing = ''Killing''"

fun get_application_container_status :: "container_status list \<Rightarrow> container_status option" where
  "get_application_container_status [] = None"
| "get_application_container_status (s # ss) =
     (if ct_name s = application_container_name then Some s else get_application_container_status ss)"

text \<open>The restart count is incremented in 32 bits, where it may wrap, and then widened.\<close>

definition calculate_crash_count :: "container_status \<Rightarrow> int" where
  "calculate_crash_count s =
     (if cs_running (ct_state s) \<noteq> None then sint (ct_restart_count s) else sint (ct_restart_count s + 1))"

definition is_stopped :: "event list \<Rightarrow> bool" where
  "is_stopped events =
     (if length events = 0 then False
      else (let e = events ! (length events - 1) in en_reason e = event_killing))"

text \<open>The error of \<open>ParseAppIndex\<close> is dropped, which leaves the index 0.\<close>

definition generate_report :: "pod \<Rightarrow> string \<Rightarrow> int \<Rightarrow> int \<Rightarrow> int \<Rightarrow> crash_event" where
  "generate_report p reason exitCode crashTimestamp restartCount =
     (let index = (case parse_app_index (om_name (po_meta p)) of Inl _ \<Rightarrow> 0 | Inr i \<Rightarrow> i)
      in \<lparr>ce_process_guid = map_get (om_annotations (po_meta p)) annotation_process_guid,
          ce_reason = reason, ce_instance = om_name (po_meta p), ce_index = index,
          ce_exit_code = exitCode, ce_crash_count = restartCount, ce_crash_timestamp = crashTimestamp\<rparr>)"

definition get_by_pod :: "'w client \<Rightarrow> pod \<Rightarrow> ('w, go_error + event list) io" where
  "get_by_pod cl p = do {
     res \<leftarrow> list_events cl (om_namespace (po_meta p)) []
       [(index_event_involved_object_kind, ''Pod''), (index_event_involved_object_name, om_name (po_meta p))];
     ret (case res of
            Inl err \<Rightarrow> Inl (Wrap ''failed to list pod events'' err)
          | Inr items \<Rightarrow> Inr items)
   }"

definition generate_report_for_terminated_pod ::
  "'w client \<Rightarrow> pod \<Rightarrow> container_status \<Rightarrow> terminated_state \<Rightarrow> ('w, crash_event option) io" where
  "generate_report_for_terminated_pod cl p status terminated = do {
     res \<leftarrow> get_by_pod cl p;
     ret (case res of
            Inl err \<Rightarrow> None
          | Inr podEvents \<Rightarrow>
              if is_stopped podEvents then None
              else Some (generate_report p (ts_reason terminated) (sint (ts_exit_code terminated))
                (unix_seconds (ts_finished_at terminated)) (calculate_crash_count status)))
   }"

definition generate_crash_event :: "'w client \<Rightarrow> pod \<Rightarrow> ('w, crash_event option) io" where
  "generate_crash_event cl p =
     (let statuses = po_container_statuses p
      in if length statuses = 0 then ret None
         else if map_get (om_labels (po_meta p)) label_source_type \<noteq> app_source_type then ret None
         else (case get_application_container_status statuses of
             None \<Rightarrow> ret None
           | Some appStatus \<Rightarrow>
               (case cs_terminated (ct_state appStatus) of
                  Some terminated \<Rightarrow> generate_report_for_terminated_pod cl p appStatus terminated
                | None \<Rightarrow>
                    (case cs_terminated (ct_last_termination_state appStatus) of
                       Some lastTerminated \<Rightarrow>
                         ret (Some (generate_report p (ts_reason lastTerminated)
                           (sint (ts_exit_code lastTerminated)) (unix_seconds (ts_finished_at lastTerminated))
                           (calculate_crash_count appStatus)))
                     | None \<Rightarrow> ret None))))"

section \<open>The contract of a generator\<close>

text \<open>
  A generator only lists the events of the namespace of the pod, reports only crashes of
  application pods, under the name of the pod, with a time that is determined by the pod alone,
  and it does not look at the annotation in which the reconciler keeps the last crash it reported.
\<close>

fun list_events_call :: "string \<Rightarrow> api_call \<Rightarrow> bool" where
  "list_events_call ns (ListEvents ns' ls fs) = (ns' = ns)"
| "list_events_call ns _ = False"

lemma list_events_namespace: "list_events_call ns c \<Longrightarrow> in_namespace ns c"
  by (cases c) auto

text \<open>A pod but for the annotation of its last reported crash.\<close>

definition annotate_crash :: "pod \<Rightarrow> string \<Rightarrow> pod" where
  "annotate_crash p v = p\<lparr>po_meta := (po_meta p)\<lparr>om_annotations :=
     Some (AList.update annotation_last_reported_lrp_crash v (entries (om_annotations (po_meta p))))\<rparr>\<rparr>"

text \<open>The termination that a container reports: the present one, or else the last one.\<close>

definition reported_termination :: "container_status \<Rightarrow> terminated_state option" where
  "reported_termination s = (case cs_terminated (ct_state s) of
     Some t \<Rightarrow> Some t | None \<Rightarrow> cs_terminated (ct_last_termination_state s))"

definition crash_time :: "pod \<Rightarrow> int" where
  "crash_time p = (case get_application_container_status (po_container_statuses p) of
     None \<Rightarrow> 0
   | Some s \<Rightarrow> (case reported_termination s of None \<Rightarrow> 0 | Some t \<Rightarrow> unix_seconds (ts_finished_at t)))"

locale crash_event_generator =
  fixes gen :: "pod \<Rightarrow> ('w logged_world, crash_event option) io"
    and time_of :: "pod \<Rightarrow> int"
  assumes own_calls: "calls (list_events_call (om_namespace (po_meta p))) (gen p)
      (\<lambda>r. \<forall>ce. r = Some ce \<longrightarrow> ce_instance ce = om_name (po_meta p)
        \<and> map_get (om_labels (po_meta p)) label_source_type = app_source_type
        \<and> ce_crash_timestamp ce = time_of p)"
    and annotation: "gen (annotate_crash p v) = gen p"
    and only_appends: "appends (gen p)"
begin

lemma stays_in_namespace: "calls (in_namespace (om_namespace (po_meta p))) (gen p) (\<lambda>_. True)"
  by (rule calls_weaken [OF own_calls list_events_namespace]) simp_all

end

lemma annotate_crash_simps [simp]:
  "po_container_statuses (annotate_crash p v) = po_container_statuses p"
  "om_name (po_meta (annotate_crash p v)) = om_name (po_meta p)"
  "om_namespace (po_meta (annotate_crash p v)) = om_namespace (po_meta p)"
  "om_labels (po_meta (annotate_crash p v)) = om_labels (po_meta p)"
  "om_owner_references (po_meta (annotate_crash p v)) = om_owner_references (po_meta p)"
  "map_get (om_annotations (po_meta (annotate_crash p v))) k =
     (if k = annotation_last_reported_lrp_crash then v else map_get (om_annotations (po_meta p)) k)"
  by (simp_all add: annotate_crash_def map_get_def)

lemma generate_report_annotated [simp]: "generate_report (annotate_crash p v) = generate_report p"
proof -
  have "annotation_process_guid \<noteq> annotation_last_reported_lrp_crash" by (simp add: label_defs)
  then show ?thesis by (simp add: generate_report_def fun_eq_iff Let_def)
qed

interpretation generator: crash_event_generator "generate_crash_event (logged cl)" crash_time for cl
proof
  show "calls (list_events_call (om_namespace (po_meta p))) (generate_crash_event (logged cl) p)
      (\<lambda>r. \<forall>ce. r = Some ce \<longrightarrow> ce_instance ce = om_name (po_meta p)
        \<and> map_get (om_labels (po_meta p)) label_source_type = app_source_type
        \<and> ce_crash_timestamp ce = crash_time p)" for p
    unfolding generate_crash_event_def generate_report_for_terminated_pod_def get_by_pod_def Let_def logged_simps
    by (intro calls_intros)
      (auto simp: generate_report_def crash_time_def reported_termination_def Let_def split: sum.splits if_splits)
  show "generate_crash_event (logged cl) (annotate_crash p v) = generate_crash_event (logged cl) p" for p v
    unfolding generate_crash_event_def generate_report_for_terminated_pod_def get_by_pod_def
      annotate_crash_simps generate_report_annotated by (rule refl)
  show "appends (generate_crash_event (logged cl) p)" for p
    unfolding generate_crash_event_def generate_report_for_terminated_pod_def get_by_pod_def Let_def logged_simps
    by (intro appends_intros)
qed

section \<open>Properties\<close>

text \<open>
  what the generator reports of a pod of an application whose name is that of a pod of a
  stateful set: nothing as long as its application container has never terminated; after a
  restart, and when it has terminated for another reason than that the pod is being killed (and
  the events of the pod can be listed), the reason, exit code and time of the termination, with
  the instance index read off the name of the pod and the number of crashes: the restarts so far,
  plus one when the container is not running again yet.
\<close>

theorem crash_report:
  assumes "map_get (om_labels (po_meta p)) label_source_type = app_source_type"
    and "get_application_container_status (po_container_statuses p) = Some s"
    and "om_name (po_meta p) = pod_name stset n" "n < 2 ^ 63" "sint (ct_restart_count s) < 2 ^ 31 - 1"
    and "run_state (list_events cl (om_namespace (po_meta p)) []
       [(index_event_involved_object_kind, ''Pod''), (index_event_involved_object_name, om_name (po_meta p))]) w = (res, w')"
  shows "result (generate_crash_event cl p) w =
     (case reported_termination s of
        None \<Rightarrow> None
      | Some t \<Rightarrow>
          if cs_terminated (ct_state s) \<noteq> None \<and>
             (case res of Inl _ \<Rightarrow> True | Inr es \<Rightarrow> es \<noteq> [] \<and> en_reason (last es) = ''Killing'')
          then None
          else Some \<lparr>ce_process_guid = map_get (om_annotations (po_meta p)) annotation_process_guid,
            ce_reason = ts_reason t, ce_instance = om_name (po_meta p), ce_index = int n,
            ce_exit_code = sint (ts_exit_code t),
            ce_crash_count = sint (ct_restart_count s) + (if cs_running (ct_state s) = None then 1 else 0),
            ce_crash_timestamp = unix_seconds (ts_finished_at t)\<rparr>)"
proof -
  have count: "calculate_crash_count s =
      sint (ct_restart_count s) + (if cs_running (ct_state s) = None then 1 else 0)"
  proof -
    have "- (2 ^ 31) \<le> sint (ct_restart_count s)"
      using sint_greater_eq [of "ct_restart_count s"] by simp
    then have "sint (ct_restart_count s + 1) = sint (ct_restart_count s) + 1"
      using assms(5) by (simp add: sint_word_ariths signed_take_bit_int_eq_self)
    then show ?thesis by (auto simp: calculate_crash_count_def)
  qed
  have index: "parse_app_index (om_name (po_meta p)) = Inr (int n)"
    using parse_pod_index [OF assms(4), of stset] by (simp add: assms(3))
  have "po_container_statuses p \<noteq> []" using assms(2) by auto
  then show ?thesis
    using assms(1,2,6)
    by (auto simp: generate_crash_event_def generate_report_for_terminated_pod_def get_by_pod_def
        generate_report_def reported_termination_def is_stopped_def event_killing_def count index result_def
        Let_def last_conv_nth split: option.splits sum.splits)
qed

section \<open>Witnesses\<close>

text \<open>The second pod of an application, crashed for the third time and not restarted yet.\<close>

definition crashed_status :: container_status where
  "crashed_status = \<lparr>ct_name = ''opi'',
     ct_state = \<lparr>cs_running = None, cs_terminated = Some
       \<lparr>ts_exit_code = 137, ts_reason = ''OOMKilled'', ts_finished_at = 1500 * second\<rparr>\<rparr>,
     ct_last_termination_state = \<lparr>cs_running = None, cs_terminated = None\<rparr>, ct_restart_count = 2\<rparr>"

definition crashed_pod :: pod where
  "crashed_pod = \<lparr>po_meta = empty_meta\<lparr>om_name := ''app-1'', om_namespace := ''cf'',
       om_labels := Some [(label_source_type, app_source_type)],
       om_annotations := Some [(annotation_process_guid, ''guid'')],
       om_owner_references := [\<lparr>or_api_version = ''apps/v1'', or_kind = ''StatefulSet'',
         or_name = ''app'', or_uid = ''1'', or_controller = Some True\<rparr>]\<rparr>,
     po_spec = empty_pod_spec, po_container_statuses = [crashed_status]\<rparr>"

lemma crashed_pod_name: "om_name (po_meta crashed_pod) = pod_name ''app'' 1"
  unfolding crashed_pod_def by code_simp

theorem crash_report_witness:
  "result (generate_crash_event sample_client crashed_pod) 0 = Some
     \<lparr>ce_process_guid = ''guid'', ce_reason = ''OOMKilled'', ce_instance = ''app-1'', ce_index = 1,
      ce_exit_code = 137, ce_crash_count = 3, ce_crash_timestamp = 1500\<rparr>"
proof -
  have label: "map_get (om_labels (po_meta crashed_pod)) label_source_type = app_source_type"
    and status: "get_application_container_status (po_container_statuses crashed_pod) = Some crashed_status"
    by (simp_all add: crashed_pod_def crashed_status_def application_container_name_def)
  have list: "run_state (list_events sample_client ns ls fs) 0 = (Inr [], 0)" for ns ls fs
    by (simp add: sample_client_def)
  show ?thesis
    by (subst crash_report [OF label status crashed_pod_name _ _ list])
      (simp_all add: crashed_status_def reported_termination_def crashed_pod_def empty_meta_def
        annotation_process_guid_def unix_seconds_def second_def)
qed

end
