(* ===== verification/Pod_Crash.thy ===== *)
theory Pod_Crash
  imports Crash_Event
begin

text \<open>
  \<open>k8s/reconciler/pod_crash.go\<close> and \<open>k8s/reconciler/pod_crash_predicate.go\<close>: a crash of a pod
  of an application is recorded as an event of its LRP. The generator of crash events is the
  interface \<open>CrashEventGenerator\<close>: the client's lemmas are proved for every generator that meets
  the contract of \<open>Crash_Event\<close>.
\<close>

section \<open>Definitions\<close>

definition eirini_controller_source :: string where
  "eirini_controller_source = ''eirini-controller''"

definition crash_event_type :: string where
  "crash_event_type = ''Warning''"

definition label_instance_index :: string where
  "label_instance_index = ''korifi.cloudfoundry.org/instance-index''"

definition crash_action :: string where
  "crash_action = ''crashing''"

definition lrp_kind :: string where
  "lrp_kind = ''LRP''"

definition stateful_set_kind :: string where
  "stateful_set_kind = ''StatefulSet''"

lemmas crash_defs = eirini_controller_source_def crash_event_type_def label_instance_index_def
  crash_action_def lrp_kind_def stateful_set_kind_def

record 'w pod_crash =
  pc_generator :: "pod \<Rightarrow> ('w, crash_event option) io"
  pc_client :: "'w client"
  pc_lib :: kube_lib

definition new_pod_crash ::
  "'w client \<Rightarrow> kube_lib \<Rightarrow> (pod \<Rightarrow> ('w, crash_event option) io) \<Rightarrow> 'w pod_crash" where
  "new_pod_crash cl lib gen = \<lparr>pc_generator = gen, pc_client = cl, pc_lib = lib\<rparr>"

definition failure_reason :: "crash_event \<Rightarrow> string" where
  "failure_reason ce = ''Container: '' @ ce_reason ce"

fun get_owner :: "owner_reference list \<Rightarrow> string \<Rightarrow> go_error + owner_reference" where
  "get_owner [] kind = Inl (NewError (''no owner of kind '' @ kind))"
| "get_owner (ref # refs) kind = (if or_kind ref = kind then Inr ref else get_owner refs kind)"

definition event_already_emitted :: "crash_event \<Rightarrow> pod \<Rightarrow> bool" where
  "event_already_emitted ce p \<longleftrightarrow>
     itoa (ce_crash_timestamp ce) = map_get (om_annotations (po_meta p)) annotation_last_reported_lrp_crash"

definition get_by_instance_and_reason ::
  "'w pod_crash \<Rightarrow> string \<Rightarrow> owner_reference \<Rightarrow> int \<Rightarrow> string \<Rightarrow> ('w, go_error + event option) io" where
  "get_by_instance_and_reason r namespace ownerRef instanceIndex reason = do {
     res \<leftarrow> list_events (pc_client r) namespace [(label_instance_index, itoa instanceIndex)]
       [(index_event_involved_object_name, or_name ownerRef),
        (index_event_involved_object_kind, or_kind ownerRef),
        (index_event_reason, reason)];
     ret (case res of
            Inl err \<Rightarrow> Inl (Wrap ''failed to list events'' err)
          | Inr items \<Rightarrow> Inr (if length items = 1 then Some (items ! 0) else None))
   }"

definition new_crash_event :: "gotime \<Rightarrow> owner_reference \<Rightarrow> crash_event \<Rightarrow> string \<Rightarrow> event" where
  "new_crash_event now ownerRef ce namespace =
     \<lparr>en_meta = empty_meta\<lparr>om_namespace := namespace, om_generate_name := ce_instance ce @ ''-'',
        om_labels := Some [(label_instance_index, itoa (ce_index ce))],
        om_annotations := Some [(annotation_process_guid, ce_process_guid ce)]\<rparr>,
      en_involved_object = \<lparr>ob_kind = or_kind ownerRef, ob_name = or_name ownerRef, ob_uid = or_uid ownerRef,
        ob_api_version = or_api_version ownerRef, ob_namespace = namespace,
        ob_field_path = ''spec.containers{opi}''\<rparr>,
      en_reason = failure_reason ce,
      en_message = ''Container terminated with exit code: '' @ itoa (ce_exit_code ce),
      en_source_component = eirini_controller_source,
      en_first_timestamp = time_unix (ce_crash_timestamp ce),
      en_last_timestamp = time_unix (ce_crash_timestamp ce),
      en_event_time = now,
      en_count = 1,
      en_type = crash_event_type,
      en_reporting_controller = eirini_controller_source,
      en_action = crash_action,
      en_reporting_instance = ''controller-id''\<rparr>"

definition create_crash_event ::
  "'w pod_crash \<Rightarrow> owner_reference \<Rightarrow> crash_event \<Rightarrow> string \<Rightarrow> ('w, go_error option) io" where
  "create_crash_event r ownerRef ce namespace = do {
     now \<leftarrow> time_now (pc_client r);
     (err, ev) \<leftarrow> create_event (pc_client r) (new_crash_event now ownerRef ce namespace);
     ret (wrap_err ''failed to create event'' err)
   }"

text \<open>The count is incremented in 32 bits.\<close>

definition update_crash_event :: "'w pod_crash \<Rightarrow> event \<Rightarrow> crash_event \<Rightarrow> ('w, go_error option) io" where
  "update_crash_event r kubeEvent ce = do {
     (err, ev) \<leftarrow> update_event (pc_client r)
       (kubeEvent\<lparr>en_count := en_count kubeEvent + 1, en_last_timestamp := time_unix (ce_crash_timestamp ce)\<rparr>);
     ret (wrap_err ''failed to update event'' err)
   }"

definition set_event ::
  "'w pod_crash \<Rightarrow> event option \<Rightarrow> owner_reference \<Rightarrow> crash_event \<Rightarrow> string \<Rightarrow> ('w, go_error option) io" where
  "set_event r kubeEvent lrpRef ce namespace =
     (case kubeEvent of
        Some ev \<Rightarrow> update_crash_event r ev ce
      | None \<Rightarrow> create_crash_event r lrpRef ce namespace)"

text \<open>The error of the patch is only logged.\<close>

definition set_crash_timestamp_on_pod :: "'w pod_crash \<Rightarrow> pod \<Rightarrow> crash_event \<Rightarrow> ('w, unit) io" where
  "set_crash_timestamp_on_pod r p ce = do {
     (err, newPod) \<leftarrow> patch_pod (pc_client r) (annotate_crash p (itoa (ce_crash_timestamp ce))) p;
     ret ()
   }"

definition pod_crash_reconcile :: "'w pod_crash \<Rightarrow> namespaced_name \<Rightarrow> ('w, reconcile_result) io" where
  "pod_crash_reconcile r request = do {
     res \<leftarrow> get_pod (pc_client r) request;
     case res of
       Inl err \<Rightarrow>
         if is_not_found (pc_lib r) err then ret (0, None)
         else ret (0, Some (Wrap ''failed to get pod'' err))
     | Inr p \<Rightarrow> do {
         crashEvent \<leftarrow> pc_generator r p;
         case crashEvent of
           None \<Rightarrow> ret (0, None)
         | Some ce \<Rightarrow>
             if event_already_emitted ce p then ret (0, None)
             else (case get_owner (om_owner_references (po_meta p)) stateful_set_kind of
                 Inl _ \<Rightarrow> ret (0, None)
               | Inr statefulSetRef \<Rightarrow> do {
                   res \<leftarrow> get_stset (pc_client r) (om_namespace (po_meta p), or_name statefulSetRef);
                   case res of
                     Inl err \<Rightarrow> ret (0, Some (Wrap ''failed to get stateful set'' err))
                   | Inr statefulSet \<Rightarrow>
                       (case get_owner (om_owner_references (st_meta statefulSet)) lrp_kind of
                          Inl _ \<Rightarrow> ret (0, None)
                        | Inr lrpRef \<Rightarrow> do {
                            res \<leftarrow> get_by_instance_and_reason r (fst request) lrpRef (ce_index ce) (failure_reason ce);
                            case res of
                              Inl err \<Rightarrow> ret (0, Some (Wrap ''failed to get existing event'' err))
                            | Inr kubeEvent \<Rightarrow> do {
                                err \<leftarrow> set_event r kubeEvent lrpRef ce (fst request);
                                case err of
                                  Some e \<Rightarrow> ret (0, Some e)
                                | None \<Rightarrow> do {
                                    _ \<leftarrow> set_crash_timestamp_on_pod r p ce;
                                    ret (0, None)
                                  }
                              }
                          })
                 })
       }
   }"

text \<open>
  Which events of the watch on pods cause a reconciliation: updates of pods of a source type.
\<close>

datatype watch_event =
    CreateWatch object_meta
  | UpdateWatch object_meta object_meta
  | DeleteWatch object_meta
  | GenericWatch object_meta

fun source_type_update_predicate :: "string \<Rightarrow> watch_event \<Rightarrow> bool" where
  "source_type_update_predicate sourceType (UpdateWatch objectOld objectNew) =
     (map_get (om_labels objectNew) label_source_type = sourceType)"
| "source_type_update_predicate sourceType (CreateWatch _) = False"
| "source_type_update_predicate sourceType (DeleteWatch _) = False"
| "source_type_update_predicate sourceType (GenericWatch _) = False"

text \<open>\<open>createPodCrashReconciler\<close> of \<open>cmd/wiring/pod_crash_reconciler.go\<close>.\<close>

definition create_pod_crash_reconciler :: "'w client \<Rightarrow> kube_lib \<Rightarrow> 'w pod_crash" where
  "create_pod_crash_reconciler cl lib = new_pod_crash cl lib (generate_crash_event cl)"

lemma pod_crash_fields [simp]:
  "pc_client (new_pod_crash cl lib gen) = cl" "pc_lib (new_pod_crash cl lib gen) = lib"
  "pc_generator (new_pod_crash cl lib gen) = gen"
  by (simp_all add: new_pod_crash_def)

lemma get_owner_kind: "get_owner refs kind = Inr ref \<Longrightarrow> or_kind ref = kind"
  by (induction refs kind rule: get_owner.induct) (auto split: if_splits)

section \<open>Recording the crashes of any generator\<close>

text \<open>
  The calls of a reconciliation: of the pod it changes nothing but the annotation, which becomes
  the time of the crash.
\<close>

fun crash_call :: "(pod \<Rightarrow> int) \<Rightarrow> namespaced_name \<Rightarrow> api_call \<Rightarrow> bool" where
  "crash_call time_of k (GetPod k') = (k' = k)"
| "crash_call time_of k (ListEvents ns ls fs) = (ns = fst k)"
| "crash_call time_of k (GetStset k') = (fst k' = fst k)"
| "crash_call time_of k (CreateEvent e) =
     (om_namespace (en_meta e) = fst k \<and> om_generate_name (en_meta e) = snd k @ ''-'')"
| "crash_call time_of k (UpdateEvent e) = (om_namespace (en_meta e) = fst k)"
| "crash_call time_of k (PatchPod new old) =
     (meta_key (po_meta old) = k \<and> new = annotate_crash old (itoa (time_of old)))"
| "crash_call time_of k _ = False"

lemma list_events_crash_call: "list_events_call (fst k) c \<Longrightarrow> crash_call time_of k c"
  by (cases c) auto

context crash_event_generator
begin

abbreviation reconciler :: "'w client \<Rightarrow> kube_lib \<Rightarrow> 'w logged_world pod_crash" where
  "reconciler cl lib \<equiv> new_pod_crash (logged cl) lib gen"

lemma already_reported:
  assumes "run_state (get_pod cl k) w = (Inr p, w1)"
    and "map_get (om_annotations (po_meta p)) annotation_last_reported_lrp_crash = itoa (time_of p)"
  shows "trace (pod_crash_reconcile (reconciler cl lib) k) w = GetPod k # trace (gen p) w1"
    and "result (pod_crash_reconcile (reconciler cl lib) k) (w, []) = (0, None)"
proof -
  obtain r w2 where gen: "run_state (gen p) (w1, [GetPod k]) = (r, (w2, [GetPod k] @ trace (gen p) w1))"
    and r: "r = result (gen p) (w1, [])"
    using appendsD [OF only_appends, of p w1 "[GetPod k]"] by metis
  have "event_already_emitted ce p" if "r = Some ce" for ce
    using calls_trace [OF own_calls, of p w1] that r assms(2) by (simp add: event_already_emitted_def)
  then have "run_state (pod_crash_reconcile (reconciler cl lib) k) (w, []) =
      ((0, None), (w2, [GetPod k] @ trace (gen p) w1))"
    using assms(1) gen by (cases r) (simp_all add: pod_crash_reconcile_def)
  then show "trace (pod_crash_reconcile (reconciler cl lib) k) w = GetPod k # trace (gen p) w1"
    and "result (pod_crash_reconcile (reconciler cl lib) k) (w, []) = (0, None)"
    by (simp_all add: trace_def result_def)
qed

lemma reconcile_calls:
  assumes "key_laws cl"
  shows "calls (crash_call time_of k) (pod_crash_reconcile (reconciler cl lib) k) (\<lambda>_. True)"
proof -
  have get: "calls (crash_call time_of k) (log_call (GetPod k) (get_pod cl k))
      (\<lambda>r. case r of Inl _ \<Rightarrow> True | Inr p \<Rightarrow> meta_key (po_meta p) = k)"
    by (rule calls_get) (auto dest: get_pod_key [OF assms])
  have gen: "calls (crash_call time_of k) (gen p)
      (\<lambda>r. \<forall>ce. r = Some ce \<longrightarrow> ce_instance ce = snd k \<and> ce_crash_timestamp ce = time_of p)"
    if "meta_key (po_meta p) = k" for p
    by (rule calls_weaken [OF own_calls [of p]]) (use that in \<open>auto intro: list_events_crash_call\<close>)
  have list: "calls (crash_call time_of k) (get_by_instance_and_reason (reconciler cl lib) (fst k) ref i reason)
      (\<lambda>r. \<forall>e. r = Inr (Some e) \<longrightarrow> om_namespace (en_meta e) = fst k)" for ref i reason
  proof -
    have "calls (crash_call time_of k) (log_call (ListEvents (fst k) ls fs) (list_events cl (fst k) ls fs))
        (\<lambda>r. case r of Inl _ \<Rightarrow> True | Inr es \<Rightarrow> \<forall>e \<in> set es. om_namespace (en_meta e) = fst k)" for ls fs
      using assms by (intro calls_get) (auto simp: key_laws_def)
    then show ?thesis
      unfolding get_by_instance_and_reason_def pod_crash_fields logged_simps
      by (rule calls_bind) (auto intro!: calls_ret split: sum.splits if_splits)
  qed
  have set: "calls (crash_call time_of k) (set_event (reconciler cl lib) ev ref ce (fst k)) (\<lambda>_. True)"
    if "ce_instance ce = snd k" "\<forall>e. ev = Some e \<longrightarrow> om_namespace (en_meta e) = fst k" for ev ref ce
    unfolding set_event_def create_crash_event_def update_crash_event_def pod_crash_fields logged_simps
    by (intro calls_intros) (use that in \<open>auto simp: new_crash_event_def\<close>)
  show ?thesis
    unfolding pod_crash_reconcile_def set_crash_timestamp_on_pod_def pod_crash_fields logged_simps
    by (intro calls_bind [OF get] calls_case_sum calls_if calls_ret TrueI calls_bind [OF gen] calls_case_option
        calls_seq calls_bind [OF list] set calls_case_prod calls_any) auto
qed

text \<open>The pod is marked only when the crash has been recorded and nothing has failed.\<close>

lemma marks_recorded:
  assumes "PatchPod new old \<in> set (trace (pod_crash_reconcile (reconciler cl lib) k) w)"
  shows "result (pod_crash_reconcile (reconciler cl lib) k) (w, []) = (0, None)
    \<and> (\<exists>e. CreateEvent e \<in> set (trace (pod_crash_reconcile (reconciler cl lib) k) w)
        \<or> UpdateEvent e \<in> set (trace (pod_crash_reconcile (reconciler cl lib) k) w))"
proof (cases "run_state (get_pod cl k) w")
  case (Pair g w1)
  show ?thesis
  proof (cases g)
    case (Inl e)
    then show ?thesis
      using assms Pair by (auto simp: pod_crash_reconcile_def trace_def split: if_splits)
  next
    case (Inr p)
    obtain r w2 where gen: "run_state (gen p) (w1, [GetPod k]) = (r, (w2, [GetPod k] @ trace (gen p) w1))"
      using appendsD [OF only_appends, of p w1 "[GetPod k]"] by metis
    have "PatchPod new old \<notin> set (trace (gen p) w1)"
      using calls_trace [OF own_calls, of p w1] by (auto simp: list_all_iff)
    then show ?thesis
      using assms Pair Inr gen
      by (auto simp: pod_crash_reconcile_def get_by_instance_and_reason_def set_event_def create_crash_event_def
          update_crash_event_def set_crash_timestamp_on_pod_def trace_def result_def
          split: option.splits sum.splits prod.splits if_splits)
  qed
qed

end

section \<open>Properties\<close>

abbreviation wired_crash_reconcile ::
  "'w client \<Rightarrow> kube_lib \<Rightarrow> namespaced_name \<Rightarrow> ('w logged_world, reconcile_result) io" where
  "wired_crash_reconcile cl lib \<equiv> pod_crash_reconcile (create_pod_crash_reconciler (logged cl) lib)"

lemma wired_crash_calls:
  "key_laws cl \<Longrightarrow> list_all (crash_call crash_time k) (trace (wired_crash_reconcile cl lib k) w)"
  using calls_trace [OF generator.reconcile_calls, of cl k lib cl w]
  unfolding create_pod_crash_reconciler_def by blast

lemma generate_lists:
  "calls (\<lambda>c. \<exists>fs. c = ListEvents (om_namespace (po_meta p)) [] fs) (generate_crash_event (logged cl) p) (\<lambda>_. True)"
  unfolding generate_crash_event_def generate_report_for_terminated_pod_def get_by_pod_def Let_def logged_simps
  by (intro calls_intros) auto

text \<open>
  C28: whatever the cluster contains and whatever fails, reconciling a pod reads only that pod and
  objects of its namespace, writes only events of the namespace, named after the pod when they are
  new, and changes nothing of the pod but the annotation of the last reported crash, which becomes
  the time of the crash, and this only after an event was written and without any error left.
\<close>

theorem crash_only_records:
  assumes "key_laws cl"
  shows "list_all (crash_call crash_time k) (trace (wired_crash_reconcile cl lib k) w)
    \<and> ((\<exists>new old. PatchPod new old \<in> set (trace (wired_crash_reconcile cl lib k) w)) \<longrightarrow>
        result (wired_crash_reconcile cl lib k) (w, []) = (0, None)
        \<and> (\<exists>e. CreateEvent e \<in> set (trace (wired_crash_reconcile cl lib k) w)
             \<or> UpdateEvent e \<in> set (trace (wired_crash_reconcile cl lib k) w)))"
  using wired_crash_calls [OF assms] generator.marks_recorded [of _ _ cl lib cl k w]
  unfolding create_pod_crash_reconciler_def by blast

text \<open>
  C14: a crash is reported once. When a reconciliation has marked a pod, then whenever the pod is
  found with that annotation and these container statuses again, at any later time and under any
  key, reconciling it succeeds without writing anything.
\<close>

theorem crash_reported_once:
  assumes "key_laws cl" and "PatchPod new old \<in> set (trace (wired_crash_reconcile cl lib k) w)"
    and "run_state (get_pod cl k') w' = (Inr p, w1)"
    and "po_container_statuses p = po_container_statuses old"
    and "map_get (om_annotations (po_meta p)) annotation_last_reported_lrp_crash
       = map_get (om_annotations (po_meta new)) annotation_last_reported_lrp_crash"
  shows "result (wired_crash_reconcile cl lib k') (w', []) = (0, None)
    \<and> (\<forall>c \<in> set (trace (wired_crash_reconcile cl lib k') w').
         c = GetPod k' \<or> (\<exists>fs. c = ListEvents (om_namespace (po_meta p)) [] fs))"
proof -
  have "new = annotate_crash old (itoa (crash_time old))"
    using wired_crash_calls [OF assms(1), of k lib w] assms(2) by (auto simp: list_all_iff)
  then have "map_get (om_annotations (po_meta p)) annotation_last_reported_lrp_crash = itoa (crash_time p)"
    using assms(4,5) by (simp add: crash_time_def)
  note reported = generator.already_reported [OF assms(3) this, where lib = lib and cla = cl]
  show ?thesis
    using reported calls_trace [OF generate_lists, of p cl w1]
    by (auto simp: create_pod_crash_reconciler_def list_all_iff)
qed

text \<open>
  C17: how a new crash is recorded, when the pod has a stateful set and this an LRP. If the cluster
  lists exactly one event for the LRP, the instance index and the reason, its count is incremented
  (modulo \<open>2 ^ 32\<close>) and its last time set to that of the crash, whatever the rest of the event says;
  else a new event of the LRP is created with count 1. The pod is marked just when this
  succeeds, and otherwise the error is returned, so that the crash is tried again.
\<close>

theorem crash_recorded:
  assumes "run_state (get_pod cl k) w = (Inr p, w1)"
    and "run_state (generate_crash_event (logged cl) p) (w1, []) = (Some ce, (w2, cs))"
    and "map_get (om_annotations (po_meta p)) annotation_last_reported_lrp_crash \<noteq> itoa (ce_crash_timestamp ce)"
    and "get_owner (om_owner_references (po_meta p)) ''StatefulSet'' = Inr setRef"
    and "run_state (get_stset cl (om_namespace (po_meta p), or_name setRef)) w2 = (Inr st, w3)"
    and "get_owner (om_owner_references (st_meta st)) ''LRP'' = Inr lrpRef"
    and "run_state (list_events cl (fst k) [(label_instance_index, itoa (ce_index ce))]
       [(index_event_involved_object_name, or_name lrpRef), (index_event_involved_object_kind, ''LRP''),
        (index_event_reason, ''Container: '' @ ce_reason ce)]) w3 = (Inr es, w4)"
    and "run_state (time_now cl) w4 = (now, w5)"
  defines "written \<equiv> (case es of
       [e] \<Rightarrow> UpdateEvent (e\<lparr>en_count := en_count e + 1, en_last_timestamp := time_unix (ce_crash_timestamp ce)\<rparr>)
     | _ \<Rightarrow> CreateEvent (new_crash_event now lrpRef ce (fst k)))"
  defines "err \<equiv> (case written of
       UpdateEvent e \<Rightarrow> wrap_err ''failed to update event'' (fst (result (update_event cl e) w4))
     | CreateEvent e \<Rightarrow> wrap_err ''failed to create event'' (fst (result (create_event cl e) w5)))"
  shows "trace (wired_crash_reconcile cl lib k) w =
      GetPod k # cs @ [GetStset (om_namespace (po_meta p), or_name setRef),
        ListEvents (fst k) [(label_instance_index, itoa (ce_index ce))]
          [(index_event_involved_object_name, or_name lrpRef), (index_event_involved_object_kind, ''LRP''),
           (index_event_reason, ''Container: '' @ ce_reason ce)], written]
      @ (if err = None then [PatchPod (annotate_crash p (itoa (ce_crash_timestamp ce))) p] else [])
    \<and> result (wired_crash_reconcile cl lib k) (w, []) = (0, err)"
proof -
  have "run_state (generate_crash_event (logged cl) p) (w1, [GetPod k]) = (Some ce, (w2, GetPod k # cs))"
    using assms(2) appendsD [OF generator.only_appends, of cl p w1 "[GetPod k]"]
    by (simp add: result_def trace_def)
  moreover have "or_kind lrpRef = ''LRP''"
    by (rule get_owner_kind [OF assms(6)])
  ultimately show ?thesis
    using assms(1,3-8)
    by (auto simp: written_def err_def pod_crash_reconcile_def create_pod_crash_reconciler_def
        event_already_emitted_def stateful_set_kind_def lrp_kind_def get_by_instance_and_reason_def
        failure_reason_def set_event_def create_crash_event_def update_crash_event_def
        set_crash_timestamp_on_pod_def trace_def result_def wrap_err_def
        split: list.split option.split prod.split)
qed

section \<open>Witnesses\<close>

text \<open>
  The cluster at time 0, with the pod that crashed at second 1500, and at later times, with the pod
  as the reconciliation left it.
\<close>

definition crash_client :: "gotime client" where
  "crash_client = sample_client\<lparr>
     get_pod := (\<lambda>k. State (\<lambda>w. (Inr (let p = crashed_pod\<lparr>po_meta := (po_meta crashed_pod)
         \<lparr>om_namespace := fst k, om_name := snd k\<rparr>\<rparr>
       in if w = 0 then p else annotate_crash p ''1500''), w))),
     get_stset := (\<lambda>k. ret (Inr \<lparr>st_meta = empty_meta\<lparr>om_namespace := fst k, om_name := snd k,
         om_owner_references := [\<lparr>or_api_version = ''v1'', or_kind = ''LRP'', or_name = ''mylrp'',
           or_uid = ''2'', or_controller = Some True\<rparr>]\<rparr>,
       st_pod_management_policy = [], st_replicas = Some 2, st_selector = None,
       st_template = \<lparr>pt_labels = None, pt_annotations = None, pt_spec = empty_pod_spec\<rparr>,
       st_ready_replicas = 1\<rparr>))\<rparr>"

lemma crash_client_key_laws: "key_laws crash_client"
  using sample_key_laws by (simp add: key_laws_def crash_client_def result_def Let_def)

definition sample_crash :: crash_event where
  "sample_crash = \<lparr>ce_process_guid = ''guid'', ce_reason = ''OOMKilled'', ce_instance = ''app-1'', ce_index = 1,
      ce_exit_code = 137, ce_crash_count = 3, ce_crash_timestamp = 1500\<rparr>"

lemma sample_crash_generated:
  "run_state (generate_crash_event (logged crash_client) crashed_pod) (0, l) = (Some sample_crash,
     (0, l @ [ListEvents ''cf'' [] [(index_event_involved_object_kind, ''Pod''),
            (index_event_involved_object_name, ''app-1'')]]))"
proof -
  have "parse_app_index (om_name (po_meta crashed_pod)) = Inr 1"
    unfolding crashed_pod_name by (subst parse_pod_index) simp_all
  moreover have "map_get (om_annotations (po_meta crashed_pod)) annotation_process_guid = ''guid''"
    and "map_get (om_labels (po_meta crashed_pod)) label_source_type = app_source_type"
    and "om_name (po_meta crashed_pod) = ''app-1''" "om_namespace (po_meta crashed_pod) = ''cf''"
    and "get_application_container_status (po_container_statuses crashed_pod) = Some crashed_status"
    and "po_container_statuses crashed_pod \<noteq> []"
    by (simp_all add: crashed_pod_def crashed_status_def application_container_name_def)
  moreover have "list_events crash_client ns ls fs = ret (Inr [])" for ns ls fs
    by (simp add: crash_client_def sample_client_def)
  ultimately show ?thesis
    by (simp add: generate_crash_event_def generate_report_for_terminated_pod_def get_by_pod_def
        generate_report_def is_stopped_def calculate_crash_count_def crashed_status_def sample_crash_def
        unix_seconds_def second_def)
qed

lemma crashed_pod_unreported:
  "map_get (om_annotations (po_meta crashed_pod)) annotation_last_reported_lrp_crash = ''''"
  by (simp add: crashed_pod_def annotation_process_guid_def annotation_last_reported_lrp_crash_def)

lemma crash_digits: "itoa 1 = ''1''" "itoa 1500 = ''1500''"
  by code_simp+

theorem crash_only_records_witness:
  "list_all (crash_call crash_time (''cf'', ''app-1''))
     (trace (wired_crash_reconcile crash_client sample_lib (''cf'', ''app-1'')) 0)"
  using crash_only_records [OF crash_client_key_laws] by blast

theorem crash_recorded_witness:
  "\<exists>e. trace (wired_crash_reconcile crash_client sample_lib (''cf'', ''app-1'')) 0 =
     [GetPod (''cf'', ''app-1''),
      ListEvents ''cf'' [] [(index_event_involved_object_kind, ''Pod''), (index_event_involved_object_name, ''app-1'')],
      GetStset (''cf'', ''app''),
      ListEvents ''cf'' [(label_instance_index, ''1'')] [(index_event_involved_object_name, ''mylrp''),
        (index_event_involved_object_kind, ''LRP''), (index_event_reason, ''Container: OOMKilled'')],
      CreateEvent e, PatchPod (annotate_crash crashed_pod ''1500'') crashed_pod]
    \<and> en_count e = 1 \<and> en_reason e = ''Container: OOMKilled''
    \<and> result (wired_crash_reconcile crash_client sample_lib (''cf'', ''app-1'')) (0, []) = (0, None)"
proof -
  let ?lref = "\<lparr>or_api_version = ''v1'', or_kind = ''LRP'', or_name = ''mylrp'',
    or_uid = ''2'', or_controller = Some True\<rparr>"
  obtain st where st: "run_state (get_stset crash_client (''cf'', ''app'')) 0 = (Inr st, 0)"
    and owner: "get_owner (om_owner_references (st_meta st)) ''LRP'' = Inr ?lref"
    by (simp add: crash_client_def)
  have pod: "run_state (get_pod crash_client (''cf'', ''app-1'')) 0 = (Inr crashed_pod, 0)"
    by (simp add: crash_client_def crashed_pod_def)
  have setRef: "get_owner (om_owner_references (po_meta crashed_pod)) ''StatefulSet'' = Inr
      \<lparr>or_api_version = ''apps/v1'', or_kind = ''StatefulSet'', or_name = ''app'', or_uid = ''1'',
       or_controller = Some True\<rparr>"
    by (simp add: crashed_pod_def)
  have new: "map_get (om_annotations (po_meta crashed_pod)) annotation_last_reported_lrp_crash
      \<noteq> itoa (ce_crash_timestamp sample_crash)"
    by (simp add: crashed_pod_unreported sample_crash_def crash_digits)
  have list: "run_state (list_events crash_client ns ls fs) 0 = (Inr [], 0)" for ns ls fs
    by (simp add: crash_client_def sample_client_def)
  have now: "run_state (time_now crash_client) 0 = (0, 0)"
    by (simp add: crash_client_def sample_client_def State_Monad.get_def)
  have st': "run_state (get_stset crash_client (om_namespace (po_meta crashed_pod),
      or_name \<lparr>or_api_version = ''apps/v1'', or_kind = ''StatefulSet'', or_name = ''app'', or_uid = ''1'',
       or_controller = Some True\<rparr>)) 0 = (Inr st, 0)"
    using st by (simp add: crashed_pod_def)
  have create: "fst (result (create_event crash_client e) 0) = None" for e
    by (simp add: crash_client_def sample_client_def)
  show ?thesis
    using crash_recorded [OF pod sample_crash_generated new setRef st' owner list now, of sample_lib]
    by (intro exI [of _ "new_crash_event 0 ?lref sample_crash ''cf''"])
      (simp add: create sample_crash_def crashed_pod_def crash_digits new_crash_event_def failure_reason_def)
qed

theorem crash_reported_once_witness:
  "result (wired_crash_reconcile crash_client sample_lib (''cf'', ''app-1'')) (1, []) = (0, None)"
proof -
  have "om_name (po_meta crashed_pod) = ''app-1''" "om_namespace (po_meta crashed_pod) = ''cf''"
    and "om_owner_references (po_meta crashed_pod) = [\<lparr>or_api_version = ''apps/v1'',
       or_kind = ''StatefulSet'', or_name = ''app'', or_uid = ''1'', or_controller = Some True\<rparr>]"
    by (simp_all add: crashed_pod_def)
  moreover have "run_state (get_pod crash_client (''cf'', ''app-1'')) 0 = (Inr crashed_pod, 0)"
    by (simp add: crash_client_def crashed_pod_def)
  moreover have "list_events crash_client ns ls fs = ret (Inr [])" "create_event crash_client e = ret (None, e)"
    for ns ls fs e
    by (simp_all add: crash_client_def sample_client_def)
  moreover have "time_now crash_client = State_Monad.get"
    by (simp add: crash_client_def sample_client_def)
  moreover obtain st where "run_state (get_stset crash_client (''cf'', ''app'')) 0 = (Inr st, 0)"
    and "om_owner_references (st_meta st) = [\<lparr>or_api_version = ''v1'', or_kind = ''LRP'', or_name = ''mylrp'',
      or_uid = ''2'', or_controller = Some True\<rparr>]"
    by (simp add: crash_client_def)
  ultimately have "PatchPod (annotate_crash crashed_pod ''1500'') crashed_pod
      \<in> set (trace (wired_crash_reconcile crash_client sample_lib (''cf'', ''app-1'')) 0)"
    using sample_crash_generated crashed_pod_unreported
    by (simp add: pod_crash_reconcile_def create_pod_crash_reconciler_def event_already_emitted_def
        stateful_set_kind_def lrp_kind_def get_by_instance_and_reason_def set_event_def
        create_crash_event_def set_crash_timestamp_on_pod_def trace_def sample_crash_def crash_digits)
  moreover have "run_state (get_pod crash_client (''cf'', ''app-1'')) 1
      = (Inr (annotate_crash crashed_pod ''1500''), 1)"
    by (simp add: crash_client_def crashed_pod_def empty_meta_def)
  ultimately show ?thesis
    by (rule crash_reported_once [OF crash_client_key_laws, THEN conjunct1]) simp_all
qed

end
