(* ===== verification/Admission.thy ===== *)
theory Admission
  imports Api_Types
begin

text \<open>
  The admission requests and responses of the two webhooks. Decoding an object, encoding a pod and
  the text of a foreign error are functions of libraries: the parameters \<open>admission_lib\<close>.
\<close>

datatype admission_operation = CreateOp | UpdateOp | DeleteOp | ConnectOp

text \<open>A request holds the raw bytes of the object and, on updates, of the old object.\<close>

record admission_request =
  ar_operation :: admission_operation
  ar_object :: string
  ar_old_object :: string

record api_status =
  as_status :: string
  as_message :: string
  as_reason :: string
  as_code :: int

text \<open>
  A response: one of those that the functions \<open>Allowed\<close>, \<open>Errored\<close> and \<open>PatchResponseFromRaw\<close> of
  the admission package build from their arguments, or one written out, with its status.
\<close>

datatype admission_response =
    AllowedBecause string
  | Errored int go_error
  | PatchFromRaw string string
  | Answer bool "api_status option"

record admission_lib =
  decode_pod :: "admission_request \<Rightarrow> go_error + pod"
  decode_raw_lrp :: "string \<Rightarrow> go_error + lrp"
  raw_string :: "string \<Rightarrow> string"
  error_string :: "go_error \<Rightarrow> string"
  marshal_pod :: "pod \<Rightarrow> go_error + string"

definition status_bad_request :: int where
  "status_bad_request = 400"

definition status_internal_server_error :: int where
  "status_internal_server_error = 500"

end
