(* ===== verification/Webhook_Diff.thy ===== *)
theory Webhook_Diff
  imports Go_Strings Samples
begin

text \<open>
  \<open>k8s/webhook/diff/lrp.go\<close>: the names of the fields in which two specifications of an LRP
  differ. The comparison itself is go-cmp's, a parameter of the model: it walks both values and
  tells a reporter each step into and out of a part of them and how each leaf compares.
  \<open>cmp_laws\<close> states what go-cmp documents of this.
\<close>

section \<open>Definitions\<close>

text \<open>The calls go-cmp makes of a reporter; \<open>'s\<close> is its type of path steps.\<close>

datatype 's cmp_event = PushStep 's | Report bool | PopStep

record 's reporter =
  rp_path :: "'s list"
  rp_diffs :: "string list"

definition push_step :: "'s reporter \<Rightarrow> 's \<Rightarrow> 's reporter" where
  "push_step r pushStep = r\<lparr>rp_path := rp_path r @ [pushStep]\<rparr>"

definition report_result :: "('s list \<Rightarrow> string) \<Rightarrow> 's reporter \<Rightarrow> bool \<Rightarrow> 's reporter" where
  "report_result path_string r equal =
     (if \<not> equal then r\<lparr>rp_diffs := rp_diffs r @ [path_string (rp_path r)]\<rparr> else r)"

text \<open>Slicing off the last step of an empty path panics.\<close>

definition pop_step :: "'s reporter \<Rightarrow> 's reporter outcome" where
  "pop_step r = (if rp_path r = [] then Panics else Returns (r\<lparr>rp_path := butlast (rp_path r)\<rparr>))"

fun run_reporter :: "('s list \<Rightarrow> string) \<Rightarrow> 's reporter \<Rightarrow> 's cmp_event list \<Rightarrow> 's reporter outcome" where
  "run_reporter ps r [] = Returns r"
| "run_reporter ps r (PushStep s # es) = run_reporter ps (push_step r s) es"
| "run_reporter ps r (Report b # es) = run_reporter ps (report_result ps r b) es"
| "run_reporter ps r (PopStep # es) =
     (case pop_step r of Panics \<Rightarrow> Panics | Returns r' \<Rightarrow> run_reporter ps r' es)"

fun append_if_missing :: "string list \<Rightarrow> string \<Rightarrow> string list" where
  "append_if_missing sl newElem = (if newElem \<in> set sl then sl else sl @ [newElem])"

definition unique :: "string list \<Rightarrow> string list" where
  "unique nonUniqueSlice = foldl append_if_missing [] nonUniqueSlice"

definition reporter_string :: "'s reporter \<Rightarrow> string" where
  "reporter_string r = join '', '' (unique (rp_diffs r))"

text \<open>
  \<open>cmp_equal cmp x y ignored\<close> is the result of \<open>cmp.Equal\<close> with the option \<open>IgnoreFields\<close>, and
  the calls it makes of the reporter. \<open>path_string\<close> is the method \<open>String\<close> of \<open>cmp.Path\<close>.
\<close>

record 's cmp_lib =
  cmp_equal :: "lrp_spec \<Rightarrow> lrp_spec \<Rightarrow> string list \<Rightarrow> bool \<times> 's cmp_event list"
  path_string :: "'s list \<Rightarrow> string"

definition compare_lrp_specs ::
  "'s cmp_lib \<Rightarrow> lrp_spec \<Rightarrow> lrp_spec \<Rightarrow> string list \<Rightarrow> string outcome" where
  "compare_lrp_specs cmp updatedLRPSpec originalLRPSpec ignoredFields =
     (let (equal, events) = cmp_equal cmp updatedLRPSpec originalLRPSpec ignoredFields
      in case run_reporter (path_string cmp) \<lparr>rp_path = [], rp_diffs = []\<rparr> events of
           Panics \<Rightarrow> Panics
         | Returns reporter \<Rightarrow> Returns (if \<not> equal then reporter_string reporter else ''''))"

section \<open>Comparing two specifications\<close>

text \<open>Maps are equal as maps, whatever the order their entries are listed in.\<close>

definition same_map :: "gomap \<Rightarrow> gomap \<Rightarrow> bool" where
  "same_map m n \<longleftrightarrow> (m = None) = (n = None) \<and> set (entries m) = set (entries n)"

definition same_sidecar :: "sidecar \<Rightarrow> sidecar \<Rightarrow> bool" where
  "same_sidecar s t \<longleftrightarrow> sd_name s = sd_name t \<and> sd_command s = sd_command t
     \<and> sd_memory_mb s = sd_memory_mb t \<and> same_map (sd_env s) (sd_env t)"

definition same_sidecars :: "sidecar list option \<Rightarrow> sidecar list option \<Rightarrow> bool" where
  "same_sidecars s t \<longleftrightarrow> (s = None) = (t = None) \<and> list_all2 same_sidecar (entries s) (entries t)"

text \<open>The fields of \<open>LRPSpec\<close>, each with whether it is the same in two specifications.\<close>

definition same_fields :: "lrp_spec \<Rightarrow> lrp_spec \<Rightarrow> (string \<times> bool) list" where
  "same_fields a b =
     [(''GUID'', ls_guid a = ls_guid b),
      (''Version'', ls_version a = ls_version b),
      (''ProcessType'', ls_process_type a = ls_process_type b),
      (''AppName'', ls_app_name a = ls_app_name b),
      (''AppGUID'', ls_app_guid a = ls_app_guid b),
      (''OrgName'', ls_org_name a = ls_org_name b),
      (''OrgGUID'', ls_org_guid a = ls_org_guid b),
      (''SpaceName'', ls_space_name a = ls_space_name b),
      (''SpaceGUID'', ls_space_guid a = ls_space_guid b),
      (''Image'', ls_image a = ls_image b),
      (''Command'', ls_command a = ls_command b),
      (''Sidecars'', same_sidecars (ls_sidecars a) (ls_sidecars b)),
      (''PrivateRegistry'', ls_private_registry a = ls_private_registry b),
      (''Env'', same_map (ls_env a) (ls_env b)),
      (''Environment'', ls_environment a = ls_environment b),
      (''Health'', ls_health a = ls_health b),
      (''Ports'', ls_ports a = ls_ports b),
      (''Instances'', ls_instances a = ls_instances b),
      (''MemoryMB'', ls_memory_mb a = ls_memory_mb b),
      (''DiskMB'', ls_disk_mb a = ls_disk_mb b),
      (''CPUWeight'', ls_cpu_weight a = ls_cpu_weight b),
      (''VolumeMounts'', ls_volume_mounts a = ls_volume_mounts b),
      (''UserDefinedAnnotations'', same_map (ls_user_defined_annotations a) (ls_user_defined_annotations b))]"

definition lrp_spec_field_names :: "string list" where
  "lrp_spec_field_names =
    [''GUID'', ''Version'', ''ProcessType'', ''AppName'', ''AppGUID'', ''OrgName'', ''OrgGUID'',
     ''SpaceName'', ''SpaceGUID'', ''Image'', ''Command'', ''Sidecars'', ''PrivateRegistry'',
     ''Env'', ''Environment'', ''Health'', ''Ports'', ''Instances'', ''MemoryMB'', ''DiskMB'',
     ''CPUWeight'', ''VolumeMounts'', ''UserDefinedAnnotations'']"

definition changed_fields :: "lrp_spec \<Rightarrow> lrp_spec \<Rightarrow> string list \<Rightarrow> string list" where
  "changed_fields a b ignored = map fst (filter (\<lambda>(f, same). \<not> same \<and> f \<notin> set ignored) (same_fields a b))"

text \<open>A simplified path leads into a field when it is the field, or continues after a dot.\<close>

definition in_field :: "string \<Rightarrow> string \<Rightarrow> bool" where
  "in_field f s \<longleftrightarrow> s = f \<or> take (length f + 1) s = f @ ''.''"

text \<open>
  A comparison is a tree. Its walk pushes a step at each node, reports each leaf, and pops the step
  when the node is done.
\<close>

datatype 's comparison = Leaf 's bool | Node 's "'s comparison list"

fun walk :: "'s comparison \<Rightarrow> 's cmp_event list" where
  "walk (Leaf s b) = [PushStep s, Report b, PopStep]"
| "walk (Node s ts) = PushStep s # concat (map walk ts) @ [PopStep]"

fun unequal_paths :: "'s list \<Rightarrow> 's comparison \<Rightarrow> 's list list" where
  "unequal_paths p (Leaf s b) = (if b then [] else [p @ [s]])"
| "unequal_paths p (Node s ts) = concat (map (unequal_paths (p @ [s])) ts)"

text \<open>
  What go-cmp documents: the calls of the reporter walk a comparison of the two values; the result
  is false just when a field that is not ignored differs, and then each unequal leaf lies in such
  a field and each such field has an unequal leaf.
\<close>

definition cmp_laws :: "'s cmp_lib \<Rightarrow> bool" where
  "cmp_laws cmp \<longleftrightarrow> (\<forall>a b ignored. set ignored \<subseteq> set lrp_spec_field_names \<longrightarrow>
     (\<exists>t. snd (cmp_equal cmp a b ignored) = walk t
        \<and> fst (cmp_equal cmp a b ignored) = (changed_fields a b ignored = [])
        \<and> (\<forall>p \<in> set (unequal_paths [] t). \<exists>f \<in> set (changed_fields a b ignored). in_field f (path_string cmp p))
        \<and> (\<forall>f \<in> set (changed_fields a b ignored). \<exists>p \<in> set (unequal_paths [] t). in_field f (path_string cmp p))))"

section \<open>The reporter\<close>

lemma run_reporter_append:
  "run_reporter ps r (es @ fs) =
     (case run_reporter ps r es of Panics \<Rightarrow> Panics | Returns r' \<Rightarrow> run_reporter ps r' fs)"
  by (induction ps r es rule: run_reporter.induct) (auto split: outcome.split)

lemma run_reporter_walk:
  "run_reporter ps r (walk t) = Returns (r\<lparr>rp_diffs := rp_diffs r @ map ps (unequal_paths (rp_path r) t)\<rparr>)"
proof (induction t arbitrary: r)
  case (Leaf s b)
  show ?case by (simp add: push_step_def report_result_def pop_step_def)
next
  case (Node s ts)
  let ?r = "push_step r s"
  have "run_reporter ps q (concat (map walk us)) = Returns (q\<lparr>rp_diffs := rp_diffs q
      @ map ps (concat (map (unequal_paths (rp_path q)) us))\<rparr>)" if "set us \<subseteq> set ts" for q us
    using that by (induction us arbitrary: q) (auto simp: run_reporter_append Node.IH)
  from this [of ts ?r] show ?case
    by (simp add: run_reporter_append push_step_def pop_step_def comp_def)
qed

lemma unique_append: "foldl append_if_missing (rev (remdups (rev ys))) xs = rev (remdups (rev (ys @ xs)))"
proof (induction xs arbitrary: ys)
  case Nil
  show ?case by simp
next
  case (Cons x xs)
  have "append_if_missing (rev (remdups (rev ys))) x = rev (remdups (rev (ys @ [x])))"
    by simp
  with Cons.IH [of "ys @ [x]"] show ?case by (simp only: foldl_Cons append_assoc append.simps)
qed

lemma unique_eq: "unique xs = rev (remdups (rev xs))"
  using unique_append [of "[]" xs] by (simp add: unique_def)

lemma join_not_Nil: "x \<in> set xs \<Longrightarrow> x \<noteq> [] \<Longrightarrow> join sep xs \<noteq> []"
  by (induction sep xs rule: join.induct) auto

lemma in_field_not_Nil: "in_field f s \<Longrightarrow> f \<noteq> [] \<Longrightarrow> s \<noteq> []"
  by (auto simp: in_field_def)

lemma same_fields_names [simp]: "map fst (same_fields a b) = lrp_spec_field_names"
  by (simp add: same_fields_def lrp_spec_field_names_def)

lemma changed_fields_names: "set (changed_fields a b ignored) \<subseteq> set lrp_spec_field_names"
proof -
  have "set (map fst (filter P xs)) \<subseteq> set (map fst xs)" for P and xs :: "(string \<times> bool) list"
    by auto
  from this [of _ "same_fields a b"] show ?thesis by (simp only: changed_fields_def same_fields_names)
qed

lemma changed_fields_not_Nil: "f \<in> set (changed_fields a b ignored) \<Longrightarrow> f \<noteq> []"
proof -
  have "[] \<notin> set lrp_spec_field_names" by (simp add: lrp_spec_field_names_def)
  then show "f \<in> set (changed_fields a b ignored) \<Longrightarrow> f \<noteq> []" using changed_fields_names by blast
qed

lemma unchanged_fields:
  assumes "changed_fields a b [''Image'', ''Instances''] = []"
  shows "ls_guid a = ls_guid b" "ls_version a = ls_version b" "ls_process_type a = ls_process_type b"
    "ls_app_name a = ls_app_name b" "ls_app_guid a = ls_app_guid b" "ls_org_name a = ls_org_name b"
    "ls_org_guid a = ls_org_guid b" "ls_space_name a = ls_space_name b" "ls_space_guid a = ls_space_guid b"
    "ls_command a = ls_command b" "ls_private_registry a = ls_private_registry b" "ls_ports a = ls_ports b"
    "same_sidecars (ls_sidecars a) (ls_sidecars b)"
    "ls_health a = ls_health b" "ls_volume_mounts a = ls_volume_mounts b" "ls_memory_mb a = ls_memory_mb b"
proof -
  have "\<forall>(f, same) \<in> set (same_fields a b). same \<or> f \<in> {''Image'', ''Instances''}"
    using assms by (auto simp: changed_fields_def filter_empty_conv)
  then show "ls_guid a = ls_guid b" "ls_version a = ls_version b" "ls_process_type a = ls_process_type b"
    "ls_app_name a = ls_app_name b" "ls_app_guid a = ls_app_guid b" "ls_org_name a = ls_org_name b"
    "ls_org_guid a = ls_org_guid b" "ls_space_name a = ls_space_name b" "ls_space_guid a = ls_space_guid b"
    "ls_command a = ls_command b" "ls_private_registry a = ls_private_registry b" "ls_ports a = ls_ports b"
    "same_sidecars (ls_sidecars a) (ls_sidecars b)"
    "ls_health a = ls_health b" "ls_volume_mounts a = ls_volume_mounts b" "ls_memory_mb a = ls_memory_mb b"
    by (simp_all add: same_fields_def)
qed

section \<open>Properties\<close>

lemma compare_lrp_specs_cases:
  assumes "cmp_laws cmp" and "set ignored \<subseteq> set lrp_spec_field_names"
  obtains ds where "compare_lrp_specs cmp a b ignored = Returns (join '', '' ds)" "distinct ds"
    and "\<forall>d \<in> set ds. \<exists>f \<in> set (changed_fields a b ignored). in_field f d"
    and "\<forall>f \<in> set (changed_fields a b ignored). \<exists>d \<in> set ds. in_field f d"
    and "(join '', '' ds = '''') = (changed_fields a b ignored = [])"
proof -
  obtain t where t: "snd (cmp_equal cmp a b ignored) = walk t"
    and eq: "fst (cmp_equal cmp a b ignored) = (changed_fields a b ignored = [])"
    and named: "\<forall>p \<in> set (unequal_paths [] t). \<exists>f \<in> set (changed_fields a b ignored). in_field f (path_string cmp p)"
    and all: "\<forall>f \<in> set (changed_fields a b ignored). \<exists>p \<in> set (unequal_paths [] t). in_field f (path_string cmp p)"
    using assms unfolding cmp_laws_def by blast
  define ds where "ds = unique (map (path_string cmp) (unequal_paths [] t))"
  have set: "set ds = path_string cmp ` set (unequal_paths [] t)"
    by (simp add: ds_def unique_eq)
  have nil: "ds = []" if "changed_fields a b ignored = []"
    using named that set by auto
  have "compare_lrp_specs cmp a b ignored =
      Returns (if changed_fields a b ignored \<noteq> [] then join '', '' ds else '''')"
    using t eq by (cases "cmp_equal cmp a b ignored")
      (simp add: compare_lrp_specs_def run_reporter_walk reporter_string_def ds_def)
  then have 1: "compare_lrp_specs cmp a b ignored = Returns (join '', '' ds)"
    using nil by auto
  have 2: "(join '', '' ds = '''') = (changed_fields a b ignored = [])"
  proof (cases "changed_fields a b ignored")
    case (Cons f fs)
    then obtain d where "d \<in> set ds" "in_field f d" using all set by auto
    moreover have "f \<noteq> []" using Cons by (intro changed_fields_not_Nil [of f a b ignored]) simp
    ultimately show ?thesis using join_not_Nil in_field_not_Nil Cons by (metis list.distinct(1))
  qed (simp add: nil)
  show ?thesis
    by (rule that [OF 1 _ _ _ 2]) (use named all set in \<open>auto simp: ds_def unique_eq\<close>)
qed

text \<open>
  The reporter never panics and lists each path once, in the order of the first report: for any
  comparison, from any state, it ends on the path where it started, having added the paths of the
  unequal leaves; and \<open>unique\<close> keeps the first occurrence of each.
\<close>

theorem reporter_collects:
  "run_reporter ps r (walk t) = Returns (r\<lparr>rp_diffs := rp_diffs r @ map ps (unequal_paths (rp_path r) t)\<rparr>)
    \<and> reporter_string (r\<lparr>rp_diffs := ds\<rparr>) = join '', '' (rev (remdups (rev ds)))"
  by (simp add: run_reporter_walk reporter_string_def unique_eq)

section \<open>A comparison library\<close>

text \<open>It compares the fields of the two specifications one by one.\<close>

definition sample_comparison :: "lrp_spec \<Rightarrow> lrp_spec \<Rightarrow> string list \<Rightarrow> string comparison" where
  "sample_comparison a b ignored =
     Node ''root'' (map (\<lambda>(f, same). Leaf f (same \<or> f \<in> set ignored)) (same_fields a b))"

definition sample_cmp :: "string cmp_lib" where
  "sample_cmp = \<lparr>cmp_equal = (\<lambda>a b ignored. (changed_fields a b ignored = [], walk (sample_comparison a b ignored))),
     path_string = concat \<circ> tl\<rparr>"

lemma sample_unequal_paths:
  "unequal_paths [] (sample_comparison a b ignored) = map (\<lambda>f. [''root'', f]) (changed_fields a b ignored)"
proof -
  have "concat (map (unequal_paths [r] \<circ> (\<lambda>(f, same). Leaf f (same \<or> f \<in> set ignored))) fs)
      = map (\<lambda>f. [r, f]) (map fst (filter (\<lambda>(f, same). \<not> same \<and> f \<notin> set ignored) fs))" for fs r
    by (induction fs) auto
  from this [of "''root''" "same_fields a b"] show ?thesis
    by (simp add: sample_comparison_def changed_fields_def)
qed

lemma sample_cmp_laws: "cmp_laws sample_cmp"
  unfolding cmp_laws_def
proof (intro allI impI)
  fix a b ignored
  show "\<exists>t. snd (cmp_equal sample_cmp a b ignored) = walk t
        \<and> fst (cmp_equal sample_cmp a b ignored) = (changed_fields a b ignored = [])
        \<and> (\<forall>p \<in> set (unequal_paths [] t). \<exists>f \<in> set (changed_fields a b ignored). in_field f (path_string sample_cmp p))
        \<and> (\<forall>f \<in> set (changed_fields a b ignored). \<exists>p \<in> set (unequal_paths [] t). in_field f (path_string sample_cmp p))"
    by (rule exI [of _ "sample_comparison a b ignored"])
      (auto simp: sample_cmp_def sample_unequal_paths in_field_def)
qed

end
