(* ===== verification/Lrp_Validator.thy ===== *)
theory Lrp_Validator
  imports Admission Webhook_Diff
begin

text \<open>
  \<open>k8s/webhook/lrp_resource_validator.go\<close>: an LRP may only be changed in its image and its number of
  instances.
\<close>

section \<open>Definitions\<close>

record 's lrp_resource_validator =
  va_lib :: admission_lib
  va_cmp :: "'s cmp_lib"
  va_mutable_fields :: "string list"

definition new_lrp_resource_validator :: "admission_lib \<Rightarrow> 's cmp_lib \<Rightarrow> 's lrp_resource_validator" where
  "new_lrp_resource_validator lib cmp =
     \<lparr>va_lib = lib, va_cmp = cmp, va_mutable_fields = [''Image'', ''Instances'']\<rparr>"

definition error_response :: "string \<Rightarrow> admission_response" where
  "error_response message = Answer False (Some
     \<lparr>as_status = ''Failure'', as_message = message, as_reason = ''BadRequest'', as_code = status_bad_request\<rparr>)"

definition validator_handle :: "'s lrp_resource_validator \<Rightarrow> admission_request \<Rightarrow> admission_response outcome" where
  "validator_handle v req =
     (case decode_raw_lrp (va_lib v) (ar_object req) of
        Inl err \<Rightarrow> Returns (error_response (''Error decoding object '' @ raw_string (va_lib v) (ar_object req)
          @ '': '' @ error_string (va_lib v) err))
      | Inr updatedLRP \<Rightarrow>
          (case decode_raw_lrp (va_lib v) (ar_old_object req) of
             Inl err \<Rightarrow> Returns (error_response (''Error decoding old object ''
               @ raw_string (va_lib v) (ar_old_object req) @ '': '' @ error_string (va_lib v) err))
           | Inr originalLRP \<Rightarrow>
               (case compare_lrp_specs (va_cmp v) (lr_spec updatedLRP) (lr_spec originalLRP) (va_mutable_fields v) of
                  Panics \<Rightarrow> Panics
                | Returns diffReport \<Rightarrow>
                    if diffReport \<noteq> ''''
                    then Returns (error_response (''Changing immutable fields not allowed: '' @ diffReport))
                    else Returns (Answer True None))))"

section \<open>Properties\<close>

lemma validator_run:
  assumes "cmp_laws cmp" and "decode_raw_lrp lib (ar_object req) = Inr new"
    and "decode_raw_lrp lib (ar_old_object req) = Inr old"
  obtains ds where "validator_handle (new_lrp_resource_validator lib cmp) req = Returns
      (if changed_fields (lr_spec new) (lr_spec old) [''Image'', ''Instances''] = [] then Answer True None
       else error_response (''Changing immutable fields not allowed: '' @ join '', '' ds))" "distinct ds"
    and "\<forall>d \<in> set ds. \<exists>f \<in> set (changed_fields (lr_spec new) (lr_spec old) [''Image'', ''Instances'']). in_field f d"
    and "\<forall>f \<in> set (changed_fields (lr_spec new) (lr_spec old) [''Image'', ''Instances'']). \<exists>d \<in> set ds. in_field f d"
proof -
  have "set [''Image'', ''Instances''] \<subseteq> set lrp_spec_field_names"
    by (simp add: lrp_spec_field_names_def)
  then obtain ds where ds: "compare_lrp_specs cmp (lr_spec new) (lr_spec old) [''Image'', ''Instances'']
      = Returns (join '', '' ds)" "distinct ds"
    and named: "\<forall>d \<in> set ds. \<exists>f \<in> set (changed_fields (lr_spec new) (lr_spec old) [''Image'', ''Instances'']). in_field f d"
      "\<forall>f \<in> set (changed_fields (lr_spec new) (lr_spec old) [''Image'', ''Instances'']). \<exists>d \<in> set ds. in_field f d"
    and nil: "(join '', '' ds = '''') = (changed_fields (lr_spec new) (lr_spec old) [''Image'', ''Instances''] = [])"
    by (rule compare_lrp_specs_cases [OF assms(1)])
  then show ?thesis
    by (intro that [of ds]) (simp_all add: assms(2,3) validator_handle_def new_lrp_resource_validator_def)
qed

text \<open>
  C15: the webhook admits an update just when both objects can be decoded and no field of the
  specification other than the image and the number of instances differs; it never panics, and
  what it does not admit it answers with status 400. A refused change is answered by a list of
  distinct paths in the changed fields, at least one in each.
\<close>

theorem validator_admits_iff:
  assumes "cmp_laws cmp"
  shows "(validator_handle (new_lrp_resource_validator lib cmp) req = Returns (Answer True None) \<longleftrightarrow>
      (\<exists>new old. decode_raw_lrp lib (ar_object req) = Inr new \<and> decode_raw_lrp lib (ar_old_object req) = Inr old
         \<and> changed_fields (lr_spec new) (lr_spec old) [''Image'', ''Instances''] = []))
    \<and> (validator_handle (new_lrp_resource_validator lib cmp) req = Returns (Answer True None) \<or>
      (\<exists>msg. validator_handle (new_lrp_resource_validator lib cmp) req = Returns (Answer False (Some
         \<lparr>as_status = ''Failure'', as_message = msg, as_reason = ''BadRequest'', as_code = 400\<rparr>))))
    \<and> (\<forall>new old. decode_raw_lrp lib (ar_object req) = Inr new \<and> decode_raw_lrp lib (ar_old_object req) = Inr old
         \<and> changed_fields (lr_spec new) (lr_spec old) [''Image'', ''Instances''] \<noteq> [] \<longrightarrow>
       (\<exists>ds. validator_handle (new_lrp_resource_validator lib cmp) req = Returns (error_response
            (''Changing immutable fields not allowed: '' @ join '', '' ds))
         \<and> distinct ds
         \<and> (\<forall>f \<in> set (changed_fields (lr_spec new) (lr_spec old) [''Image'', ''Instances'']). \<exists>d \<in> set ds. in_field f d)
         \<and> (\<forall>d \<in> set ds. \<exists>f \<in> set (changed_fields (lr_spec new) (lr_spec old) [''Image'', ''Instances'']). in_field f d)))"
proof (cases "\<exists>new old. decode_raw_lrp lib (ar_object req) = Inr new \<and> decode_raw_lrp lib (ar_old_object req) = Inr old")
  case True
  then obtain new old where decoded: "decode_raw_lrp lib (ar_object req) = Inr new"
    "decode_raw_lrp lib (ar_old_object req) = Inr old" by blast
  obtain ds where "validator_handle (new_lrp_resource_validator lib cmp) req = Returns
      (if changed_fields (lr_spec new) (lr_spec old) [''Image'', ''Instances''] = [] then Answer True None
       else error_response (''Changing immutable fields not allowed: '' @ join '', '' ds))" "distinct ds"
    "\<forall>d \<in> set ds. \<exists>f \<in> set (changed_fields (lr_spec new) (lr_spec old) [''Image'', ''Instances'']). in_field f d"
    "\<forall>f \<in> set (changed_fields (lr_spec new) (lr_spec old) [''Image'', ''Instances'']). \<exists>d \<in> set ds. in_field f d"
    by (rule validator_run [OF assms decoded])
  with decoded show ?thesis
    by (auto simp: error_response_def status_bad_request_def)
qed (auto simp: validator_handle_def new_lrp_resource_validator_def error_response_def status_bad_request_def
    split: sum.splits)

section \<open>Witnesses\<close>

text \<open>A decoder of three objects: an LRP, the same scaled to five instances, and on another port.\<close>

definition sample_admission :: admission_lib where
  "sample_admission = \<lparr>
     decode_pod = (\<lambda>req. Inl (NewError ''no pod'')),
     decode_raw_lrp = (\<lambda>raw.
        if raw = ''old'' then Inr sample_lrp
        else if raw = ''scaled'' then Inr (sample_lrp\<lparr>lr_spec := sample_lrp_spec\<lparr>ls_instances := 5\<rparr>\<rparr>)
        else if raw = ''moved'' then Inr (sample_lrp\<lparr>lr_spec := sample_lrp_spec\<lparr>ls_ports := Some [9090]\<rparr>\<rparr>)
        else Inl (NewError ''cannot decode'')),
     raw_string = (\<lambda>raw. raw), error_string = (\<lambda>e. ''error''), marshal_pod = (\<lambda>p. Inr ''pod'')\<rparr>"

lemma sample_changes:
  "changed_fields (sample_lrp_spec\<lparr>ls_instances := 5\<rparr>) sample_lrp_spec [''Image'', ''Instances''] = []"
  "changed_fields (sample_lrp_spec\<lparr>ls_ports := Some [9090]\<rparr>) sample_lrp_spec [''Image'', ''Instances''] = [''Ports'']"
  by (simp_all add: changed_fields_def same_fields_def same_map_def same_sidecars_def sample_lrp_spec_def)

theorem validator_admits_iff_witness:
  "validator_handle (new_lrp_resource_validator sample_admission sample_cmp)
     \<lparr>ar_operation = UpdateOp, ar_object = ''scaled'', ar_old_object = ''old''\<rparr> = Returns (Answer True None)
   \<and> (\<exists>msg. validator_handle (new_lrp_resource_validator sample_admission sample_cmp)
        \<lparr>ar_operation = UpdateOp, ar_object = ''moved'', ar_old_object = ''old''\<rparr> = Returns (Answer False (Some
          \<lparr>as_status = ''Failure'', as_message = msg, as_reason = ''BadRequest'', as_code = 400\<rparr>)))"
proof -
  note admits = validator_admits_iff [OF sample_cmp_laws, of sample_admission]
  have "lr_spec sample_lrp = sample_lrp_spec" by (simp add: sample_lrp_def)
  moreover have "decode_raw_lrp sample_admission ''old'' = Inr sample_lrp"
    "decode_raw_lrp sample_admission ''scaled'' = Inr (sample_lrp\<lparr>lr_spec := sample_lrp_spec\<lparr>ls_instances := 5\<rparr>\<rparr>)"
    "decode_raw_lrp sample_admission ''moved'' = Inr (sample_lrp\<lparr>lr_spec := sample_lrp_spec\<lparr>ls_ports := Some [9090]\<rparr>\<rparr>)"
    by (simp_all add: sample_admission_def)
  ultimately show ?thesis
    using admits [of "\<lparr>ar_operation = UpdateOp, ar_object = ''scaled'', ar_old_object = ''old''\<rparr>"]
      admits [of "\<lparr>ar_operation = UpdateOp, ar_object = ''moved'', ar_old_object = ''old''\<rparr>"]
    by (auto simp: sample_changes)
qed

end
