(* ===== verification/Index_Injector.thy ===== *)
theory Index_Injector
  imports Admission Labels Util
begin

text \<open>
  \<open>k8s/webhook/instance_index_injector.go\<close>: when a pod is created, its application container is given
  the index of the instance, read off the name of the pod, as an environment variable.
\<close>

section \<open>Definitions\<close>

text \<open>The loop over the containers appends to the first one that is named \<open>opi\<close> and returns.\<close>

fun inject_env :: "env_var \<Rightarrow> container list \<Rightarrow> container list option" where
  "inject_env v [] = None"
| "inject_env v (c # cs) =
     (if co_name c = application_container_name then Some (c\<lparr>co_env := co_env c @ [v]\<rparr> # cs)
      else map_option ((#) c) (inject_env v cs))"

definition inject_instance_index :: "pod \<Rightarrow> go_error + pod" where
  "inject_instance_index p =
     (case parse_app_index (om_name (po_meta p)) of
        Inl err \<Rightarrow> Inl (Wrap ''failed to parse app index'' err)
      | Inr index \<Rightarrow>
          (let cfInstanceVar = \<lparr>ev_name = env_cf_instance_index, ev_value = itoa index, ev_value_from = None\<rparr>
           in case inject_env cfInstanceVar (ps_containers (po_spec p)) of
                Some containers \<Rightarrow> Inr (p\<lparr>po_spec := (po_spec p)\<lparr>ps_containers := containers\<rparr>\<rparr>)
              | None \<Rightarrow> Inl (NewError ''no application container found in pod'')))"

definition injector_handle :: "admission_lib \<Rightarrow> admission_request \<Rightarrow> admission_response" where
  "injector_handle lib req =
     (if ar_operation req \<noteq> CreateOp then AllowedBecause ''pod was already created''
      else (case decode_pod lib req of
          Inl err \<Rightarrow> Errored status_bad_request err
        | Inr p \<Rightarrow>
            (let podCopy = p
             in case inject_instance_index podCopy of
                  Inl err \<Rightarrow> Errored status_bad_request err
                | Inr podCopy \<Rightarrow>
                    (case marshal_pod lib podCopy of
                       Inl err \<Rightarrow> Errored status_internal_server_error err
                     | Inr marshaledPod \<Rightarrow> PatchFromRaw (ar_object req) marshaledPod))))"

section \<open>Properties\<close>

lemma inject_env_first:
  "co_name c = application_container_name \<Longrightarrow> \<forall>d \<in> set pre. co_name d \<noteq> application_container_name \<Longrightarrow>
   inject_env v (pre @ c # post) = Some (pre @ c\<lparr>co_env := co_env c @ [v]\<rparr> # post)"
  by (induction pre) auto

lemma inject_env_none: "(inject_env v cs = None) = (\<forall>d \<in> set cs. co_name d \<noteq> application_container_name)"
  by (induction cs) auto

text \<open>
  C20: a new pod of a stateful set that has an application container is patched in one place: the
  application container (the first of that name) gets the ordinal of the pod as the last of its
  variables, so that it wins over any other of that name. Other operations are allowed untouched. A
  pod with no application container, or whose name has no number after its last dash, is refused.
\<close>

theorem injector_sets_index:
  assumes "ar_operation req = CreateOp" and "decode_pod lib req = Inr p"
    and "om_name (po_meta p) = pod_name stset n" "n < 2 ^ 63"
    and "ps_containers (po_spec p) = pre @ c # post" "co_name c = ''opi''" "\<forall>d \<in> set pre. co_name d \<noteq> ''opi''"
    and "marshal_pod lib (p\<lparr>po_spec := (po_spec p)\<lparr>ps_containers := pre @ c\<lparr>co_env := co_env c @
       [\<lparr>ev_name = ''CF_INSTANCE_INDEX'', ev_value = itoa (int n), ev_value_from = None\<rparr>]\<rparr> # post\<rparr>\<rparr>) = Inr raw"
  shows "injector_handle lib req = PatchFromRaw (ar_object req) raw
    \<and> (\<forall>req'. ar_operation req' \<noteq> CreateOp \<longrightarrow>
         injector_handle lib req' = AllowedBecause ''pod was already created'')
    \<and> (\<forall>req' q. ar_operation req' = CreateOp \<and> decode_pod lib req' = Inr q
         \<and> ((\<forall>d \<in> set (ps_containers (po_spec q)). co_name d \<noteq> ''opi'')
              \<or> (\<exists>e. parse_app_index (om_name (po_meta q)) = Inl e)) \<longrightarrow>
         (\<exists>e. injector_handle lib req' = Errored 400 e))"
proof (intro conjI allI impI)
  show "injector_handle lib req = PatchFromRaw (ar_object req) raw"
    using assms(1-3,5-8) parse_pod_index [OF assms(4), of stset]
    by (simp add: injector_handle_def inject_instance_index_def inject_env_first
        application_container_name_def env_cf_instance_index_def)
next
  fix req' q
  assume "ar_operation req' = CreateOp \<and> decode_pod lib req' = Inr q
    \<and> ((\<forall>d \<in> set (ps_containers (po_spec q)). co_name d \<noteq> ''opi'')
         \<or> (\<exists>e. parse_app_index (om_name (po_meta q)) = Inl e))"
  then show "\<exists>e. injector_handle lib req' = Errored 400 e"
    using inject_env_none [of _ "ps_containers (po_spec q)"]
    by (auto simp: injector_handle_def inject_instance_index_def status_bad_request_def
        application_container_name_def split: sum.split option.split)
qed (simp add: injector_handle_def)

section \<open>Witnesses\<close>

definition opi_container :: container where
  "opi_container = empty_container\<lparr>co_name := ''opi'',
     co_env := [\<lparr>ev_name = ''FOO'', ev_value = ''foo'', ev_value_from = None\<rparr>]\<rparr>"

definition injected_pod :: "container list \<Rightarrow> pod" where
  "injected_pod cs = \<lparr>po_meta = empty_meta\<lparr>om_name := ''app-3''\<rparr>, po_spec = empty_pod_spec\<lparr>ps_containers := cs\<rparr>,
     po_container_statuses = []\<rparr>"

text \<open>Pods with and without an application container; a pod is encoded as the values of its first variables.\<close>

definition injection_lib :: admission_lib where
  "injection_lib = \<lparr>
     decode_pod = (\<lambda>req. Inr (injected_pod (if ar_object req = ''app'' then [opi_container] else []))),
     decode_raw_lrp = (\<lambda>raw. Inl (NewError ''no lrp'')),
     raw_string = (\<lambda>raw. raw), error_string = (\<lambda>e. ''error''),
     marshal_pod = (\<lambda>p. Inr (join '','' (map ev_value (co_env (hd (ps_containers (po_spec p)))))))\<rparr>"

theorem injector_sets_index_witness:
  "injector_handle injection_lib \<lparr>ar_operation = CreateOp, ar_object = ''app'', ar_old_object = []\<rparr>
     = PatchFromRaw ''app'' ''foo,3''"
proof -
  have digits: "itoa 3 = ''3''" and name: "''app-3'' = pod_name ''app'' 3" by code_simp+
  show ?thesis
    using injector_sets_index [of "\<lparr>ar_operation = CreateOp, ar_object = ''app'', ar_old_object = []\<rparr>" injection_lib
        "injected_pod [opi_container]" "''app''" 3 "[]" opi_container "[]" "''foo,3''"]
    by (simp add: injection_lib_def injected_pod_def opi_container_def empty_meta_def empty_container_def
        empty_pod_spec_def digits name)
qed

end
