(* ===== verification/Wiring.thy ===== *)
theory Wiring
  imports Lrp_Reconciler Task_Reconciler Pod_Crash Lrp_Validator Index_Injector
begin

text \<open>
  \<open>cmd/wiring/*.go\<close>: how the controllers, the indexes and the webhooks are registered with the
  manager of controller-runtime. The manager is a parameter of the model, the record \<open>manager\<close>: its
  client, and what it does when a controller is completed, an index added, or a webhook registered.
\<close>

section \<open>The manager\<close>

text \<open>
  A controller reconciles the keys of objects of one kind, which are queued by the events on those
  objects that pass the filter, and by the events on the objects of other kinds that they own.
\<close>

record 'w controller =
  ct_for :: string
  ct_owns :: "string list"
  ct_filter :: "watch_event \<Rightarrow> bool"
  ct_reconcile :: "namespaced_name \<Rightarrow> ('w, reconcile_result outcome) io"

text \<open>An indexer maps an object to values; \<open>None\<close> is an object that is not an event.\<close>

type_synonym indexer = "event option \<Rightarrow> string list outcome"

record 'w manager =
  mg_client :: "'w client"
  mg_lib :: kube_lib
  mg_metrics :: "'w metrics"
  mg_ranges :: range_order
  mg_admission :: admission_lib
  mg_complete :: "'w controller \<Rightarrow> ('w, go_error option) io"
  mg_index_field :: "string \<Rightarrow> indexer \<Rightarrow> ('w, go_error option) io"
  mg_new_decoder :: "('w, go_error option) io"
  mg_register :: "string \<Rightarrow> (admission_request \<Rightarrow> admission_response outcome) \<Rightarrow> ('w, unit) io"
  mg_start :: "('w, go_error option) io"

type_synonym 'w wiring_func = "'w manager \<Rightarrow> controller_config \<Rightarrow> ('w, go_error option outcome) io"

section \<open>Definitions\<close>

definition any_event :: "watch_event \<Rightarrow> bool" where
  "any_event e = True"

text \<open>A reconciler that never panics, as one that may.\<close>

definition returning :: "(namespaced_name \<Rightarrow> ('w, reconcile_result) io) \<Rightarrow> namespaced_name
  \<Rightarrow> ('w, reconcile_result outcome) io" where
  "returning f k = do {
     r \<leftarrow> f k;
     ret (Returns r)
   }"

definition lrp_reconciler_wiring :: "'w wiring_func" where
  "lrp_reconciler_wiring mgr config = do {
     res \<leftarrow> create_lrp_reconciler (mg_client mgr) (mg_lib mgr) (mg_metrics mgr) (mg_ranges mgr) config;
     case res of
       Panics \<Rightarrow> ret Panics
     | Returns (Inl err) \<Rightarrow> ret (Returns (Some (Wrap ''Failed to create LRP reconciler'' err)))
     | Returns (Inr lrpReconciler) \<Rightarrow> do {
         err \<leftarrow> mg_complete mgr \<lparr>ct_for = ''LRP'', ct_owns = [''StatefulSet''], ct_filter = any_event,
           ct_reconcile = lrp_reconcile lrpReconciler\<rparr>;
         ret (Returns (wrap_err ''Failed to build LRP reconciler'' err))
       }
   }"

definition task_reconciler_wiring :: "'w wiring_func" where
  "task_reconciler_wiring mgr config =
     (let taskReconciler = create_task_reconciler (mg_client mgr) (mg_lib mgr) (mg_ranges mgr)
            (cc_application_service_account config) (cc_registry_secret_name config)
            (cc_unsafe_allow_automount config) (cc_task_ttl_seconds config)
      in do {
        err \<leftarrow> mg_complete mgr \<lparr>ct_for = ''Task'', ct_owns = [''Job''], ct_filter = any_event,
          ct_reconcile = returning (task_reconcile taskReconciler)\<rparr>;
        ret (Returns (wrap_err ''Failed to build Task reconciler'' err))
      })"

text \<open>The attribute of an object of another type is read through a nil pointer.\<close>

definition create_event_owner_indexer_func :: "(event \<Rightarrow> string) \<Rightarrow> indexer" where
  "create_event_owner_indexer_func getEventAttribute rawObj =
     (case rawObj of None \<Rightarrow> Panics | Some ev \<Rightarrow> Returns [getEventAttribute ev])"

definition get_event_involved_object_name :: indexer where
  "get_event_involved_object_name = create_event_owner_indexer_func (\<lambda>ev. ob_name (en_involved_object ev))"

definition get_event_involved_object_kind :: indexer where
  "get_event_involved_object_kind = create_event_owner_indexer_func (\<lambda>ev. ob_kind (en_involved_object ev))"

definition get_event_reason :: indexer where
  "get_event_reason = create_event_owner_indexer_func en_reason"

definition add_event_indexes :: "'w manager \<Rightarrow> ('w, go_error option) io" where
  "add_event_indexes mgr = do {
     err \<leftarrow> mg_index_field mgr index_event_involved_object_name get_event_involved_object_name;
     case err of
       Some e \<Rightarrow> ret (Some (Wrap (''Failed to create index '' @ index_event_involved_object_name) e))
     | None \<Rightarrow> do {
         err \<leftarrow> mg_index_field mgr index_event_involved_object_kind get_event_involved_object_kind;
         case err of
           Some e \<Rightarrow> ret (Some (Wrap (''Failed to create index '' @ index_event_involved_object_kind) e))
         | None \<Rightarrow> do {
             err \<leftarrow> mg_index_field mgr index_event_reason get_event_reason;
             ret (wrap_err (''Failed to create index '' @ index_event_reason) err)
           }
       }
   }"

definition pod_crash_reconciler_wiring :: "'w wiring_func" where
  "pod_crash_reconciler_wiring mgr config =
     (let podCrashReconciler = create_pod_crash_reconciler (mg_client mgr) (mg_lib mgr)
      in do {
        err \<leftarrow> add_event_indexes mgr;
        case err of
          Some e \<Rightarrow> ret (Returns (Some e))
        | None \<Rightarrow> do {
            err \<leftarrow> mg_complete mgr \<lparr>ct_for = ''Pod'', ct_owns = [],
              ct_filter = source_type_update_predicate app_source_type,
              ct_reconcile = returning (pod_crash_reconcile podCrashReconciler)\<rparr>;
            ret (Returns (wrap_err ''Failed to build Pod Crash reconciler'' err))
          }
      })"

definition resource_validator_wiring :: "'s cmp_lib \<Rightarrow> 'w wiring_func" where
  "resource_validator_wiring cmp mgr config = do {
     err \<leftarrow> mg_new_decoder mgr;
     case err of
       Some e \<Rightarrow> ret (Returns (Some (Wrap ''Failed to create admission decoder'' e)))
     | None \<Rightarrow> do {
         _ \<leftarrow> mg_register mgr ''/lrps'' (validator_handle (new_lrp_resource_validator (mg_admission mgr) cmp));
         ret (Returns None)
       }
   }"

definition instance_index_env_injector_wiring :: "'w wiring_func" where
  "instance_index_env_injector_wiring mgr config = do {
     err \<leftarrow> mg_new_decoder mgr;
     case err of
       Some e \<Rightarrow> ret (Returns (Some (Wrap ''Failed to create admission decoder'' e)))
     | None \<Rightarrow> do {
         _ \<leftarrow> mg_register mgr ''/'' (\<lambda>req. Returns (injector_handle (mg_admission mgr) req));
         ret (Returns None)
       }
   }"

section \<open>Properties\<close>

text \<open>The fields of a list of events are indexed.\<close>

fun indexed_call :: "api_call \<Rightarrow> bool" where
  "indexed_call (ListEvents ns ls fs) = (set (map fst fs) \<subseteq>
     {index_event_involved_object_name, index_event_involved_object_kind, index_event_reason})"
| "indexed_call _ = True"

lemma generate_indexed: "calls indexed_call (generate_crash_event (logged cl) p) (\<lambda>_. True)"
  unfolding generate_crash_event_def generate_report_for_terminated_pod_def get_by_pod_def Let_def logged_simps
  by (intro calls_intros) simp_all

lemma pod_crash_indexed:
  "calls indexed_call (wired_crash_reconcile cl lib k) (\<lambda>_. True)"
  unfolding pod_crash_reconcile_def create_pod_crash_reconciler_def set_crash_timestamp_on_pod_def
    get_by_instance_and_reason_def set_event_def create_crash_event_def update_crash_event_def
    pod_crash_fields logged_simps
  by (intro calls_intros generate_indexed) simp_all

text \<open>
  the fields by which the crash reconciler lists events are exactly those that are indexed before
  it is registered, and the index holds the very value of the field that is looked up: the name and
  the kind of the object that an event is about, and its reason.
\<close>

theorem listed_fields_are_indexed:
  "list_all indexed_call (trace (wired_crash_reconcile cl lib k) w)
    \<and> (result (add_event_indexes (mgr\<lparr>mg_index_field := \<lambda>f ix. ret (es f)\<rparr>)) v = None \<longleftrightarrow>
          es ''.index.eventOwner.name'' = None \<and> es ''.index.eventOwner.kind'' = None \<and> es ''.index.reason'' = None)
    \<and> get_event_involved_object_name (Some e) = Returns [ob_name (en_involved_object e)]
    \<and> get_event_involved_object_kind (Some e) = Returns [ob_kind (en_involved_object e)]
    \<and> get_event_reason (Some e) = Returns [en_reason e]"
proof (intro conjI)
  show "list_all indexed_call (trace (wired_crash_reconcile cl lib k) w)"
    by (rule calls_trace [OF pod_crash_indexed, THEN conjunct1])
  show "result (add_event_indexes (mgr\<lparr>mg_index_field := \<lambda>f ix. ret (es f)\<rparr>)) v = None \<longleftrightarrow>
      es ''.index.eventOwner.name'' = None \<and> es ''.index.eventOwner.kind'' = None \<and> es ''.index.reason'' = None"
    by (auto simp: add_event_indexes_def result_def index_event_involved_object_name_def
        index_event_involved_object_kind_def index_event_reason_def split: option.split)
qed (simp_all add: get_event_involved_object_name_def get_event_involved_object_kind_def get_event_reason_def
    create_event_owner_indexer_func_def)

end
