(* ===== verification/Controller_Main.thy ===== *)
theory Controller_Main
  imports Wiring
begin

text \<open>
  \<open>cmd/main.go\<close>: the start of the controller. What it reads of the system and of libraries (flags,
  files, YAML, the environment, the Kubernetes configuration and the constructor of the manager) are
  parameters, the record \<open>main_env\<close>. A theorem about the order of what is asked of the manager is
  stated for \<open>recording_manager\<close>, which writes down every request and fails where an arbitrary
  function of the requests so far says so.
\<close>

section \<open>Definitions\<close>

record manager_options =
  mo_metrics_bind_address :: string
  mo_namespace :: string
  mo_leader_election :: bool
  mo_leader_election_id :: string
  mo_leader_election_namespace :: string
  mo_cert_dir :: string
  mo_host :: string
  mo_port :: int

text \<open>\<open>'k\<close> is the type of Kubernetes configurations. Reading a file cleans its path.\<close>

record ('w, 'k) main_env =
  me_add_scheme :: "('w, go_error option) io"
  me_parse_args :: "('w, go_error + string) io"
  me_read_file :: "string \<Rightarrow> ('w, go_error + string) io"
  me_unmarshal :: "string \<Rightarrow> controller_config \<Rightarrow> go_error + controller_config"
  me_build_config :: "string \<Rightarrow> ('w, go_error + 'k) io"
  me_getenv :: "string \<Rightarrow> ('w, string) io"
  me_new_manager :: "'k \<Rightarrow> manager_options \<Rightarrow> ('w, go_error + 'w manager) io"
  me_error_string :: "go_error \<Rightarrow> string"

text \<open>How the program ends: with status 1 after an error, by a panic, or by returning.\<close>

datatype exit = Exit1 string go_error | Crash | Return

definition zero_config :: controller_config where
  "zero_config = \<lparr>cc_config_path = [], cc_application_service_account = [], cc_registry_secret_name = [],
     cc_unsafe_allow_automount = False, cc_default_min_available_instances = [], cc_workloads_namespace = [],
     cc_prometheus_port = 0, cc_task_ttl_seconds = 0, cc_leader_election_id = [],
     cc_leader_election_namespace = [], cc_webhook_port = 0\<rparr>"

definition read_config_file ::
  "('w, 'k) main_env \<Rightarrow> string \<Rightarrow> controller_config \<Rightarrow> ('w, go_error + controller_config) io" where
  "read_config_file env path conf =
     (if path = '''' then ret (Inr conf)
      else do {
        fileBytes \<leftarrow> me_read_file env path;
        ret (case fileBytes of
               Inl err \<Rightarrow> Inl (Wrap ''failed to read file'' err)
             | Inr fileBytes \<Rightarrow>
                 (case me_unmarshal env fileBytes conf of
                    Inl err \<Rightarrow> Inl (Wrap ''failed to unmarshal yaml'' err)
                  | Inr conf \<Rightarrow> Inr conf))
      })"

text \<open>The two helpers that exit, with the rest of the program as a continuation.\<close>

definition exitf_if_error :: "go_error option \<Rightarrow> string \<Rightarrow> ('w, exit) io \<Rightarrow> ('w, exit) io" where
  "exitf_if_error err message continue =
     (case err of Some e \<Rightarrow> ret (Exit1 message e) | None \<Rightarrow> continue)"

definition exit_if_error :: "go_error option \<Rightarrow> ('w, exit) io \<Rightarrow> ('w, exit) io" where
  "exit_if_error err continue = exitf_if_error err ''an unexpected error occurred'' continue"

definition get_or_default :: "string \<Rightarrow> string \<Rightarrow> string" where
  "get_or_default actualValue defaultValue = (if actualValue \<noteq> '''' then actualValue else defaultValue)"

definition get_env_or_default :: "('w, 'k) main_env \<Rightarrow> string \<Rightarrow> string \<Rightarrow> ('w, string) io" where
  "get_env_or_default env envVar defaultValue = do {
     v \<leftarrow> me_getenv env envVar;
     ret (get_or_default v defaultValue)
   }"

definition manager_options_of :: "controller_config \<Rightarrow> string \<Rightarrow> manager_options" where
  "manager_options_of cfg certDir =
     (let options = \<lparr>mo_metrics_bind_address = ''0'', mo_namespace = cc_workloads_namespace cfg,
            mo_leader_election = True, mo_leader_election_id = ''eirini-controller-leader'',
            mo_leader_election_namespace = [], mo_cert_dir = certDir, mo_host = ''0.0.0.0'',
            mo_port = sint (cc_webhook_port cfg)\<rparr>;
          options = (if sint (cc_prometheus_port cfg) > 0
            then options\<lparr>mo_metrics_bind_address := '':'' @ itoa (sint (cc_prometheus_port cfg))\<rparr> else options);
          options = (if cc_leader_election_id cfg \<noteq> ''''
            then options\<lparr>mo_leader_election_namespace := cc_leader_election_namespace cfg,
              mo_leader_election_id := cc_leader_election_id cfg\<rparr> else options)
      in options)"

text \<open>\<open>for _, wire := range getWirings() { exitfIfError(wire(logger, mgr, cfg), "wiring failure") }\<close>\<close>

definition get_wirings :: "'s cmp_lib \<Rightarrow> 'w wiring_func list" where
  "get_wirings cmp =
     [lrp_reconciler_wiring, pod_crash_reconciler_wiring, task_reconciler_wiring,
      resource_validator_wiring cmp, instance_index_env_injector_wiring]"

fun wire_all ::
  "'w wiring_func list \<Rightarrow> 'w manager \<Rightarrow> controller_config \<Rightarrow> ('w, exit) io \<Rightarrow> ('w, exit) io" where
  "wire_all [] mgr cfg continue = continue"
| "wire_all (wire # wires) mgr cfg continue = do {
     err \<leftarrow> wire mgr cfg;
     case err of
       Panics \<Rightarrow> ret Crash
     | Returns err \<Rightarrow> exitf_if_error err ''wiring failure'' (wire_all wires mgr cfg continue)
   }"

definition main_program :: "('w, 'k) main_env \<Rightarrow> 's cmp_lib \<Rightarrow> ('w, exit) io" where
  "main_program env cmp = do {
     err \<leftarrow> me_add_scheme env;
     exit_if_error (map_option (\<lambda>e. NewError
         (''failed to add the k8s scheme to the LRP CRD scheme: '' @ me_error_string env e)) err) (do {
       opts \<leftarrow> me_parse_args env;
       case opts of Inl err \<Rightarrow> exitf_if_error (Some err) ''Failed to parse args'' (ret Return)
       | Inr configFile \<Rightarrow> do {
         cfg \<leftarrow> read_config_file env configFile zero_config;
         case cfg of Inl err \<Rightarrow> exitf_if_error (Some err) ''Failed to read config file'' (ret Return)
         | Inr cfg \<Rightarrow> do {
           kubeConfig \<leftarrow> me_build_config env (cc_config_path cfg);
           case kubeConfig of Inl err \<Rightarrow> exitf_if_error (Some err) ''Failed to build kubeconfig'' (ret Return)
           | Inr kubeConfig \<Rightarrow> do {
             certDir \<leftarrow> get_env_or_default env env_eirini_certs_dir eirini_certs_dir;
             mgr \<leftarrow> me_new_manager env kubeConfig (manager_options_of cfg certDir);
             case mgr of
               Inl err \<Rightarrow> exitf_if_error (Some err) ''Failed to create k8s controller runtime manager'' (ret Return)
             | Inr mgr \<Rightarrow> wire_all (get_wirings cmp) mgr cfg (do {
                 err \<leftarrow> mg_start mgr;
                 exitf_if_error err ''Failed to start manager'' (ret Return)
               })
           }
         }
       }
     })
   }"

section \<open>A manager that records\<close>

datatype manager_request =
    CompleteController string "string list"
  | IndexField string
  | NewDecoder
  | RegisterWebhook string
  | StartManager

type_synonym failures = "manager_request list \<Rightarrow> manager_request \<Rightarrow> go_error option"

definition request :: "failures \<Rightarrow> manager_request \<Rightarrow> (manager_request list, go_error option) io" where
  "request fails r = State (\<lambda>l. (fails l r, l @ [r]))"

definition recording_manager ::
  "failures \<Rightarrow> manager_request list client \<Rightarrow> kube_lib \<Rightarrow> manager_request list metrics \<Rightarrow> range_order
   \<Rightarrow> admission_lib \<Rightarrow> manager_request list manager" where
  "recording_manager fails cl lib mx rng adm =
     \<lparr>mg_client = cl, mg_lib = lib, mg_metrics = mx, mg_ranges = rng, mg_admission = adm,
      mg_complete = (\<lambda>c. request fails (CompleteController (ct_for c) (ct_owns c))),
      mg_index_field = (\<lambda>f ix. request fails (IndexField f)),
      mg_new_decoder = request fails NewDecoder,
      mg_register = (\<lambda>path handler. State (\<lambda>l. ((), l @ [RegisterWebhook path]))),
      mg_start = request fails StartManager\<rparr>"

text \<open>Requests in order until the first that fails (registering a webhook cannot).\<close>

fun attempt :: "failures \<Rightarrow> manager_request list \<Rightarrow> manager_request list \<Rightarrow> bool \<times> manager_request list" where
  "attempt fails l [] = (True, l)"
| "attempt fails l (r # rs) =
     (if (\<forall>path. r \<noteq> RegisterWebhook path) \<and> fails l r \<noteq> None then (False, l @ [r])
      else attempt fails (l @ [r]) rs)"

definition wiring_requests :: "manager_request list" where
  "wiring_requests =
     [CompleteController ''LRP'' [''StatefulSet''],
      IndexField ''.index.eventOwner.name'', IndexField ''.index.eventOwner.kind'', IndexField ''.index.reason'',
      CompleteController ''Pod'' [],
      CompleteController ''Task'' [''Job''],
      NewDecoder, RegisterWebhook ''/lrps'',
      NewDecoder, RegisterWebhook ''/'']"

lemma run_request [simp]: "run_state (request fails r) l = (fails l r, l @ [r])"
  by (simp add: request_def)

lemma run_exitf_if_error:
  "run_state (exitf_if_error err msg continue) l =
     (case err of Some e \<Rightarrow> (Exit1 msg e, l) | None \<Rightarrow> run_state continue l)"
  by (simp add: exitf_if_error_def split: option.split)

lemma attempt_append:
  "attempt fails l (rs @ ss) =
     (if fst (attempt fails l rs) then attempt fails (snd (attempt fails l rs)) ss else attempt fails l rs)"
  by (induction fails l rs rule: attempt.induct) auto

text \<open>A computation that makes these requests, and whose error says whether they succeed.\<close>

definition asks :: "failures \<Rightarrow> (manager_request list, go_error option outcome) io \<Rightarrow> manager_request list \<Rightarrow> bool" where
  "asks fails m rs \<longleftrightarrow> (\<forall>l. \<exists>err. run_state m l = (Returns err, snd (attempt fails l rs))
     \<and> (err = None) = fst (attempt fails l rs))"

lemma wire_all_asks:
  assumes "list_all2 (\<lambda>w rs. asks fails (w mgr cfg) rs) ws rss"
  shows "\<exists>e. run_state (wire_all ws mgr cfg continue) l =
      (if fst (attempt fails l (concat rss)) then run_state continue (snd (attempt fails l (concat rss)))
       else (Exit1 ''wiring failure'' e, snd (attempt fails l (concat rss))))"
  using assms
proof (induction ws rss arbitrary: l rule: list_all2_induct)
  case (Cons w ws rs rss)
  let ?l = "snd (attempt fails l rs)"
  obtain err where err: "run_state (w mgr cfg) l = (Returns err, ?l)" "(err = None) = fst (attempt fails l rs)"
    using Cons.hyps(1) unfolding asks_def by blast
  obtain e where "run_state (wire_all ws mgr cfg continue) ?l =
      (if fst (attempt fails ?l (concat rss)) then run_state continue (snd (attempt fails ?l (concat rss)))
       else (Exit1 ''wiring failure'' e, snd (attempt fails ?l (concat rss))))"
    using Cons.IH by blast
  with err show ?case
    by (cases err) (auto simp: run_exitf_if_error attempt_append)
qed simp

lemma recording_manager_fields [simp]:
  "mg_client (recording_manager fails cl lib mx rng adm) = cl"
  "mg_lib (recording_manager fails cl lib mx rng adm) = lib"
  "mg_metrics (recording_manager fails cl lib mx rng adm) = mx"
  "mg_ranges (recording_manager fails cl lib mx rng adm) = rng"
  "mg_admission (recording_manager fails cl lib mx rng adm) = adm"
  "mg_complete (recording_manager fails cl lib mx rng adm) c
     = request fails (CompleteController (ct_for c) (ct_owns c))"
  "mg_index_field (recording_manager fails cl lib mx rng adm) f ix = request fails (IndexField f)"
  "mg_new_decoder (recording_manager fails cl lib mx rng adm) = request fails NewDecoder"
  "mg_register (recording_manager fails cl lib mx rng adm) path handler = State (\<lambda>l. ((), l @ [RegisterWebhook path]))"
  "mg_start (recording_manager fails cl lib mx rng adm) = request fails StartManager"
  by (simp_all add: recording_manager_def)

text \<open>The requests of each of the wirings.\<close>

definition wiring_groups :: "manager_request list list" where
  "wiring_groups =
    [[CompleteController ''LRP'' [''StatefulSet'']],
     [IndexField ''.index.eventOwner.name'', IndexField ''.index.eventOwner.kind'', IndexField ''.index.reason'',
      CompleteController ''Pod'' []],
     [CompleteController ''Task'' [''Job'']],
     [NewDecoder, RegisterWebhook ''/lrps''],
     [NewDecoder, RegisterWebhook ''/'']]"

lemma concat_wiring_groups: "concat wiring_groups = wiring_requests"
  by (simp add: wiring_groups_def wiring_requests_def)

lemma wirings_ask:
  assumes "\<And>l. run_state (create_lrp_reconciler cl lib mx rng cfg) l = (Returns (Inr r), l)"
  shows "list_all2 (\<lambda>w rs. asks fails (w (recording_manager fails cl lib mx rng adm) cfg) rs) (get_wirings cmp)
    wiring_groups"
proof -
  let ?mgr = "recording_manager fails cl lib mx rng adm"
  have "asks fails (lrp_reconciler_wiring ?mgr cfg) [CompleteController ''LRP'' [''StatefulSet'']]"
    by (simp add: asks_def lrp_reconciler_wiring_def assms)
  moreover have "asks fails (pod_crash_reconciler_wiring ?mgr cfg)
      [IndexField ''.index.eventOwner.name'', IndexField ''.index.eventOwner.kind'', IndexField ''.index.reason'',
       CompleteController ''Pod'' []]"
    by (auto simp: asks_def pod_crash_reconciler_wiring_def add_event_indexes_def Let_def
        index_event_involved_object_name_def index_event_involved_object_kind_def index_event_reason_def
        split: option.split)
  moreover have "asks fails (task_reconciler_wiring ?mgr cfg) [CompleteController ''Task'' [''Job'']]"
    by (simp add: asks_def task_reconciler_wiring_def Let_def)
  moreover have "asks fails (resource_validator_wiring cmp ?mgr cfg) [NewDecoder, RegisterWebhook ''/lrps'']"
    by (auto simp: asks_def resource_validator_wiring_def split: option.split)
  moreover have "asks fails (instance_index_env_injector_wiring ?mgr cfg) [NewDecoder, RegisterWebhook ''/'']"
    by (auto simp: asks_def instance_index_env_injector_wiring_def split: option.split)
  ultimately show ?thesis
    by (simp only: get_wirings_def wiring_groups_def list_all2_Cons list_all2_Nil)
qed

section \<open>Properties\<close>

text \<open>
  C21: when the program has come as far as creating the manager, it asks of it, in this order and up to
  the first request that fails: the LRP controller with the stateful sets it owns, the three indexes
  of events, the pod controller, the task controller with its jobs, the two webhooks, and only then
  the start. It returns just when all succeed, and otherwise exits with status 1.
\<close>

theorem main_wires_then_starts:
  assumes "\<And>l. run_state (me_add_scheme env) l = (None, l)"
    and "\<And>l. run_state (me_parse_args env) l = (Inr path, l)"
    and "\<And>l. run_state (read_config_file env path zero_config) l = (Inr cfg, l)"
    and "\<And>l. run_state (me_build_config env (cc_config_path cfg)) l = (Inr k, l)"
    and "\<And>l. run_state (me_getenv env env_eirini_certs_dir) l = (dir, l)"
    and "\<And>l. run_state (me_new_manager env k (manager_options_of cfg (get_or_default dir eirini_certs_dir))) l
        = (Inr (recording_manager fails cl lib mx rng adm), l)"
    and "\<And>l. run_state (create_lrp_reconciler cl lib mx rng cfg) l = (Returns (Inr r), l)"
  shows "snd (run_state (main_program env cmp) []) = snd (attempt fails [] (wiring_requests @ [StartManager]))
    \<and> (if fst (attempt fails [] (wiring_requests @ [StartManager]))
         then result (main_program env cmp) [] = Return
         else \<exists>msg err. result (main_program env cmp) [] = Exit1 msg err)"
proof -
  let ?mgr = "recording_manager fails cl lib mx rng adm" and ?ask = "attempt fails [] wiring_requests"
  let ?start = "do { err \<leftarrow> request fails StartManager; exitf_if_error err ''Failed to start manager'' (ret Return) }"
  have main: "run_state (main_program env cmp) [] = run_state (wire_all (get_wirings cmp) ?mgr cfg ?start) []"
    using assms(1-6)
    by (simp add: main_program_def exit_if_error_def run_exitf_if_error get_env_or_default_def)
  obtain e where wired: "run_state (wire_all (get_wirings cmp) ?mgr cfg ?start) [] =
      (if fst ?ask then run_state ?start (snd ?ask) else (Exit1 ''wiring failure'' e, snd ?ask))"
    using wire_all_asks [OF wirings_ask [of cl lib mx rng cfg r fails adm cmp, OF assms(7)], of ?start "[]"]
    unfolding concat_wiring_groups by blast
  show ?thesis
  proof (cases "fst ?ask")
    case True
    then show ?thesis
      by (cases "fails (snd ?ask) StartManager")
        (auto simp: main wired attempt_append run_exitf_if_error result_def)
  next
    case False
    then show ?thesis
      by (auto simp: main wired attempt_append result_def)
  qed
qed

section \<open>Witnesses\<close>

text \<open>A client for a cluster in which nothing is found and nothing can be changed.\<close>

definition idle_client :: "'w client" where
  "idle_client = \<lparr>
     get_lrp = (\<lambda>k. ret not_found),
     patch_lrp_status = (\<lambda>n old. ret (Some (NewError ''idle''), n)),
     get_task = (\<lambda>k. ret not_found),
     patch_task_status = (\<lambda>n old. ret (Some (NewError ''idle''), n)),
     get_stset = (\<lambda>k. ret not_found),
     create_stset = (\<lambda>x. ret (Some (NewError ''idle''), x)),
     patch_stset = (\<lambda>n old. ret (Some (NewError ''idle''), n)),
     get_job = (\<lambda>k. ret not_found),
     create_job = (\<lambda>x. ret (Some (NewError ''idle''), x)),
     delete_all_jobs = (\<lambda>ns n. ret None),
     get_pod = (\<lambda>k. ret not_found),
     list_pods = (\<lambda>ns ls. ret (Inr [])),
     patch_pod = (\<lambda>n old. ret (Some (NewError ''idle''), n)),
     list_events = (\<lambda>ns ls fs. ret (Inr [])),
     create_event = (\<lambda>x. ret (Some (NewError ''idle''), x)),
     update_event = (\<lambda>x. ret (Some (NewError ''idle''), x)),
     create_secret = (\<lambda>x. ret (Some (NewError ''idle''), x)),
     patch_secret = (\<lambda>n old. ret (Some (NewError ''idle''), n)),
     delete_secret = (\<lambda>x. ret None),
     create_pdb = (\<lambda>x. ret (Some (NewError ''idle''), x)),
     delete_all_pdbs = (\<lambda>ns n. ret None),
     time_now = ret 0\<rparr>"

definition idle_metrics :: "'w metrics" where
  "idle_metrics = \<lparr>mx_register = (\<lambda>c. ret Registered), mx_inc = (\<lambda>c. ret ()),
     mx_observe = (\<lambda>c i. ret ()), mx_now = ret 0, mx_since = (\<lambda>t. ret 0)\<rparr>"

text \<open>The third index cannot be added.\<close>

definition reason_fails :: failures where
  "reason_fails l r = (if r = IndexField ''.index.reason'' then Some (NewError ''no index'') else None)"

definition sample_env :: "(manager_request list, unit) main_env" where
  "sample_env = \<lparr>me_add_scheme = ret None, me_parse_args = ret (Inr ''''),
     me_read_file = (\<lambda>path. ret (Inl (NewError ''no file''))),
     me_unmarshal = (\<lambda>text conf. Inr conf), me_build_config = (\<lambda>path. ret (Inr ())),
     me_getenv = (\<lambda>v. ret ''''),
     me_new_manager = (\<lambda>k options. ret (Inr (recording_manager reason_fails idle_client sample_lib idle_metrics
       (\<lambda>_ m. m) sample_admission))),
     me_error_string = (\<lambda>e. ''error'')\<rparr>"

theorem main_wires_then_starts_witness:
  "snd (run_state (main_program sample_env sample_cmp) []) =
     [CompleteController ''LRP'' [''StatefulSet''],
      IndexField ''.index.eventOwner.name'', IndexField ''.index.eventOwner.kind'', IndexField ''.index.reason'']
   \<and> (\<exists>msg err. result (main_program sample_env sample_cmp) [] = Exit1 msg err)"
proof -
  obtain r :: "manager_request list lrp_reconciler" where r: "run_state (create_lrp_reconciler idle_client sample_lib idle_metrics
      (\<lambda>_ m. m) zero_config) l = (Returns (Inr r), l)" for l
    by (simp add: create_lrp_reconciler_def new_lrp_desirer_decorator_def register_counter_def
        register_histogram_def idle_metrics_def Let_def)
  have "attempt reason_fails [] (wiring_requests @ [StartManager]) = (False,
      [CompleteController ''LRP'' [''StatefulSet''],
       IndexField ''.index.eventOwner.name'', IndexField ''.index.eventOwner.kind'', IndexField ''.index.reason''])"
    by (simp add: wiring_requests_def reason_fails_def)
  then show ?thesis
    using main_wires_then_starts [of sample_env "''''" zero_config "()" "''''" reason_fails idle_client sample_lib
        idle_metrics "\<lambda>_ m. m" sample_admission r sample_cmp] r
    by (simp add: sample_env_def read_config_file_def)
qed

end
