(* ===== verification/Lager_Logr.thy ===== *)
theory Lager_Logr
  imports Go_Prelude
begin

text \<open>
  \<open>util/lager_logr.go\<close>: a sink of logr over a logger of lager. The logger of lager is a parameter of the
  model, the record \<open>lager\<close> over the type \<open>'g\<close> of its loggers.
\<close>

section \<open>Definitions\<close>

text \<open>A value of the empty interface: a string, or anything else.\<close>

datatype 'v iface = Str string | Val 'v

type_synonym 'v lager_data = "(string \<times> 'v iface) list"

record ('w, 'g, 'v) lager =
  lg_info :: "'g \<Rightarrow> string \<Rightarrow> 'v lager_data \<Rightarrow> ('w, unit) io"
  lg_error :: "'g \<Rightarrow> string \<Rightarrow> go_error option \<Rightarrow> 'v lager_data \<Rightarrow> ('w, unit) io"
  lg_with_data :: "'g \<Rightarrow> 'v lager_data \<Rightarrow> 'g"
  lg_session :: "'g \<Rightarrow> string \<Rightarrow> 'g"

text \<open>The keys are asserted to be strings, and a key without a value is an index out of range.\<close>

fun lager_data_loop :: "'v lager_data \<Rightarrow> 'v iface list \<Rightarrow> 'v lager_data outcome" where
  "lager_data_loop data [] = Returns data"
| "lager_data_loop data [k] = Panics"
| "lager_data_loop data (Str k # v # kvs) = lager_data_loop (AList.update k v data) kvs"
| "lager_data_loop data (Val k # v # kvs) = Panics"

definition to_lager_data :: "'v iface list \<Rightarrow> 'v lager_data outcome" where
  "to_lager_data kvs = lager_data_loop [] kvs"

definition lagerlogr_enabled :: "'g \<Rightarrow> int \<Rightarrow> bool" where
  "lagerlogr_enabled l level = True"

definition lagerlogr_info ::
  "('w, 'g, 'v) lager \<Rightarrow> 'g \<Rightarrow> int \<Rightarrow> string \<Rightarrow> 'v iface list \<Rightarrow> ('w, unit outcome) io" where
  "lagerlogr_info lg l level msg kvs =
     (case to_lager_data kvs of
        Panics \<Rightarrow> ret Panics
      | Returns data \<Rightarrow> do {
          _ \<leftarrow> lg_info lg l msg data;
          ret (Returns ())
        })"

definition lagerlogr_error ::
  "('w, 'g, 'v) lager \<Rightarrow> 'g \<Rightarrow> go_error option \<Rightarrow> string \<Rightarrow> 'v iface list \<Rightarrow> ('w, unit outcome) io" where
  "lagerlogr_error lg l err msg kvs =
     (case to_lager_data kvs of
        Panics \<Rightarrow> ret Panics
      | Returns data \<Rightarrow> do {
          _ \<leftarrow> lg_error lg l msg err data;
          ret (Returns ())
        })"

definition lagerlogr_with_values :: "('w, 'g, 'v) lager \<Rightarrow> 'g \<Rightarrow> 'v iface list \<Rightarrow> 'g outcome" where
  "lagerlogr_with_values lg l kvs =
     (case to_lager_data kvs of Panics \<Rightarrow> Panics | Returns data \<Rightarrow> Returns (lg_with_data lg l data))"

definition lagerlogr_with_name :: "('w, 'g, 'v) lager \<Rightarrow> 'g \<Rightarrow> string \<Rightarrow> 'g" where
  "lagerlogr_with_name lg l name = lg_session lg l name"

section \<open>Properties\<close>

fun flatten :: "(string \<times> 'v iface) list \<Rightarrow> 'v iface list" where
  "flatten [] = []"
| "flatten ((k, v) # ps) = Str k # v # flatten ps"

lemma lager_data_loop_flatten:
  "lager_data_loop data (flatten ps) = Returns (fold (\<lambda>(k, v) d. AList.update k v d) ps data)"
  by (induction ps arbitrary: data rule: flatten.induct) simp_all

lemma lager_data_loop_returns: "lager_data_loop data kvs = Returns d \<Longrightarrow> \<exists>ps. kvs = flatten ps"
proof (induction data kvs rule: lager_data_loop.induct)
  case (3 data k v kvs)
  then obtain ps where "kvs = flatten ps" by auto
  then show ?case by (intro exI [of _ "(k, v) # ps"]) simp
qed (auto intro: exI [of _ "[]"])

lemma map_of_updates:
  "map_of (fold (\<lambda>(k, v) d. AList.update k v d) ps d) = map_of d ++ map_of (rev ps)"
proof (induction ps arbitrary: d)
  case (Cons p ps)
  then show ?case
    by (cases p) (auto simp: update_conv' map_add_def fun_eq_iff split: option.split)
qed simp

lemma distinct_updates: "distinct (map fst d) \<Longrightarrow> distinct (map fst (fold (\<lambda>(k, v) d. AList.update k v d) ps d))"
  by (induction ps arbitrary: d) (auto simp: distinct_update)

text \<open>
  the key-value list of a log call is turned into a map just when it has a value for each key and
  every key is a string (otherwise the logger panics), and the map holds for each key the last value
  given to it, whichever way the call is made.
\<close>

theorem lager_data_of_values:
  "(to_lager_data kvs = Panics \<longleftrightarrow> (\<nexists>ps. kvs = flatten ps))
    \<and> (\<exists>d. to_lager_data (flatten ps) = Returns d \<and> map_of d = map_of (rev ps) \<and> distinct (map fst d))"
proof
  show "to_lager_data kvs = Panics \<longleftrightarrow> (\<nexists>ps. kvs = flatten ps)"
    using lager_data_loop_returns [of "[]" kvs]
    by (cases "to_lager_data kvs") (auto simp: to_lager_data_def lager_data_loop_flatten)
  show "\<exists>d. to_lager_data (flatten ps) = Returns d \<and> map_of d = map_of (rev ps) \<and> distinct (map fst d)"
    by (simp add: to_lager_data_def lager_data_loop_flatten map_of_updates distinct_updates)
qed

end
