(* ===== verification/Deep_Copy.thy ===== *)
theory Deep_Copy
  imports Samples
begin

text \<open>
  What it takes to copy deeply, for \<open>pkg/apis/eirini/v1/zz_generated.deepcopy.go\<close>. The rest of the
  development treats Go objects as values, which is right as long as the copies the code makes before it
  changes an object share nothing with it. Here objects live in a heap: slices, maps and pointers are
  addresses of cells. A slice is taken to be the whole of its backing array.

  The locale \<open>deep_copy\<close> is the contract of a copying function: a copy looks like the original, all
  that is reachable from it is new, and nothing that was there before is changed. The lemmas after it
  build such functions for pairs, structs, slices and pointers from those of their parts.
\<close>

section \<open>Structs with references, cells and heaps\<close>

type_synonym addr = nat

record sidecar_struct =
  xs_name :: string
  xs_command :: "addr option"
  xs_memory_mb :: i64
  xs_env :: "addr option"

record lrp_spec_struct =
  xl_guid :: string
  xl_version :: string
  xl_process_type :: string
  xl_app_name :: string
  xl_app_guid :: string
  xl_org_name :: string
  xl_org_guid :: string
  xl_space_name :: string
  xl_space_guid :: string
  xl_image :: string
  xl_command :: "addr option"
  xl_sidecars :: "addr option"
  xl_private_registry :: "addr option"
  xl_env :: "addr option"
  xl_environment :: "addr option"
  xl_health :: healthcheck
  xl_ports :: "addr option"
  xl_instances :: i64
  xl_memory_mb :: i64
  xl_disk_mb :: i64
  xl_cpu_weight :: u8
  xl_volume_mounts :: "addr option"
  xl_user_defined_annotations :: "addr option"

type_synonym type_meta = "string \<times> string"

text \<open>
  The Kubernetes types inside: metadata with its maps, its owners and their \<open>Controller\<close> flags, environment
  variables with the source that \<open>ValueFrom\<close> points to (which is one cell with all its selectors), and the
  metadata of lists.
\<close>

record owner_struct =
  xw_api_version :: string
  xw_kind :: string
  xw_name :: string
  xw_uid :: string
  xw_controller :: "addr option"

record meta_struct =
  xm_name :: string
  xm_generate_name :: string
  xm_namespace :: string
  xm_uid :: string
  xm_labels :: "addr option"
  xm_annotations :: "addr option"
  xm_owner_references :: "addr option"

record env_struct =
  xe_name :: string
  xe_value :: string
  xe_value_from :: "addr option"

record list_meta_struct =
  xd_resource_version :: string
  xd_remaining_item_count :: "addr option"

record lrp_struct =
  xo_type_meta :: type_meta
  xo_meta :: meta_struct
  xo_spec :: lrp_spec_struct
  xo_status :: i32

record task_spec_struct =
  xt_guid :: string
  xt_name :: string
  xt_image :: string
  xt_image_pull_secrets :: "addr option"
  xt_env :: "addr option"
  xt_environment :: "addr option"
  xt_command :: "addr option"
  xt_app_name :: string
  xt_app_guid :: string
  xt_org_name :: string
  xt_org_guid :: string
  xt_space_name :: string
  xt_space_guid :: string
  xt_memory_mb :: i64
  xt_disk_mb :: i64
  xt_cpu_millis :: i64

record task_struct =
  xk_type_meta :: type_meta
  xk_meta :: meta_struct
  xk_spec :: task_spec_struct
  xk_status :: "addr option"

text \<open>A list of objects: its metadata and its items.\<close>

record list_struct =
  xi_type_meta :: type_meta
  xi_list_meta :: list_meta_struct
  xi_items :: "addr option"

record route =
  ro_hostname :: string
  ro_port :: i32

datatype cell =
    is_Strings: Strings (the_Strings: "string list")
  | is_PullSecrets: PullSecrets (the_PullSecrets: "string list")
  | is_StringMap: StringMap (the_StringMap: smap)
  | is_EnvVars: EnvVars (the_EnvVars: "env_struct list")
  | is_SourceObj: SourceObj (the_SourceObj: env_var_source)
  | is_Owners: Owners (the_Owners: "owner_struct list")
  | is_Flag: Flag (the_Flag: bool)
  | is_Count: Count (the_Count: i64)
  | is_Ports: Ports (the_Ports: "i32 list")
  | is_Mounts: Mounts (the_Mounts: "volume_mount list")
  | is_Conditions: Conditions (the_Conditions: "condition list")
  | is_Sidecars: Sidecars (the_Sidecars: "sidecar_struct list")
  | is_LRPs: LRPs (the_LRPs: "lrp_struct list")
  | is_Tasks: Tasks (the_Tasks: "task_struct list")
  | is_HealthObj: HealthObj (the_HealthObj: healthcheck)
  | is_RegistryObj: RegistryObj (the_RegistryObj: private_registry)
  | is_MountObj: MountObj (the_MountObj: volume_mount)
  | is_RouteObj: RouteObj (the_RouteObj: route)
  | is_LRPStatusObj: LRPStatusObj (the_LRPStatusObj: i32)
  | is_SidecarObj: SidecarObj (the_SidecarObj: sidecar_struct)
  | is_LRPSpecObj: LRPSpecObj (the_LRPSpecObj: lrp_spec_struct)
  | is_LRPObj: LRPObj (the_LRPObj: lrp_struct)
  | is_LRPListObj: LRPListObj (the_LRPListObj: list_struct)
  | is_TaskSpecObj: TaskSpecObj (the_TaskSpecObj: task_spec_struct)
  | is_TaskStatusObj: TaskStatusObj (the_TaskStatusObj: "addr option")
  | is_TaskObj: TaskObj (the_TaskObj: task_struct)
  | is_TaskListObj: TaskListObj (the_TaskListObj: list_struct)

record heap =
  hp_cells :: "addr \<Rightarrow> cell option"
  hp_next :: addr

definition alloc :: "cell \<Rightarrow> (heap, addr) io" where
  "alloc c = State (\<lambda>h. (hp_next h,
     h\<lparr>hp_cells := (hp_cells h)(hp_next h := Some c), hp_next := hp_next h + 1\<rparr>))"

definition store :: "addr \<Rightarrow> cell \<Rightarrow> (heap, unit) io" where
  "store a c = State (\<lambda>h. ((), h\<lparr>hp_cells := (hp_cells h)(a := Some c)\<rparr>))"

definition load :: "addr \<Rightarrow> (heap, cell) io" where
  "load a = State (\<lambda>h. (the (hp_cells h a), h))"

lemma run_heap [simp]:
  "run_state (alloc c) h = (hp_next h,
     h\<lparr>hp_cells := (hp_cells h)(hp_next h := Some c), hp_next := hp_next h + 1\<rparr>)"
  "run_state (store a c) h = ((), h\<lparr>hp_cells := (hp_cells h)(a := Some c)\<rparr>)"
  "run_state (load a) h = (the (hp_cells h a), h)"
  by (simp_all add: alloc_def store_def load_def)

text \<open>
  A copy of what a slice, map or pointer refers to: nil stays nil; otherwise a new cell is made, the
  old one is copied into it, and the copy is made deep by \<open>m\<close>.
\<close>

definition copy_box :: "('c \<Rightarrow> cell) \<Rightarrow> (cell \<Rightarrow> 'c) \<Rightarrow> ('c \<Rightarrow> (heap, 'c) io) \<Rightarrow> addr option
    \<Rightarrow> (heap, addr option) io" where
  "copy_box mk un m p =
     (case p of
        None \<Rightarrow> ret None
      | Some a \<Rightarrow> do {
          c \<leftarrow> load a;
          b \<leftarrow> alloc (mk (un c));
          y \<leftarrow> m (un c);
          _ \<leftarrow> store b (mk y);
          ret (Some b)
        })"

text \<open>\<open>for i := range *in { (*in)[i].DeepCopyInto(&(*out)[i]) }\<close>\<close>

fun copy_each :: "('a \<Rightarrow> (heap, 'a) io) \<Rightarrow> 'a list \<Rightarrow> (heap, 'a list) io" where
  "copy_each m [] = ret []"
| "copy_each m (x # xs) = do {
     y \<leftarrow> m x;
     ys \<leftarrow> copy_each m xs;
     ret (y # ys)
   }"

text \<open>\<open>for key, val := range *in { (*out)[key] = val }\<close> on an empty map.\<close>

definition copy_entries :: "smap \<Rightarrow> (heap, smap) io" where
  "copy_entries m = ret (put_all m [])"

definition copy_pair :: "('a \<Rightarrow> (heap, 'a) io) \<Rightarrow> ('b \<Rightarrow> (heap, 'b) io) \<Rightarrow> 'a \<times> 'b \<Rightarrow> (heap, 'a \<times> 'b) io" where
  "copy_pair m n p = do {
     a \<leftarrow> m (fst p);
     b \<leftarrow> n (snd p);
     ret (a, b)
   }"

section \<open>The contract\<close>

text \<open>Nothing is lost or changed from \<open>h\<close> to \<open>h'\<close>.\<close>

definition extends :: "heap \<Rightarrow> heap \<Rightarrow> bool" where
  "extends h h' \<longleftrightarrow> hp_next h \<le> hp_next h' \<and> (\<forall>a < hp_next h. hp_cells h' a = hp_cells h a)"

lemma extends_refl [simp]: "extends h h"
  by (simp add: extends_def)

lemma extends_trans: "extends h h1 \<Longrightarrow> extends h1 h2 \<Longrightarrow> extends h h2"
  by (simp add: extends_def)

text \<open>
  \<open>reach\<close> is what an object refers to, \<open>view\<close> the value it stands for, \<open>ok\<close> that it is well-formed
  in a heap.
\<close>

locale deep_copy =
  fixes reach :: "heap \<Rightarrow> 'a \<Rightarrow> addr set"
    and view :: "heap \<Rightarrow> 'a \<Rightarrow> 'v"
    and ok :: "heap \<Rightarrow> 'a \<Rightarrow> bool"
    and copy :: "'a \<Rightarrow> (heap, 'a) io"
  assumes ok_reach: "ok h x \<Longrightarrow> reach h x \<subseteq> {..<hp_next h}"
    and frame: "\<forall>a \<in> reach h x. hp_cells h' a = hp_cells h a \<Longrightarrow> reach h' x = reach h x \<and> view h' x = view h x"
    and ok_frame: "ok h x \<Longrightarrow> \<forall>a \<in> reach h x. hp_cells h' a = hp_cells h a \<Longrightarrow> hp_next h \<le> hp_next h' \<Longrightarrow> ok h' x"
    and copies: "ok h x \<Longrightarrow> run_state (copy x) h = (y, h') \<Longrightarrow>
      extends h h' \<and> ok h' y \<and> view h' y = view h x \<and> reach h' y \<subseteq> {hp_next h..<hp_next h'}"
begin

lemma stable:
  assumes "extends h h'" and "ok h x"
  shows "ok h' x" and "reach h' x = reach h x" and "view h' x = view h x"
proof -
  have same: "\<forall>a \<in> reach h x. hp_cells h' a = hp_cells h a"
    using assms ok_reach unfolding extends_def by blast
  show "ok h' x" using ok_frame [OF assms(2) same] assms(1) by (simp add: extends_def)
  show "reach h' x = reach h x" "view h' x = view h x" using frame [OF same] by simp_all
qed

text \<open>
  So the copy and the original are independent: they share no cell, and writing whatever into the
  cells of one does not change the other.
\<close>

lemma independent:
  assumes "ok h x" and "run_state (copy x) h = (y, h')"
  shows "reach h' x \<inter> reach h' y = {}" and "view h' y = view h x" and "view h' x = view h x"
    and "a \<in> reach h' y \<Longrightarrow> view (snd (run_state (store a c) h')) x = view h x"
    and "a \<in> reach h' x \<Longrightarrow> view (snd (run_state (store a c) h')) y = view h x"
proof -
  note copied = copies [OF assms]
  note original = stable [OF conjunct1 [OF copied] assms(1)]
  show disjoint: "reach h' x \<inter> reach h' y = {}"
    using copied original(2) ok_reach [OF assms(1)] by fastforce
  show "view h' y = view h x" "view h' x = view h x"
    using copied original by simp_all
  show "view (snd (run_state (store a c) h')) x = view h x" if "a \<in> reach h' y"
  proof -
    have "\<forall>b \<in> reach h' x. hp_cells (snd (run_state (store a c) h')) b = hp_cells h' b"
      using disjoint that by auto
    from frame [OF this] show ?thesis using original(3) by simp
  qed
  show "view (snd (run_state (store a c) h')) y = view h x" if "a \<in> reach h' x"
  proof -
    have "\<forall>b \<in> reach h' y. hp_cells (snd (run_state (store a c) h')) b = hp_cells h' b"
      using disjoint that by auto
    from frame [OF this] show ?thesis using copied by simp
  qed
qed

end

section \<open>Building copying functions\<close>

text \<open>A value without references is copied by assignment.\<close>

lemma deep_copy_value: "deep_copy (\<lambda>h x. {}) (\<lambda>h x. x) (\<lambda>h x. True) ret"
  by unfold_locales simp_all

lemma update_new: "k \<notin> fst ` set d \<Longrightarrow> AList.update k v d = d @ [(k, v)]"
  by (induction d) auto

lemma deep_copy_entries:
  "deep_copy (\<lambda>h x. {}) (\<lambda>h x. x) (\<lambda>h x. distinct (map fst x)) copy_entries"
proof -
  have "put_all m d = d @ m" if "distinct (map fst (d @ m))" for m d :: smap
    using that
  proof (induction m arbitrary: d)
    case (Cons kv m)
    obtain k v where kv: "kv = (k, v)" by (cases kv)
    have "AList.update k v d = d @ [(k, v)]"
      using Cons.prems kv by (intro update_new) auto
    with Cons.IH [of "d @ [(k, v)]"] Cons.prems kv show ?case by (simp add: put_all_def)
  qed (simp add: put_all_def)
  from this [of "[]"] show ?thesis
    by unfold_locales (simp_all add: copy_entries_def)
qed

lemma deep_copy_pair:
  assumes "deep_copy R1 V1 O1 m" and "deep_copy R2 V2 O2 n"
  shows "deep_copy (\<lambda>h p. R1 h (fst p) \<union> R2 h (snd p)) (\<lambda>h p. (V1 h (fst p), V2 h (snd p)))
    (\<lambda>h p. O1 h (fst p) \<and> O2 h (snd p)) (copy_pair m n)"
proof
  fix h h' :: heap and p
  show "O1 h (fst p) \<and> O2 h (snd p) \<Longrightarrow> R1 h (fst p) \<union> R2 h (snd p) \<subseteq> {..<hp_next h}"
    using deep_copy.ok_reach [OF assms(1)] deep_copy.ok_reach [OF assms(2)] by blast
  assume same: "\<forall>a \<in> R1 h (fst p) \<union> R2 h (snd p). hp_cells h' a = hp_cells h a"
  then show "R1 h' (fst p) \<union> R2 h' (snd p) = R1 h (fst p) \<union> R2 h (snd p)
      \<and> (V1 h' (fst p), V2 h' (snd p)) = (V1 h (fst p), V2 h (snd p))"
    using deep_copy.frame [OF assms(1), of h "fst p" h'] deep_copy.frame [OF assms(2), of h "snd p" h'] by simp
  show "O1 h (fst p) \<and> O2 h (snd p) \<Longrightarrow> hp_next h \<le> hp_next h' \<Longrightarrow> O1 h' (fst p) \<and> O2 h' (snd p)"
    using same deep_copy.ok_frame [OF assms(1), of h "fst p" h'] deep_copy.ok_frame [OF assms(2), of h "snd p" h']
    by simp
next
  fix h p q h2
  assume ok: "O1 h (fst p) \<and> O2 h (snd p)" and run: "run_state (copy_pair m n p) h = (q, h2)"
  obtain a h1 where a: "run_state (m (fst p)) h = (a, h1)" by (cases "run_state (m (fst p)) h")
  obtain b h3 where b: "run_state (n (snd p)) h1 = (b, h3)" by (cases "run_state (n (snd p)) h1")
  have q: "q = (a, b)" "h3 = h2" using run a b by (simp_all add: copy_pair_def)
  note 1 = deep_copy.copies [OF assms(1) conjunct1 [OF ok] a]
  note s = deep_copy.stable [OF assms(2) conjunct1 [OF 1] conjunct2 [OF ok]]
  note 2 = deep_copy.copies [OF assms(2) s(1) b]
  note t = deep_copy.stable [OF assms(1) conjunct1 [OF 2] conjunct1 [OF conjunct2 [OF 1]]]
  have "hp_next h \<le> hp_next h1" "hp_next h1 \<le> hp_next h2"
    using 1 2 q(2) by (auto simp: extends_def)
  then show "extends h h2 \<and> (O1 h2 (fst q) \<and> O2 h2 (snd q))
      \<and> (V1 h2 (fst q), V2 h2 (snd q)) = (V1 h (fst p), V2 h (snd p))
      \<and> R1 h2 (fst q) \<union> R2 h2 (snd q) \<subseteq> {hp_next h..<hp_next h2}"
    using 1 2 s(3) t extends_trans [of h h1 h2] by (fastforce simp: q)
qed

text \<open>
  A struct \<open>s\<close> with the references \<open>f s\<close>, which \<open>u\<close> replaces; \<open>w s v\<close> is its value, given that of
  its references.
\<close>

lemma deep_copy_struct:
  assumes "deep_copy R V Q m" and "\<And>s x. f (u s x) = x" and "\<And>s x v. w (u s x) v = w s v"
    and "\<And>s. copy s = do { x \<leftarrow> m (f s); ret (u s x) }"
  shows "deep_copy (\<lambda>h s. R h (f s)) (\<lambda>h s. w s (V h (f s))) (\<lambda>h s. Q h (f s)) copy"
proof
  fix h h' :: heap and s
  show "Q h (f s) \<Longrightarrow> R h (f s) \<subseteq> {..<hp_next h}"
    by (rule deep_copy.ok_reach [OF assms(1)])
  assume same: "\<forall>a \<in> R h (f s). hp_cells h' a = hp_cells h a"
  show "R h' (f s) = R h (f s) \<and> w s (V h' (f s)) = w s (V h (f s))"
    using deep_copy.frame [OF assms(1) same] by simp
  show "Q h (f s) \<Longrightarrow> hp_next h \<le> hp_next h' \<Longrightarrow> Q h' (f s)"
    by (rule deep_copy.ok_frame [OF assms(1) _ same])
next
  fix h s t h'
  assume ok: "Q h (f s)" and run: "run_state (copy s) h = (t, h')"
  obtain x h1 where x: "run_state (m (f s)) h = (x, h1)" by (cases "run_state (m (f s)) h")
  have "t = u s x" "h1 = h'" using run x by (simp_all add: assms(4))
  then show "extends h h' \<and> Q h' (f t) \<and> w t (V h' (f t)) = w s (V h (f s)) \<and> R h' (f t) \<subseteq> {hp_next h..<hp_next h'}"
    using deep_copy.copies [OF assms(1) ok x] by (simp add: assms(2,3))
qed

lemma deep_copy_each:
  assumes "deep_copy R V Q m"
  shows "deep_copy (\<lambda>h xs. \<Union>(R h ` set xs)) (\<lambda>h xs. map (V h) xs) (\<lambda>h xs. \<forall>x \<in> set xs. Q h x) (copy_each m)"
proof
  fix h h' :: heap and xs
  show "\<forall>x \<in> set xs. Q h x \<Longrightarrow> \<Union>(R h ` set xs) \<subseteq> {..<hp_next h}"
    using deep_copy.ok_reach [OF assms] by blast
  assume same: "\<forall>a \<in> \<Union>(R h ` set xs). hp_cells h' a = hp_cells h a"
  then have each: "R h' x = R h x \<and> V h' x = V h x" if "x \<in> set xs" for x
    using that by (intro deep_copy.frame [OF assms]) blast
  then show "\<Union>(R h' ` set xs) = \<Union>(R h ` set xs) \<and> map (V h') xs = map (V h) xs" by simp
  show "\<forall>x \<in> set xs. Q h x \<Longrightarrow> hp_next h \<le> hp_next h' \<Longrightarrow> \<forall>x \<in> set xs. Q h' x"
    by (intro ballI deep_copy.ok_frame [OF assms, of h _ h']) (use same in auto)
next
  fix h xs ys h'
  assume "\<forall>x \<in> set xs. Q h x" and "run_state (copy_each m xs) h = (ys, h')"
  then show "extends h h' \<and> (\<forall>y \<in> set ys. Q h' y) \<and> map (V h') ys = map (V h) xs
      \<and> \<Union>(R h' ` set ys) \<subseteq> {hp_next h..<hp_next h'}"
  proof (induction xs arbitrary: h ys)
    case (Cons x xs)
    obtain y h1 where y: "run_state (m x) h = (y, h1)" by (cases "run_state (m x) h")
    obtain zs h2 where zs: "run_state (copy_each m xs) h1 = (zs, h2)" by (cases "run_state (copy_each m xs) h1")
    have ys: "ys = y # zs" "h2 = h'" using Cons.prems(2) y zs by simp_all
    have 1: "extends h h1" "Q h1 y" "V h1 y = V h x" "R h1 y \<subseteq> {hp_next h..<hp_next h1}"
      using deep_copy.copies [OF assms _ y] Cons.prems(1) by simp_all
    have s: "Q h1 z" "V h1 z = V h z" if "z \<in> set xs" for z
      using deep_copy.stable [OF assms 1(1)] Cons.prems(1) that by simp_all
    have "extends h1 h' \<and> (\<forall>z \<in> set zs. Q h' z) \<and> map (V h') zs = map (V h1) xs
        \<and> \<Union>(R h' ` set zs) \<subseteq> {hp_next h1..<hp_next h'}"
      by (rule Cons.IH) (use s(1) zs ys(2) in simp_all)
    then have 2: "extends h1 h'" "\<forall>z \<in> set zs. Q h' z" "map (V h') zs = map (V h) xs"
        "\<Union>(R h' ` set zs) \<subseteq> {hp_next h1..<hp_next h'}"
      using s(2) by simp_all
    have t: "Q h' y" "R h' y = R h1 y" "V h' y = V h1 y"
      by (rule deep_copy.stable [OF assms 2(1) 1(2)])+
    have next': "hp_next h \<le> hp_next h1" "hp_next h1 \<le> hp_next h'"
      using 1(1) 2(1) by (simp_all add: extends_def)
    have "R h1 y \<subseteq> {hp_next h..<hp_next h'}" "\<Union>(R h' ` set zs) \<subseteq> {hp_next h..<hp_next h'}"
      using 1(4) 2(4) next' by (meson atLeastLessThan_subset_iff order_trans order_refl ivl_subset)+
    then show ?case
      using 1(3) 2(2,3) t extends_trans [OF 1(1) 2(1)] by (simp add: ys(1))
  qed simp
qed

text \<open>A reference to a cell whose contents are copied by \<open>m\<close>.\<close>

definition box_reach :: "(cell \<Rightarrow> 'c) \<Rightarrow> (heap \<Rightarrow> 'c \<Rightarrow> addr set) \<Rightarrow> heap \<Rightarrow> addr option \<Rightarrow> addr set" where
  "box_reach un R h p = (case p of None \<Rightarrow> {} | Some a \<Rightarrow> insert a (R h (un (the (hp_cells h a)))))"

definition box_view :: "(cell \<Rightarrow> 'c) \<Rightarrow> (heap \<Rightarrow> 'c \<Rightarrow> 'v) \<Rightarrow> heap \<Rightarrow> addr option \<Rightarrow> 'v option" where
  "box_view un V h p = map_option (\<lambda>a. V h (un (the (hp_cells h a)))) p"

definition box_ok :: "(cell \<Rightarrow> bool) \<Rightarrow> (cell \<Rightarrow> 'c) \<Rightarrow> (heap \<Rightarrow> 'c \<Rightarrow> bool) \<Rightarrow> heap \<Rightarrow> addr option \<Rightarrow> bool" where
  "box_ok is un Q h p = (case p of None \<Rightarrow> True | Some a \<Rightarrow>
     a < hp_next h \<and> (case hp_cells h a of None \<Rightarrow> False | Some c \<Rightarrow> is c \<and> Q h (un c)))"

lemma deep_copy_box:
  assumes "deep_copy R V Q m" and "\<And>c. un (mk c) = c" and "\<And>c. is (mk c)"
  shows "deep_copy (box_reach un R) (box_view un V) (box_ok is un Q) (copy_box mk un m)"
proof
  fix h h' :: heap and p
  show "box_ok is un Q h p \<Longrightarrow> box_reach un R h p \<subseteq> {..<hp_next h}"
    using deep_copy.ok_reach [OF assms(1)]
    by (auto simp: box_ok_def box_reach_def split: option.splits)
  assume same: "\<forall>a \<in> box_reach un R h p. hp_cells h' a = hp_cells h a"
  show "box_reach un R h' p = box_reach un R h p \<and> box_view un V h' p = box_view un V h p"
  proof (cases p)
    case (Some a)
    with same deep_copy.frame [OF assms(1), of h "un (the (hp_cells h a))" h'] show ?thesis
      by (simp add: box_reach_def box_view_def)
  qed (simp add: box_reach_def box_view_def)
  show "box_ok is un Q h p \<Longrightarrow> hp_next h \<le> hp_next h' \<Longrightarrow> box_ok is un Q h' p"
    using same deep_copy.ok_frame [OF assms(1), of h _ h']
    by (auto simp: box_ok_def box_reach_def split: option.splits)
next
  fix h p q h'
  assume ok: "box_ok is un Q h p" and run: "run_state (copy_box mk un m p) h = (q, h')"
  show "extends h h' \<and> box_ok is un Q h' q \<and> box_view un V h' q = box_view un V h p
      \<and> box_reach un R h' q \<subseteq> {hp_next h..<hp_next h'}"
  proof (cases p)
    case None
    with run show ?thesis by (simp add: copy_box_def box_ok_def box_view_def box_reach_def)
  next
    case (Some a)
    then obtain c where c: "a < hp_next h" "hp_cells h a = Some c" "Q h (un c)"
      using ok by (auto simp: box_ok_def split: option.splits)
    let ?b = "hp_next h"
    define h1 where "h1 = h\<lparr>hp_cells := (hp_cells h)(?b := Some (mk (un c))), hp_next := ?b + 1\<rparr>"
    obtain y h2 where y: "run_state (m (un c)) h1 = (y, h2)" by (cases "run_state (m (un c)) h1")
    have q: "q = Some ?b" and h': "h' = h2\<lparr>hp_cells := (hp_cells h2)(?b := Some (mk y))\<rparr>"
      using run Some c(2) y by (simp_all add: copy_box_def h1_def)
    have 1: "extends h h1" by (simp add: extends_def h1_def)
    note s = deep_copy.stable [OF assms(1) 1 c(3)]
    note 2 = deep_copy.copies [OF assms(1) s(1) y]
    have next': "hp_next h1 = ?b + 1" by (simp add: h1_def)
    have below: "extends h h'"
      using extends_trans [OF 1 conjunct1 [OF 2]] by (auto simp: extends_def h')
    have "?b \<notin> R h2 y" using 2 next' by auto
    then have same: "\<forall>a \<in> R h2 y. hp_cells h' a = hp_cells h2 a" by (auto simp: h')
    note f = deep_copy.frame [OF assms(1) same]
    have "Q h' y" using deep_copy.ok_frame [OF assms(1) _ same] 2 by (simp add: h')
    moreover have "?b < hp_next h'" using 2 next' by (simp add: h' extends_def)
    ultimately show ?thesis
      using below f 2 s(3) next' c(2)
      by (auto simp: q Some box_ok_def box_view_def box_reach_def assms(2,3) h')
  qed
qed

end
