(* ===== verification/Api_Copies.thy ===== *)
theory Api_Copies
  imports Deep_Copy
begin

text \<open>
  \<open>pkg/apis/eirini/v1/zz_generated.deepcopy.go\<close>, function by function: \<open>into_T\<close> is the method
  \<open>DeepCopyInto\<close> of the type \<open>T\<close>, from the value at the receiver to the value at \<open>out\<close>;
  \<open>copy_T\<close> is the method \<open>DeepCopy\<close>, from pointer to pointer. The copies of a type without references
  are assignments. The methods of the Kubernetes types that an LRP and a task contain are not in the
  repository: they are the parameter \<open>copy_lib\<close>. When these keep the contract of \<open>Deep_Copy\<close>, so does every
  copying function here.
\<close>

section \<open>The copying functions of the Kubernetes types\<close>

text \<open>\<open>DeepCopyInto\<close> of \<open>ObjectMeta\<close>, \<open>ListMeta\<close>, \<open>Condition\<close> and \<open>EnvVar\<close>.\<close>

record copy_lib =
  cl_object_meta :: "meta_struct \<Rightarrow> (heap, meta_struct) io"
  cl_list_meta :: "list_meta_struct \<Rightarrow> (heap, list_meta_struct) io"
  cl_condition :: "condition \<Rightarrow> (heap, condition) io"
  cl_env_var :: "env_struct \<Rightarrow> (heap, env_struct) io"

section \<open>Slices, maps and pointers\<close>

definition copy_strings :: "addr option \<Rightarrow> (heap, addr option) io" where
  "copy_strings = copy_box Strings the_Strings ret"

definition copy_map :: "addr option \<Rightarrow> (heap, addr option) io" where
  "copy_map = copy_box StringMap the_StringMap copy_entries"

text \<open>\<open>EnvVar\<close> and \<open>Condition\<close> are copied one by one by their own functions.\<close>

definition copy_env_vars :: "copy_lib \<Rightarrow> addr option \<Rightarrow> (heap, addr option) io" where
  "copy_env_vars lib = copy_box EnvVars the_EnvVars (copy_each (cl_env_var lib))"

definition copy_conditions :: "copy_lib \<Rightarrow> addr option \<Rightarrow> (heap, addr option) io" where
  "copy_conditions lib = copy_box Conditions the_Conditions (copy_each (cl_condition lib))"

section \<open>Types without references\<close>

definition into_healthcheck :: "healthcheck \<Rightarrow> (heap, healthcheck) io" where
  "into_healthcheck inp = ret inp"

definition copy_healthcheck :: "addr option \<Rightarrow> (heap, addr option) io" where
  "copy_healthcheck = copy_box HealthObj the_HealthObj into_healthcheck"

definition into_private_registry :: "private_registry \<Rightarrow> (heap, private_registry) io" where
  "into_private_registry inp = ret inp"

definition copy_private_registry :: "addr option \<Rightarrow> (heap, addr option) io" where
  "copy_private_registry = copy_box RegistryObj the_RegistryObj into_private_registry"

definition into_route :: "route \<Rightarrow> (heap, route) io" where
  "into_route inp = ret inp"

definition copy_route :: "addr option \<Rightarrow> (heap, addr option) io" where
  "copy_route = copy_box RouteObj the_RouteObj into_route"

definition into_volume_mount :: "volume_mount \<Rightarrow> (heap, volume_mount) io" where
  "into_volume_mount inp = ret inp"

definition copy_volume_mount :: "addr option \<Rightarrow> (heap, addr option) io" where
  "copy_volume_mount = copy_box MountObj the_MountObj into_volume_mount"

definition into_lrp_status :: "i32 \<Rightarrow> (heap, i32) io" where
  "into_lrp_status inp = ret inp"

definition copy_lrp_status :: "addr option \<Rightarrow> (heap, addr option) io" where
  "copy_lrp_status = copy_box LRPStatusObj the_LRPStatusObj into_lrp_status"

section \<open>LRPs\<close>

definition into_sidecar :: "sidecar_struct \<Rightarrow> (heap, sidecar_struct) io" where
  "into_sidecar inp = do {
     command \<leftarrow> copy_strings (xs_command inp);
     env \<leftarrow> copy_map (xs_env inp);
     ret (inp\<lparr>xs_command := command, xs_env := env\<rparr>)
   }"

definition copy_sidecar :: "addr option \<Rightarrow> (heap, addr option) io" where
  "copy_sidecar = copy_box SidecarObj the_SidecarObj into_sidecar"

definition copy_sidecars :: "addr option \<Rightarrow> (heap, addr option) io" where
  "copy_sidecars = copy_box Sidecars the_Sidecars (copy_each into_sidecar)"

definition copy_ports :: "addr option \<Rightarrow> (heap, addr option) io" where
  "copy_ports = copy_box Ports the_Ports ret"

definition copy_mounts :: "addr option \<Rightarrow> (heap, addr option) io" where
  "copy_mounts = copy_box Mounts the_Mounts ret"

definition into_lrp_spec :: "copy_lib \<Rightarrow> lrp_spec_struct \<Rightarrow> (heap, lrp_spec_struct) io" where
  "into_lrp_spec lib inp = do {
     command \<leftarrow> copy_strings (xl_command inp);
     sidecars \<leftarrow> copy_sidecars (xl_sidecars inp);
     privateRegistry \<leftarrow> copy_private_registry (xl_private_registry inp);
     env \<leftarrow> copy_map (xl_env inp);
     environment \<leftarrow> copy_env_vars lib (xl_environment inp);
     ports \<leftarrow> copy_ports (xl_ports inp);
     volumeMounts \<leftarrow> copy_mounts (xl_volume_mounts inp);
     userDefinedAnnotations \<leftarrow> copy_map (xl_user_defined_annotations inp);
     ret (inp\<lparr>xl_command := command, xl_sidecars := sidecars, xl_private_registry := privateRegistry,
       xl_env := env, xl_environment := environment, xl_ports := ports, xl_volume_mounts := volumeMounts,
       xl_user_defined_annotations := userDefinedAnnotations\<rparr>)
   }"

definition copy_lrp_spec :: "copy_lib \<Rightarrow> addr option \<Rightarrow> (heap, addr option) io" where
  "copy_lrp_spec lib = copy_box LRPSpecObj the_LRPSpecObj (into_lrp_spec lib)"

definition into_lrp :: "copy_lib \<Rightarrow> lrp_struct \<Rightarrow> (heap, lrp_struct) io" where
  "into_lrp lib inp = do {
     objectMeta \<leftarrow> cl_object_meta lib (xo_meta inp);
     spec \<leftarrow> into_lrp_spec lib (xo_spec inp);
     ret (inp\<lparr>xo_meta := objectMeta, xo_spec := spec\<rparr>)
   }"

definition copy_lrp :: "copy_lib \<Rightarrow> addr option \<Rightarrow> (heap, addr option) io" where
  "copy_lrp lib = copy_box LRPObj the_LRPObj (into_lrp lib)"

definition into_lrp_list :: "copy_lib \<Rightarrow> list_struct \<Rightarrow> (heap, list_struct) io" where
  "into_lrp_list lib inp = do {
     listMeta \<leftarrow> cl_list_meta lib (xi_list_meta inp);
     items \<leftarrow> copy_box LRPs the_LRPs (copy_each (into_lrp lib)) (xi_items inp);
     ret (inp\<lparr>xi_list_meta := listMeta, xi_items := items\<rparr>)
   }"

definition copy_lrp_list :: "copy_lib \<Rightarrow> addr option \<Rightarrow> (heap, addr option) io" where
  "copy_lrp_list lib = copy_box LRPListObj the_LRPListObj (into_lrp_list lib)"

section \<open>Tasks\<close>

definition copy_pull_secrets :: "addr option \<Rightarrow> (heap, addr option) io" where
  "copy_pull_secrets = copy_box PullSecrets the_PullSecrets ret"

definition into_task_spec :: "copy_lib \<Rightarrow> task_spec_struct \<Rightarrow> (heap, task_spec_struct) io" where
  "into_task_spec lib inp = do {
     imagePullSecrets \<leftarrow> copy_pull_secrets (xt_image_pull_secrets inp);
     env \<leftarrow> copy_map (xt_env inp);
     environment \<leftarrow> copy_env_vars lib (xt_environment inp);
     command \<leftarrow> copy_strings (xt_command inp);
     ret (inp\<lparr>xt_image_pull_secrets := imagePullSecrets, xt_env := env, xt_environment := environment,
       xt_command := command\<rparr>)
   }"

definition copy_task_spec :: "copy_lib \<Rightarrow> addr option \<Rightarrow> (heap, addr option) io" where
  "copy_task_spec lib = copy_box TaskSpecObj the_TaskSpecObj (into_task_spec lib)"

text \<open>The status holds a single reference, its conditions.\<close>

definition into_task_status :: "copy_lib \<Rightarrow> addr option \<Rightarrow> (heap, addr option) io" where
  "into_task_status lib inp = copy_conditions lib inp"

definition copy_task_status :: "copy_lib \<Rightarrow> addr option \<Rightarrow> (heap, addr option) io" where
  "copy_task_status lib = copy_box TaskStatusObj the_TaskStatusObj (into_task_status lib)"

definition into_task :: "copy_lib \<Rightarrow> task_struct \<Rightarrow> (heap, task_struct) io" where
  "into_task lib inp = do {
     objectMeta \<leftarrow> cl_object_meta lib (xk_meta inp);
     spec \<leftarrow> into_task_spec lib (xk_spec inp);
     status \<leftarrow> into_task_status lib (xk_status inp);
     ret (inp\<lparr>xk_meta := objectMeta, xk_spec := spec, xk_status := status\<rparr>)
   }"

definition copy_task :: "copy_lib \<Rightarrow> addr option \<Rightarrow> (heap, addr option) io" where
  "copy_task lib = copy_box TaskObj the_TaskObj (into_task lib)"

definition into_task_list :: "copy_lib \<Rightarrow> list_struct \<Rightarrow> (heap, list_struct) io" where
  "into_task_list lib inp = do {
     listMeta \<leftarrow> cl_list_meta lib (xi_list_meta inp);
     items \<leftarrow> copy_box Tasks the_Tasks (copy_each (into_task lib)) (xi_items inp);
     ret (inp\<lparr>xi_list_meta := listMeta, xi_items := items\<rparr>)
   }"

definition copy_task_list :: "copy_lib \<Rightarrow> addr option \<Rightarrow> (heap, addr option) io" where
  "copy_task_list lib = copy_box TaskListObj the_TaskListObj (into_task_list lib)"

text \<open>\<open>DeepCopyObject\<close> of LRPs, tasks and their lists: an interface value, nil when the copy is.\<close>

definition copy_object :: "(addr option \<Rightarrow> (heap, addr option) io) \<Rightarrow> addr option \<Rightarrow> (heap, addr option) io" where
  "copy_object deepCopy inp = do {
     c \<leftarrow> deepCopy inp;
     ret (case c of Some p \<Rightarrow> Some p | None \<Rightarrow> None)
   }"

definition copy_lrp_object :: "copy_lib \<Rightarrow> addr option \<Rightarrow> (heap, addr option) io" where
  "copy_lrp_object lib = copy_object (copy_lrp lib)"

definition copy_lrp_list_object :: "copy_lib \<Rightarrow> addr option \<Rightarrow> (heap, addr option) io" where
  "copy_lrp_list_object lib = copy_object (copy_lrp_list lib)"

definition copy_task_object :: "copy_lib \<Rightarrow> addr option \<Rightarrow> (heap, addr option) io" where
  "copy_task_object lib = copy_object (copy_task lib)"

definition copy_task_list_object :: "copy_lib \<Rightarrow> addr option \<Rightarrow> (heap, addr option) io" where
  "copy_task_list_object lib = copy_object (copy_task_list lib)"

section \<open>The values that structs stand for\<close>

abbreviation flat_reach :: "(cell \<Rightarrow> 'c) \<Rightarrow> heap \<Rightarrow> addr option \<Rightarrow> addr set" where
  "flat_reach un \<equiv> box_reach un (\<lambda>h x. {})"

abbreviation flat_view :: "(cell \<Rightarrow> 'c) \<Rightarrow> heap \<Rightarrow> addr option \<Rightarrow> 'c option" where
  "flat_view un \<equiv> box_view un (\<lambda>h x. x)"

abbreviation flat_ok :: "(cell \<Rightarrow> bool) \<Rightarrow> (cell \<Rightarrow> 'c) \<Rightarrow> heap \<Rightarrow> addr option \<Rightarrow> bool" where
  "flat_ok is un \<equiv> box_ok is un (\<lambda>h x. True)"

text \<open>The entries of a map have distinct keys.\<close>

abbreviation map_ok :: "heap \<Rightarrow> addr option \<Rightarrow> bool" where
  "map_ok \<equiv> box_ok is_StringMap the_StringMap (\<lambda>h m. distinct (map fst m))"

text \<open>The Kubernetes types. The model of metadata has no owners both when they are nil and when they are empty.\<close>

definition view_owner :: "owner_struct \<Rightarrow> bool option \<Rightarrow> owner_reference" where
  "view_owner o' v = \<lparr>or_api_version = xw_api_version o', or_kind = xw_kind o', or_name = xw_name o',
     or_uid = xw_uid o', or_controller = v\<rparr>"

abbreviation "owner_reach h o' \<equiv> flat_reach the_Flag h (xw_controller o')"
abbreviation "owner_value h o' \<equiv> view_owner o' (flat_view the_Flag h (xw_controller o'))"
abbreviation "owner_ok h o' \<equiv> flat_ok is_Flag the_Flag h (xw_controller o')"

abbreviation "owners_reach \<equiv> box_reach the_Owners (\<lambda>h xs. \<Union>(owner_reach h ` set xs))"
abbreviation "owners_value \<equiv> box_view the_Owners (\<lambda>h xs. map (owner_value h) xs)"
abbreviation "owners_ok \<equiv> box_ok is_Owners the_Owners (\<lambda>h xs. \<forall>x \<in> set xs. owner_ok h x)"

definition view_meta :: "meta_struct \<Rightarrow> gomap \<times> gomap \<times> owner_reference list option \<Rightarrow> object_meta" where
  "view_meta m v = (case v of (labels, annotations, owners) \<Rightarrow>
     \<lparr>om_name = xm_name m, om_generate_name = xm_generate_name m, om_namespace = xm_namespace m, om_uid = xm_uid m,
      om_labels = labels, om_annotations = annotations, om_owner_references = entries owners\<rparr>)"

definition meta_reach :: "heap \<Rightarrow> meta_struct \<Rightarrow> addr set" where
  "meta_reach h m = flat_reach the_StringMap h (xm_labels m) \<union>
     (flat_reach the_StringMap h (xm_annotations m) \<union> owners_reach h (xm_owner_references m))"

definition meta_value :: "heap \<Rightarrow> meta_struct \<Rightarrow> object_meta" where
  "meta_value h m = view_meta m (flat_view the_StringMap h (xm_labels m),
     flat_view the_StringMap h (xm_annotations m), owners_value h (xm_owner_references m))"

definition meta_ok :: "heap \<Rightarrow> meta_struct \<Rightarrow> bool" where
  "meta_ok h m \<longleftrightarrow> map_ok h (xm_labels m) \<and> map_ok h (xm_annotations m) \<and> owners_ok h (xm_owner_references m)"

abbreviation "env_reach h e \<equiv> flat_reach the_SourceObj h (xe_value_from e)"

definition view_env :: "env_struct \<Rightarrow> env_var_source option \<Rightarrow> env_var" where
  "view_env e v = \<lparr>ev_name = xe_name e, ev_value = xe_value e, ev_value_from = v\<rparr>"

abbreviation "env_value h e \<equiv> view_env e (flat_view the_SourceObj h (xe_value_from e))"
abbreviation "env_ok h e \<equiv> flat_ok is_SourceObj the_SourceObj h (xe_value_from e)"

abbreviation "envs_reach \<equiv> box_reach the_EnvVars (\<lambda>h xs. \<Union>(env_reach h ` set xs))"
abbreviation "envs_value \<equiv> box_view the_EnvVars (\<lambda>h xs. map (env_value h) xs)"
abbreviation "envs_ok \<equiv> box_ok is_EnvVars the_EnvVars (\<lambda>h xs. \<forall>x \<in> set xs. env_ok h x)"

abbreviation "list_meta_reach h l \<equiv> flat_reach the_Count h (xd_remaining_item_count l)"
abbreviation "list_meta_value h l \<equiv> (xd_resource_version l, flat_view the_Count h (xd_remaining_item_count l))"
abbreviation "list_meta_ok h l \<equiv> flat_ok is_Count the_Count h (xd_remaining_item_count l)"

text \<open>
  What is documented of the methods of the Kubernetes types: they are deep copying functions. A condition
  contains no references.
\<close>

definition copy_laws :: "copy_lib \<Rightarrow> bool" where
  "copy_laws lib \<longleftrightarrow> deep_copy meta_reach meta_value meta_ok (cl_object_meta lib)
     \<and> deep_copy list_meta_reach list_meta_value list_meta_ok (cl_list_meta lib)
     \<and> deep_copy (\<lambda>h c. {}) (\<lambda>h c. c) (\<lambda>h c. True) (cl_condition lib)
     \<and> deep_copy env_reach env_value env_ok (cl_env_var lib)"

text \<open>The types of the repository.\<close>

definition view_sidecar :: "sidecar_struct \<Rightarrow> string list option \<times> gomap \<Rightarrow> sidecar" where
  "view_sidecar s v = \<lparr>sd_name = xs_name s, sd_command = fst v, sd_memory_mb = xs_memory_mb s, sd_env = snd v\<rparr>"

definition view_lrp_spec :: "lrp_spec_struct \<Rightarrow> string list option \<times> sidecar list option \<times>
    private_registry option \<times> gomap \<times> env_var list option \<times> i32 list option \<times> volume_mount list option \<times> gomap
    \<Rightarrow> lrp_spec" where
  "view_lrp_spec s v = (case v of (command, sidecars, registry, env, environment, ports, mounts, annotations) \<Rightarrow>
     \<lparr>ls_guid = xl_guid s, ls_version = xl_version s, ls_process_type = xl_process_type s,
      ls_app_name = xl_app_name s, ls_app_guid = xl_app_guid s, ls_org_name = xl_org_name s,
      ls_org_guid = xl_org_guid s, ls_space_name = xl_space_name s, ls_space_guid = xl_space_guid s,
      ls_image = xl_image s, ls_command = command, ls_sidecars = sidecars, ls_private_registry = registry,
      ls_env = env, ls_environment = environment, ls_health = xl_health s, ls_ports = ports,
      ls_instances = xl_instances s, ls_memory_mb = xl_memory_mb s, ls_disk_mb = xl_disk_mb s,
      ls_cpu_weight = xl_cpu_weight s, ls_volume_mounts = mounts, ls_user_defined_annotations = annotations\<rparr>)"

definition view_task_spec :: "task_spec_struct \<Rightarrow> string list option \<times> gomap \<times> env_var list option
    \<times> string list option \<Rightarrow> task_spec" where
  "view_task_spec s v = (case v of (secrets, env, environment, command) \<Rightarrow>
     \<lparr>ta_guid = xt_guid s, ta_name = xt_name s, ta_image = xt_image s, ta_image_pull_secrets = secrets,
      ta_env = env, ta_environment = environment, ta_command = command, ta_app_name = xt_app_name s,
      ta_app_guid = xt_app_guid s, ta_org_name = xt_org_name s, ta_org_guid = xt_org_guid s,
      ta_space_name = xt_space_name s, ta_space_guid = xt_space_guid s, ta_memory_mb = xt_memory_mb s,
      ta_disk_mb = xt_disk_mb s, ta_cpu_millis = xt_cpu_millis s\<rparr>)"

definition view_lrp :: "lrp_struct \<Rightarrow> object_meta \<times> lrp_spec \<Rightarrow> lrp" where
  "view_lrp s v = \<lparr>lr_meta = fst v, lr_spec = snd v, lr_status_replicas = xo_status s\<rparr>"

text \<open>The model of a task has no conditions both when they are nil and when they are empty.\<close>

definition view_task :: "task_struct \<Rightarrow> object_meta \<times> task_spec \<times> condition list option \<Rightarrow> task" where
  "view_task s v = (case v of (meta, spec, conditions) \<Rightarrow>
     \<lparr>tk_meta = meta, tk_spec = spec, tk_conditions = entries conditions\<rparr>)"

abbreviation "conditions_reach \<equiv> box_reach the_Conditions (\<lambda>h cs. \<Union>((\<lambda>c. {}) ` set cs))"
abbreviation "conditions_value \<equiv> box_view the_Conditions (\<lambda>h cs. map (\<lambda>c. c) cs)"
abbreviation "conditions_ok \<equiv> box_ok is_Conditions the_Conditions (\<lambda>h cs. \<forall>c \<in> set cs. True)"

definition sidecar_reach :: "heap \<Rightarrow> sidecar_struct \<Rightarrow> addr set" where
  "sidecar_reach h s = flat_reach the_Strings h (xs_command s) \<union> flat_reach the_StringMap h (xs_env s)"

definition sidecar_value :: "heap \<Rightarrow> sidecar_struct \<Rightarrow> sidecar" where
  "sidecar_value h s = view_sidecar s (flat_view the_Strings h (xs_command s), flat_view the_StringMap h (xs_env s))"

definition sidecar_ok :: "heap \<Rightarrow> sidecar_struct \<Rightarrow> bool" where
  "sidecar_ok h s \<longleftrightarrow> flat_ok is_Strings the_Strings h (xs_command s) \<and> map_ok h (xs_env s)"

abbreviation "sidecars_reach \<equiv> box_reach the_Sidecars (\<lambda>h xs. \<Union>(sidecar_reach h ` set xs))"
abbreviation "sidecars_value \<equiv> box_view the_Sidecars (\<lambda>h xs. map (sidecar_value h) xs)"
abbreviation "sidecars_ok \<equiv> box_ok is_Sidecars the_Sidecars (\<lambda>h xs. \<forall>x \<in> set xs. sidecar_ok h x)"

definition lrp_spec_reach :: "heap \<Rightarrow> lrp_spec_struct \<Rightarrow> addr set" where
  "lrp_spec_reach h s = flat_reach the_Strings h (xl_command s) \<union> (sidecars_reach h (xl_sidecars s) \<union>
     (flat_reach the_RegistryObj h (xl_private_registry s) \<union> (flat_reach the_StringMap h (xl_env s) \<union>
     (envs_reach h (xl_environment s) \<union> (flat_reach the_Ports h (xl_ports s) \<union>
     (flat_reach the_Mounts h (xl_volume_mounts s) \<union> flat_reach the_StringMap h (xl_user_defined_annotations s)))))))"

definition lrp_spec_value :: "heap \<Rightarrow> lrp_spec_struct \<Rightarrow> lrp_spec" where
  "lrp_spec_value h s = view_lrp_spec s (flat_view the_Strings h (xl_command s), sidecars_value h (xl_sidecars s),
     flat_view the_RegistryObj h (xl_private_registry s), flat_view the_StringMap h (xl_env s),
     envs_value h (xl_environment s), flat_view the_Ports h (xl_ports s),
     flat_view the_Mounts h (xl_volume_mounts s), flat_view the_StringMap h (xl_user_defined_annotations s))"

definition lrp_spec_ok :: "heap \<Rightarrow> lrp_spec_struct \<Rightarrow> bool" where
  "lrp_spec_ok h s \<longleftrightarrow> flat_ok is_Strings the_Strings h (xl_command s) \<and> sidecars_ok h (xl_sidecars s)
     \<and> flat_ok is_RegistryObj the_RegistryObj h (xl_private_registry s) \<and> map_ok h (xl_env s)
     \<and> envs_ok h (xl_environment s) \<and> flat_ok is_Ports the_Ports h (xl_ports s)
     \<and> flat_ok is_Mounts the_Mounts h (xl_volume_mounts s) \<and> map_ok h (xl_user_defined_annotations s)"

definition task_spec_reach :: "heap \<Rightarrow> task_spec_struct \<Rightarrow> addr set" where
  "task_spec_reach h s = flat_reach the_PullSecrets h (xt_image_pull_secrets s) \<union>
     (flat_reach the_StringMap h (xt_env s) \<union> (envs_reach h (xt_environment s) \<union>
     flat_reach the_Strings h (xt_command s)))"

definition task_spec_value :: "heap \<Rightarrow> task_spec_struct \<Rightarrow> task_spec" where
  "task_spec_value h s = view_task_spec s (flat_view the_PullSecrets h (xt_image_pull_secrets s),
     flat_view the_StringMap h (xt_env s), envs_value h (xt_environment s),
     flat_view the_Strings h (xt_command s))"

definition task_spec_ok :: "heap \<Rightarrow> task_spec_struct \<Rightarrow> bool" where
  "task_spec_ok h s \<longleftrightarrow> flat_ok is_PullSecrets the_PullSecrets h (xt_image_pull_secrets s) \<and> map_ok h (xt_env s)
     \<and> envs_ok h (xt_environment s) \<and> flat_ok is_Strings the_Strings h (xt_command s)"

definition lrp_reach :: "heap \<Rightarrow> lrp_struct \<Rightarrow> addr set" where
  "lrp_reach h s = meta_reach h (xo_meta s) \<union> lrp_spec_reach h (xo_spec s)"

definition lrp_value :: "heap \<Rightarrow> lrp_struct \<Rightarrow> lrp" where
  "lrp_value h s = view_lrp s (meta_value h (xo_meta s), lrp_spec_value h (xo_spec s))"

definition lrp_ok :: "heap \<Rightarrow> lrp_struct \<Rightarrow> bool" where
  "lrp_ok h s \<longleftrightarrow> meta_ok h (xo_meta s) \<and> lrp_spec_ok h (xo_spec s)"

definition task_reach :: "heap \<Rightarrow> task_struct \<Rightarrow> addr set" where
  "task_reach h s = meta_reach h (xk_meta s) \<union> (task_spec_reach h (xk_spec s) \<union> conditions_reach h (xk_status s))"

definition task_value :: "heap \<Rightarrow> task_struct \<Rightarrow> task" where
  "task_value h s = view_task s (meta_value h (xk_meta s), task_spec_value h (xk_spec s), conditions_value h (xk_status s))"

definition task_ok :: "heap \<Rightarrow> task_struct \<Rightarrow> bool" where
  "task_ok h s \<longleftrightarrow> meta_ok h (xk_meta s) \<and> task_spec_ok h (xk_spec s) \<and> conditions_ok h (xk_status s)"

abbreviation "lrps_reach \<equiv> box_reach the_LRPs (\<lambda>h xs. \<Union>(lrp_reach h ` set xs))"
abbreviation "lrps_value \<equiv> box_view the_LRPs (\<lambda>h xs. map (lrp_value h) xs)"
abbreviation "lrps_ok \<equiv> box_ok is_LRPs the_LRPs (\<lambda>h xs. \<forall>x \<in> set xs. lrp_ok h x)"
abbreviation "tasks_reach \<equiv> box_reach the_Tasks (\<lambda>h xs. \<Union>(task_reach h ` set xs))"
abbreviation "tasks_value \<equiv> box_view the_Tasks (\<lambda>h xs. map (task_value h) xs)"
abbreviation "tasks_ok \<equiv> box_ok is_Tasks the_Tasks (\<lambda>h xs. \<forall>x \<in> set xs. task_ok h x)"

section \<open>The copying functions keep the contract\<close>

lemma deep_copy_flat:
  "(\<And>c. un (mk c) = c) \<Longrightarrow> (\<And>c. is (mk c)) \<Longrightarrow> deep_copy (flat_reach un) (flat_view un) (flat_ok is un) (copy_box mk un ret)"
  by (rule deep_copy_box [OF deep_copy_value])

lemma copy_flat:
  "deep_copy (flat_reach the_Strings) (flat_view the_Strings) (flat_ok is_Strings the_Strings) copy_strings"
  "deep_copy (flat_reach the_PullSecrets) (flat_view the_PullSecrets) (flat_ok is_PullSecrets the_PullSecrets) copy_pull_secrets"
  "deep_copy (flat_reach the_Ports) (flat_view the_Ports) (flat_ok is_Ports the_Ports) copy_ports"
  "deep_copy (flat_reach the_Mounts) (flat_view the_Mounts) (flat_ok is_Mounts the_Mounts) copy_mounts"
  "deep_copy (flat_reach the_RegistryObj) (flat_view the_RegistryObj) (flat_ok is_RegistryObj the_RegistryObj)
     copy_private_registry"
  unfolding copy_strings_def copy_pull_secrets_def copy_ports_def copy_mounts_def copy_private_registry_def
    into_private_registry_def [abs_def]
  by (rule deep_copy_flat; simp)+

lemma copy_map_deep: "deep_copy (flat_reach the_StringMap) (flat_view the_StringMap) map_ok copy_map"
  unfolding copy_map_def by (rule deep_copy_box [OF deep_copy_entries]) simp_all

lemma copy_laws_rules:
  assumes "copy_laws lib"
  shows object_meta_deep: "deep_copy meta_reach meta_value meta_ok (cl_object_meta lib)"
    and list_meta_deep: "deep_copy list_meta_reach list_meta_value list_meta_ok (cl_list_meta lib)"
    and env_vars_deep: "deep_copy envs_reach envs_value envs_ok (copy_env_vars lib)"
    and task_status_deep: "deep_copy conditions_reach conditions_value conditions_ok (into_task_status lib)"
proof -
  note laws = assms [unfolded copy_laws_def]
  show "deep_copy meta_reach meta_value meta_ok (cl_object_meta lib)"
    "deep_copy list_meta_reach list_meta_value list_meta_ok (cl_list_meta lib)"
    using laws by simp_all
  have env: "deep_copy env_reach env_value env_ok (cl_env_var lib)"
    and cond: "deep_copy (\<lambda>h c. {}) (\<lambda>h c. c) (\<lambda>h c. True) (cl_condition lib)"
    using laws by simp_all
  show "deep_copy envs_reach envs_value envs_ok (copy_env_vars lib)"
    unfolding copy_env_vars_def by (rule deep_copy_box [OF deep_copy_each [OF env]]) simp_all
  show "deep_copy conditions_reach conditions_value conditions_ok (into_task_status lib)"
    unfolding into_task_status_def [abs_def] copy_conditions_def
    by (rule deep_copy_box [OF deep_copy_each [OF cond]]) simp_all
qed

interpretation sidecar_copy: deep_copy sidecar_reach sidecar_value sidecar_ok into_sidecar
proof -
  have "deep_copy (\<lambda>h s. flat_reach the_Strings h (xs_command s) \<union> flat_reach the_StringMap h (xs_env s))
      (\<lambda>h s. view_sidecar s (flat_view the_Strings h (xs_command s), flat_view the_StringMap h (xs_env s)))
      (\<lambda>h s. flat_ok is_Strings the_Strings h (xs_command s) \<and> map_ok h (xs_env s)) into_sidecar"
    using deep_copy_struct [OF deep_copy_pair [OF copy_flat(1) copy_map_deep],
        of "\<lambda>s. (xs_command s, xs_env s)" "\<lambda>s v. s\<lparr>xs_command := fst v, xs_env := snd v\<rparr>" view_sidecar into_sidecar]
    by (simp add: into_sidecar_def copy_pair_def view_sidecar_def)
  then show "deep_copy sidecar_reach sidecar_value sidecar_ok into_sidecar"
    by (simp add: sidecar_reach_def [abs_def] sidecar_value_def [abs_def] sidecar_ok_def [abs_def])
qed

lemma copy_sidecars_deep: "deep_copy sidecars_reach sidecars_value sidecars_ok copy_sidecars"
  unfolding copy_sidecars_def
  by (rule deep_copy_box [OF deep_copy_each [OF sidecar_copy.deep_copy_axioms]]) simp_all

lemma lrp_spec_deep:
  assumes "copy_laws lib"
  shows "deep_copy lrp_spec_reach lrp_spec_value lrp_spec_ok (into_lrp_spec lib)"
proof -
  note fields = deep_copy_pair [OF copy_flat(1) deep_copy_pair [OF copy_sidecars_deep
    deep_copy_pair [OF copy_flat(5) deep_copy_pair [OF copy_map_deep deep_copy_pair [OF env_vars_deep [OF assms]
    deep_copy_pair [OF copy_flat(3) deep_copy_pair [OF copy_flat(4) copy_map_deep]]]]]]]
  let ?f = "\<lambda>s. (xl_command s, xl_sidecars s, xl_private_registry s, xl_env s, xl_environment s, xl_ports s,
    xl_volume_mounts s, xl_user_defined_annotations s)"
  let ?u = "\<lambda>s (command, sidecars, registry, env, environment, ports, mounts, annotations).
    s\<lparr>xl_command := command, xl_sidecars := sidecars, xl_private_registry := registry, xl_env := env,
      xl_environment := environment, xl_ports := ports, xl_volume_mounts := mounts,
      xl_user_defined_annotations := annotations\<rparr>"
  have "deep_copy (\<lambda>h s. lrp_spec_reach h s) (\<lambda>h s. lrp_spec_value h s) (\<lambda>h s. lrp_spec_ok h s) (into_lrp_spec lib)"
    unfolding lrp_spec_reach_def lrp_spec_value_def lrp_spec_ok_def
    using deep_copy_struct [OF fields, of ?f ?u view_lrp_spec "into_lrp_spec lib"]
    by (simp add: into_lrp_spec_def copy_pair_def view_lrp_spec_def split: prod.splits)
  then show ?thesis by simp
qed

lemma lrp_deep:
  assumes "copy_laws lib"
  shows "deep_copy lrp_reach lrp_value lrp_ok (into_lrp lib)"
proof -
  have "deep_copy (\<lambda>h s. lrp_reach h s) (\<lambda>h s. lrp_value h s) (\<lambda>h s. lrp_ok h s) (into_lrp lib)"
    unfolding lrp_reach_def lrp_value_def lrp_ok_def
    using deep_copy_struct [OF deep_copy_pair [OF object_meta_deep [OF assms] lrp_spec_deep [OF assms]],
        of "\<lambda>s. (xo_meta s, xo_spec s)" "\<lambda>s v. s\<lparr>xo_meta := fst v, xo_spec := snd v\<rparr>" view_lrp "into_lrp lib"]
    by (simp add: into_lrp_def copy_pair_def view_lrp_def)
  then show ?thesis by simp
qed

lemma task_spec_deep:
  assumes "copy_laws lib"
  shows "deep_copy task_spec_reach task_spec_value task_spec_ok (into_task_spec lib)"
proof -
  note fields = deep_copy_pair [OF copy_flat(2) deep_copy_pair [OF copy_map_deep
    deep_copy_pair [OF env_vars_deep [OF assms] copy_flat(1)]]]
  let ?f = "\<lambda>s. (xt_image_pull_secrets s, xt_env s, xt_environment s, xt_command s)"
  let ?u = "\<lambda>s (secrets, env, environment, command). s\<lparr>xt_image_pull_secrets := secrets, xt_env := env,
    xt_environment := environment, xt_command := command\<rparr>"
  have "deep_copy (\<lambda>h s. task_spec_reach h s) (\<lambda>h s. task_spec_value h s) (\<lambda>h s. task_spec_ok h s) (into_task_spec lib)"
    unfolding task_spec_reach_def task_spec_value_def task_spec_ok_def
    using deep_copy_struct [OF fields, of ?f ?u view_task_spec "into_task_spec lib"]
    by (simp add: into_task_spec_def copy_pair_def view_task_spec_def split: prod.splits)
  then show ?thesis by simp
qed

lemma task_deep:
  assumes "copy_laws lib"
  shows "deep_copy task_reach task_value task_ok (into_task lib)"
proof -
  note fields = deep_copy_pair [OF object_meta_deep [OF assms] deep_copy_pair [OF task_spec_deep [OF assms]
    task_status_deep [OF assms]]]
  have "deep_copy (\<lambda>h s. task_reach h s) (\<lambda>h s. task_value h s) (\<lambda>h s. task_ok h s) (into_task lib)"
    unfolding task_reach_def task_value_def task_ok_def
    using deep_copy_struct [OF fields, of "\<lambda>s. (xk_meta s, xk_spec s, xk_status s)"
        "\<lambda>s v. s\<lparr>xk_meta := fst v, xk_spec := fst (snd v), xk_status := snd (snd v)\<rparr>" view_task "into_task lib"]
    by (simp add: into_task_def copy_pair_def view_task_def)
  then show ?thesis by simp
qed

text \<open>Pointers to objects, and their lists.\<close>

lemma lrp_pointer_deep:
  "copy_laws lib \<Longrightarrow> deep_copy (box_reach the_LRPObj lrp_reach) (box_view the_LRPObj lrp_value)
    (box_ok is_LRPObj the_LRPObj lrp_ok) (copy_lrp lib)"
  unfolding copy_lrp_def by (rule deep_copy_box [OF lrp_deep]) simp_all

lemma task_pointer_deep:
  "copy_laws lib \<Longrightarrow> deep_copy (box_reach the_TaskObj task_reach) (box_view the_TaskObj task_value)
    (box_ok is_TaskObj the_TaskObj task_ok) (copy_task lib)"
  unfolding copy_task_def by (rule deep_copy_box [OF task_deep]) simp_all

lemma lrp_list_deep:
  assumes "copy_laws lib"
  shows "deep_copy (\<lambda>h l. list_meta_reach h (xi_list_meta l) \<union> lrps_reach h (xi_items l))
    (\<lambda>h l. (list_meta_value h (xi_list_meta l), lrps_value h (xi_items l)))
    (\<lambda>h l. list_meta_ok h (xi_list_meta l) \<and> lrps_ok h (xi_items l)) (into_lrp_list lib)"
proof -
  have "deep_copy lrps_reach lrps_value lrps_ok (copy_box LRPs the_LRPs (copy_each (into_lrp lib)))"
    by (rule deep_copy_box [OF deep_copy_each [OF lrp_deep [OF assms]]]) simp_all
  from deep_copy_struct [OF deep_copy_pair [OF list_meta_deep [OF assms] this], of "\<lambda>l. (xi_list_meta l, xi_items l)"
      "\<lambda>l v. l\<lparr>xi_list_meta := fst v, xi_items := snd v\<rparr>" "\<lambda>l v. v" "into_lrp_list lib"]
  show ?thesis by (simp add: into_lrp_list_def copy_pair_def)
qed

lemma task_list_deep:
  assumes "copy_laws lib"
  shows "deep_copy (\<lambda>h l. list_meta_reach h (xi_list_meta l) \<union> tasks_reach h (xi_items l))
    (\<lambda>h l. (list_meta_value h (xi_list_meta l), tasks_value h (xi_items l)))
    (\<lambda>h l. list_meta_ok h (xi_list_meta l) \<and> tasks_ok h (xi_items l)) (into_task_list lib)"
proof -
  have "deep_copy tasks_reach tasks_value tasks_ok (copy_box Tasks the_Tasks (copy_each (into_task lib)))"
    by (rule deep_copy_box [OF deep_copy_each [OF task_deep [OF assms]]]) simp_all
  from deep_copy_struct [OF deep_copy_pair [OF list_meta_deep [OF assms] this], of "\<lambda>l. (xi_list_meta l, xi_items l)"
      "\<lambda>l v. l\<lparr>xi_list_meta := fst v, xi_items := snd v\<rparr>" "\<lambda>l v. v" "into_task_list lib"]
  show ?thesis by (simp add: into_task_list_def copy_pair_def)
qed

section \<open>Properties\<close>

text \<open>
  C23: \<open>DeepCopy\<close> of an LRP returns an LRP of the same value that shares no slice, map or pointer with
  the original, down to the labels, annotations and owner references of its metadata and the sources of its
  environment variables, whatever slices, maps and pointers the original has and shares: no write to any
  part of the one changes the value of the other, so that a copy taken before an update keeps the state it
  was taken in. This needs that the Kubernetes types that an LRP contains are copied deeply by their own
  methods.
\<close>

theorem lrp_copy_independent:
  assumes "copy_laws lib" and "box_ok is_LRPObj the_LRPObj lrp_ok h p" and "run_state (copy_lrp lib p) h = (q, h')"
  shows "box_view the_LRPObj lrp_value h' q = box_view the_LRPObj lrp_value h p
    \<and> box_reach the_LRPObj lrp_reach h' p \<inter> box_reach the_LRPObj lrp_reach h' q = {}
    \<and> (\<forall>a \<in> box_reach the_LRPObj lrp_reach h' p. \<forall>c.
         box_view the_LRPObj lrp_value (snd (run_state (store a c) h')) q = box_view the_LRPObj lrp_value h p)
    \<and> (\<forall>a \<in> box_reach the_LRPObj lrp_reach h' q. \<forall>c.
         box_view the_LRPObj lrp_value (snd (run_state (store a c) h')) p = box_view the_LRPObj lrp_value h p)"
  using deep_copy.independent [OF lrp_pointer_deep [OF assms(1)] assms(2,3)] by blast

section \<open>Witnesses\<close>

text \<open>Copying functions of the Kubernetes types.\<close>

definition sample_copy_owner :: "owner_struct \<Rightarrow> (heap, owner_struct) io" where
  "sample_copy_owner inp = do {
     controller \<leftarrow> copy_box Flag the_Flag ret (xw_controller inp);
     ret (inp\<lparr>xw_controller := controller\<rparr>)
   }"

definition sample_copy_meta :: "meta_struct \<Rightarrow> (heap, meta_struct) io" where
  "sample_copy_meta inp = do {
     labels \<leftarrow> copy_map (xm_labels inp);
     annotations \<leftarrow> copy_map (xm_annotations inp);
     owners \<leftarrow> copy_box Owners the_Owners (copy_each sample_copy_owner) (xm_owner_references inp);
     ret (inp\<lparr>xm_labels := labels, xm_annotations := annotations, xm_owner_references := owners\<rparr>)
   }"

definition sample_copy_lib :: copy_lib where
  "sample_copy_lib = \<lparr>
     cl_object_meta = sample_copy_meta,
     cl_list_meta = (\<lambda>inp. do {
       count \<leftarrow> copy_box Count the_Count ret (xd_remaining_item_count inp);
       ret (inp\<lparr>xd_remaining_item_count := count\<rparr>)
     }),
     cl_condition = ret,
     cl_env_var = (\<lambda>inp. do {
       source \<leftarrow> copy_box SourceObj the_SourceObj ret (xe_value_from inp);
       ret (inp\<lparr>xe_value_from := source\<rparr>)
     })\<rparr>"

lemma sample_copy_laws: "copy_laws sample_copy_lib"
proof -
  have owner: "deep_copy owner_reach owner_value owner_ok sample_copy_owner"
    using deep_copy_struct [OF deep_copy_flat [of the_Flag Flag is_Flag], of xw_controller
        "\<lambda>s v. s\<lparr>xw_controller := v\<rparr>" view_owner sample_copy_owner]
    by (simp add: sample_copy_owner_def view_owner_def)
  have owners: "deep_copy owners_reach owners_value owners_ok (copy_box Owners the_Owners (copy_each sample_copy_owner))"
    by (rule deep_copy_box [OF deep_copy_each [OF owner]]) simp_all
  have "deep_copy (\<lambda>h s. meta_reach h s) (\<lambda>h s. meta_value h s) (\<lambda>h s. meta_ok h s) sample_copy_meta"
    unfolding meta_reach_def meta_value_def meta_ok_def
    using deep_copy_struct [OF deep_copy_pair [OF copy_map_deep deep_copy_pair [OF copy_map_deep owners]],
        of "\<lambda>s. (xm_labels s, xm_annotations s, xm_owner_references s)"
        "\<lambda>s v. s\<lparr>xm_labels := fst v, xm_annotations := fst (snd v), xm_owner_references := snd (snd v)\<rparr>"
        view_meta sample_copy_meta]
    by (simp add: sample_copy_meta_def copy_pair_def view_meta_def split: prod.splits)
  moreover have "deep_copy list_meta_reach list_meta_value list_meta_ok (cl_list_meta sample_copy_lib)"
    using deep_copy_struct [OF deep_copy_flat [of the_Count Count is_Count], of xd_remaining_item_count
        "\<lambda>s v. s\<lparr>xd_remaining_item_count := v\<rparr>" "\<lambda>s v. (xd_resource_version s, v)" "cl_list_meta sample_copy_lib"]
    by (simp add: sample_copy_lib_def)
  moreover have "deep_copy env_reach env_value env_ok (cl_env_var sample_copy_lib)"
    using deep_copy_struct [OF deep_copy_flat [of the_SourceObj SourceObj is_SourceObj], of xe_value_from
        "\<lambda>s v. s\<lparr>xe_value_from := v\<rparr>" view_env "cl_env_var sample_copy_lib"]
    by (simp add: sample_copy_lib_def view_env_def)
  ultimately show ?thesis
    by (simp add: copy_laws_def sample_copy_lib_def deep_copy_value)
qed

text \<open>
  A heap with an LRP that uses one map both as environment and as annotations, is labelled, owned and takes
  a variable from a field of its pod.
\<close>

definition sample_lrp_struct :: lrp_struct where
  "sample_lrp_struct = \<lparr>xo_type_meta = (''LRP'', ''v1''),
     xo_meta = \<lparr>xm_name = ''lrp'', xm_generate_name = [], xm_namespace = ''cf'', xm_uid = ''1'',
       xm_labels = Some 4, xm_annotations = None, xm_owner_references = Some 5\<rparr>,
     xo_spec = \<lparr>xl_guid = ''guid'', xl_version = ''1'', xl_process_type = ''web'', xl_app_name = ''app'',
       xl_app_guid = [], xl_org_name = [], xl_org_guid = [], xl_space_name = [], xl_space_guid = [],
       xl_image = ''img'', xl_command = Some 1, xl_sidecars = Some 2, xl_private_registry = None, xl_env = Some 3,
       xl_environment = Some 7, xl_health = ls_health sample_lrp_spec, xl_ports = None, xl_instances = 1,
       xl_memory_mb = 1, xl_disk_mb = 1, xl_cpu_weight = 1, xl_volume_mounts = None,
       xl_user_defined_annotations = Some 3\<rparr>,
     xo_status = 0\<rparr>"

definition sample_heap :: heap where
  "sample_heap = \<lparr>hp_cells = [0 \<mapsto> LRPObj sample_lrp_struct, 1 \<mapsto> Strings [''run''],
     2 \<mapsto> Sidecars [\<lparr>xs_name = ''side'', xs_command = Some 1, xs_memory_mb = 1, xs_env = None\<rparr>],
     3 \<mapsto> StringMap [(''A'', ''1'')], 4 \<mapsto> StringMap [(''label'', ''x'')],
     5 \<mapsto> Owners [\<lparr>xw_api_version = ''v1'', xw_kind = ''App'', xw_name = ''a'', xw_uid = ''2'', xw_controller = Some 6\<rparr>],
     6 \<mapsto> Flag True, 7 \<mapsto> EnvVars [\<lparr>xe_name = ''IP'', xe_value = [], xe_value_from = Some 8\<rparr>],
     8 \<mapsto> SourceObj (FieldRef ''status.podIP'')], hp_next = 9\<rparr>"

lemma sample_heap_ok: "box_ok is_LRPObj the_LRPObj lrp_ok sample_heap (Some 0)"
  by (simp add: box_ok_def sample_heap_def sample_lrp_struct_def lrp_ok_def meta_ok_def lrp_spec_ok_def sidecar_ok_def)

theorem lrp_copy_independent_witness:
  "\<exists>q h'. run_state (copy_lrp sample_copy_lib (Some 0)) sample_heap = (q, h')
    \<and> box_view the_LRPObj lrp_value h' q = box_view the_LRPObj lrp_value sample_heap (Some 0)
    \<and> list_all (\<lambda>a. a \<notin> box_reach the_LRPObj lrp_reach h' q) [3, 4, 6, 8]"
proof -
  obtain q h' where run: "run_state (copy_lrp sample_copy_lib (Some 0)) sample_heap = (q, h')"
    by (cases "run_state (copy_lrp sample_copy_lib (Some 0)) sample_heap")
  note copied = lrp_copy_independent [OF sample_copy_laws sample_heap_ok run]
  note deep = lrp_pointer_deep [OF sample_copy_laws]
  have "{3, 4, 6, 8} \<subseteq> box_reach the_LRPObj lrp_reach h' (Some 0)"
    using deep_copy.stable(2) [OF deep _ sample_heap_ok, of h'] deep_copy.copies [OF deep sample_heap_ok run]
    by (simp add: box_reach_def sample_heap_def sample_lrp_struct_def lrp_reach_def meta_reach_def lrp_spec_reach_def)
  with copied have "list_all (\<lambda>a. a \<notin> box_reach the_LRPObj lrp_reach h' q) [3, 4, 6, 8]"
    by auto
  with copied run show ?thesis by blast
qed

end
