(* ===== verification/Typed_Client.thy ===== *)
theory Typed_Client
  imports Samples
begin

text \<open>
  The generated clients of the two resources: \<open>typed/eirini/v1/lrp.go\<close> and \<open>task.go\<close> under
  \<open>pkg/generated/clientset/versioned\<close>. A method builds a request with the REST client of client-go, sends
  it, and reads the answer. The REST client is a parameter of the model, the record \<open>rest\<close>: what comes
  of a request. The chain of builder methods is a chain of updates of the record \<open>request\<close>.
\<close>

section \<open>Requests\<close>

datatype verb = GetVerb | PostVerb | PutVerb | DeleteVerb | PatchVerb string

text \<open>
  Of the options of a list the timeout and the watch flag, which the code looks at, and the selectors and the
  resource version are kept apart; the others, and the options of the other methods, are passed on as they
  are.
\<close>

record list_options =
  lo_timeout_seconds :: "i64 option"
  lo_watch :: bool
  lo_label_selector :: string
  lo_field_selector :: string
  lo_resource_version :: string
  lo_others :: string

datatype params = NoParams | OptionParams string | ListParams list_options

datatype body = NoBody | LRPBody lrp | TaskBody task | DeleteBody string | RawBody string

record request =
  rq_verb :: verb
  rq_namespace :: string
  rq_resource :: string
  rq_name :: "string option"
  rq_subresources :: "string list"
  rq_params :: params
  rq_timeout :: "i64 option"
  rq_body :: body

definition new_request :: "verb \<Rightarrow> request" where
  "new_request v = \<lparr>rq_verb = v, rq_namespace = [], rq_resource = [], rq_name = None, rq_subresources = [],
     rq_params = NoParams, rq_timeout = None, rq_body = NoBody\<rparr>"

text \<open>
  \<open>Into\<close> decodes the answer into an object that is returned even with an error; \<open>Error\<close> only tells the
  error; \<open>Watch\<close> opens a watch, here the number of a stream.
\<close>

record 'w rest =
  rs_into_lrp :: "request \<Rightarrow> ('w, lrp \<times> go_error option) io"
  rs_into_lrp_list :: "request \<Rightarrow> ('w, lrp list \<times> go_error option) io"
  rs_into_task :: "request \<Rightarrow> ('w, task \<times> go_error option) io"
  rs_into_task_list :: "request \<Rightarrow> ('w, task list \<times> go_error option) io"
  rs_error :: "request \<Rightarrow> ('w, go_error option) io"
  rs_watch :: "request \<Rightarrow> ('w, go_error + nat) io"

text \<open>\<open>time.Duration(*opts.TimeoutSeconds) * time.Second\<close>, in 64 bits, or 0 when there is none.\<close>

definition timeout_of :: "list_options \<Rightarrow> i64" where
  "timeout_of opts = (case lo_timeout_seconds opts of None \<Rightarrow> 0 | Some s \<Rightarrow> s * 1000000000)"

section \<open>LRPs\<close>

record 'w lrp_client =
  lrp_rest :: "'w rest"
  lrp_ns :: string

definition new_lrps :: "'w rest \<Rightarrow> string \<Rightarrow> 'w lrp_client" where
  "new_lrps c namespace = \<lparr>lrp_rest = c, lrp_ns = namespace\<rparr>"

definition lrps_get :: "'w lrp_client \<Rightarrow> string \<Rightarrow> string \<Rightarrow> ('w, lrp \<times> go_error option) io" where
  "lrps_get c name options = rs_into_lrp (lrp_rest c)
     ((new_request GetVerb)\<lparr>rq_namespace := lrp_ns c, rq_resource := ''lrps'', rq_name := Some name,
       rq_params := OptionParams options\<rparr>)"

definition lrps_list :: "'w lrp_client \<Rightarrow> list_options \<Rightarrow> ('w, lrp list \<times> go_error option) io" where
  "lrps_list c opts = (let timeout = timeout_of opts in rs_into_lrp_list (lrp_rest c)
     ((new_request GetVerb)\<lparr>rq_namespace := lrp_ns c, rq_resource := ''lrps'', rq_params := ListParams opts,
       rq_timeout := Some timeout\<rparr>))"

definition lrps_watch :: "'w lrp_client \<Rightarrow> list_options \<Rightarrow> ('w, go_error + nat) io" where
  "lrps_watch c opts = (let timeout = timeout_of opts; opts = opts\<lparr>lo_watch := True\<rparr> in rs_watch (lrp_rest c)
     ((new_request GetVerb)\<lparr>rq_namespace := lrp_ns c, rq_resource := ''lrps'', rq_params := ListParams opts,
       rq_timeout := Some timeout\<rparr>))"

definition lrps_create :: "'w lrp_client \<Rightarrow> lrp \<Rightarrow> string \<Rightarrow> ('w, lrp \<times> go_error option) io" where
  "lrps_create c x opts = rs_into_lrp (lrp_rest c)
     ((new_request PostVerb)\<lparr>rq_namespace := lrp_ns c, rq_resource := ''lrps'',
       rq_params := OptionParams opts, rq_body := LRPBody x\<rparr>)"

definition lrps_update :: "'w lrp_client \<Rightarrow> lrp \<Rightarrow> string \<Rightarrow> ('w, lrp \<times> go_error option) io" where
  "lrps_update c x opts = rs_into_lrp (lrp_rest c)
     ((new_request PutVerb)\<lparr>rq_namespace := lrp_ns c, rq_resource := ''lrps'', rq_name := Some (om_name (lr_meta x)),
       rq_params := OptionParams opts, rq_body := LRPBody x\<rparr>)"

definition lrps_update_status :: "'w lrp_client \<Rightarrow> lrp \<Rightarrow> string \<Rightarrow> ('w, lrp \<times> go_error option) io" where
  "lrps_update_status c x opts = rs_into_lrp (lrp_rest c)
     ((new_request PutVerb)\<lparr>rq_namespace := lrp_ns c, rq_resource := ''lrps'', rq_name := Some (om_name (lr_meta x)),
       rq_subresources := [''status''], rq_params := OptionParams opts, rq_body := LRPBody x\<rparr>)"

definition lrps_delete :: "'w lrp_client \<Rightarrow> string \<Rightarrow> string \<Rightarrow> ('w, go_error option) io" where
  "lrps_delete c name opts = rs_error (lrp_rest c)
     ((new_request DeleteVerb)\<lparr>rq_namespace := lrp_ns c, rq_resource := ''lrps'', rq_name := Some name,
       rq_body := DeleteBody opts\<rparr>)"

definition lrps_delete_collection :: "'w lrp_client \<Rightarrow> string \<Rightarrow> list_options \<Rightarrow> ('w, go_error option) io" where
  "lrps_delete_collection c opts listOpts = (let timeout = timeout_of listOpts in rs_error (lrp_rest c)
     ((new_request DeleteVerb)\<lparr>rq_namespace := lrp_ns c, rq_resource := ''lrps'', rq_params := ListParams listOpts,
       rq_timeout := Some timeout, rq_body := DeleteBody opts\<rparr>))"

definition lrps_patch :: "'w lrp_client \<Rightarrow> string \<Rightarrow> string \<Rightarrow> string \<Rightarrow> string \<Rightarrow> string list
    \<Rightarrow> ('w, lrp \<times> go_error option) io" where
  "lrps_patch c name pt data opts subresources = rs_into_lrp (lrp_rest c)
     ((new_request (PatchVerb pt))\<lparr>rq_namespace := lrp_ns c, rq_resource := ''lrps'', rq_name := Some name,
       rq_subresources := subresources, rq_params := OptionParams opts, rq_body := RawBody data\<rparr>)"

section \<open>Tasks\<close>

record 'w task_client =
  task_rest :: "'w rest"
  task_ns :: string

definition new_tasks :: "'w rest \<Rightarrow> string \<Rightarrow> 'w task_client" where
  "new_tasks c namespace = \<lparr>task_rest = c, task_ns = namespace\<rparr>"

definition tasks_get :: "'w task_client \<Rightarrow> string \<Rightarrow> string \<Rightarrow> ('w, task \<times> go_error option) io" where
  "tasks_get c name options = rs_into_task (task_rest c)
     ((new_request GetVerb)\<lparr>rq_namespace := task_ns c, rq_resource := ''tasks'', rq_name := Some name,
       rq_params := OptionParams options\<rparr>)"

definition tasks_list :: "'w task_client \<Rightarrow> list_options \<Rightarrow> ('w, task list \<times> go_error option) io" where
  "tasks_list c opts = (let timeout = timeout_of opts in rs_into_task_list (task_rest c)
     ((new_request GetVerb)\<lparr>rq_namespace := task_ns c, rq_resource := ''tasks'', rq_params := ListParams opts,
       rq_timeout := Some timeout\<rparr>))"

definition tasks_watch :: "'w task_client \<Rightarrow> list_options \<Rightarrow> ('w, go_error + nat) io" where
  "tasks_watch c opts = (let timeout = timeout_of opts; opts = opts\<lparr>lo_watch := True\<rparr> in rs_watch (task_rest c)
     ((new_request GetVerb)\<lparr>rq_namespace := task_ns c, rq_resource := ''tasks'', rq_params := ListParams opts,
       rq_timeout := Some timeout\<rparr>))"

definition tasks_create :: "'w task_client \<Rightarrow> task \<Rightarrow> string \<Rightarrow> ('w, task \<times> go_error option) io" where
  "tasks_create c x opts = rs_into_task (task_rest c)
     ((new_request PostVerb)\<lparr>rq_namespace := task_ns c, rq_resource := ''tasks'',
       rq_params := OptionParams opts, rq_body := TaskBody x\<rparr>)"

definition tasks_update :: "'w task_client \<Rightarrow> task \<Rightarrow> string \<Rightarrow> ('w, task \<times> go_error option) io" where
  "tasks_update c x opts = rs_into_task (task_rest c)
     ((new_request PutVerb)\<lparr>rq_namespace := task_ns c, rq_resource := ''tasks'', rq_name := Some (om_name (tk_meta x)),
       rq_params := OptionParams opts, rq_body := TaskBody x\<rparr>)"

definition tasks_update_status :: "'w task_client \<Rightarrow> task \<Rightarrow> string \<Rightarrow> ('w, task \<times> go_error option) io" where
  "tasks_update_status c x opts = rs_into_task (task_rest c)
     ((new_request PutVerb)\<lparr>rq_namespace := task_ns c, rq_resource := ''tasks'', rq_name := Some (om_name (tk_meta x)),
       rq_subresources := [''status''], rq_params := OptionParams opts, rq_body := TaskBody x\<rparr>)"

definition tasks_delete :: "'w task_client \<Rightarrow> string \<Rightarrow> string \<Rightarrow> ('w, go_error option) io" where
  "tasks_delete c name opts = rs_error (task_rest c)
     ((new_request DeleteVerb)\<lparr>rq_namespace := task_ns c, rq_resource := ''tasks'', rq_name := Some name,
       rq_body := DeleteBody opts\<rparr>)"

definition tasks_delete_collection :: "'w task_client \<Rightarrow> string \<Rightarrow> list_options \<Rightarrow> ('w, go_error option) io" where
  "tasks_delete_collection c opts listOpts = (let timeout = timeout_of listOpts in rs_error (task_rest c)
     ((new_request DeleteVerb)\<lparr>rq_namespace := task_ns c, rq_resource := ''tasks'', rq_params := ListParams listOpts,
       rq_timeout := Some timeout, rq_body := DeleteBody opts\<rparr>))"

definition tasks_patch :: "'w task_client \<Rightarrow> string \<Rightarrow> string \<Rightarrow> string \<Rightarrow> string \<Rightarrow> string list
    \<Rightarrow> ('w, task \<times> go_error option) io" where
  "tasks_patch c name pt data opts subresources = rs_into_task (task_rest c)
     ((new_request (PatchVerb pt))\<lparr>rq_namespace := task_ns c, rq_resource := ''tasks'', rq_name := Some name,
       rq_subresources := subresources, rq_params := OptionParams opts, rq_body := RawBody data\<rparr>)"

end
