(* ===== verification/Clientset.thy ===== *)
theory Clientset
  imports Typed_Client
begin

text \<open>
  The generated clientset: \<open>typed/eirini/v1/eirini_client.go\<close> and \<open>clientset.go\<close> under
  \<open>pkg/generated/clientset/versioned\<close>, with the group and version of \<open>pkg/apis/eirini\<close>. The constructors
  of client-go are parameters, the record \<open>client_go\<close>. The methods copy the configuration they are given
  before they change it, which is what passing it as a value means here.
\<close>

section \<open>Definitions\<close>

definition group_name :: string where
  "group_name = ''eirini.cloudfoundry.org''"

definition scheme_group_version :: "string \<times> string" where
  "scheme_group_version = (group_name, ''v1'')"

text \<open>
  Of a configuration the fields that the code reads or writes, and the others. A rate limiter is known by a
  number, and of the number of queries per second only matters whether it is positive.
\<close>

record rest_config =
  rc_user_agent :: string
  rc_group_version :: "(string \<times> string) option"
  rc_api_path :: string
  rc_negotiated_serializer :: bool
  rc_rate_limiter :: "nat option"
  rc_qps :: int
  rc_burst :: i64
  rc_others :: string

record 'w client_go =
  cg_default_user_agent :: string
  cg_http_client_for :: "rest_config \<Rightarrow> ('w, go_error + nat) io"
  cg_rest_client_for :: "rest_config \<Rightarrow> nat \<Rightarrow> ('w, go_error + 'w rest) io"
  cg_discovery_for :: "rest_config \<Rightarrow> nat \<Rightarrow> ('w, go_error + nat) io"
  cg_discovery_of :: "'w rest \<Rightarrow> nat"
  cg_new_rate_limiter :: "int \<Rightarrow> i64 \<Rightarrow> ('w, nat) io"

definition default_user_agent :: "'w client_go \<Rightarrow> rest_config \<Rightarrow> rest_config" where
  "default_user_agent cg c =
     (if rc_user_agent c = '''' then c\<lparr>rc_user_agent := cg_default_user_agent cg\<rparr> else c)"

definition set_config_defaults :: "'w client_go \<Rightarrow> rest_config \<Rightarrow> go_error + rest_config" where
  "set_config_defaults cg config =
     (let config = config\<lparr>rc_group_version := Some scheme_group_version, rc_api_path := ''/apis'',
            rc_negotiated_serializer := True\<rparr>
      in Inr (default_user_agent cg config))"

text \<open>The client of the group is a pointer, which may be nil.\<close>

record 'w eirini_v1_client =
  ec_rest_client :: "'w rest"

definition eirini_v1_for_config_and_client ::
  "'w client_go \<Rightarrow> rest_config \<Rightarrow> nat \<Rightarrow> ('w, go_error + 'w eirini_v1_client) io" where
  "eirini_v1_for_config_and_client cg c h =
     (case set_config_defaults cg c of
        Inl err \<Rightarrow> ret (Inl err)
      | Inr config \<Rightarrow> do {
          client \<leftarrow> cg_rest_client_for cg config h;
          ret (case client of Inl err \<Rightarrow> Inl err | Inr client \<Rightarrow> Inr \<lparr>ec_rest_client = client\<rparr>)
        })"

definition eirini_v1_for_config ::
  "'w client_go \<Rightarrow> rest_config \<Rightarrow> ('w, go_error + 'w eirini_v1_client) io" where
  "eirini_v1_for_config cg c =
     (case set_config_defaults cg c of
        Inl err \<Rightarrow> ret (Inl err)
      | Inr config \<Rightarrow> do {
          httpClient \<leftarrow> cg_http_client_for cg config;
          case httpClient of
            Inl err \<Rightarrow> ret (Inl err)
          | Inr httpClient \<Rightarrow> eirini_v1_for_config_and_client cg config httpClient
        })"

definition eirini_v1_for_config_or_die ::
  "'w client_go \<Rightarrow> rest_config \<Rightarrow> ('w, 'w eirini_v1_client outcome) io" where
  "eirini_v1_for_config_or_die cg c = do {
     client \<leftarrow> eirini_v1_for_config cg c;
     ret (case client of Inl err \<Rightarrow> Panics | Inr client \<Rightarrow> Returns client)
   }"

definition eirini_v1_new :: "'w rest \<Rightarrow> 'w eirini_v1_client" where
  "eirini_v1_new c = \<lparr>ec_rest_client = c\<rparr>"

definition rest_client :: "'w eirini_v1_client option \<Rightarrow> 'w rest option" where
  "rest_client c = (case c of None \<Rightarrow> None | Some c \<Rightarrow> Some (ec_rest_client c))"

definition eirini_v1_lrps :: "'w eirini_v1_client \<Rightarrow> string \<Rightarrow> 'w lrp_client" where
  "eirini_v1_lrps c namespace = new_lrps (ec_rest_client c) namespace"

definition eirini_v1_tasks :: "'w eirini_v1_client \<Rightarrow> string \<Rightarrow> 'w task_client" where
  "eirini_v1_tasks c namespace = new_tasks (ec_rest_client c) namespace"

record 'w clientset =
  cs_discovery_client :: nat
  cs_eirini_v1 :: "'w eirini_v1_client"

definition clientset_discovery :: "'w clientset option \<Rightarrow> nat option" where
  "clientset_discovery c = (case c of None \<Rightarrow> None | Some c \<Rightarrow> Some (cs_discovery_client c))"

definition limited_config :: "'w client_go \<Rightarrow> rest_config \<Rightarrow> ('w, go_error + rest_config) io" where
  "limited_config cg c =
     (if rc_rate_limiter c = None \<and> rc_qps c > 0 then
        if sint (rc_burst c) \<le> 0 then ret (Inl (NewError
          ''burst is required to be greater than 0 when RateLimiter is not set and QPS is set to greater than 0''))
        else do {
          limiter \<leftarrow> cg_new_rate_limiter cg (rc_qps c) (rc_burst c);
          ret (Inr (c\<lparr>rc_rate_limiter := Some limiter\<rparr>))
        }
      else ret (Inr c))"

definition clientset_for_config_and_client ::
  "'w client_go \<Rightarrow> rest_config \<Rightarrow> nat \<Rightarrow> ('w, go_error + 'w clientset) io" where
  "clientset_for_config_and_client cg c httpClient = do {
     configShallowCopy \<leftarrow> limited_config cg c;
     case configShallowCopy of
       Inl err \<Rightarrow> ret (Inl err)
     | Inr configShallowCopy \<Rightarrow> do {
         eiriniV1 \<leftarrow> eirini_v1_for_config_and_client cg configShallowCopy httpClient;
         case eiriniV1 of
           Inl err \<Rightarrow> ret (Inl err)
         | Inr eiriniV1 \<Rightarrow> do {
             discovery \<leftarrow> cg_discovery_for cg configShallowCopy httpClient;
             ret (case discovery of
                    Inl err \<Rightarrow> Inl err
                  | Inr discovery \<Rightarrow> Inr \<lparr>cs_discovery_client = discovery, cs_eirini_v1 = eiriniV1\<rparr>)
           }
       }
   }"

definition clientset_for_config :: "'w client_go \<Rightarrow> rest_config \<Rightarrow> ('w, go_error + 'w clientset) io" where
  "clientset_for_config cg c =
     (let configShallowCopy = default_user_agent cg c
      in do {
        httpClient \<leftarrow> cg_http_client_for cg configShallowCopy;
        case httpClient of
          Inl err \<Rightarrow> ret (Inl err)
        | Inr httpClient \<Rightarrow> clientset_for_config_and_client cg configShallowCopy httpClient
      })"

definition clientset_for_config_or_die :: "'w client_go \<Rightarrow> rest_config \<Rightarrow> ('w, 'w clientset outcome) io" where
  "clientset_for_config_or_die cg c = do {
     cs \<leftarrow> clientset_for_config cg c;
     ret (case cs of Inl err \<Rightarrow> Panics | Inr cs \<Rightarrow> Returns cs)
   }"

definition clientset_new :: "'w client_go \<Rightarrow> 'w rest \<Rightarrow> 'w clientset" where
  "clientset_new cg c = \<lparr>cs_discovery_client = cg_discovery_of cg c, cs_eirini_v1 = eirini_v1_new c\<rparr>"

section \<open>What the constructors need, and what they share\<close>

text \<open>
  A clientset is made just when the limits are sensible and the three constructors succeed in order: the one
  HTTP client and the one rate limiter serve both clients, and the client of the group talks to its version
  below \<open>/apis\<close>. A configuration with a rate but no burst is refused before any client is made, and without
  an HTTP client none of the rest is tried.
\<close>

theorem clientset_shares:
  assumes "run_state (cg_http_client_for cg (default_user_agent cg c)) w = (Inr h, w1)"
    and "run_state (limited_config cg (default_user_agent cg c)) w1 = (Inr c', w2)"
    and "run_state (cg_rest_client_for cg (c'\<lparr>rc_group_version := Some (''eirini.cloudfoundry.org'', ''v1''),
        rc_api_path := ''/apis'', rc_negotiated_serializer := True, rc_user_agent := rc_user_agent c'\<rparr>) h) w2 = (Inr r, w3)"
    and "run_state (cg_discovery_for cg c' h) w3 = (Inr d, w4)" and "cg_default_user_agent cg \<noteq> ''''"
  shows "run_state (clientset_for_config cg c) w
    = (Inr \<lparr>cs_discovery_client = d, cs_eirini_v1 = \<lparr>ec_rest_client = r\<rparr>\<rparr>, w4)"
proof -
  have "rc_user_agent (default_user_agent cg c) \<noteq> ''''"
    using assms(5) by (simp add: default_user_agent_def)
  then have agent: "rc_user_agent c' \<noteq> ''''"
    using assms(2) by (auto simp: limited_config_def split: if_splits prod.splits)
  then have "set_config_defaults cg c' = Inr (c'\<lparr>rc_group_version := Some (''eirini.cloudfoundry.org'', ''v1''),
        rc_api_path := ''/apis'', rc_negotiated_serializer := True, rc_user_agent := rc_user_agent c'\<rparr>)"
    by (simp add: set_config_defaults_def default_user_agent_def scheme_group_version_def group_name_def Let_def)
  with assms(1-4) show ?thesis
    by (simp add: clientset_for_config_def clientset_for_config_and_client_def eirini_v1_for_config_and_client_def
        Let_def)
qed

lemma clientset_refuses_rate_without_burst:
  assumes "run_state (cg_http_client_for cg (default_user_agent cg c)) w = (Inr h, w1)"
    and "rc_rate_limiter c = None" "rc_qps c > 0" "sint (rc_burst c) \<le> 0"
  shows "\<exists>e. run_state (clientset_for_config cg c) w = (Inl e, w1)"
    and "run_state (clientset_for_config_or_die cg c) w = (Panics, w1)"
  using assms by (simp_all add: clientset_for_config_or_die_def clientset_for_config_def
      clientset_for_config_and_client_def limited_config_def default_user_agent_def Let_def)

lemma clientset_without_http_client:
  assumes "run_state (cg_http_client_for cg (default_user_agent cg c)) w = (Inl e, w1)"
  shows "run_state (clientset_for_config cg c) w = (Inl e, w1)"
  using assms by (simp add: clientset_for_config_def Let_def)

end
