(* ===== verification/Kube_Hoare.thy ===== *)
theory Kube_Hoare
  imports Kube_Client
begin

text \<open>
  Reasoning about the state of the world, where \<open>calls\<close> of \<open>Kube_Client\<close> reasons about the calls.
  \<open>triple P m Q\<close>: from every world in which \<open>P\<close> holds, \<open>m\<close> returns a value and ends in a world that
  satisfy \<open>Q\<close>. The operations are total functions, so the triples speak of total correctness.

  Other parties change the world as well, at any moment. An operation of the client is therefore
  described as an effect, at one moment, between what others do before and after it: \<open>effect rely m eff\<close>.
  An assertion that the others never make false is \<open>undisturbed\<close>.
\<close>

named_theorems triple_intros \<open>rules that compute what an operation does to the world\<close>

definition triple :: "('w \<Rightarrow> bool) \<Rightarrow> ('w, 'a) io \<Rightarrow> ('a \<Rightarrow> 'w \<Rightarrow> bool) \<Rightarrow> bool" where
  "triple P m Q \<longleftrightarrow> (\<forall>w. P w \<longrightarrow> Q (fst (run_state m w)) (snd (run_state m w)))"

lemma tripleI: "(\<And>w a w'. P w \<Longrightarrow> run_state m w = (a, w') \<Longrightarrow> Q a w') \<Longrightarrow> triple P m Q"
  by (simp add: triple_def)

lemma tripleD: "triple P m Q \<Longrightarrow> P w \<Longrightarrow> run_state m w = (a, w') \<Longrightarrow> Q a w'"
  by (auto simp: triple_def)

lemma triple_ret [triple_intros]: "(\<And>w. P w \<Longrightarrow> Q a w) \<Longrightarrow> triple P (ret a) Q"
  by (simp add: triple_def)

lemma triple_bind:
  assumes "triple P m R" and "\<And>a. triple (R a) (f a) Q"
  shows "triple P (State_Monad.bind m f) Q"
proof (rule tripleI)
  fix w b w'
  assume "P w" and run: "run_state (State_Monad.bind m f) w = (b, w')"
  obtain a w1 where m: "run_state m w = (a, w1)" by (cases "run_state m w")
  from tripleD [OF assms(1) \<open>P w\<close> m] have "R a w1" .
  moreover have "run_state (f a) w1 = (b, w')" using run m by simp
  ultimately show "Q b w'" by (rule tripleD [OF assms(2)])
qed

lemma triple_weaken:
  "triple P m Q \<Longrightarrow> (\<And>w. P' w \<Longrightarrow> P w) \<Longrightarrow> (\<And>a w. Q a w \<Longrightarrow> Q' a w) \<Longrightarrow> triple P' m Q'"
  by (auto simp: triple_def)

lemma triple_pre: "triple P m Q \<Longrightarrow> (\<And>w. P' w \<Longrightarrow> P w) \<Longrightarrow> triple P' m Q"
  by (rule triple_weaken)

text \<open>A fact that does not depend on the world may be used as an assumption.\<close>

lemma triple_fact: "(b \<Longrightarrow> triple P m Q) \<Longrightarrow> triple (\<lambda>w. b \<and> P w) m Q"
  by (auto simp: triple_def)

lemma triple_bind_eq:
  "triple P m (\<lambda>a w. a = c \<and> R w) \<Longrightarrow> triple R (f c) Q \<Longrightarrow> triple P (State_Monad.bind m f) Q"
  by (erule triple_bind) (auto intro: triple_fact)

lemma triple_ex: "(\<And>x. triple (P x) m Q) \<Longrightarrow> triple (\<lambda>w. \<exists>x. P x w) m Q"
  by (auto simp: triple_def)

lemma triple_if [triple_intros]:
  "(b \<Longrightarrow> triple P m Q) \<Longrightarrow> (\<not> b \<Longrightarrow> triple P m' Q) \<Longrightarrow> triple P (if b then m else m') Q"
  by simp

lemma triple_case_sum [triple_intros]:
  "(\<And>e. x = Inl e \<Longrightarrow> triple P (f e) Q) \<Longrightarrow> (\<And>a. x = Inr a \<Longrightarrow> triple P (g a) Q) \<Longrightarrow>
   triple P (case x of Inl e \<Rightarrow> f e | Inr a \<Rightarrow> g a) Q"
  by (simp split: sum.split)

lemma triple_case_option [triple_intros]:
  "(x = None \<Longrightarrow> triple P f Q) \<Longrightarrow> (\<And>a. x = Some a \<Longrightarrow> triple P (g a) Q) \<Longrightarrow>
   triple P (case x of None \<Rightarrow> f | Some a \<Rightarrow> g a) Q"
  by (simp split: option.split)

lemma triple_case_prod [triple_intros]:
  "(\<And>a b. x = (a, b) \<Longrightarrow> triple P (f a b) Q) \<Longrightarrow> triple P (case x of (a, b) \<Rightarrow> f a b) Q"
  by (simp split: prod.split)

section \<open>Operations among others\<close>

definition effect :: "('w \<Rightarrow> 'w \<Rightarrow> bool) \<Rightarrow> ('w, 'a) io \<Rightarrow> ('a \<Rightarrow> 'w \<Rightarrow> 'w \<Rightarrow> bool) \<Rightarrow> bool" where
  "effect rely m eff \<longleftrightarrow> (\<forall>w. \<exists>w1 w2. rely w w1
     \<and> eff (fst (run_state m w)) w1 w2 \<and> rely w2 (snd (run_state m w)))"

definition undisturbed :: "('w \<Rightarrow> 'w \<Rightarrow> bool) \<Rightarrow> ('w \<Rightarrow> bool) \<Rightarrow> bool" where
  "undisturbed rely P \<longleftrightarrow> (\<forall>w w'. rely w w' \<longrightarrow> P w \<longrightarrow> P w')"

lemma undisturbedD: "undisturbed rely P \<Longrightarrow> rely w w' \<Longrightarrow> P w \<Longrightarrow> P w'"
  by (auto simp: undisturbed_def)

named_theorems stable_intros \<open>assertions that others do not disturb\<close>

lemma stable_fact [stable_intros]: "undisturbed rely (\<lambda>w. b)"
  by (simp add: undisturbed_def)

lemma stable_conj [stable_intros]: "undisturbed rely P \<Longrightarrow> undisturbed rely Q \<Longrightarrow> undisturbed rely (\<lambda>w. P w \<and> Q w)"
  by (auto simp: undisturbed_def)

lemma stable_imp [stable_intros]: "(b \<Longrightarrow> undisturbed rely P) \<Longrightarrow> undisturbed rely (\<lambda>w. b \<longrightarrow> P w)"
  by (auto simp: undisturbed_def)

lemma stable_all [stable_intros]: "(\<And>a. undisturbed rely (P a)) \<Longrightarrow> undisturbed rely (\<lambda>w. \<forall>a. P a w)"
  by (auto simp: undisturbed_def)

lemma triple_effect:
  assumes "effect rely m eff" and "undisturbed rely P" and "\<And>a. undisturbed rely (Q a)"
    and "\<And>a w1 w2. P w1 \<Longrightarrow> eff a w1 w2 \<Longrightarrow> Q a w2"
  shows "triple P m Q"
proof (rule tripleI)
  fix w a w'
  assume "P w" and run: "run_state m w = (a, w')"
  from assms(1) run obtain w1 w2 where "rely w w1" "eff a w1 w2" "rely w2 w'"
    unfolding effect_def by (metis fst_conv snd_conv)
  with \<open>P w\<close> show "Q a w'"
    using assms(2-4) unfolding undisturbed_def by blast
qed

text \<open>An operation that changes nothing keeps every undisturbed assertion.\<close>

lemma triple_silent:
  "effect rely m (\<lambda>r w w'. w' = w) \<Longrightarrow> undisturbed rely P \<Longrightarrow> triple P m (\<lambda>_. P)"
  by (erule triple_effect) auto

end
