(* ===== verification/Lrp_Life.thy ===== *)
theory Lrp_Life
  imports Lrp_Reconciler Kube_Hoare
begin

text \<open>
  Convergence of an LRP. Once the LRP is no longer changed, reads are up to date and calls succeed, one
  reconciliation brings the cluster into the state that the LRP asks for, whatever state it was in, and
  from then on a reconciliation changes nothing but the number of ready replicas in the status.
\<close>

section \<open>Accepted objects\<close>

text \<open>
  What the server makes of an object it accepts: it may fill in what was left open, but keeps the key,
  the number of replicas, and the names and images of the containers.
\<close>

definition accepted :: "stateful_set \<Rightarrow> stateful_set \<Rightarrow> bool" where
  "accepted st st' \<longleftrightarrow> meta_key (st_meta st') = meta_key (st_meta st) \<and> st_replicas st' = st_replicas st \<and>
     map (\<lambda>co. (co_name co, co_image co)) (ps_containers (pt_spec (st_template st'))) =
     map (\<lambda>co. (co_name co, co_image co)) (ps_containers (pt_spec (st_template st)))"

lemma settled_accepted:
  assumes "settled l st" and "accepted st st'"
  shows "settled l st'"
proof -
  let ?f = "\<lambda>co. (co_name co, co_image co)"
  let ?cs = "ps_containers (pt_spec (st_template st))" and ?cs' = "ps_containers (pt_spec (st_template st'))"
  have same: "?f ` set ?cs' = ?f ` set ?cs"
    using assms(2) unfolding accepted_def set_map [symmetric] by simp
  have "co_image co = ls_image (lr_spec l)"
    if "co \<in> set ?cs'" "co_name co = application_container_name" "ls_image (lr_spec l) \<noteq> []" for co
  proof -
    from that(1) have "?f co \<in> ?f ` set ?cs" unfolding same [symmetric] by (rule imageI)
    then obtain co' where "co' \<in> set ?cs" "co_name co' = co_name co" "co_image co' = co_image co" by auto
    with assms(1) that(2,3) show ?thesis by (auto simp: settled_def)
  qed
  with assms show ?thesis by (simp add: settled_def accepted_def)
qed

lemma settled_spec: "lr_spec l' = lr_spec l \<Longrightarrow> settled l' st = settled l st"
  by (simp add: settled_def)

lemma stset_name_spec: "lr_spec l' = lr_spec l \<Longrightarrow> get_statefulset_name l' = get_statefulset_name l"
  by (simp only: get_statefulset_name_def)

lemma converted_settled:
  assumes "convert c rng n l s = Inr st" and "st_replicas st' = st_replicas st" "st_template st' = st_template st"
  shows "settled l st'"
  using converter.replicas [OF assms(1)] converter.images [OF assms(1)] assms(2,3) by (simp add: settled_def)

section \<open>A quiet cluster\<close>

text \<open>Of the world: the LRP of one key, and the stateful set of one key.\<close>

record 'w lrp_view =
  held_lrp :: "'w \<Rightarrow> lrp option"
  held_stset :: "'w \<Rightarrow> stateful_set option"

definition holds :: "'w lrp_view \<Rightarrow> lrp option \<Rightarrow> stateful_set option \<Rightarrow> 'w \<Rightarrow> bool" where
  "holds v x y w \<longleftrightarrow> held_lrp v w = x \<and> held_stset v w = y"

text \<open>
  Reads answer with what the server holds, and writes succeed: a new stateful set is stored; a patch of
  the one that is held is applied to it; a patch of the status changes the status; secrets, which stay
  in their namespace, and budgets are something else.
\<close>

definition quiet_server ::
  "'w client \<Rightarrow> kube_lib \<Rightarrow> 'w lrp_view \<Rightarrow> namespaced_name \<Rightarrow> namespaced_name \<Rightarrow> bool" where
  "quiet_server cl lib v k sk \<longleftrightarrow>
     (\<forall>l y. triple (holds v (Some l) y) (get_lrp cl k) (\<lambda>r w. r = Inr l \<and> holds v (Some l) y w)) \<and>
     (\<forall>x. triple (holds v x None) (get_stset cl sk)
        (\<lambda>r w. (\<exists>e. r = Inl e \<and> is_not_found lib e) \<and> holds v x None w)) \<and>
     (\<forall>x st. triple (holds v x (Some st)) (get_stset cl sk) (\<lambda>r w. r = Inr st \<and> holds v x (Some st) w)) \<and>
     (\<forall>x st. meta_key (st_meta st) = sk \<longrightarrow> triple (holds v x None) (create_stset cl st)
        (\<lambda>r w. (fst r = None \<and> accepted st (snd r)) \<and> holds v x (Some (snd r)) w)) \<and>
     (\<forall>x new old. meta_key (st_meta new) = sk \<longrightarrow> triple (holds v x (Some old)) (patch_stset cl new old)
        (\<lambda>r w. (fst r = None \<and> accepted new (snd r)) \<and> holds v x (Some (snd r)) w)) \<and>
     (\<forall>l n y. triple (holds v (Some l) y) (patch_lrp_status cl (l\<lparr>lr_status_replicas := n\<rparr>) l)
        (\<lambda>r w. r = (None, l\<lparr>lr_status_replicas := n\<rparr>) \<and> holds v (Some (l\<lparr>lr_status_replicas := n\<rparr>)) y w)) \<and>
     (\<forall>x y s. triple (holds v x y) (create_secret cl s)
        (\<lambda>r w. (fst r = None \<and> om_namespace (se_meta (snd r)) = om_namespace (se_meta s)) \<and> holds v x y w)) \<and>
     (\<forall>x y s old. triple (holds v x y) (patch_secret cl s old) (\<lambda>r w. fst r = None \<and> holds v x y w)) \<and>
     (\<forall>x y p. triple (holds v x y) (create_pdb cl p) (\<lambda>r w. fst r = None \<and> holds v x y w)) \<and>
     (\<forall>x y ns n. triple (holds v x y) (delete_all_pdbs cl ns n) (\<lambda>r w. r = None \<and> holds v x y w))"

text \<open>The metrics are not in the cluster.\<close>

definition quiet_metrics :: "'w metrics \<Rightarrow> 'w lrp_view \<Rightarrow> bool" where
  "quiet_metrics mx v \<longleftrightarrow> (\<forall>x y.
     (\<forall>c. triple (holds v x y) (mx_inc mx c) (\<lambda>_. holds v x y)) \<and>
     (\<forall>c i. triple (holds v x y) (mx_observe mx c i) (\<lambda>_. holds v x y)) \<and>
     triple (holds v x y) (mx_now mx) (\<lambda>_. holds v x y) \<and>
     (\<forall>t. triple (holds v x y) (mx_since mx t) (\<lambda>_. holds v x y)))"

section \<open>What the operations do to a quiet cluster\<close>

lemma quiet_rules:
  assumes "quiet_server cl lib v k sk"
  shows quiet_get_lrp: "triple (holds v (Some l) y) (get_lrp cl k) (\<lambda>r w. r = Inr l \<and> holds v (Some l) y w)"
    and quiet_get_missing: "triple (holds v x None) (get_stset cl sk)
        (\<lambda>r w. (\<exists>e. r = Inl e \<and> is_not_found lib e) \<and> holds v x None w)"
    and quiet_get_stset: "triple (holds v x (Some st)) (get_stset cl sk) (\<lambda>r w. r = Inr st \<and> holds v x (Some st) w)"
    and quiet_create: "meta_key (st_meta st) = sk \<Longrightarrow> triple (holds v x None) (create_stset cl st)
        (\<lambda>r w. (fst r = None \<and> accepted st (snd r)) \<and> holds v x (Some (snd r)) w)"
    and quiet_patch: "meta_key (st_meta st) = sk \<Longrightarrow> triple (holds v x (Some old)) (patch_stset cl st old)
        (\<lambda>r w. (fst r = None \<and> accepted st (snd r)) \<and> holds v x (Some (snd r)) w)"
    and quiet_patch_lrp: "triple (holds v (Some l) y) (patch_lrp_status cl (l\<lparr>lr_status_replicas := n\<rparr>) l)
        (\<lambda>r w. r = (None, l\<lparr>lr_status_replicas := n\<rparr>) \<and> holds v (Some (l\<lparr>lr_status_replicas := n\<rparr>)) y w)"
    and quiet_create_secret: "triple (holds v x y) (create_secret cl s)
        (\<lambda>r w. (fst r = None \<and> om_namespace (se_meta (snd r)) = om_namespace (se_meta s)) \<and> holds v x y w)"
    and quiet_patch_secret: "triple (holds v x y) (patch_secret cl s old_s) (\<lambda>r w. fst r = None \<and> holds v x y w)"
    and quiet_create_pdb: "triple (holds v x y) (create_pdb cl p) (\<lambda>r w. fst r = None \<and> holds v x y w)"
    and quiet_delete_pdb: "triple (holds v x y) (delete_all_pdbs cl ns name) (\<lambda>r w. r = None \<and> holds v x y w)"
  using assms unfolding quiet_server_def by simp_all

lemma quiet_pdb_update:
  assumes "quiet_server cl lib v k sk" "owners_settable lib"
  shows "triple (holds v x y) (pdb_update cl lib st l) (\<lambda>r w. r = None \<and> holds v x y w)"
proof -
  have owner: "set_owner_reference lib ''StatefulSet'' (st_meta st) (pd_meta (new_pdb st l)) \<noteq> Inl e" for e
    by (rule owner_settable(2) [OF assms(2)]) (simp_all add: placeable_def new_pdb_def)
  show ?thesis
    unfolding pdb_update_def pdb_create_def pdb_delete_def Let_def
    by (intro triple_intros triple_bind [OF quiet_create_pdb [OF assms(1)]] triple_bind [OF quiet_delete_pdb [OF assms(1)]])
      (auto simp: owner)
qed

text \<open>The secret of a private registry is in the namespace of its LRP.\<close>

definition secret_beside :: "lrp \<Rightarrow> secret option \<Rightarrow> bool" where
  "secret_beside l sec \<longleftrightarrow> (\<forall>s. sec = Some s \<longrightarrow> om_namespace (se_meta s) = om_namespace (lr_meta l))"

lemma quiet_secret:
  assumes "quiet_server cl lib v k sk"
  shows "triple (holds v x y) (create_registry_creds_secret_if_required cl l)
    (\<lambda>r w. (snd r = None \<and> secret_beside l (fst r)) \<and> holds v x y w)"
proof -
  have secret: "generate_registry_creds_secret l r \<noteq> Inl e" for r e
    by (simp add: generate_registry_creds_secret_def docker_config_json_def Let_def)
  have ns: "om_namespace (se_meta s) = om_namespace (lr_meta l)" if "generate_registry_creds_secret l r = Inr s" for r s
    using that by (auto simp: generate_registry_creds_secret_def docker_config_json_def Let_def)
  show ?thesis
    unfolding create_registry_creds_secret_if_required_def
    by (intro triple_intros triple_bind [OF quiet_create_secret [OF assms]]) (auto simp: secret ns secret_beside_def)
qed

lemma quiet_secret_owner:
  assumes "quiet_server cl lib v k sk" "owners_settable lib"
    and "secret_beside l sec" "om_namespace (st_meta st) = om_namespace (lr_meta l)"
  shows "triple (holds v x y) (set_secret_owner cl lib sec st) (\<lambda>r w. r = None \<and> holds v x y w)"
proof -
  have owner: "set_owner_reference lib ''StatefulSet'' (st_meta st) (se_meta s) \<noteq> Inl e" if "sec = Some s" for s e
    by (rule owner_settable(2) [OF assms(2)]) (use assms(3,4) that in \<open>simp_all add: placeable_def secret_beside_def\<close>)
  show ?thesis
    unfolding set_secret_owner_def
    by (intro triple_intros triple_bind [OF quiet_patch_secret [OF assms(1)]]) (auto dest: owner)
qed

text \<open>Afterwards there is a stateful set of which something is true.\<close>

definition stores :: "'w lrp_view \<Rightarrow> (stateful_set \<Rightarrow> bool) \<Rightarrow> lrp option \<Rightarrow> 'w \<Rightarrow> bool" where
  "stores v P x w \<longleftrightarrow> (\<exists>st. P st \<and> holds v x (Some st) w)"

lemma storesI: "P st \<Longrightarrow> holds v x (Some st) w \<Longrightarrow> stores v P x w"
  by (auto simp: stores_def)

lemma stores_frame: "(\<And>y. triple (holds v x y) m (\<lambda>_. holds v x y)) \<Longrightarrow> triple (stores v P x) m (\<lambda>_. stores v P x)"
  unfolding triple_def stores_def by blast

text \<open>It is true of what the converter makes of the LRP, and of what the updater makes of a stateful set.\<close>

definition converted_gives ::
  "stset_converter_config \<Rightarrow> range_order \<Rightarrow> string \<Rightarrow> namespaced_name \<Rightarrow> lrp \<Rightarrow> (stateful_set \<Rightarrow> bool) \<Rightarrow> bool" where
  "converted_gives c rng n sk l P \<longleftrightarrow> (\<forall>s st st' st''. convert c rng n l s = Inr st \<and> meta_key (st_meta st') = sk \<and>
     st_replicas st' = st_replicas st \<and> st_template st' = st_template st \<and> accepted st' st'' \<longrightarrow> P st'')"

definition updated_gives :: "lrp \<Rightarrow> stateful_set \<Rightarrow> (stateful_set \<Rightarrow> bool) \<Rightarrow> bool" where
  "updated_gives l st P \<longleftrightarrow> (\<forall>st' u st''. get_updated_stset_obj st (ls_instances (lr_spec l)) (ls_image (lr_spec l)) =
     Returns (st', u) \<and> accepted st' st'' \<longrightarrow> P st'')"

lemma converted_gives_settled: "converted_gives c rng n sk l (settled l)"
  unfolding converted_gives_def by (auto intro: settled_accepted converted_settled)

lemma updated_gives_settled: "updated_gives l st (settled l)"
  unfolding updated_gives_def by (auto intro: settled_accepted updated_settled)

lemma quiet_desire:
  assumes "quiet_server cl lib v k sk" "owners_settable lib" "owner_laws lib"
    and "get_statefulset_name l = Inr n" "sk = (om_namespace (lr_meta l), n)" "converted_gives c rng n sk l P"
  shows "triple (holds v x None) (desire (controller_desirer c rng cl lib) l) (\<lambda>r w. r = None \<and> stores v P x w)"
proof -
  have converted: "convert c rng n l s \<noteq> Inl e" for s e
    by (simp add: convert_unfold)
  have owner: "set_controller_reference lib ''LRP'' (lr_meta l) (desired_meta l st) \<noteq> Inl e"
    if "convert c rng n l s = Inr st" for s st e
    by (rule owner_settable(1) [OF assms(2)])
      (use converter.fresh [OF that] in \<open>simp_all add: placeable_def uncontrolled_def\<close>)
  have create: "triple (holds v x None) (create_stset cl (st\<lparr>st_meta := m', st_meta := m\<rparr>))
      (\<lambda>r w. (fst r = None \<and> P (snd r) \<and> om_namespace (st_meta (snd r)) = om_namespace (lr_meta l)) \<and> holds v x (Some (snd r)) w)"
    if "convert c rng n l s = Inr st" "m' = (st_meta st)\<lparr>om_namespace := om_namespace (lr_meta l)\<rparr>"
      "set_controller_reference lib kind ow m' = Inr m" for s st kind ow m m'
  proof -
    let ?st = "st\<lparr>st_meta := m', st_meta := m\<rparr>"
    have key: "meta_key (st_meta ?st) = sk"
      using owner_namespace(1) [OF assms(3) that(3)] converter.name [OF that(1)] that(2) assms(5) by simp
    moreover have "P st'" if "accepted ?st st'" for st'
      using assms(6) \<open>convert c rng n l s = Inr st\<close> key that
      unfolding converted_gives_def by (elim allE [of _ s] allE [of _ st] allE [of _ ?st] allE [of _ st']) simp
    moreover have "om_namespace (st_meta st') = om_namespace (lr_meta l)" if "accepted ?st st'" for st'
      using that key assms(5) by (simp add: accepted_def)
    ultimately show ?thesis
      by (intro triple_weaken [OF quiet_create [OF assms(1)]]) auto
  qed
  have after: "triple (holds v x (Some st)) (do {
      err \<leftarrow> set_secret_owner cl lib sec st;
      case err of
        Some err \<Rightarrow> ret (Some (Wrap ''failed to set owner to the registry secret'' err))
      | None \<Rightarrow> do {
          err \<leftarrow> pdb_update cl lib st l;
          ret (wrap_err ''failed to create pod disruption budget'' err)
        }
    }) (\<lambda>r w. r = None \<and> stores v P x w)"
    if "P st" "om_namespace (st_meta st) = om_namespace (lr_meta l)" "secret_beside l sec" for sec st
    using that(1)
    by (intro triple_bind [OF quiet_secret_owner [OF assms(1,2) that(3,2)]] triple_fact triple_case_option triple_ret
        triple_bind [OF quiet_pdb_update [OF assms(1,2)]]) (auto simp: stores_def)
  show ?thesis
    unfolding desire_def controller_desirer_def new_stset_desirer_def stset_desirer.simps assms(4) sum.case Let_def
    by (intro triple_bind [OF quiet_secret [OF assms(1)]] triple_case_prod triple_case_option triple_case_sum
        triple_bind [OF create] triple_fact triple_ret after) (auto simp: converted dest: owner intro!: after)
qed

lemma quiet_decorated_desire:
  assumes "quiet_metrics mx v"
    and "triple (holds v x None) (des l) (\<lambda>r w. r = None \<and> stores v P x w)"
  shows "triple (holds v x None) (decorated_desire (decorate mx des) l) (\<lambda>r w. r = None \<and> stores v P x w)"
proof -
  have mx: "triple (stores v P x) (mx_inc mx c) (\<lambda>_. stores v P x)" "triple (stores v P x) (mx_observe mx c i) (\<lambda>_. stores v P x)"
    "triple (stores v P x) (mx_since mx t) (\<lambda>_. stores v P x)" "triple (holds v x None) (mx_now mx) (\<lambda>_. holds v x None)" for c i t
    using assms(1) by (auto simp: quiet_metrics_def intro!: stores_frame)
  show ?thesis
    unfolding decorated_desire_def decorate_def desirer_decorator.simps
    by (intro triple_bind [OF mx(4)] triple_bind [OF assms(2)] triple_fact triple_if triple_bind [OF mx(1)]
        triple_bind [OF mx(2)] triple_bind [OF mx(3)] triple_ret) auto
qed

lemma quiet_update:
  assumes "quiet_server cl lib v k sk" "owners_settable lib"
    and "meta_key (st_meta st) = sk" "st_replicas st \<noteq> None" "updated_gives l st P"
  shows "triple (holds v x (Some st)) (stset_update (controller_updater cl lib) l st)
    (\<lambda>r w. r = Returns None \<and> stores v P x w)"
proof -
  obtain st' u where upd: "get_updated_stset_obj st (ls_instances (lr_spec l)) (ls_image (lr_spec l)) = Returns (st', u)"
    using assms(4) updated_panics [of st "ls_instances (lr_spec l)" "ls_image (lr_spec l)"]
    by (cases "get_updated_stset_obj st (ls_instances (lr_spec l)) (ls_image (lr_spec l))") auto
  have gives: "accepted st' st'' \<Longrightarrow> P st''" for st''
    using assms(5) upd by (auto simp: updated_gives_def)
  have "meta_key (st_meta st') = sk"
    using updates_only_meta [OF updated_frame [OF upd]] assms(3) by simp
  then have patch: "triple (holds v x (Some st)) (patch_stset cl st' st)
      (\<lambda>r w. (fst r = None \<and> P (snd r)) \<and> holds v x (Some (snd r)) w)"
    by (intro triple_weaken [OF quiet_patch [OF assms(1)]]) (auto intro: gives)
  have idle: "\<not> u \<Longrightarrow> P st" using gives [of st'] updated_same upd by (auto simp: accepted_def)
  have budget: "triple (holds v x (Some st'')) (do { err \<leftarrow> pdb_update cl lib st l; ret (Returns (wrap_err m err)) })
      (\<lambda>r w. r = Returns None \<and> stores v P x w)" if "P st''" for st'' m
    using that by (intro triple_bind [OF quiet_pdb_update [OF assms(1,2)]] triple_ret) (auto intro: storesI)
  show ?thesis
    unfolding stset_update_def controller_updater_def new_stset_updater_def stset_updater.simps upd outcome.case prod.case
    by (intro triple_if triple_ret triple_bind [OF patch] triple_case_prod triple_case_option triple_fact)
      (auto intro: storesI idle intro!: budget)
qed

section \<open>Reconciling in a quiet cluster\<close>

abbreviation plain_reconcile ::
  "'w client \<Rightarrow> kube_lib \<Rightarrow> 'w metrics \<Rightarrow> range_order \<Rightarrow> controller_config \<Rightarrow> namespaced_name \<Rightarrow>
   ('w, reconcile_result outcome) io" where
  "plain_reconcile cl lib mx rng cfg \<equiv> lrp_reconcile (controller_lrp_reconciler cl lib mx rng cfg)"

lemma plain_fields:
  "rl_client (controller_lrp_reconciler cl lib mx rng cfg) = cl"
  "rl_lib (controller_lrp_reconciler cl lib mx rng cfg) = lib"
  "rl_updater (controller_lrp_reconciler cl lib mx rng cfg) = stset_update (controller_updater cl lib)"
  "rl_desirer (controller_lrp_reconciler cl lib mx rng cfg) = decorated_desire (decorate mx
     (desire (controller_desirer (controller_converter (cc_application_service_account cfg)
       (cc_registry_secret_name cfg) (cc_unsafe_allow_automount cfg)) rng cl lib)))"
  by (simp_all add: controller_lrp_reconciler_def new_lrp_reconciler_def Let_def)

lemma quiet_reconcile_stores:
  assumes "quiet_server cl lib v k sk" "quiet_metrics mx v" "owners_settable lib" "owner_laws lib" "multierror_laws lib"
    and "get_statefulset_name l = Inr n" "sk = (om_namespace (lr_meta l), n)"
    and "\<forall>st. y = Some st \<longrightarrow> meta_key (st_meta st) = sk \<and> st_replicas st \<noteq> None"
    and "y = None \<Longrightarrow> converted_gives (controller_converter (cc_application_service_account cfg)
      (cc_registry_secret_name cfg) (cc_unsafe_allow_automount cfg)) rng n sk l P"
    and "\<And>st. y = Some st \<Longrightarrow> updated_gives l st P"
  shows "triple (holds v (Some l) y) (plain_reconcile cl lib mx rng cfg k)
    (\<lambda>r w. r = Returns (0, None) \<and> (\<exists>m. stores v P (Some (l\<lparr>lr_status_replicas := m\<rparr>)) w))"
proof -
  let ?R = "controller_lrp_reconciler cl lib mx rng cfg"
  let ?Q = "\<lambda>r w. r = Returns None \<and> (\<exists>m. stores v P (Some (l\<lparr>lr_status_replicas := m\<rparr>)) w)"
  have refl: "l\<lparr>lr_status_replicas := lr_status_replicas l\<rparr> = l" by simp
  have no_error: "error_or_nil lib [] = None" "multierror_append lib es None = es" for es
    using assms(5) by (simp_all add: multierror_laws_def)
  have sk: "(om_namespace (lr_meta l), n) = sk" using assms(7) by simp
  have "triple (holds v (Some l) y) (lrp_do ?R l) ?Q"
  proof (cases y)
    case None
    have "triple (holds v (Some l) None) (rl_desirer ?R l) (\<lambda>r w. r = None \<and> stores v P (Some l) w)"
      unfolding plain_fields
      by (rule quiet_decorated_desire [OF assms(2)], rule quiet_desire [OF assms(1,3,4,6,7) assms(9) [OF None]])
    note desired = triple_bind [OF this]
    show ?thesis
      unfolding None lrp_do_def assms(6) sum.case sk plain_fields(1,2)
      by (intro triple_bind [OF quiet_get_missing [OF assms(1)]] triple_fact triple_case_sum triple_if desired triple_ret)
        (auto intro: exI [of _ "lr_status_replicas l"])
  next
    case (Some st)
    let ?l = "l\<lparr>lr_status_replicas := st_ready_replicas st\<rparr>"
    have "updated_gives ?l st P" using assms(10) [OF Some] by (simp add: updated_gives_def)
    then have updated: "triple (holds v (Some ?l) (Some st)) (stset_update (controller_updater cl lib) ?l st)
        (\<lambda>r w. r = Returns None \<and> stores v P (Some ?l) w)"
      using assms(8) Some by (intro quiet_update [OF assms(1,3)]) simp_all
    show ?thesis
      unfolding Some lrp_do_def assms(6) sum.case sk plain_fields update_lrp_status_def Let_def
      by (intro triple_bind [OF quiet_get_stset [OF assms(1)]] triple_fact triple_case_sum triple_if triple_ret
          triple_bind [OF quiet_patch_lrp [OF assms(1)]] triple_case_prod)
        (auto simp: no_error intro!: triple_bind [OF updated] triple_ret)
  qed
  then show ?thesis
    unfolding lrp_reconcile_def plain_fields(1,2)
    by (intro triple_bind [OF quiet_get_lrp [OF assms(1)]] triple_fact triple_case_sum triple_if triple_ret)
      (auto intro!: triple_bind triple_ret)
qed

text \<open>Reconciling an LRP whose stateful set is settled: three calls, of which one writes, into the status.\<close>

lemma settled_reconcile:
  assumes "quiet_server cl lib v k sk" "multierror_laws lib"
    and "get_statefulset_name l = Inr n" "sk = (om_namespace (lr_meta l), n)"
    and "settled l st" "holds v (Some l) (Some st) w"
  obtains w' where "run_state (wired_reconcile cl lib mx rng cfg k) (w, []) =
      (Returns (0, None), (w', [GetLRP k, GetStset sk, PatchLRPStatus (l\<lparr>lr_status_replicas := st_ready_replicas st\<rparr>) l]))"
    and "holds v (Some (l\<lparr>lr_status_replicas := st_ready_replicas st\<rparr>)) (Some st) w'"
proof -
  let ?l = "l\<lparr>lr_status_replicas := st_ready_replicas st\<rparr>"
  obtain w1 where w1: "run_state (get_lrp cl k) w = (Inr l, w1)" "holds v (Some l) (Some st) w1"
    using tripleD [OF quiet_get_lrp [OF assms(1)] assms(6)] by (metis prod.collapse)
  obtain w2 where w2: "run_state (get_stset cl sk) w1 = (Inr st, w2)" "holds v (Some l) (Some st) w2"
    using tripleD [OF quiet_get_stset [OF assms(1)] w1(2)] by (metis prod.collapse)
  obtain w3 where w3: "run_state (patch_lrp_status cl ?l l) w2 = ((None, ?l), w3)" "holds v (Some ?l) (Some st) w3"
    using tripleD [OF quiet_patch_lrp [OF assms(1)] w2(2)] by (metis prod.collapse)
  have "get_updated_stset_obj st (ls_instances (lr_spec ?l)) (ls_image (lr_spec ?l)) = Returns (st, False)"
    using assms(5) by (simp add: settled_iff)
  then have "stset_update (controller_updater (logged cl) lib) ?l st = ret (Returns None)"
    by (simp add: stset_update_def)
  then have "run_state (wired_reconcile cl lib mx rng cfg k) (w, []) =
      (Returns (0, None), (w3, [GetLRP k, GetStset sk, PatchLRPStatus ?l l]))"
    using w1 w2 w3 assms(2-4)
    by (simp add: lrp_reconcile_def lrp_do_def update_lrp_status_def wired_fields multierror_laws_def Let_def)
  with w3(2) that show ?thesis by blast
qed

section \<open>Properties\<close>

text \<open>
  C4: reconciling converges. When nobody else changes the LRP or its stateful set, reads are up to date
  and calls succeed, one reconciliation makes the stateful set what the LRP asks for, whether there was
  none or one with other replicas and images; it leaves the LRP alone but for its status. Every
  reconciliation after that succeeds with three calls, writes the number of ready replicas into the
  status, and nothing else.
\<close>

theorem reconcile_converges:
  assumes "quiet_server cl lib v k sk" "quiet_metrics mx v" "owners_settable lib" "owner_laws lib" "multierror_laws lib"
    and "get_statefulset_name l = Inr n" "sk = (om_namespace (lr_meta l), n)"
    and "held_lrp v w = Some l"
    and "\<forall>st. held_stset v w = Some st \<longrightarrow> meta_key (st_meta st) = sk \<and> st_replicas st \<noteq> None"
    and "run_state (plain_reconcile cl lib mx rng cfg k) w = (res, w')"
  shows "res = Returns (0, None) \<and>
    (\<exists>st m w2. holds v (Some (l\<lparr>lr_status_replicas := m\<rparr>)) (Some st) w' \<and> settled l st \<and>
       run_state (wired_reconcile cl lib mx rng cfg k) (w', []) = (Returns (0, None),
         (w2, [GetLRP k, GetStset sk, PatchLRPStatus (l\<lparr>lr_status_replicas := st_ready_replicas st\<rparr>)
                 (l\<lparr>lr_status_replicas := m\<rparr>)])) \<and>
       holds v (Some (l\<lparr>lr_status_replicas := st_ready_replicas st\<rparr>)) (Some st) w2)"
proof -
  have "holds v (Some l) (held_stset v w) w" using assms(8) by (simp add: holds_def)
  from tripleD [OF quiet_reconcile_stores [OF assms(1-7,9) converted_gives_settled updated_gives_settled] this assms(10)]
  obtain m st where res: "res = Returns (0, None)" and st: "settled l st"
    "holds v (Some (l\<lparr>lr_status_replicas := m\<rparr>)) (Some st) w'"
    by (auto simp: stores_def)
  let ?l = "l\<lparr>lr_status_replicas := m\<rparr>"
  have "get_statefulset_name ?l = Inr n" "sk = (om_namespace (lr_meta ?l), n)" "settled ?l st"
    using assms(6,7) st(1) stset_name_spec [of ?l l] by (simp_all add: settled_def)
  from settled_reconcile [OF assms(1,5) this st(2), of mx rng cfg] obtain w2 where
    "run_state (wired_reconcile cl lib mx rng cfg k) (w', []) = (Returns (0, None),
       (w2, [GetLRP k, GetStset sk, PatchLRPStatus (?l\<lparr>lr_status_replicas := st_ready_replicas st\<rparr>) ?l]))"
    "holds v (Some (?l\<lparr>lr_status_replicas := st_ready_replicas st\<rparr>)) (Some st) w2"
    by blast
  with res st show ?thesis by auto
qed

section \<open>Witnesses\<close>

text \<open>A cluster that holds an LRP and no stateful set.\<close>

definition quiet_view :: "(lrp option \<times> stateful_set option) lrp_view" where
  "quiet_view = \<lparr>held_lrp = fst, held_stset = snd\<rparr>"

definition quiet_client :: "(lrp option \<times> stateful_set option) client" where
  "quiet_client = dead_client
     \<lparr>get_lrp := \<lambda>k. State (\<lambda>(x, y). (case x of None \<Rightarrow> not_found | Some l \<Rightarrow> Inr l, (x, y))),
      patch_lrp_status := \<lambda>n old. State (\<lambda>(x, y). ((None, n), (Some n, y))),
      get_stset := \<lambda>k. State (\<lambda>(x, y). (case y of None \<Rightarrow> not_found | Some st \<Rightarrow> Inr st, (x, y))),
      create_stset := \<lambda>st. State (\<lambda>(x, y). ((None, st), (x, Some st))),
      patch_stset := \<lambda>n old. State (\<lambda>(x, y). ((None, n), (x, Some n))),
      create_secret := \<lambda>s. ret (None, s), patch_secret := \<lambda>n old. ret (None, n),
      create_pdb := \<lambda>p. ret (None, p), delete_all_pdbs := \<lambda>ns n. ret None\<rparr>"

lemma quiet_client_server: "quiet_server quiet_client sample_lib quiet_view k sk"
  by (auto simp: quiet_server_def triple_def holds_def quiet_view_def quiet_client_def not_found_def
      status_reason_def accepted_def)

definition plain_metrics :: "'w metrics" where
  "plain_metrics = \<lparr>mx_register = (\<lambda>c. ret Registered), mx_inc = (\<lambda>c. ret ()),
     mx_observe = (\<lambda>c i. ret ()), mx_now = ret 0, mx_since = (\<lambda>t. ret 0)\<rparr>"

theorem reconcile_converges_witness:
  "\<exists>st m w2. settled sample_lrp st \<and> run_state (wired_reconcile quiet_client sample_lib plain_metrics (\<lambda>_ m. m) sample_config
      (meta_key (lr_meta sample_lrp))) ((Some (sample_lrp\<lparr>lr_status_replicas := m\<rparr>), Some st), [])
    = (Returns (0, None), w2) \<and> length (snd w2) = 3"
proof -
  let ?k = "meta_key (lr_meta sample_lrp)"
  obtain n where n: "get_statefulset_name sample_lrp = Inr n" by (rule sample_name)
  have mx: "quiet_metrics plain_metrics quiet_view"
    by (simp add: quiet_metrics_def plain_metrics_def triple_def)
  have held: "held_lrp quiet_view (Some sample_lrp, None) = Some sample_lrp"
    "\<forall>st. held_stset quiet_view (Some sample_lrp, None) = Some st \<longrightarrow>
       meta_key (st_meta st) = (om_namespace (lr_meta sample_lrp), n) \<and> st_replicas st \<noteq> None"
    by (simp_all add: quiet_view_def)
  obtain res w' where run: "run_state (plain_reconcile quiet_client sample_lib plain_metrics (\<lambda>_ m. m) sample_config ?k)
      (Some sample_lrp, None) = (res, w')"
    by (metis prod.collapse)
  from reconcile_converges [OF quiet_client_server mx sample_owners_settable sample_owner_laws sample_multierror_laws n refl held run]
  obtain st m w2 where "holds quiet_view (Some (sample_lrp\<lparr>lr_status_replicas := m\<rparr>)) (Some st) w'" "settled sample_lrp st"
    "run_state (wired_reconcile quiet_client sample_lib plain_metrics (\<lambda>_ m. m) sample_config ?k) (w', []) = (Returns (0, None), w2)"
    "length (snd w2) = 3"
    by auto
  moreover from this(1) have "w' = (Some (sample_lrp\<lparr>lr_status_replicas := m\<rparr>), Some st)"
    by (cases w') (simp add: holds_def quiet_view_def)
  ultimately show ?thesis by blast
qed

end
