(* ===== verification/Lrp_Evolution.thy ===== *)
theory Lrp_Evolution
  imports Lrp_Life Lrp_Validator
begin

text \<open>
  The whole life of an LRP: users change it within the limits of the admission webhook, its pods become
  ready and unready, and the reconciler runs, in any order and any number of times. What a user may rely
  on is an abstract specification: the wanted state, and what is deployed. The reconciler, the desirer,
  the converter, the updater and the webhook together implement it.
\<close>

section \<open>The abstract specification\<close>

text \<open>
  What is promised to the user: the number of instances and the image that were asked for last, and what
  is deployed, the number of replicas and the containers of an instance, each with its image.
\<close>

type_synonym deployment = "i32 option \<times> (string \<times> string) list"

record promise =
  pr_instances :: i64
  pr_image :: string
  pr_deployed :: "deployment option"

datatype lrp_event = Edited i64 string | Reported i32 | Reconciled "reconcile_result outcome"

text \<open>The first deployment runs every container on the image of that time.\<close>

definition first_deployment :: "string list \<Rightarrow> i64 \<Rightarrow> string \<Rightarrow> deployment" where
  "first_deployment names i img = (Some (to_int32 i), map (\<lambda>c. (c, img)) names)"

text \<open>Later ones follow the number of instances, and move the application to the new image.\<close>

definition next_deployment :: "i64 \<Rightarrow> string \<Rightarrow> deployment \<Rightarrow> deployment" where
  "next_deployment i img d = (Some (to_int32 i),
     if img = [] then snd d
     else map (\<lambda>(c, old). (c, if c = application_container_name then img else old)) (snd d))"

fun promised :: "string list \<Rightarrow> promise \<Rightarrow> lrp_event \<Rightarrow> promise" where
  "promised names p (Edited i img) = p\<lparr>pr_instances := i, pr_image := img\<rparr>"
| "promised names p (Reported n) = p"
| "promised names p (Reconciled r) = p\<lparr>pr_deployed := Some (case pr_deployed p of
       None \<Rightarrow> first_deployment names (pr_instances p) (pr_image p)
     | Some d \<Rightarrow> next_deployment (pr_instances p) (pr_image p) d)\<rparr>"

section \<open>What the cluster does\<close>

text \<open>
  A user's change that the webhook admits: it sees the LRP that the server holds and the one that is sent,
  and the server stores the specification that was sent. A report changes the number of ready replicas of
  the stateful set. The reconciler runs with whatever result.
\<close>

inductive lrp_step ::
  "'w client \<Rightarrow> kube_lib \<Rightarrow> 'w metrics \<Rightarrow> range_order \<Rightarrow> controller_config \<Rightarrow> admission_lib \<Rightarrow> 's cmp_lib \<Rightarrow>
   'w lrp_view \<Rightarrow> namespaced_name \<Rightarrow> 'w \<Rightarrow> lrp_event \<Rightarrow> 'w \<Rightarrow> bool"
  for cl lib mx rng cfg adm cmp v k where
  edited: "lrp_step cl lib mx rng cfg adm cmp v k w (Edited (ls_instances (lr_spec new)) (ls_image (lr_spec new))) w'"
    if "held_lrp v w = Some old"
      and "decode_raw_lrp adm (ar_old_object req) = Inr old" "decode_raw_lrp adm (ar_object req) = Inr new"
      and "validator_handle (new_lrp_resource_validator adm cmp) req = Returns (Answer True None)"
      and "held_lrp v w' = Some stored" "lr_spec stored = lr_spec new" "meta_key (lr_meta stored) = meta_key (lr_meta old)"
      and "held_stset v w' = held_stset v w"
| reported: "lrp_step cl lib mx rng cfg adm cmp v k w (Reported n) w'"
    if "held_stset v w = Some st" "held_stset v w' = Some (st\<lparr>st_ready_replicas := n\<rparr>)" "held_lrp v w' = held_lrp v w"
| reconciled: "lrp_step cl lib mx rng cfg adm cmp v k w (Reconciled r) w'"
    if "run_state (plain_reconcile cl lib mx rng cfg k) w = (r, w')"

inductive lrp_history ::
  "'w client \<Rightarrow> kube_lib \<Rightarrow> 'w metrics \<Rightarrow> range_order \<Rightarrow> controller_config \<Rightarrow> admission_lib \<Rightarrow> 's cmp_lib \<Rightarrow>
   'w lrp_view \<Rightarrow> namespaced_name \<Rightarrow> 'w \<Rightarrow> lrp_event list \<Rightarrow> 'w \<Rightarrow> bool"
  for cl lib mx rng cfg adm cmp v k where
  begun: "lrp_history cl lib mx rng cfg adm cmp v k w [] w"
| continued: "lrp_history cl lib mx rng cfg adm cmp v k w (es @ [e]) w''"
    if "lrp_history cl lib mx rng cfg adm cmp v k w es w'" "lrp_step cl lib mx rng cfg adm cmp v k w' e w''"

section \<open>The abstraction\<close>

definition deployed :: "stateful_set \<Rightarrow> deployment" where
  "deployed st = (st_replicas st, map (\<lambda>co. (co_name co, co_image co)) (ps_containers (pt_spec (st_template st))))"

definition promise_of :: "lrp \<Rightarrow> stateful_set option \<Rightarrow> promise" where
  "promise_of l y = \<lparr>pr_instances = ls_instances (lr_spec l), pr_image = ls_image (lr_spec l),
     pr_deployed = map_option deployed y\<rparr>"

text \<open>The containers of an instance: the application and the sidecars.\<close>

definition container_names :: "lrp \<Rightarrow> string list" where
  "container_names l = application_container_name # map sd_name (entries (ls_sidecars (lr_spec l)))"

text \<open>What stays true of the cluster: the LRP keeps its identity, and its stateful set is under its name.\<close>

definition sound :: "'w lrp_view \<Rightarrow> string \<Rightarrow> namespaced_name \<Rightarrow> string list \<Rightarrow> promise \<Rightarrow> 'w \<Rightarrow> bool" where
  "sound v n sk names p w \<longleftrightarrow> (\<exists>l y. holds v (Some l) y w \<and> promise_of l y = p \<and>
     get_statefulset_name l = Inr n \<and> sk = (om_namespace (lr_meta l), n) \<and> container_names l = names \<and>
     (\<forall>st. y = Some st \<longrightarrow> meta_key (st_meta st) = sk \<and> st_replicas st \<noteq> None))"

section \<open>Each component implements its part\<close>

lemma accepted_deployed: "accepted st st' \<Longrightarrow> deployed st' = deployed st"
  by (simp add: accepted_def deployed_def)

lemma convert_deployed:
  assumes "convert c rng n l s = Inr st"
  shows "deployed st = first_deployment (container_names l) (ls_instances (lr_spec l)) (ls_image (lr_spec l))"
proof -
  have "map (\<lambda>co. (co_name co, co_image co)) (get_sidecar_containers rng l) =
      map (\<lambda>sd. (sd_name sd, ls_image (lr_spec l))) (entries (ls_sidecars (lr_spec l)))"
    by (rule sidecars_map) (simp add: sidecar_container_def)
  with assms show ?thesis
    by (auto simp: convert_unfold deployed_def first_deployment_def container_names_def)
qed

lemma update_app_image_deployed:
  "map (\<lambda>co. (co_name co, co_image co)) (fst (update_app_image img cs)) =
   map (\<lambda>(c, old). (c, if c = application_container_name then img else old)) (map (\<lambda>co. (co_name co, co_image co)) cs)"
  by (induction cs) (auto simp: Let_def split: prod.split)

lemma updated_deployed:
  "get_updated_stset_obj st i img = Returns (st', u) \<Longrightarrow> deployed st' = next_deployment i img (deployed st)"
  using update_app_image_deployed [of img "ps_containers (pt_spec (st_template st))"]
  by (auto simp: get_updated_stset_obj_def deployed_def next_deployment_def Let_def
      split: option.splits if_splits prod.splits)

text \<open>What the stateful set is after a reconciliation.\<close>

definition redeployed :: "namespaced_name \<Rightarrow> deployment \<Rightarrow> stateful_set \<Rightarrow> bool" where
  "redeployed sk d st \<longleftrightarrow> meta_key (st_meta st) = sk \<and> st_replicas st \<noteq> None \<and> deployed st = d"

lemma converted_gives_deployment:
  "converted_gives c rng n sk l
     (redeployed sk (first_deployment (container_names l) (ls_instances (lr_spec l)) (ls_image (lr_spec l))))"
  unfolding converted_gives_def
proof (intro allI impI, elim conjE)
  fix s st st' st''
  assume st: "convert c rng n l s = Inr st" and key: "meta_key (st_meta st') = sk"
    and same: "st_replicas st' = st_replicas st" "st_template st' = st_template st" and acc: "accepted st' st''"
  have "deployed st'' = deployed st"
    using accepted_deployed [OF acc] same by (simp add: deployed_def)
  then show "redeployed sk (first_deployment (container_names l) (ls_instances (lr_spec l)) (ls_image (lr_spec l))) st''"
    using convert_deployed [OF st] converter.replicas [OF st] key same acc
    by (simp add: redeployed_def accepted_def)
qed

lemma updated_gives_deployment:
  assumes "meta_key (st_meta st) = sk"
  shows "updated_gives l st (redeployed sk (next_deployment (ls_instances (lr_spec l)) (ls_image (lr_spec l)) (deployed st)))"
  unfolding updated_gives_def
proof (intro allI impI, elim conjE)
  fix st' u st''
  assume upd: "get_updated_stset_obj st (ls_instances (lr_spec l)) (ls_image (lr_spec l)) = Returns (st', u)"
    and acc: "accepted st' st''"
  then show "redeployed sk (next_deployment (ls_instances (lr_spec l)) (ls_image (lr_spec l)) (deployed st)) st''"
    using assms updated_deployed [OF upd] updated_replicas [OF upd] updates_only_meta [OF updated_frame [OF upd]]
      accepted_deployed [OF acc]
    by (simp add: redeployed_def accepted_def)
qed

text \<open>The webhook keeps what the stateful set is found by, and the names of the containers.\<close>

lemma admitted_unchanged:
  assumes "cmp_laws cmp" "decode_raw_lrp adm (ar_object req) = Inr new" "decode_raw_lrp adm (ar_old_object req) = Inr old"
    and "validator_handle (new_lrp_resource_validator adm cmp) req = Returns (Answer True None)"
  shows "changed_fields (lr_spec new) (lr_spec old) [''Image'', ''Instances''] = []"
  by (rule validator_run [OF assms(1-3)]) (use assms(4) in \<open>auto simp: error_response_def split: if_splits\<close>)

lemma unchanged_sidecars:
  assumes "changed_fields a b [''Image'', ''Instances''] = []"
  shows "map sd_name (entries (ls_sidecars a)) = map sd_name (entries (ls_sidecars b))"
proof -
  from unchanged_fields [OF assms] have "same_sidecars (ls_sidecars a) (ls_sidecars b)" by simp
  then show ?thesis
    unfolding same_sidecars_def list_all2_conv_all_nth
    by (intro nth_equalityI) (auto simp: same_sidecar_def)
qed

lemma unchanged_identity:
  assumes "changed_fields (lr_spec a) (lr_spec b) [''Image'', ''Instances''] = []"
  shows "get_statefulset_name a = get_statefulset_name b" and "container_names a = container_names b"
  unfolding get_statefulset_name_def container_names_def unchanged_fields [OF assms] unchanged_sidecars [OF assms]
  by (rule refl)+

section \<open>Each step implements an abstract step\<close>

lemma edit_sound:
  fixes new :: lrp
  assumes "sound v n sk names p w" "held_lrp v w = Some old" "held_stset v w' = held_stset v w"
    and "held_lrp v w' = Some stored" "lr_spec stored = lr_spec new" "meta_key (lr_meta stored) = meta_key (lr_meta old)"
    and "changed_fields (lr_spec new) (lr_spec old) [''Image'', ''Instances''] = []"
  shows "sound v n sk names (promised names p (Edited (ls_instances (lr_spec new)) (ls_image (lr_spec new)))) w'"
proof -
  have "get_statefulset_name stored = get_statefulset_name new" "container_names stored = container_names new"
    using stset_name_spec [OF assms(5)] assms(5) by (simp_all add: container_names_def)
  then have "get_statefulset_name stored = get_statefulset_name old" "container_names stored = container_names old"
    using unchanged_identity [OF assms(7)] by simp_all
  with assms(1-6) show ?thesis
    by (auto simp: sound_def holds_def promise_of_def)
qed

lemma report_sound:
  assumes "sound v n sk names p w" "held_stset v w = Some st"
    and "held_stset v w' = Some (st\<lparr>st_ready_replicas := m\<rparr>)" "held_lrp v w' = held_lrp v w"
  shows "sound v n sk names p w'"
  using assms by (auto simp: sound_def holds_def promise_of_def deployed_def)

lemma reconcile_sound:
  assumes "quiet_server cl lib v k sk" "quiet_metrics mx v" "owners_settable lib" "owner_laws lib" "multierror_laws lib"
    and "sound v n sk names p w" and "run_state (plain_reconcile cl lib mx rng cfg k) w = (r, w')"
  shows "r = Returns (0, None)" and "sound v n sk names (promised names p (Reconciled r)) w'"
proof -
  from assms(6) obtain l y where l: "holds v (Some l) y w" "promise_of l y = p" "get_statefulset_name l = Inr n"
    "sk = (om_namespace (lr_meta l), n)" "container_names l = names"
    "\<forall>st. y = Some st \<longrightarrow> meta_key (st_meta st) = sk \<and> st_replicas st \<noteq> None"
    unfolding sound_def by blast
  define d where "d = (case y of
      None \<Rightarrow> first_deployment names (ls_instances (lr_spec l)) (ls_image (lr_spec l))
    | Some st \<Rightarrow> next_deployment (ls_instances (lr_spec l)) (ls_image (lr_spec l)) (deployed st))"
  have gives: "y = None \<Longrightarrow> converted_gives c rng n sk l (redeployed sk d)"
    "y = Some st \<Longrightarrow> updated_gives l st (redeployed sk d)" for c st
    using converted_gives_deployment [of c rng n sk l] updated_gives_deployment [of st sk l] l(5,6) by (auto simp: d_def)
  from tripleD [OF quiet_reconcile_stores [OF assms(1-5) l(3,4,6) gives] l(1) assms(7)]
  obtain m st where "r = Returns (0, None)" "redeployed sk d st" "holds v (Some (l\<lparr>lr_status_replicas := m\<rparr>)) (Some st) w'"
    by (auto simp: stores_def)
  moreover have "promise_of (l\<lparr>lr_status_replicas := m\<rparr>) (Some st) = promised names p (Reconciled r)" if "deployed st = d"
    using that l(2) by (cases y) (auto simp: promise_of_def d_def)
  ultimately show "r = Returns (0, None)" "sound v n sk names (promised names p (Reconciled r)) w'"
    using l(3-5) stset_name_spec [of "l\<lparr>lr_status_replicas := m\<rparr>" l]
    by (auto simp: sound_def redeployed_def container_names_def intro!: exI [of _ "l\<lparr>lr_status_replicas := m\<rparr>"] exI [of _ "Some st"])
qed

text \<open>Results of reconciliations in a history.\<close>

fun succeeded :: "lrp_event \<Rightarrow> bool" where
  "succeeded (Reconciled r) = (r = Returns (0, None))"
| "succeeded _ = True"

lemma step_sound:
  assumes "quiet_server cl lib v k sk" "quiet_metrics mx v" "owners_settable lib" "owner_laws lib" "multierror_laws lib"
    and "cmp_laws cmp" and "lrp_step cl lib mx rng cfg adm cmp v k w e w'" and "sound v n sk names p w"
  shows "succeeded e \<and> sound v n sk names (promised names p e) w'"
  using assms(7)
proof cases
  case (edited old req new stored)
  then show ?thesis
    using edit_sound [OF assms(8)] admitted_unchanged [OF assms(6)] by simp
next
  case (reported st m)
  then show ?thesis using report_sound [OF assms(8)] by simp
next
  case (reconciled r)
  then show ?thesis using reconcile_sound [OF assms(1-5,8)] by simp
qed

section \<open>Properties\<close>


section \<open>Witnesses\<close>

text \<open>
  The stateful set of the sample LRP, with one replica, an old image and a sidecar: the LRP is scaled to
  five instances and reconciled, its pods become ready, and it is reconciled again.
\<close>

definition old_stset :: "string \<Rightarrow> stateful_set" where
  "old_stset n = (the_stset 1)\<lparr>
     st_meta := empty_meta\<lparr>om_namespace := om_namespace (lr_meta sample_lrp), om_name := n\<rparr>,
     st_template := \<lparr>pt_labels = None, pt_annotations = None, pt_spec = empty_pod_spec\<lparr>ps_containers :=
       [empty_container\<lparr>co_name := application_container_name, co_image := ''eirini/old''\<rparr>,
        empty_container\<lparr>co_name := ''side'', co_image := ''eirini/old''\<rparr>]\<rparr>\<rparr>\<rparr>"

abbreviation scaled_lrp :: lrp where
  "scaled_lrp \<equiv> sample_lrp\<lparr>lr_spec := sample_lrp_spec\<lparr>ls_instances := 5\<rparr>\<rparr>"

lemma sample_admitted:
  obtains req where "decode_raw_lrp sample_admission (ar_old_object req) = Inr sample_lrp"
    "decode_raw_lrp sample_admission (ar_object req) = Inr scaled_lrp"
    "validator_handle (new_lrp_resource_validator sample_admission sample_cmp) req = Returns (Answer True None)"
proof -
  let ?req = "\<lparr>ar_operation = UpdateOp, ar_object = ''scaled'', ar_old_object = ''old''\<rparr>"
  have new: "decode_raw_lrp sample_admission (ar_object ?req) = Inr scaled_lrp"
    and old: "decode_raw_lrp sample_admission (ar_old_object ?req) = Inr sample_lrp"
    by (simp_all add: sample_admission_def)
  have "changed_fields (sample_lrp_spec\<lparr>ls_instances := 5\<rparr>) sample_lrp_spec [''Image'', ''Instances''] = []"
    by (rule sample_changes)
  then have "validator_handle (new_lrp_resource_validator sample_admission sample_cmp) ?req = Returns (Answer True None)"
    using validator_run [OF sample_cmp_laws new old] by (auto simp: sample_lrp_def)
  with new old that show ?thesis by blast
qed

lemma sample_edit:
  "lrp_step cl lib mx rng cfg sample_admission sample_cmp quiet_view k (Some sample_lrp, y)
     (Edited 5 ''eirini/dorini'') (Some scaled_lrp, y)"
proof -
  obtain req where req: "decode_raw_lrp sample_admission (ar_old_object req) = Inr sample_lrp"
    "decode_raw_lrp sample_admission (ar_object req) = Inr scaled_lrp"
    "validator_handle (new_lrp_resource_validator sample_admission sample_cmp) req = Returns (Answer True None)"
    by (rule sample_admitted)
  from lrp_step.edited [OF _ req, of quiet_view "(Some sample_lrp, y)" "(Some scaled_lrp, y)" scaled_lrp]
  show ?thesis by (simp add: quiet_view_def sample_defs)
qed


end
