(* ===== verification/Lrp_Provenance.thy ===== *)
theory Lrp_Provenance
  imports Lrp_Evolution
begin

text \<open>
  The life of an LRP when the cluster is not quiet: reads come from a cache that shows any old version,
  calls fail, answers are lost, and others act at any moment. What is deployed may then lag behind what is
  asked for; but nothing is ever deployed that was not asked for.
\<close>

section \<open>The view of the world\<close>

text \<open>
  The versions of the LRP that the server has held, the oldest first; the stateful set that it holds, and
  all that it has ever held.
\<close>

record 'w lrp_story =
  lrp_versions :: "'w \<Rightarrow> lrp list"
  stset_now :: "'w \<Rightarrow> stateful_set option"
  stsets_held :: "'w \<Rightarrow> stateful_set list"

definition same_lrp :: "'w lrp_story \<Rightarrow> 'w \<Rightarrow> 'w \<Rightarrow> bool" where
  "same_lrp v w w' \<longleftrightarrow> lrp_versions v w' = lrp_versions v w"

definition same_stset :: "'w lrp_story \<Rightarrow> 'w \<Rightarrow> 'w \<Rightarrow> bool" where
  "same_stset v w w' \<longleftrightarrow> stset_now v w' = stset_now v w \<and> stsets_held v w' = stsets_held v w"

definition now_holds :: "'w lrp_story \<Rightarrow> stateful_set \<Rightarrow> 'w \<Rightarrow> 'w \<Rightarrow> bool" where
  "now_holds v st w w' \<longleftrightarrow> stset_now v w' = Some st \<and> stsets_held v w' = stsets_held v w @ [st]"

section \<open>What others do\<close>

text \<open>
  Users change the LRP in ways that the webhook admits; others change its metadata and status. The status
  of the stateful set changes, and it may be deleted. Nobody else changes its specification.
\<close>

definition admitted_change :: "admission_lib \<Rightarrow> 's cmp_lib \<Rightarrow> lrp \<Rightarrow> lrp \<Rightarrow> bool" where
  "admitted_change adm cmp old x \<longleftrightarrow> meta_key (lr_meta x) = meta_key (lr_meta old) \<and>
     (lr_spec x = lr_spec old \<or>
      (\<exists>req new. decode_raw_lrp adm (ar_old_object req) = Inr old \<and> decode_raw_lrp adm (ar_object req) = Inr new \<and>
         validator_handle (new_lrp_resource_validator adm cmp) req = Returns (Answer True None) \<and> lr_spec x = lr_spec new))"

inductive meanwhile :: "admission_lib \<Rightarrow> 's cmp_lib \<Rightarrow> 'w lrp_story \<Rightarrow> 'w \<Rightarrow> 'w \<Rightarrow> bool" for adm cmp v where
  lrp_changed: "meanwhile adm cmp v w w'"
    if "lrp_versions v w' = lrp_versions v w @ [x]" "admitted_change adm cmp (last (lrp_versions v w)) x" "same_stset v w w'"
| stset_reported: "meanwhile adm cmp v w w'"
    if "stset_now v w = Some st" "now_holds v st' w w'" "same_lrp v w w'"
      "meta_key (st_meta st') = meta_key (st_meta st)" "deployed st' = deployed st"
| stset_deleted: "meanwhile adm cmp v w w'"
    if "stset_now v w' = None" "stsets_held v w' = stsets_held v w" "same_lrp v w w'"
| elsewhere: "meanwhile adm cmp v w w'" if "same_lrp v w w'" "same_stset v w w'"

abbreviation rest_of_world :: "admission_lib \<Rightarrow> 's cmp_lib \<Rightarrow> 'w lrp_story \<Rightarrow> 'w \<Rightarrow> 'w \<Rightarrow> bool" where
  "rest_of_world adm cmp v \<equiv> (meanwhile adm cmp v)\<^sup>*\<^sup>*"

lemma stable_rest:
  assumes "\<And>w w'. meanwhile adm cmp v w w' \<Longrightarrow> P w \<Longrightarrow> P w'"
  shows "undisturbed (rest_of_world adm cmp v) P"
  unfolding undisturbed_def
proof (intro allI impI)
  fix w w'
  assume "rest_of_world adm cmp v w w'" and "P w"
  then show "P w'" by (induction rule: rtranclp_induct) (auto dest: assms)
qed

section \<open>What the operations of the client do\<close>

definition any_lrp :: "'w lrp_story \<Rightarrow> go_error + lrp \<Rightarrow> 'w \<Rightarrow> 'w \<Rightarrow> bool" where
  "any_lrp v r w w' \<longleftrightarrow> w' = w \<and> (\<forall>l. r = Inr l \<longrightarrow> l \<in> set (lrp_versions v w))"

definition any_stset :: "'w lrp_story \<Rightarrow> go_error + stateful_set \<Rightarrow> 'w \<Rightarrow> 'w \<Rightarrow> bool" where
  "any_stset v r w w' \<longleftrightarrow> w' = w \<and> (\<forall>st. r = Inr st \<longrightarrow> st \<in> set (stsets_held v w))"

text \<open>\<open>Create\<close> fails when there is a stateful set. An error does not mean that nothing was made.\<close>

definition stset_made :: "'w lrp_story \<Rightarrow> stateful_set \<Rightarrow> 'w \<Rightarrow> 'w \<Rightarrow> bool" where
  "stset_made v st w w' \<longleftrightarrow> w' = w \<or>
     stset_now v w = None \<and> same_lrp v w w' \<and> (\<exists>st'. accepted st st' \<and> now_holds v st' w w')"

text \<open>
  A merge patch sends the fields that differ from the original, a list as a whole; the server applies it
  to the stateful set that it holds.
\<close>

definition merged :: "stateful_set \<Rightarrow> stateful_set \<Rightarrow> stateful_set \<Rightarrow> stateful_set \<Rightarrow> bool" where
  "merged new old cur st \<longleftrightarrow> meta_key (st_meta st) = meta_key (st_meta cur) \<and>
     deployed st =
       (if st_replicas new = st_replicas old then st_replicas cur else st_replicas new,
        snd (deployed (if ps_containers (pt_spec (st_template new)) = ps_containers (pt_spec (st_template old)) then cur else new)))"

definition stset_patched :: "'w lrp_story \<Rightarrow> stateful_set \<Rightarrow> stateful_set \<Rightarrow> 'w \<Rightarrow> 'w \<Rightarrow> bool" where
  "stset_patched v new old w w' \<longleftrightarrow> w' = w \<or>
     (\<exists>cur st. stset_now v w = Some cur \<and> merged new old cur st \<and> now_holds v st w w' \<and> same_lrp v w w')"

text \<open>The answer to a patch of the status is the LRP that the server holds, or, on failure, what was sent.\<close>

definition lrp_status_patched :: "'w lrp_story \<Rightarrow> lrp \<Rightarrow> go_error option \<times> lrp \<Rightarrow> 'w \<Rightarrow> 'w \<Rightarrow> bool" where
  "lrp_status_patched v new r w w' \<longleftrightarrow> same_stset v w w' \<and>
     (lrp_versions v w' = lrp_versions v w \<or>
      lrp_versions v w' = lrp_versions v w @ [(last (lrp_versions v w))\<lparr>lr_status_replicas := lr_status_replicas new\<rparr>]) \<and>
     (lr_spec (snd r) = lr_spec new \<or> lr_spec (snd r) \<in> lr_spec ` set (lrp_versions v w))"

definition lrp_server ::
  "admission_lib \<Rightarrow> 's cmp_lib \<Rightarrow> 'w client \<Rightarrow> 'w lrp_story \<Rightarrow> namespaced_name \<Rightarrow> namespaced_name \<Rightarrow> bool" where
  "lrp_server adm cmp cl v k sk \<longleftrightarrow>
     effect (rest_of_world adm cmp v) (get_lrp cl k) (any_lrp v) \<and>
     effect (rest_of_world adm cmp v) (get_stset cl sk) (any_stset v) \<and>
     (\<forall>st. meta_key (st_meta st) = sk \<longrightarrow> effect (rest_of_world adm cmp v) (create_stset cl st) (\<lambda>r. stset_made v st)) \<and>
     (\<forall>new old. meta_key (st_meta new) = sk \<longrightarrow>
        effect (rest_of_world adm cmp v) (patch_stset cl new old) (\<lambda>r. stset_patched v new old)) \<and>
     (\<forall>new old. effect (rest_of_world adm cmp v) (patch_lrp_status cl new old) (lrp_status_patched v new))"

text \<open>The other objects and the metrics are something else.\<close>

definition lrp_unrelated :: "admission_lib \<Rightarrow> 's cmp_lib \<Rightarrow> 'w client \<Rightarrow> 'w metrics \<Rightarrow> 'w lrp_story \<Rightarrow> bool" where
  "lrp_unrelated adm cmp cl mx v \<longleftrightarrow>
     (\<forall>s. effect (rest_of_world adm cmp v) (create_secret cl s) (\<lambda>r w w'. w' = w)) \<and>
     (\<forall>s old. effect (rest_of_world adm cmp v) (patch_secret cl s old) (\<lambda>r w w'. w' = w)) \<and>
     (\<forall>s. effect (rest_of_world adm cmp v) (delete_secret cl s) (\<lambda>r w w'. w' = w)) \<and>
     (\<forall>p. effect (rest_of_world adm cmp v) (create_pdb cl p) (\<lambda>r w w'. w' = w)) \<and>
     (\<forall>ns n. effect (rest_of_world adm cmp v) (delete_all_pdbs cl ns n) (\<lambda>r w w'. w' = w)) \<and>
     (\<forall>c. effect (rest_of_world adm cmp v) (mx_inc mx c) (\<lambda>r w w'. w' = w)) \<and>
     (\<forall>c i. effect (rest_of_world adm cmp v) (mx_observe mx c i) (\<lambda>r w w'. w' = w)) \<and>
     effect (rest_of_world adm cmp v) (mx_now mx) (\<lambda>r w w'. w' = w) \<and>
     (\<forall>t. effect (rest_of_world adm cmp v) (mx_since mx t) (\<lambda>r w w'. w' = w))"

inductive lrp_saga ::
  "admission_lib \<Rightarrow> 's cmp_lib \<Rightarrow> 'w lrp_story \<Rightarrow> ('w, reconcile_result outcome) io \<Rightarrow> 'w \<Rightarrow> 'w \<Rightarrow> bool"
  for adm cmp v reconcile w0 where
  start: "lrp_saga adm cmp v reconcile w0 w0"
| reconciled: "lrp_saga adm cmp v reconcile w0 w'" if "lrp_saga adm cmp v reconcile w0 w" "run_state reconcile w = (r, w')"
| other: "lrp_saga adm cmp v reconcile w0 w'" if "lrp_saga adm cmp v reconcile w0 w" "meanwhile adm cmp v w w'"

section \<open>The invariant\<close>

text \<open>The number of replicas, and the image of every container, are those of versions of the LRP.\<close>

definition asked_for :: "lrp_spec set \<Rightarrow> deployment \<Rightarrow> bool" where
  "asked_for specs d \<longleftrightarrow> (\<exists>s \<in> specs. fst d = Some (to_int32 (ls_instances s))) \<and>
     (\<forall>(c, img) \<in> set (snd d). \<exists>s \<in> specs. img = ls_image s)"

definition specs :: "'w lrp_story \<Rightarrow> 'w \<Rightarrow> lrp_spec set" where
  "specs v w = lr_spec ` set (lrp_versions v w)"

definition lrp_identity :: "string \<Rightarrow> namespaced_name \<Rightarrow> lrp \<Rightarrow> bool" where
  "lrp_identity n sk l \<longleftrightarrow> get_statefulset_name l = Inr n \<and> (om_namespace (lr_meta l), n) = sk"

definition legitimate :: "'w lrp_story \<Rightarrow> string \<Rightarrow> namespaced_name \<Rightarrow> 'w \<Rightarrow> bool" where
  "legitimate v n sk w \<longleftrightarrow> lrp_versions v w \<noteq> [] \<and> (\<forall>l \<in> set (lrp_versions v w). lrp_identity n sk l) \<and>
     (\<forall>st. stset_now v w = Some st \<longrightarrow> st \<in> set (stsets_held v w)) \<and>
     (\<forall>st \<in> set (stsets_held v w). meta_key (st_meta st) = sk \<and> asked_for (specs v w) (deployed st))"

lemma asked_for_mono: "asked_for s d \<Longrightarrow> s \<subseteq> s' \<Longrightarrow> asked_for s' d"
  unfolding asked_for_def by blast

lemma legitimate_version:
  assumes "legitimate v n sk w" "lrp_versions v w' = lrp_versions v w @ [x]" "lrp_identity n sk x" "same_stset v w w'"
  shows "legitimate v n sk w'"
proof -
  have "specs v w \<subseteq> specs v w'" using assms(2) by (auto simp: specs_def)
  then have "asked_for (specs v w) d \<Longrightarrow> asked_for (specs v w') d" for d
    by (rule asked_for_mono [rotated])
  with assms show ?thesis
    by (auto simp: legitimate_def same_stset_def)
qed

lemma legitimate_held:
  assumes "legitimate v n sk w" "now_holds v st w w'" "same_lrp v w w'"
    and "meta_key (st_meta st) = sk" "asked_for (specs v w) (deployed st)"
  shows "legitimate v n sk w'"
  using assms by (auto simp: legitimate_def now_holds_def same_lrp_def specs_def)

lemma identity_same_spec:
  assumes "lrp_identity n sk l" "lr_spec x = lr_spec l" "meta_key (lr_meta x) = meta_key (lr_meta l)"
  shows "lrp_identity n sk x"
  using assms(1,3) stset_name_spec [OF assms(2)] by (simp add: lrp_identity_def)

lemma identity_admitted:
  assumes "cmp_laws cmp" "admitted_change adm cmp old x" "lrp_identity n sk old"
  shows "lrp_identity n sk x"
proof -
  from assms(2) consider (same) "lr_spec x = lr_spec old"
    | (edited) req new where "decode_raw_lrp adm (ar_old_object req) = Inr old" "decode_raw_lrp adm (ar_object req) = Inr new"
        "validator_handle (new_lrp_resource_validator adm cmp) req = Returns (Answer True None)" "lr_spec x = lr_spec new"
    unfolding admitted_change_def by blast
  then have "get_statefulset_name x = get_statefulset_name old"
  proof cases
    case same
    then show ?thesis by (rule stset_name_spec)
  next
    case edited
    from admitted_unchanged [OF assms(1) edited(2,1,3)] edited(4) show ?thesis
      by (intro unchanged_identity(1)) simp
  qed
  with assms(2,3) show ?thesis by (simp add: lrp_identity_def admitted_change_def)
qed

lemma legitimate_meanwhile:
  assumes "cmp_laws cmp" "meanwhile adm cmp v w w'" "legitimate v n sk w"
  shows "legitimate v n sk w'"
  using assms(2)
proof cases
  case (lrp_changed x)
  have "lrp_identity n sk (last (lrp_versions v w))" using assms(3) by (simp add: legitimate_def)
  then have "lrp_identity n sk x" by (rule identity_admitted [OF assms(1) lrp_changed(2)])
  then show ?thesis by (rule legitimate_version [OF assms(3) lrp_changed(1) _ lrp_changed(3)])
next
  case (stset_reported st st')
  from stset_reported(1) assms(3) have "meta_key (st_meta st) = sk" "asked_for (specs v w) (deployed st)"
    by (simp_all add: legitimate_def)
  with stset_reported(4,5) show ?thesis by (intro legitimate_held [OF assms(3) stset_reported(2,3)]) simp_all
next
  case stset_deleted
  with assms(3) show ?thesis by (auto simp: legitimate_def same_lrp_def specs_def)
next
  case elsewhere
  with assms(3) show ?thesis by (auto simp: legitimate_def same_lrp_def same_stset_def specs_def)
qed

section \<open>The steps of a reconciliation\<close>

text \<open>The LRP in hand has the specification of some version; the stateful set in hand was once held.\<close>

definition in_hand :: "'w lrp_story \<Rightarrow> string \<Rightarrow> namespaced_name \<Rightarrow> lrp \<Rightarrow> 'w \<Rightarrow> bool" where
  "in_hand v n sk l w \<longleftrightarrow> legitimate v n sk w \<and> lr_spec l \<in> specs v w"

definition both_in_hand :: "'w lrp_story \<Rightarrow> string \<Rightarrow> namespaced_name \<Rightarrow> lrp \<Rightarrow> stateful_set \<Rightarrow> 'w \<Rightarrow> bool" where
  "both_in_hand v n sk l st w \<longleftrightarrow> in_hand v n sk l w \<and> asked_for (specs v w) (deployed st)"

lemma meanwhile_specs: "meanwhile adm cmp v w w' \<Longrightarrow> specs v w \<subseteq> specs v w'"
  by (induction rule: meanwhile.induct) (auto simp: specs_def same_lrp_def)

lemma stable_legitimate [stable_intros]:
  "cmp_laws cmp \<Longrightarrow> undisturbed (rest_of_world adm cmp v) (legitimate v n sk)"
  by (rule stable_rest) (rule legitimate_meanwhile)

lemma stable_in_hand [stable_intros]: "cmp_laws cmp \<Longrightarrow> undisturbed (rest_of_world adm cmp v) (in_hand v n sk l)"
  by (rule stable_rest) (auto simp: in_hand_def intro: legitimate_meanwhile dest: meanwhile_specs)

lemma stable_both_in_hand [stable_intros]:
  "cmp_laws cmp \<Longrightarrow> undisturbed (rest_of_world adm cmp v) (both_in_hand v n sk l st)"
  by (rule stable_rest) (auto simp: both_in_hand_def in_hand_def intro: legitimate_meanwhile asked_for_mono dest: meanwhile_specs)

lemma provenance_get_lrp:
  assumes "lrp_server adm cmp cl v k sk" "cmp_laws cmp"
  shows "triple (legitimate v n sk) (get_lrp cl k)
    (\<lambda>r w. (\<forall>l. r = Inr l \<longrightarrow> lrp_identity n sk l) \<and> legitimate v n sk w \<and> (\<forall>l. r = Inr l \<longrightarrow> in_hand v n sk l w))"
proof (rule triple_effect)
  show "effect (rest_of_world adm cmp v) (get_lrp cl k) (any_lrp v)" using assms(1) by (simp add: lrp_server_def)
  fix r w w2
  assume "legitimate v n sk w" "any_lrp v r w w2"
  then show "(\<forall>l. r = Inr l \<longrightarrow> lrp_identity n sk l) \<and> legitimate v n sk w2 \<and> (\<forall>l. r = Inr l \<longrightarrow> in_hand v n sk l w2)"
    by (auto simp: any_lrp_def in_hand_def specs_def) (simp add: legitimate_def)
qed (intro stable_intros assms(2))+

lemma held_legitimate:
  assumes "legitimate v n sk w" "st \<in> set (stsets_held v w)"
  shows "meta_key (st_meta st) = sk" "asked_for (specs v w) (deployed st)" "st_replicas st \<noteq> None"
  using assms by (auto simp: legitimate_def asked_for_def deployed_def)

lemma provenance_get_stset:
  assumes "lrp_server adm cmp cl v k sk" "cmp_laws cmp"
  shows "triple (in_hand v n sk l) (get_stset cl sk)
    (\<lambda>r w. (\<forall>st. r = Inr st \<longrightarrow> meta_key (st_meta st) = sk \<and> st_replicas st \<noteq> None) \<and>
       in_hand v n sk l w \<and> (\<forall>st. r = Inr st \<longrightarrow> both_in_hand v n sk l st w))"
proof (rule triple_effect)
  show "effect (rest_of_world adm cmp v) (get_stset cl sk) (any_stset v)" using assms(1) by (simp add: lrp_server_def)
  fix r w w2
  assume "in_hand v n sk l w" "any_stset v r w w2"
  then show "(\<forall>st. r = Inr st \<longrightarrow> meta_key (st_meta st) = sk \<and> st_replicas st \<noteq> None) \<and>
       in_hand v n sk l w2 \<and> (\<forall>st. r = Inr st \<longrightarrow> both_in_hand v n sk l st w2)"
    by (auto simp: any_stset_def both_in_hand_def in_hand_def dest: held_legitimate)
qed (intro stable_intros assms(2))+

lemma provenance_create:
  assumes "lrp_server adm cmp cl v k sk" "cmp_laws cmp" "meta_key (st_meta st) = sk"
    and "deployed st = first_deployment names (ls_instances (lr_spec l)) (ls_image (lr_spec l))"
  shows "triple (in_hand v n sk l) (create_stset cl st) (\<lambda>_. legitimate v n sk)"
proof (rule triple_effect)
  show "effect (rest_of_world adm cmp v) (create_stset cl st) (\<lambda>r. stset_made v st)"
    using assms(1,3) by (simp add: lrp_server_def)
  fix r w w2
  assume hand: "in_hand v n sk l w" and "stset_made v st w w2"
  then consider "w2 = w" | st' where "accepted st st'" "now_holds v st' w w2" "same_lrp v w w2"
    by (auto simp: stset_made_def)
  then show "legitimate v n sk w2"
  proof cases
    case 1
    with hand show ?thesis by (simp add: in_hand_def)
  next
    case 2
    have "asked_for (specs v w) (deployed st')"
      using hand assms(4) accepted_deployed [OF 2(1)] by (auto simp: in_hand_def asked_for_def first_deployment_def)
    moreover have "meta_key (st_meta st') = sk" "legitimate v n sk w"
      using 2(1) hand assms(3) by (simp_all add: in_hand_def accepted_def)
    ultimately show ?thesis
      by (intro legitimate_held [OF _ 2(2,3)])
  qed
qed (intro stable_intros assms(2))+

text \<open>What is merged from what was asked for was asked for.\<close>

lemma merged_asked_for:
  assumes "merged new old cur st" "asked_for s (deployed new)" "asked_for s (deployed cur)"
  shows "asked_for s (deployed st)"
  using assms by (auto simp: merged_def asked_for_def deployed_def split: if_splits)

lemma updated_asked_for:
  assumes "asked_for s (deployed st)" "lr_spec l \<in> s"
    and "get_updated_stset_obj st (ls_instances (lr_spec l)) (ls_image (lr_spec l)) = Returns (st', u)"
  shows "asked_for s (deployed st')"
  using assms(1,2) unfolding updated_deployed [OF assms(3)] by (fastforce simp: asked_for_def next_deployment_def)

lemma provenance_patch:
  assumes "lrp_server adm cmp cl v k sk" "cmp_laws cmp" "meta_key (st_meta new) = sk"
    and "get_updated_stset_obj old (ls_instances (lr_spec l)) (ls_image (lr_spec l)) = Returns (new, u)"
  shows "triple (both_in_hand v n sk l old) (patch_stset cl new old) (\<lambda>_. legitimate v n sk)"
proof (rule triple_effect)
  show "effect (rest_of_world adm cmp v) (patch_stset cl new old) (\<lambda>r. stset_patched v new old)"
    using assms(1,3) by (simp add: lrp_server_def)
  fix r w w2
  assume hand: "both_in_hand v n sk l old w" and "stset_patched v new old w w2"
  then consider "w2 = w"
    | cur st where "stset_now v w = Some cur" "merged new old cur st" "now_holds v st w w2" "same_lrp v w w2"
    unfolding stset_patched_def by blast
  then show "legitimate v n sk w2"
  proof cases
    case 1
    with hand show ?thesis by (simp add: both_in_hand_def in_hand_def)
  next
    case 2
    from hand have legit: "legitimate v n sk w" by (simp add: both_in_hand_def in_hand_def)
    with 2(1) have cur: "meta_key (st_meta cur) = sk" "asked_for (specs v w) (deployed cur)"
      by (auto simp: legitimate_def)
    have "asked_for (specs v w) (deployed new)"
      using hand assms(4) by (auto simp: both_in_hand_def in_hand_def intro: updated_asked_for)
    then have "asked_for (specs v w) (deployed st)"
      by (rule merged_asked_for [OF 2(2) _ cur(2)])
    moreover have "meta_key (st_meta st) = sk" using 2(2) cur(1) by (simp add: merged_def)
    ultimately show ?thesis by (intro legitimate_held [OF legit 2(3,4)])
  qed
qed (intro stable_intros assms(2))+

lemma provenance_patch_status:
  assumes "lrp_server adm cmp cl v k sk" "cmp_laws cmp" "lr_spec new = lr_spec l"
  shows "triple (both_in_hand v n sk l st) (patch_lrp_status cl new old) (\<lambda>r. both_in_hand v n sk (snd r) st)"
proof (rule triple_effect)
  show "effect (rest_of_world adm cmp v) (patch_lrp_status cl new old) (lrp_status_patched v new)"
    using assms(1) by (simp add: lrp_server_def)
  fix r w w2
  assume hand: "both_in_hand v n sk l st w" and eff: "lrp_status_patched v new r w w2"
  from hand have legit: "legitimate v n sk w" by (simp add: both_in_hand_def in_hand_def)
  let ?x = "(last (lrp_versions v w))\<lparr>lr_status_replicas := lr_status_replicas new\<rparr>"
  have "lrp_identity n sk (last (lrp_versions v w))" using legit by (simp add: legitimate_def)
  then have "lrp_identity n sk ?x" by (rule identity_same_spec) simp_all
  then have "legitimate v n sk w2"
    using eff legit legitimate_version [OF legit, of w2 ?x]
    by (auto simp: lrp_status_patched_def legitimate_def same_stset_def specs_def)
  moreover have mono: "specs v w \<subseteq> specs v w2"
    using eff by (auto simp: lrp_status_patched_def specs_def)
  moreover have "asked_for (specs v w2) (deployed st)"
    using hand by (intro asked_for_mono [OF _ mono]) (simp add: both_in_hand_def)
  moreover have "lr_spec (snd r) \<in> specs v w"
    using eff hand assms(3) by (auto simp: lrp_status_patched_def specs_def both_in_hand_def in_hand_def)
  ultimately show "both_in_hand v n sk (snd r) st w2"
    by (auto simp: both_in_hand_def in_hand_def)
qed (intro stable_intros assms(2))+

section \<open>A reconciliation\<close>

lemma unrelated_calls:
  assumes "lrp_unrelated adm cmp cl mx v" "undisturbed (rest_of_world adm cmp v) P"
  shows "triple P (create_secret cl s) (\<lambda>_. P)" "triple P (patch_secret cl s old) (\<lambda>_. P)"
    "triple P (delete_secret cl s) (\<lambda>_. P)" "triple P (create_pdb cl p) (\<lambda>_. P)" "triple P (delete_all_pdbs cl ns name) (\<lambda>_. P)"
    "triple P (mx_inc mx c) (\<lambda>_. P)" "triple P (mx_observe mx c i) (\<lambda>_. P)" "triple P (mx_now mx) (\<lambda>_. P)"
    "triple P (mx_since mx t) (\<lambda>_. P)"
  by (rule triple_silent [OF _ assms(2)], use assms(1) in \<open>simp add: lrp_unrelated_def\<close>)+

lemma unrelated_budget:
  assumes "lrp_unrelated adm cmp cl mx v" "undisturbed (rest_of_world adm cmp v) P"
  shows "triple P (pdb_update cl lib st l) (\<lambda>_. P)"
  unfolding pdb_update_def pdb_create_def pdb_delete_def Let_def
  by (intro triple_intros triple_bind [OF unrelated_calls(4) [OF assms]] triple_bind [OF unrelated_calls(5) [OF assms]])

lemma unrelated_secret:
  assumes "lrp_unrelated adm cmp cl mx v" "undisturbed (rest_of_world adm cmp v) P"
  shows "triple P (create_registry_creds_secret_if_required cl l) (\<lambda>_. P)" and "triple P (set_secret_owner cl lib sec st) (\<lambda>_. P)"
    and "triple P (cleanup_and_error cl lib e sec) (\<lambda>_. P)"
proof -
  note silent = unrelated_calls [OF assms]
  show "triple P (create_registry_creds_secret_if_required cl l) (\<lambda>_. P)"
    unfolding create_registry_creds_secret_if_required_def by (intro triple_intros triple_bind [OF silent(1)])
  show "triple P (set_secret_owner cl lib sec st) (\<lambda>_. P)"
    unfolding set_secret_owner_def by (intro triple_intros triple_bind [OF silent(2)])
  show "triple P (cleanup_and_error cl lib e sec) (\<lambda>_. P)"
    unfolding cleanup_and_error_def Let_def by (intro triple_intros triple_bind [OF silent(3)])
qed

lemma provenance_desire:
  assumes "lrp_server adm cmp cl v k sk" "lrp_unrelated adm cmp cl mx v" "cmp_laws cmp" "owner_laws lib" "lrp_identity n sk l"
  shows "triple (in_hand v n sk l) (desire (controller_desirer c rng cl lib) l) (\<lambda>_. legitimate v n sk)"
proof -
  note legit = stable_legitimate [OF assms(3)] and hand = stable_in_hand [OF assms(3)]
  have name: "get_statefulset_name l = Inr n" "sk = (om_namespace (lr_meta l), n)"
    using assms(5) by (simp_all add: lrp_identity_def)
  have weak: "in_hand v n sk l w \<Longrightarrow> legitimate v n sk w" for w by (simp add: in_hand_def)
  have create: "triple (in_hand v n sk l) (create_stset cl (st\<lparr>st_meta := m', st_meta := m\<rparr>)) (\<lambda>_. legitimate v n sk)"
    if "convert c rng n l s = Inr st" "m' = (st_meta st)\<lparr>om_namespace := om_namespace (lr_meta l)\<rparr>"
      "set_controller_reference lib kind ow m' = Inr m" for s st kind ow m m'
  proof (rule provenance_create [OF assms(1,3)])
    show "meta_key (st_meta (st\<lparr>st_meta := m', st_meta := m\<rparr>)) = sk"
      using owner_namespace(1) [OF assms(4) that(3)] converter.name [OF that(1)] that(2) name by simp
    show "deployed (st\<lparr>st_meta := m', st_meta := m\<rparr>) =
        first_deployment (container_names l) (ls_instances (lr_spec l)) (ls_image (lr_spec l))"
      using convert_deployed [OF that(1)] by (simp add: deployed_def)
  qed
  show ?thesis
    unfolding desire_def controller_desirer_def new_stset_desirer_def stset_desirer.simps name(1) sum.case Let_def
    by (intro triple_bind [OF unrelated_secret(1) [OF assms(2) hand]] triple_case_prod triple_case_option triple_case_sum
        triple_bind [OF create] triple_if triple_ret unrelated_secret(3) [OF assms(2) legit]
        triple_bind [OF unrelated_secret(2) [OF assms(2) legit]] triple_bind [OF unrelated_budget [OF assms(2) legit]])
      (auto intro: weak)
qed

lemma provenance_decorated:
  assumes "lrp_unrelated adm cmp cl mx v" "cmp_laws cmp"
    and "triple (in_hand v n sk l) (des l) (\<lambda>_. legitimate v n sk)"
  shows "triple (in_hand v n sk l) (decorated_desire (decorate mx des) l) (\<lambda>_. legitimate v n sk)"
proof -
  note mx = unrelated_calls [OF assms(1) stable_legitimate [OF assms(2)]]
  show ?thesis
    unfolding decorated_desire_def decorate_def desirer_decorator.simps
    by (intro triple_bind [OF unrelated_calls(8) [OF assms(1) stable_in_hand [OF assms(2)]]] triple_bind [OF assms(3)]
        triple_if triple_bind [OF mx(6)] triple_bind [OF mx(7)] triple_bind [OF mx(9)] triple_ret)
qed

lemma provenance_update:
  assumes "lrp_server adm cmp cl v k sk" "lrp_unrelated adm cmp cl mx v" "cmp_laws cmp"
    and "meta_key (st_meta st) = sk" "st_replicas st \<noteq> None"
  shows "triple (both_in_hand v n sk l st) (stset_update (controller_updater cl lib) l st) (\<lambda>_. legitimate v n sk)"
proof -
  obtain st' u where upd: "get_updated_stset_obj st (ls_instances (lr_spec l)) (ls_image (lr_spec l)) = Returns (st', u)"
    using assms(5) updated_panics [of st "ls_instances (lr_spec l)" "ls_image (lr_spec l)"]
    by (cases "get_updated_stset_obj st (ls_instances (lr_spec l)) (ls_image (lr_spec l))") auto
  have "meta_key (st_meta st') = sk"
    using updates_only_meta [OF updated_frame [OF upd]] assms(4) by simp
  note patch = provenance_patch [OF assms(1,3) this upd]
  have weak: "both_in_hand v n sk l st w \<Longrightarrow> legitimate v n sk w" for w by (simp add: both_in_hand_def in_hand_def)
  show ?thesis
    unfolding stset_update_def controller_updater_def new_stset_updater_def stset_updater.simps upd outcome.case prod.case
    by (intro triple_if triple_ret triple_bind [OF patch] triple_case_prod triple_case_option
        triple_bind [OF unrelated_budget [OF assms(2) stable_legitimate [OF assms(3)]]]) (auto intro: weak)
qed

lemma provenance_reconcile:
  assumes "lrp_server adm cmp cl v k sk" "lrp_unrelated adm cmp cl mx v" "cmp_laws cmp" "owner_laws lib"
  shows "triple (legitimate v n sk) (plain_reconcile cl lib mx rng cfg k) (\<lambda>_. legitimate v n sk)"
proof -
  let ?R = "controller_lrp_reconciler cl lib mx rng cfg"
  have weak: "in_hand v n sk l w \<Longrightarrow> legitimate v n sk w" for l w by (simp add: in_hand_def)
  have do: "triple (in_hand v n sk l) (lrp_do ?R l) (\<lambda>_. legitimate v n sk)" if "lrp_identity n sk l" for l
  proof -
    have name: "get_statefulset_name l = Inr n" "(om_namespace (lr_meta l), n) = sk"
      using that by (simp_all add: lrp_identity_def)
    have desired: "triple (in_hand v n sk l) (rl_desirer ?R l) (\<lambda>_. legitimate v n sk)"
      unfolding plain_fields by (rule provenance_decorated [OF assms(2,3)], rule provenance_desire [OF assms that])
    have status: "triple (both_in_hand v n sk l st) (update_lrp_status cl l st) (\<lambda>r. both_in_hand v n sk (snd r) st)" for st
      unfolding update_lrp_status_def Let_def by (rule provenance_patch_status [OF assms(1,3)]) simp
    have existing: "triple (both_in_hand v n sk l st) (do {
        (err, l) \<leftarrow> update_lrp_status cl l st;
        (let errs = multierror_append lib [] (wrap_err ''failed to update lrp status'' err)
         in do {
           res \<leftarrow> stset_update (controller_updater cl lib) l st;
           ret (case res of
                  Panics \<Rightarrow> Panics
                | Returns err \<Rightarrow> Returns (error_or_nil lib
                    (multierror_append lib errs (wrap_err ''failed to update app'' err))))
         })
      }) (\<lambda>_. legitimate v n sk)" if "meta_key (st_meta st) = sk" "st_replicas st \<noteq> None" for st
      unfolding Let_def
      by (intro triple_bind [OF status] triple_case_prod
          triple_bind [OF triple_pre [OF provenance_update [OF assms(1-3) that]]] triple_ret) auto
    show ?thesis
      unfolding lrp_do_def name sum.case plain_fields(1-3)
      by (intro triple_bind [OF provenance_get_stset [OF assms(1,3)]] triple_fact triple_case_sum triple_if
          triple_bind [OF triple_pre [OF desired]] triple_ret triple_pre [OF existing]) (auto intro: weak)
  qed
  show ?thesis
    unfolding lrp_reconcile_def plain_fields(1,2)
    by (intro triple_bind [OF provenance_get_lrp [OF assms(1,3)]] triple_fact triple_case_sum triple_if triple_ret
        triple_bind [OF triple_pre [OF do]]) auto
qed

section \<open>Properties\<close>

text \<open>
  C3: nothing is deployed that was not asked for. In every sequence of reconciliations of an LRP and of what
  others do, before, between and during them, however old the versions of the LRP and of its stateful set are
  that the cache shows, whichever calls fail and whichever answers are lost: every stateful set that the server
  ever holds for the LRP has the number of replicas of some version of the LRP, and every container of it
  runs the image of some version of the LRP.
\<close>

theorem only_asked_for:
  assumes "lrp_server adm cmp cl v k sk" "lrp_unrelated adm cmp cl mx v" "cmp_laws cmp" "owner_laws lib"
    and "lrp_versions v w0 = [l]" "stset_now v w0 = None" "stsets_held v w0 = []"
    and "get_statefulset_name l = Inr n" "sk = (om_namespace (lr_meta l), n)"
    and "lrp_saga adm cmp v (plain_reconcile cl lib mx rng cfg k) w0 w" "st \<in> set (stsets_held v w)"
  shows "meta_key (st_meta st) = sk \<and>
    (\<exists>x \<in> set (lrp_versions v w). st_replicas st = Some (to_int32 (ls_instances (lr_spec x)))) \<and>
    (\<forall>co \<in> set (ps_containers (pt_spec (st_template st))).
       \<exists>x \<in> set (lrp_versions v w). co_image co = ls_image (lr_spec x))"
proof -
  from assms(10) have "legitimate v n sk w"
  proof (induction rule: lrp_saga.induct)
    case start
    show ?case using assms(5-9) by (simp add: legitimate_def lrp_identity_def)
  next
    case (reconciled w r w')
    then show ?case using tripleD [OF provenance_reconcile [OF assms(1-4)]] by blast
  next
    case (other w w')
    show ?case by (rule legitimate_meanwhile [OF assms(3) other.hyps(2) other.IH])
  qed
  from held_legitimate(1,2) [OF this assms(11)] show ?thesis
    by (auto simp: asked_for_def deployed_def specs_def)
qed

section \<open>Witnesses\<close>

text \<open>A cluster whose cache always shows the first version of the stateful set.\<close>

record lrp_world =
  lw_versions :: "lrp list"
  lw_stset :: "stateful_set option"
  lw_held :: "stateful_set list"

definition lrp_world_story :: "lrp_world lrp_story" where
  "lrp_world_story = \<lparr>lrp_versions = lw_versions, stset_now = lw_stset, stsets_held = lw_held\<rparr>"

definition put_stset :: "stateful_set \<Rightarrow> lrp_world \<Rightarrow> lrp_world" where
  "put_stset st w = w\<lparr>lw_stset := Some st, lw_held := lw_held w @ [st]\<rparr>"

definition merge_patch :: "stateful_set \<Rightarrow> stateful_set \<Rightarrow> stateful_set \<Rightarrow> stateful_set" where
  "merge_patch new old cur =
     (let st = (if st_replicas new = st_replicas old then cur else cur\<lparr>st_replicas := st_replicas new\<rparr>);
          cs = ps_containers (pt_spec (st_template new))
      in if cs = ps_containers (pt_spec (st_template old)) then st
         else st\<lparr>st_template := (st_template st)\<lparr>pt_spec := (pt_spec (st_template st))\<lparr>ps_containers := cs\<rparr>\<rparr>\<rparr>)"

lemma merge_patch_merged: "merged new old cur (merge_patch new old cur)"
  by (simp add: merged_def merge_patch_def deployed_def Let_def)

definition stale_client :: "lrp_world client" where
  "stale_client = dead_client
     \<lparr>get_lrp := \<lambda>k. State (\<lambda>w. (if lw_versions w = [] then not_found else Inr (last (lw_versions w)), w)),
      get_stset := \<lambda>k. State (\<lambda>w. (if lw_held w = [] then not_found else Inr (hd (lw_held w)), w)),
      create_stset := \<lambda>st. State (\<lambda>w. if lw_stset w = None then ((None, st), put_stset st w)
        else ((Some (StatusError ''AlreadyExists'' ''stateful set exists''), st), w)),
      patch_stset := \<lambda>new old. State (\<lambda>w. case lw_stset w of
          None \<Rightarrow> ((Some no_answer, new), w)
        | Some cur \<Rightarrow> ((None, merge_patch new old cur), put_stset (merge_patch new old cur) w)),
      patch_lrp_status := \<lambda>new old. ret (Some no_answer, new)\<rparr>"

lemma effect_at_once:
  "(\<And>w. eff (fst (run_state m w)) w (snd (run_state m w))) \<Longrightarrow> effect (rest_of_world adm cmp v) m eff"
  unfolding effect_def by blast

lemma stale_server: "lrp_server adm cmp stale_client lrp_world_story k sk"
  unfolding lrp_server_def
  by (intro conjI allI impI; rule effect_at_once)
    (auto simp: stale_client_def dead_client_def lrp_world_story_def any_lrp_def any_stset_def stset_made_def
      stset_patched_def lrp_status_patched_def same_lrp_def same_stset_def not_found_def now_holds_def put_stset_def
      accepted_def merge_patch_merged split: option.split)

lemma stale_unrelated: "lrp_unrelated adm cmp stale_client plain_metrics lrp_world_story"
  unfolding lrp_unrelated_def
  by (intro conjI allI; rule effect_at_once) (simp_all add: stale_client_def dead_client_def plain_metrics_def)

definition lrp_begin :: lrp_world where
  "lrp_begin = \<lparr>lw_versions = [sample_lrp], lw_stset = None, lw_held = []\<rparr>"

text \<open>The LRP is reconciled, scaled to five instances, and reconciled twice.\<close>

abbreviation stale_run :: "lrp_world \<Rightarrow> lrp_world" where
  "stale_run w \<equiv> snd (run_state (plain_reconcile stale_client sample_lib plain_metrics (\<lambda>_ m. m) sample_config
     (meta_key (lr_meta sample_lrp))) w)"

definition scaled_up :: "lrp_world \<Rightarrow> lrp_world" where
  "scaled_up w = w\<lparr>lw_versions := lw_versions w @ [scaled_lrp]\<rparr>"

lemma sample_change: "admitted_change sample_admission sample_cmp sample_lrp scaled_lrp"
proof -
  obtain req where req: "decode_raw_lrp sample_admission (ar_old_object req) = Inr sample_lrp"
    "decode_raw_lrp sample_admission (ar_object req) = Inr scaled_lrp"
    "validator_handle (new_lrp_resource_validator sample_admission sample_cmp) req = Returns (Answer True None)"
    by (rule sample_admitted)
  then have "\<exists>req new. decode_raw_lrp sample_admission (ar_old_object req) = Inr sample_lrp \<and>
      decode_raw_lrp sample_admission (ar_object req) = Inr new \<and>
      validator_handle (new_lrp_resource_validator sample_admission sample_cmp) req = Returns (Answer True None) \<and>
      lr_spec scaled_lrp = lr_spec new"
    by (intro exI [of _ req] exI [of _ scaled_lrp] conjI refl)
  then show ?thesis unfolding admitted_change_def by simp
qed

lemma first_stale_run:
  obtains st where "stale_run lrp_begin = put_stset st lrp_begin"
proof -
  let ?c = "controller_converter (cc_application_service_account sample_config) (cc_registry_secret_name sample_config)
      (cc_unsafe_allow_automount sample_config)"
  obtain n where n: "get_statefulset_name sample_lrp = Inr n" by (rule sample_name)
  obtain st where st: "convert ?c (\<lambda>_ m. m) n sample_lrp None = Inr st" by (simp add: convert_unfold)
  have plain: "ls_private_registry (lr_spec sample_lrp) = None" "ls_instances (lr_spec sample_lrp) = 2" by (simp_all add: sample_defs)
  have client: "get_lrp stale_client k = State (\<lambda>w. (if lw_versions w = [] then not_found else Inr (last (lw_versions w)), w))"
    "get_stset stale_client k = State (\<lambda>w. (if lw_held w = [] then not_found else Inr (hd (lw_held w)), w))"
    "create_stset stale_client x = State (\<lambda>w. if lw_stset w = None then ((None, x), put_stset x w)
        else ((Some (StatusError ''AlreadyExists'' ''stateful set exists''), x), w))"
    "create_pdb stale_client p = ret (Some no_answer, p)" for k x p
    by (simp_all add: stale_client_def dead_client_def)
  have owner: "placeable (lr_meta sample_lrp) (desired_meta sample_lrp st)" "uncontrolled (desired_meta sample_lrp st)"
    using converter.fresh [OF st] by (simp_all add: placeable_def uncontrolled_def)
  have budget: "placeable (st_meta x) (pd_meta (new_pdb x l))" for x l by (simp add: placeable_def new_pdb_def)
  have "\<exists>st. stale_run lrp_begin = put_stset st lrp_begin"
    using n st plain owner
    by (simp add: budget lrp_reconcile_def lrp_do_def plain_fields client decorated_desire_def decorate_def plain_metrics_def
        desire_def controller_desirer_def new_stset_desirer_def create_registry_creds_secret_if_required_def
        set_secret_owner_def pdb_update_def pdb_create_def lrp_begin_def not_found_def status_reason_def no_answer_def Let_def, blast)
  with that show ?thesis by blast
qed

theorem only_asked_for_witness:
  "let w1 = stale_run lrp_begin; w = stale_run (stale_run (scaled_up w1))
   in length (lw_held w1) = 1 \<and>
     list_all (\<lambda>st. list_ex (\<lambda>x. st_replicas st = Some (to_int32 (ls_instances (lr_spec x)))) (lw_versions w)) (lw_held w)"
proof -
  let ?k = "meta_key (lr_meta sample_lrp)"
  let ?rec = "plain_reconcile stale_client sample_lib plain_metrics (\<lambda>_ m. m) sample_config ?k"
  let ?saga = "lrp_saga sample_admission sample_cmp lrp_world_story ?rec lrp_begin"
  let ?w = "stale_run (stale_run (scaled_up (stale_run lrp_begin)))"
  obtain n where n: "get_statefulset_name sample_lrp = Inr n" by (rule sample_name)
  obtain st where w1: "stale_run lrp_begin = put_stset st lrp_begin" by (rule first_stale_run)
  have init: "lrp_versions lrp_world_story lrp_begin = [sample_lrp]" "stset_now lrp_world_story lrp_begin = None"
    "stsets_held lrp_world_story lrp_begin = []"
    by (simp_all add: lrp_world_story_def lrp_begin_def)
  have change: "meanwhile sample_admission sample_cmp lrp_world_story (stale_run lrp_begin) (scaled_up (stale_run lrp_begin))"
  proof (rule meanwhile.lrp_changed)
    show "admitted_change sample_admission sample_cmp (last (lrp_versions lrp_world_story (stale_run lrp_begin))) scaled_lrp"
      using sample_change unfolding w1 by (simp add: lrp_world_story_def put_stset_def lrp_begin_def)
  qed (simp_all add: lrp_world_story_def same_stset_def scaled_up_def)
  have again: "?saga w \<Longrightarrow> ?saga (stale_run w)" for w
    by (erule lrp_saga.reconciled) (rule prod.collapse [symmetric])
  have "?saga ?w"
    by (intro again lrp_saga.other [OF again [OF lrp_saga.start] change])
  note asked = only_asked_for [OF stale_server stale_unrelated sample_cmp_laws sample_owner_laws init n refl this]
  have "list_all (\<lambda>st. list_ex (\<lambda>x. st_replicas st = Some (to_int32 (ls_instances (lr_spec x)))) (lw_versions ?w)) (lw_held ?w)"
    using asked by (simp add: list_all_iff list_ex_iff lrp_world_story_def)
  moreover have "length (lw_held (stale_run lrp_begin)) = 1"
    unfolding w1 by (simp add: put_stset_def lrp_begin_def)
  ultimately show ?thesis by (simp add: Let_def)
qed

end
