(* ===== verification/Crash_Tally.thy ===== *)
theory Crash_Tally
  imports Pod_Crash Kube_Hoare
begin

text \<open>
  How often the crashes of a pod are counted: the container of the pod crashes again and again, and the
  pod crash reconciler runs in between, any number of times. Calls succeed, but for the patch that marks
  the pod, whose error the reconciler only logs.
\<close>

section \<open>The abstract tally\<close>

text \<open>The time of the last crash, the mark on the pod, and the sum of the counts of all events.\<close>

record tally =
  ty_time :: int
  ty_mark :: string
  ty_count :: i32

datatype pod_event = Crashed int | Observed reconcile_result bool

text \<open>
  A reconciliation counts the crash when the mark is not its time, and then marks it, or fails to.
\<close>

fun tallied :: "tally \<Rightarrow> pod_event \<Rightarrow> tally" where
  "tallied t (Crashed i) = t\<lparr>ty_time := i\<rparr>"
| "tallied t (Observed r b) =
     (if itoa (ty_time t) = ty_mark t then t
      else t\<lparr>ty_count := ty_count t + 1, ty_mark := if b then itoa (ty_time t) else ty_mark t\<rparr>)"

text \<open>The crashes that reconciliations have seen, by their times as they are printed.\<close>

fun seen_crashes :: "int \<Rightarrow> pod_event list \<Rightarrow> string list" where
  "seen_crashes i [] = []"
| "seen_crashes i (Crashed j # es) = seen_crashes j es"
| "seen_crashes i (Observed r b # es) = itoa i # seen_crashes i es"

fun all_marked :: "pod_event list \<Rightarrow> bool" where
  "all_marked [] = True"
| "all_marked (Crashed i # es) = all_marked es"
| "all_marked (Observed r b # es) = (b \<and> all_marked es)"

text \<open>When every mark succeeds, each of them is counted once.\<close>

lemma tallied_once:
  "all_marked es \<Longrightarrow> ty_count (foldl tallied t es) =
     ty_count t + of_nat (length (remdups_adj (ty_mark t # seen_crashes (ty_time t) es)) - 1)"
proof (induction es arbitrary: t)
  case Nil
  then show ?case by simp
next
  case (Cons e es)
  show ?case
  proof (cases e)
    case (Crashed i)
    then show ?thesis using Cons.IH [of "t\<lparr>ty_time := i\<rparr>"] Cons.prems by simp
  next
    case (Observed r b)
    let ?x = "itoa (ty_time t)" and ?t = "t\<lparr>ty_count := ty_count t + 1, ty_mark := itoa (ty_time t)\<rparr>"
    obtain n where n: "length (remdups_adj (?x # seen_crashes (ty_time t) es)) = Suc n"
      by (cases "remdups_adj (?x # seen_crashes (ty_time t) es)") auto
    show ?thesis
      using Cons.IH [of t] Cons.IH [of ?t] Cons.prems n by (auto simp: Observed)
  qed
qed

section \<open>A cluster with a pod\<close>

record 'w crash_view =
  held_pod :: "'w \<Rightarrow> pod option"
  held_events :: "'w \<Rightarrow> event list"

definition has_pod :: "'w crash_view \<Rightarrow> pod \<Rightarrow> event list \<Rightarrow> 'w \<Rightarrow> bool" where
  "has_pod v p es w \<longleftrightarrow> held_pod v w = Some p \<and> held_events v w = es"

abbreviation event_key :: "event \<Rightarrow> namespaced_name" where
  "event_key e \<equiv> meta_key (en_meta e)"

definition replace_event :: "event \<Rightarrow> event list \<Rightarrow> event list" where
  "replace_event e es = map (\<lambda>x. if event_key x = event_key e then e else x) es"

text \<open>
  Lists answer with the events that are selected, whatever the server makes of the selectors, as long as
  it does not look at counts and times; events are stored under fresh names; the patch of the pod
  succeeds or fails.
\<close>

type_synonym event_selector = "(string \<times> string) list \<Rightarrow> (string \<times> string) list \<Rightarrow> event \<Rightarrow> bool"

definition timeless :: "event_selector \<Rightarrow> bool" where
  "timeless sel \<longleftrightarrow> (\<forall>ls fs e n t. sel ls fs (e\<lparr>en_count := n, en_last_timestamp := t\<rparr>) = sel ls fs e)"

definition quiet_pod_server ::
  "'w client \<Rightarrow> 'w crash_view \<Rightarrow> event_selector \<Rightarrow> namespaced_name \<Rightarrow> namespaced_name \<Rightarrow> stateful_set \<Rightarrow> bool" where
  "quiet_pod_server cl v sel k sk st \<longleftrightarrow> (\<forall>p es.
     triple (has_pod v p es) (get_pod cl k) (\<lambda>r w. r = Inr p \<and> has_pod v p es w) \<and>
     triple (has_pod v p es) (get_stset cl sk) (\<lambda>r w. r = Inr st \<and> has_pod v p es w) \<and>
     triple (has_pod v p es) (time_now cl) (\<lambda>_. has_pod v p es) \<and>
     (\<forall>ns ls fs. triple (has_pod v p es) (list_events cl ns ls fs)
        (\<lambda>r w. r = Inr (filter (sel ls fs) es) \<and> has_pod v p es w)) \<and>
     (\<forall>e. triple (has_pod v p es) (create_event cl e) (\<lambda>r w. fst r = None \<and>
        (\<exists>e'. event_key e' \<notin> event_key ` set es \<and> en_count e' = en_count e \<and> en_reason e' = en_reason e \<and>
           has_pod v p (es @ [e']) w))) \<and>
     (\<forall>e. event_key e \<in> event_key ` set es \<longrightarrow> triple (has_pod v p es) (update_event cl e)
        (\<lambda>r w. fst r = None \<and> has_pod v p (replace_event e es) w)) \<and>
     (\<forall>new. triple (has_pod v p es) (patch_pod cl new p)
        (\<lambda>r w. has_pod v (if fst r = None then new else p) es w)))"

lemma quiet_pod_rules:
  assumes "quiet_pod_server cl v sel k sk st"
  shows pod_get: "triple (has_pod v p es) (get_pod cl k) (\<lambda>r w. r = Inr p \<and> has_pod v p es w)"
    and pod_stset: "triple (has_pod v p es) (get_stset cl sk) (\<lambda>r w. r = Inr st \<and> has_pod v p es w)"
    and pod_now: "triple (has_pod v p es) (time_now cl) (\<lambda>_. has_pod v p es)"
    and pod_list: "triple (has_pod v p es) (list_events cl ns ls fs)
      (\<lambda>r w. r = Inr (filter (sel ls fs) es) \<and> has_pod v p es w)"
    and pod_create: "triple (has_pod v p es) (create_event cl e) (\<lambda>r w. fst r = None \<and>
        (\<exists>e'. event_key e' \<notin> event_key ` set es \<and> en_count e' = en_count e \<and> en_reason e' = en_reason e \<and>
           has_pod v p (es @ [e']) w))"
    and pod_update: "event_key e \<in> event_key ` set es \<Longrightarrow> triple (has_pod v p es) (update_event cl e)
        (\<lambda>r w. fst r = None \<and> has_pod v p (replace_event e es) w)"
    and pod_patch: "triple (has_pod v p es) (patch_pod cl new p) (\<lambda>r w. has_pod v (if fst r = None then new else p) es w)"
  using assms unfolding quiet_pod_server_def by simp_all

section \<open>The pod and the events\<close>

text \<open>The application container has terminated, or was restarted after that, and the pod is not being killed.\<close>

definition crashing :: "pod \<Rightarrow> bool" where
  "crashing p \<longleftrightarrow> map_get (om_labels (po_meta p)) label_source_type = app_source_type \<and>
     (\<exists>s t. get_application_container_status (po_container_statuses p) = Some s \<and> reported_termination s = Some t)"

definition pod_events :: "event_selector \<Rightarrow> pod \<Rightarrow> event list \<Rightarrow> event list" where
  "pod_events sel p = filter (sel [] [(index_event_involved_object_kind, ''Pod''),
     (index_event_involved_object_name, om_name (po_meta p))])"

definition countable_events :: "event_selector \<Rightarrow> pod \<Rightarrow> event list \<Rightarrow> bool" where
  "countable_events sel p es \<longleftrightarrow> distinct (map event_key es) \<and> \<not> is_stopped (pod_events sel p es)"

definition marked :: "pod \<Rightarrow> bool" where
  "marked p \<longleftrightarrow> map_get (om_annotations (po_meta p)) annotation_last_reported_lrp_crash = itoa (crash_time p)"

definition total_count :: "event list \<Rightarrow> i32" where
  "total_count es = sum_list (map en_count es)"

definition tally_of :: "pod \<Rightarrow> event list \<Rightarrow> tally" where
  "tally_of p es = \<lparr>ty_time = crash_time p,
     ty_mark = map_get (om_annotations (po_meta p)) annotation_last_reported_lrp_crash, ty_count = total_count es\<rparr>"

text \<open>A crash is recorded: an event is counted up, or a new one is added.\<close>

inductive recorded :: "event list \<Rightarrow> event list \<Rightarrow> bool" where
  counted_up: "recorded es (replace_event (e\<lparr>en_count := en_count e + 1, en_last_timestamp := t\<rparr>) es)" if "e \<in> set es"
| added: "recorded es (es @ [e])" if "event_key e \<notin> event_key ` set es" "en_count e = 1" "en_reason e \<noteq> event_killing"

lemma replace_event_keys: "map event_key (replace_event e es) = map event_key es"
  by (induction es) (auto simp: replace_event_def)

lemma replace_event_other: "event_key e \<notin> event_key ` set es \<Longrightarrow> replace_event e es = es"
  by (induction es) (auto simp: replace_event_def)

lemma replace_event_total:
  assumes "distinct (map event_key es)" "e \<in> set es" "event_key e' = event_key e" "en_count e' = en_count e + 1"
  shows "total_count (replace_event e' es) = total_count es + 1"
  using assms(1,2)
proof (induction es)
  case (Cons x es)
  show ?case
  proof (cases "event_key x = event_key e")
    case True
    then have "x = e" using Cons.prems by (auto simp: image_iff)
    moreover from this have "replace_event e' es = es"
      using Cons.prems assms(3) by (intro replace_event_other) auto
    ultimately show ?thesis
      using assms(3,4) by (simp add: replace_event_def total_count_def)
  next
    case False
    then show ?thesis using Cons assms(3) by (auto simp: replace_event_def total_count_def)
  qed
qed simp

lemma recorded_total: "recorded es es' \<Longrightarrow> distinct (map event_key es) \<Longrightarrow> total_count es' = total_count es + 1"
proof (induction rule: recorded.induct)
  case (counted_up e es t)
  then show ?case by (intro replace_event_total [of es e]) simp_all
next
  case (added e es)
  then show ?case by (simp add: total_count_def)
qed

lemma recorded_distinct: "recorded es es' \<Longrightarrow> distinct (map event_key es) \<Longrightarrow> distinct (map event_key es')"
  by (induction rule: recorded.induct) (auto simp: replace_event_keys)

text \<open>Whether the pod is being killed is the reason of its last event, which recording a crash does not change.\<close>

lemma is_stopped_reasons: "is_stopped es \<longleftrightarrow> map en_reason es \<noteq> [] \<and> last (map en_reason es) = event_killing"
  by (auto simp: is_stopped_def Let_def last_conv_nth)

lemma replace_event_reasons:
  assumes "distinct (map event_key es)" "e \<in> set es" "event_key e' = event_key e" "en_reason e' = en_reason e" "P e' = P e"
  shows "map en_reason (filter P (replace_event e' es)) = map en_reason (filter P es)"
  using assms(1,2)
proof (induction es)
  case (Cons x es)
  show ?case
  proof (cases "event_key x = event_key e")
    case True
    then have "x = e" using Cons.prems by (auto simp: image_iff)
    moreover from this have "replace_event e' es = es"
      using Cons.prems assms(3) by (intro replace_event_other) auto
    ultimately show ?thesis
      using assms(3-5) by (simp add: replace_event_def)
  next
    case False
    then show ?thesis using Cons assms(3) by (auto simp: replace_event_def)
  qed
qed simp

lemma recorded_countable:
  assumes "recorded es es'" "timeless sel" "countable_events sel p es"
  shows "countable_events sel p es'"
proof -
  from assms(1,3) have "\<not> is_stopped (pod_events sel p es')"
  proof (induction rule: recorded.induct)
    case (counted_up e es t)
    have "map en_reason (pod_events sel p (replace_event (e\<lparr>en_count := en_count e + 1, en_last_timestamp := t\<rparr>) es)) =
        map en_reason (pod_events sel p es)"
      unfolding pod_events_def using counted_up assms(2)
      by (intro replace_event_reasons [of es e]) (simp_all add: countable_events_def timeless_def)
    then have "is_stopped (pod_events sel p (replace_event (e\<lparr>en_count := en_count e + 1, en_last_timestamp := t\<rparr>) es)) =
        is_stopped (pod_events sel p es)"
      by (simp only: is_stopped_reasons)
    with counted_up show ?case by (simp add: countable_events_def)
  next
    case (added e es)
    then show ?case by (auto simp: countable_events_def pod_events_def is_stopped_reasons)
  qed
  with assms recorded_distinct show ?thesis by (auto simp: countable_events_def)
qed

section \<open>One reconciliation\<close>

abbreviation plain_crash_reconcile :: "'w client \<Rightarrow> kube_lib \<Rightarrow> namespaced_name \<Rightarrow> ('w, reconcile_result) io" where
  "plain_crash_reconcile cl lib \<equiv> pod_crash_reconcile (create_pod_crash_reconciler cl lib)"

lemma pod_generate:
  assumes "quiet_pod_server cl v sel k sk st" "crashing p" "\<not> is_stopped (pod_events sel p es)"
  shows "triple (has_pod v p es) (generate_crash_event cl p)
    (\<lambda>r w. (\<exists>ce. r = Some ce \<and> ce_crash_timestamp ce = crash_time p) \<and> has_pod v p es w)"
proof -
  from assms(2) obtain s t where st: "get_application_container_status (po_container_statuses p) = Some s"
    "reported_termination s = Some t" "map_get (om_labels (po_meta p)) label_source_type = app_source_type"
    by (auto simp: crashing_def)
  then have "po_container_statuses p \<noteq> []" by auto
  with st have gen: "generate_crash_event cl p = (case cs_terminated (ct_state s) of
      Some t' \<Rightarrow> generate_report_for_terminated_pod cl p s t'
    | None \<Rightarrow> ret (Some (generate_report p (ts_reason t) (sint (ts_exit_code t)) (unix_seconds (ts_finished_at t))
        (calculate_crash_count s))))"
    by (auto simp: generate_crash_event_def reported_termination_def split: option.splits)
  have time: "crash_time p = unix_seconds (ts_finished_at t)"
    using st by (simp add: crash_time_def)
  have list: "triple (has_pod v p es) (get_by_pod cl p) (\<lambda>r w. r = Inr (pod_events sel p es) \<and> has_pod v p es w)"
    unfolding get_by_pod_def by (intro triple_bind [OF pod_list [OF assms(1)]] triple_ret) (auto simp: pod_events_def)
  show ?thesis
    unfolding gen generate_report_for_terminated_pod_def
    by (intro triple_case_option triple_bind [OF list] triple_fact triple_ret)
      (use assms(3) st time in \<open>auto simp: generate_report_def reported_termination_def Let_def\<close>)
qed

text \<open>
  The reconciliation of a crashing pod of a stateful set of an LRP succeeds; it leaves everything alone
  when the crash is marked, and else records it, and marks it unless the patch fails.
\<close>

definition observed :: "pod \<Rightarrow> event list \<Rightarrow> pod \<Rightarrow> event list \<Rightarrow> bool" where
  "observed p es p' es' \<longleftrightarrow> (if marked p then p' = p \<and> es' = es
     else (p' = p \<or> p' = annotate_crash p (itoa (crash_time p))) \<and> recorded es es')"

lemma pod_set_event:
  assumes "quiet_pod_server cl v sel k sk st" "e \<in> set es \<or> kubeEvent = None" "kubeEvent = None \<or> kubeEvent = Some e"
  shows "triple (has_pod v p es) (set_event (new_pod_crash cl lib gen) kubeEvent ref ce ns)
    (\<lambda>r w. r = None \<and> (\<exists>es'. recorded es es' \<and> has_pod v p es' w))"
proof (cases kubeEvent)
  case None
  have "en_reason (new_crash_event now ref ce ns) \<noteq> event_killing" for now
    by (simp add: new_crash_event_def failure_reason_def event_killing_def)
  then have create: "triple (has_pod v p es) (create_event cl (new_crash_event now ref ce ns))
      (\<lambda>r w. fst r = None \<and> (\<exists>es'. recorded es es' \<and> has_pod v p es' w))" for now
    by (intro triple_weaken [OF pod_create [OF assms(1)]])
      (auto simp: new_crash_event_def, metis recorded.added)
  show ?thesis
    unfolding None set_event_def option.case create_crash_event_def pod_crash_fields
    by (intro triple_bind [OF pod_now [OF assms(1)]] triple_bind [OF create] triple_case_prod triple_ret) (auto simp: wrap_err_def)
next
  case (Some e')
  with assms(2,3) have e: "e' \<in> set es" by auto
  then have update: "triple (has_pod v p es)
      (update_event cl (e'\<lparr>en_count := en_count e' + 1, en_last_timestamp := time_unix (ce_crash_timestamp ce)\<rparr>))
      (\<lambda>r w. fst r = None \<and> (\<exists>es'. recorded es es' \<and> has_pod v p es' w))"
    by (intro triple_weaken [OF pod_update [OF assms(1)]]) (auto intro: recorded.counted_up)
  show ?thesis
    unfolding Some set_event_def option.case update_crash_event_def pod_crash_fields
    by (intro triple_bind [OF update] triple_case_prod triple_ret) (auto simp: wrap_err_def)
qed

lemma pod_mark:
  assumes "quiet_pod_server cl v sel k sk st"
  shows "triple (has_pod v p es) (set_crash_timestamp_on_pod (new_pod_crash cl lib gen) p ce)
    (\<lambda>_ w. \<exists>p'. (p' = p \<or> p' = annotate_crash p (itoa (ce_crash_timestamp ce))) \<and> has_pod v p' es w)"
  unfolding set_crash_timestamp_on_pod_def pod_crash_fields
  by (intro triple_bind [OF pod_patch [OF assms]] triple_case_prod triple_ret) (auto split: if_splits)

lemma pod_reconcile:
  assumes "quiet_pod_server cl v sel k sk st" "crashing p" "countable_events sel p es"
    and "get_owner (om_owner_references (po_meta p)) ''StatefulSet'' = Inr ref" "sk = (om_namespace (po_meta p), or_name ref)"
    and "get_owner (om_owner_references (st_meta st)) ''LRP'' = Inr lref"
  shows "triple (has_pod v p es) (plain_crash_reconcile cl lib k)
    (\<lambda>r w. r = (0, None) \<and> (\<exists>p' es'. observed p es p' es' \<and> has_pod v p' es' w))"
proof -
  note server = assms(1)
  have unkilled: "\<not> is_stopped (pod_events sel p es)" using assms(3) by (simp add: countable_events_def)
  have nth: "length (filter P es) = Suc 0 \<Longrightarrow> filter P es ! 0 \<in> set es" for P
    by (metis filter_is_subset lessI nth_mem subsetD)
  have found: "triple (has_pod v p es) (get_by_instance_and_reason (new_pod_crash cl lib gen) ns ow i reason)
      (\<lambda>r w. (\<exists>e ev. r = Inr ev \<and> (ev = None \<or> ev = Some e \<and> e \<in> set es)) \<and> has_pod v p es w)" for gen ns ow i reason
    unfolding get_by_instance_and_reason_def pod_crash_fields
    by (intro triple_bind [OF pod_list [OF server]] triple_fact triple_ret)
      (auto intro: nth)
  have mark: "triple (\<lambda>w. \<exists>es'. recorded es es' \<and> has_pod v p es' w)
      (do { _ \<leftarrow> set_crash_timestamp_on_pod (new_pod_crash cl lib gen) p ce; ret (0, None) })
      (\<lambda>r w. r = (0, None) \<and> (\<exists>p' es'. observed p es p' es' \<and> has_pod v p' es' w))"
    if "\<not> marked p" "ce_crash_timestamp ce = crash_time p" for gen ce
    using that
    by (intro triple_ex triple_fact triple_bind [OF pod_mark [OF server]] triple_ret) (auto simp: observed_def)
  have emitted: "event_already_emitted ce p = marked p" if "ce_crash_timestamp ce = crash_time p" for ce
    using that by (auto simp: event_already_emitted_def marked_def)
  have idle: "marked p \<Longrightarrow> has_pod v p es w \<Longrightarrow> \<exists>p' es'. observed p es p' es' \<and> has_pod v p' es' w" for w
    by (auto simp: observed_def)
  have written: "triple (has_pod v p es) (do {
      err \<leftarrow> set_event (new_pod_crash cl lib gen) kubeEvent r ce ns;
      case err of
        Some e \<Rightarrow> ret (0, Some e)
      | None \<Rightarrow> do { _ \<leftarrow> set_crash_timestamp_on_pod (new_pod_crash cl lib gen) p ce; ret (0, None) } })
      (\<lambda>r w. r = (0, None) \<and> (\<exists>p' es'. observed p es p' es' \<and> has_pod v p' es' w))"
    if "\<not> marked p" "ce_crash_timestamp ce = crash_time p" "kubeEvent = None \<or> kubeEvent = Some e \<and> e \<in> set es"
    for gen kubeEvent r ce ns e
    using that
    by (intro triple_bind [OF pod_set_event [OF server, of e]] triple_fact triple_case_option mark triple_ret) auto
  show ?thesis
    unfolding pod_crash_reconcile_def create_pod_crash_reconciler_def pod_crash_fields stateful_set_kind_def
      lrp_kind_def
    apply (rule triple_bind_eq [OF pod_get [OF server]])
    apply (simp only: sum.case assms(4))
    apply (rule triple_bind [OF pod_generate [OF server assms(2) unkilled]], rule triple_fact)
    apply (elim exE conjE)
    apply (simp only: option.case emitted assms(4) sum.case)
    apply (rule triple_if, rule triple_ret)
    apply (simp add: idle)
    apply (rule triple_bind_eq [OF pod_stset [OF server, unfolded assms(5)]])
    apply (simp only: sum.case assms(6))
    apply (rule triple_bind [OF found], rule triple_fact)
    apply (elim exE conjE)
    apply (simp only: sum.case)
    apply (rule written)
    apply assumption+
    done
qed

section \<open>Many reconciliations\<close>

text \<open>
  The kubelet reports another termination of the container, which changes the status of the pod; or the
  reconciler runs, after which the crash is marked on the pod or not.
\<close>

inductive pod_step ::
  "'w client \<Rightarrow> kube_lib \<Rightarrow> 'w crash_view \<Rightarrow> namespaced_name \<Rightarrow> 'w \<Rightarrow> pod_event \<Rightarrow> 'w \<Rightarrow> bool" for cl lib v k where
  crashed: "pod_step cl lib v k w (Crashed (crash_time p')) w'"
    if "has_pod v p es w" "has_pod v p' es w'" "po_meta p' = po_meta p" "crashing p'"
| observed: "pod_step cl lib v k w (Observed r (marked p)) w'"
    if "run_state (plain_crash_reconcile cl lib k) w = (r, w')" "held_pod v w' = Some p"

inductive pod_history ::
  "'w client \<Rightarrow> kube_lib \<Rightarrow> 'w crash_view \<Rightarrow> namespaced_name \<Rightarrow> 'w \<Rightarrow> pod_event list \<Rightarrow> 'w \<Rightarrow> bool" for cl lib v k where
  begun: "pod_history cl lib v k w [] w"
| continued: "pod_history cl lib v k w (xs @ [x]) w''"
    if "pod_history cl lib v k w xs w'" "pod_step cl lib v k w' x w''"

fun clean :: "pod_event \<Rightarrow> bool" where
  "clean (Crashed i) = True"
| "clean (Observed r b) = (r = (0, None))"

text \<open>What stays true of the pod and the events, with the tally of them.\<close>

definition tallies ::
  "'w crash_view \<Rightarrow> event_selector \<Rightarrow> object_meta \<Rightarrow> tally \<Rightarrow> 'w \<Rightarrow> bool" where
  "tallies v sel m t w \<longleftrightarrow> (\<exists>p es. has_pod v p es w \<and> tally_of p es = t \<and> crashing p \<and> countable_events sel p es \<and>
     om_name (po_meta p) = om_name m \<and> om_namespace (po_meta p) = om_namespace m \<and>
     om_owner_references (po_meta p) = om_owner_references m)"

lemma talliesI:
  assumes "has_pod v p es w" "tally_of p es = t" "crashing p" "countable_events sel p es"
    and "om_name (po_meta p) = om_name m" "om_namespace (po_meta p) = om_namespace m"
    and "om_owner_references (po_meta p) = om_owner_references m"
  shows "tallies v sel m t w"
  unfolding tallies_def using assms by blast

lemma countable_name: "om_name (po_meta p') = om_name (po_meta p) \<Longrightarrow> countable_events sel p' es = countable_events sel p es"
  by (simp add: countable_events_def pod_events_def)

lemma crash_time_annotated [simp]: "crash_time (annotate_crash p x) = crash_time p"
  by (simp add: crash_time_def)

lemma crashing_annotated [simp]: "crashing (annotate_crash p x) = crashing p"
  by (simp add: crashing_def)

lemma observed_tally:
  assumes "observed p es p' es'" "countable_events sel p es"
  shows "tally_of p' es' = tallied (tally_of p es) (Observed r (marked p'))"
proof (cases "marked p")
  case True
  with assms show ?thesis by (auto simp: observed_def tally_of_def marked_def)
next
  case False
  have "distinct (map event_key es)" using assms(2) by (simp add: countable_events_def)
  with False assms(1) have "total_count es' = total_count es + 1"
    by (auto simp: observed_def intro: recorded_total)
  with False assms(1) show ?thesis
    by (auto simp: observed_def tally_of_def marked_def)
qed

lemma observed_keeps:
  assumes "observed p es p' es'" "timeless sel" "countable_events sel p es" "crashing p"
  shows "countable_events sel p' es' \<and> crashing p' \<and> om_name (po_meta p') = om_name (po_meta p) \<and>
    om_namespace (po_meta p') = om_namespace (po_meta p) \<and>
    om_owner_references (po_meta p') = om_owner_references (po_meta p)"
  using assms recorded_countable [OF _ assms(2,3)] countable_name [of "annotate_crash p x" p sel for x]
  by (auto simp: observed_def split: if_splits)

lemma pod_step_tallies:
  assumes "quiet_pod_server cl v sel k sk st" "timeless sel" "pod_step cl lib v k w x w'" "tallies v sel m t w"
    and "get_owner (om_owner_references m) ''StatefulSet'' = Inr ref" "sk = (om_namespace m, or_name ref)"
    and "get_owner (om_owner_references (st_meta st)) ''LRP'' = Inr lref"
  shows "clean x \<and> tallies v sel m (tallied t x) w'"
  using assms(3)
proof cases
  case (crashed p es p')
  with assms(4) countable_name [of p' p sel es] show ?thesis
    by (auto simp: tallies_def has_pod_def tally_of_def)
next
  case (observed r p')
  from assms(4) obtain p es where p: "has_pod v p es w" "tally_of p es = t" "crashing p" "countable_events sel p es"
    "om_name (po_meta p) = om_name m" "om_namespace (po_meta p) = om_namespace m"
    "om_owner_references (po_meta p) = om_owner_references m"
    unfolding tallies_def by blast
  have owner: "get_owner (om_owner_references (po_meta p)) ''StatefulSet'' = Inr ref" "sk = (om_namespace (po_meta p), or_name ref)"
    using assms(5,6) p(6,7) by simp_all
  from tripleD [OF pod_reconcile [OF assms(1) p(3,4) owner assms(7)] p(1) observed(2)]
  obtain q es' where q: "r = (0, None)" "observed p es q es'" "has_pod v q es' w'" by blast
  have "q = p'" using q(3) observed(3) by (simp add: has_pod_def)
  then have "tally_of q es' = tallied t x"
    using observed_tally [OF q(2) p(4)] p(2) observed(1) by simp
  then have "tallies v sel m (tallied t x) w'"
    using observed_keeps [OF q(2) assms(2) p(4,3)] p(5-7) by (intro talliesI [OF q(3)]) simp_all
  with q(1) observed(1) show ?thesis by simp
qed

section \<open>Properties\<close>

text \<open>
  C13: crashes are counted once. While the container of a pod crashes again and again and the reconciler runs
  in between, whenever and however often, with calls that succeed but for the patch that marks the pod,
  every reconciliation succeeds, and the events of the namespace together count what the abstract tally
  says: a reconciliation counts a crash that is not marked on the pod, and none that is marked. If all marks
  succeed, every crash that a reconciliation has seen is counted exactly once (in the 32 bits of the
  counters); a crash whose mark fails is counted again by the next reconciliation, since the error is only
  logged.
\<close>

theorem crashes_counted:
  assumes "quiet_pod_server cl v sel k sk st" "timeless sel"
    and "has_pod v p es w" "crashing p" "countable_events sel p es"
    and "get_owner (om_owner_references (po_meta p)) ''StatefulSet'' = Inr ref"
    and "sk = (om_namespace (po_meta p), or_name ref)"
    and "get_owner (om_owner_references (st_meta st)) ''LRP'' = Inr lref"
    and "pod_history cl lib v k w xs w'"
  shows "list_all clean xs \<and> (\<exists>p' es'. has_pod v p' es' w' \<and>
      tally_of p' es' = foldl tallied (tally_of p es) xs \<and>
      (all_marked xs \<longrightarrow> total_count es' = total_count es + of_nat (length (remdups_adj
         (map_get (om_annotations (po_meta p)) annotation_last_reported_lrp_crash # seen_crashes (crash_time p) xs)) - 1)))"
proof -
  let ?t = "tally_of p es"
  have "tallies v sel (po_meta p) ?t w"
    using assms(3-5) by (auto simp: tallies_def)
  with assms(9) have "list_all clean xs \<and> tallies v sel (po_meta p) (foldl tallied ?t xs) w'"
  proof (induction rule: pod_history.induct)
    case (begun w)
    then show ?case by simp
  next
    case (continued w xs w' x w'')
    then show ?case using pod_step_tallies [OF assms(1,2) continued.hyps(2) _ assms(6-8)] by auto
  qed
  then obtain p' es' where "list_all clean xs" "has_pod v p' es' w'" "tally_of p' es' = foldl tallied ?t xs"
    by (auto simp: tallies_def)
  moreover from this have "all_marked xs \<Longrightarrow> total_count es' = ty_count (foldl tallied ?t xs)"
    by (metis tally.select_convs(3) tally_of_def)
  ultimately show ?thesis
    using tallied_once [of xs ?t] by (auto simp: tally_of_def)
qed

section \<open>Witnesses\<close>

text \<open>
  A cluster that is a pod and its events, and selects events by their labels and the indexed fields.
\<close>

fun event_field :: "event \<Rightarrow> string \<Rightarrow> string" where
  "event_field e f =
     (if f = index_event_involved_object_name then ob_name (en_involved_object e)
      else if f = index_event_involved_object_kind then ob_kind (en_involved_object e)
      else if f = index_event_reason then en_reason e else [])"

definition by_fields :: event_selector where
  "by_fields ls fs e \<longleftrightarrow> list_all (\<lambda>(l, x). map_get (om_labels (en_meta e)) l = x) ls \<and>
     list_all (\<lambda>(f, x). event_field e f = x) fs"

lemma event_field_timeless [simp]: "event_field (e\<lparr>en_count := n, en_last_timestamp := t\<rparr>) f = event_field e f"
  by simp

lemma by_fields_timeless: "timeless by_fields"
  by (simp add: timeless_def by_fields_def del: event_field.simps)

definition fresh_name :: "event list \<Rightarrow> string" where
  "fresh_name es = CHR ''x'' # concat (map (om_name \<circ> en_meta) es)"

definition store_event :: "event \<Rightarrow> event list \<Rightarrow> event" where
  "store_event e es = e\<lparr>en_meta := (en_meta e)\<lparr>om_name := fresh_name es\<rparr>\<rparr>"

lemma fresh_event: "event_key (store_event e es) \<notin> event_key ` set es"
proof
  assume "event_key (store_event e es) \<in> event_key ` set es"
  then obtain x where x: "x \<in> set es" "om_name (en_meta x) = fresh_name es"
    by (auto simp: store_event_def)
  from x(1) have "length (om_name (en_meta x)) \<in> set (map (\<lambda>x. length (om_name (en_meta x))) es)"
    unfolding set_map by (intro imageI x)
  then have "length (om_name (en_meta x)) \<le> length (concat (map (om_name \<circ> en_meta) es))"
    by (simp add: length_concat comp_def member_le_sum_list)
  with x(2) show False by (simp add: fresh_name_def)
qed

definition tally_stset :: stateful_set where
  "tally_stset = \<lparr>st_meta = empty_meta\<lparr>om_owner_references := [\<lparr>or_api_version = ''v1'', or_kind = ''LRP'',
       or_name = ''mylrp'', or_uid = ''2'', or_controller = Some True\<rparr>]\<rparr>,
     st_pod_management_policy = [], st_replicas = Some 2, st_selector = None,
     st_template = \<lparr>pt_labels = None, pt_annotations = None, pt_spec = empty_pod_spec\<rparr>, st_ready_replicas = 1\<rparr>"

definition tally_client :: "(pod \<times> event list) client" where
  "tally_client = dead_client\<lparr>
     get_pod := \<lambda>k. State (\<lambda>(p, es). (Inr p, (p, es))),
     get_stset := \<lambda>k. ret (Inr tally_stset),
     list_events := \<lambda>ns ls fs. State (\<lambda>(p, es). (Inr (filter (by_fields ls fs) es), (p, es))),
     create_event := \<lambda>e. State (\<lambda>(p, es). ((None, store_event e es), (p, es @ [store_event e es]))),
     update_event := \<lambda>e. State (\<lambda>(p, es). ((None, e), (p, replace_event e es))),
     patch_pod := \<lambda>new old. State (\<lambda>(p, es). ((None, new), (new, es)))\<rparr>"

definition tally_view :: "(pod \<times> event list) crash_view" where
  "tally_view = \<lparr>held_pod = Some \<circ> fst, held_events = snd\<rparr>"

lemma tally_server: "quiet_pod_server tally_client tally_view by_fields k sk tally_stset"
proof -
  have "\<exists>e'. event_key e' \<notin> event_key ` set es \<and> en_count e' = en_count e \<and> en_reason e' = en_reason e \<and> store_event e es = e'" for e es
    using fresh_event [of e es] by (simp add: store_event_def)
  then show ?thesis
    by (auto simp: quiet_pod_server_def triple_def has_pod_def tally_view_def tally_client_def dead_client_def)
qed

text \<open>The first reconciliation of the sample pod, computed.\<close>

lemma crashed_pod_crashing: "crashing crashed_pod" "crash_time crashed_pod = 1500"
  by (simp_all add: crashing_def crash_time_def crashed_pod_def crashed_status_def reported_termination_def
      application_container_name_def unix_seconds_def second_def)

lemma tally_view_pod: "has_pod tally_view p es w \<longleftrightarrow> w = (p, es)"
  by (cases w) (simp add: has_pod_def tally_view_def)

lemma no_events_countable: "countable_events by_fields crashed_pod []"
  by (simp add: countable_events_def pod_events_def is_stopped_def)

lemma tally_owners:
  "get_owner (om_owner_references (po_meta crashed_pod)) ''StatefulSet'' = Inr
      \<lparr>or_api_version = ''apps/v1'', or_kind = ''StatefulSet'', or_name = ''app'', or_uid = ''1'', or_controller = Some True\<rparr>"
  "get_owner (om_owner_references (st_meta tally_stset)) ''LRP'' = Inr
      \<lparr>or_api_version = ''v1'', or_kind = ''LRP'', or_name = ''mylrp'', or_uid = ''2'', or_controller = Some True\<rparr>"
  by (simp_all add: crashed_pod_def tally_stset_def)

lemma tally_generated:
  "run_state (generate_crash_event tally_client crashed_pod) (crashed_pod, []) = (Some sample_crash, (crashed_pod, []))"
proof -
  have "parse_app_index (om_name (po_meta crashed_pod)) = Inr 1"
    unfolding crashed_pod_name by (subst parse_pod_index) simp_all
  moreover have "map_get (om_annotations (po_meta crashed_pod)) annotation_process_guid = ''guid''"
    and "map_get (om_labels (po_meta crashed_pod)) label_source_type = app_source_type"
    and "om_name (po_meta crashed_pod) = ''app-1''" "om_namespace (po_meta crashed_pod) = ''cf''"
    and "get_application_container_status (po_container_statuses crashed_pod) = Some crashed_status"
    and "po_container_statuses crashed_pod \<noteq> []"
    by (simp_all add: crashed_pod_def crashed_status_def application_container_name_def)
  ultimately show ?thesis
    by (simp add: generate_crash_event_def generate_report_for_terminated_pod_def get_by_pod_def tally_client_def
        generate_report_def is_stopped_def calculate_crash_count_def crashed_status_def sample_crash_def
        unix_seconds_def second_def)
qed

lemma first_tally:
  obtains es where "run_state (plain_crash_reconcile tally_client lib k) (crashed_pod, []) =
      ((0, None), (annotate_crash crashed_pod ''1500'', es))"
proof -
  have client: "get_pod tally_client k' = State (\<lambda>(p, es). (Inr p, (p, es)))"
    "get_stset tally_client k' = ret (Inr tally_stset)"
    "list_events tally_client ns ls fs = State (\<lambda>(p, es). (Inr (filter (by_fields ls fs) es), (p, es)))"
    "create_event tally_client ev = State (\<lambda>(p, es). ((None, store_event ev es), (p, es @ [store_event ev es])))"
    "patch_pod tally_client new old = State (\<lambda>(p, es). ((None, new), (new, es)))"
    "time_now tally_client = ret 0" for k' ns ls fs ev new old
    by (simp_all add: tally_client_def dead_client_def)
  have "\<exists>es. run_state (plain_crash_reconcile tally_client lib k) (crashed_pod, []) =
      ((0, None), (annotate_crash crashed_pod ''1500'', es))"
    using tally_generated crashed_pod_unreported
    by (simp add: pod_crash_reconcile_def create_pod_crash_reconciler_def client tally_owners event_already_emitted_def
        stateful_set_kind_def lrp_kind_def get_by_instance_and_reason_def set_event_def
        create_crash_event_def set_crash_timestamp_on_pod_def sample_crash_def crash_digits)
  with that show ?thesis by blast
qed

text \<open>A pod that crashed is seen twice, crashes again and is seen once more: two crashes are counted.\<close>

theorem crashes_counted_witness:
  "\<exists>p es b. pod_history tally_client sample_lib tally_view (''cf'', ''app-1'') (crashed_pod, [])
      [Observed (0, None) True, Observed (0, None) True, Crashed 1600, Observed (0, None) b] (p, es)
    \<and> total_count es = 2"
proof -
  let ?k = "(''cf'', ''app-1'')" and ?w = "(crashed_pod, [] :: event list)"
  let ?run = "run_state (plain_crash_reconcile tally_client sample_lib ?k)"
  let ?step = "pod_step tally_client sample_lib tally_view ?k" and ?H = "pod_history tally_client sample_lib tally_view ?k"
  note fine = no_events_countable and owners = tally_owners and view = tally_view_pod
  note counted = crashes_counted [OF tally_server by_fields_timeless tally_view_pod [THEN iffD2, OF refl] crashed_pod_crashing(1)
      fine owners(1) refl owners(2)]
  have observe: "?step w (Observed r (marked (fst w'))) w'" if "?run w = (r, w')" for w r w'
    by (rule pod_step.observed [OF that]) (simp add: tally_view_def)
  obtain es1 where r1: "?run ?w = ((0, None), (annotate_crash crashed_pod ''1500'', es1))" by (rule first_tally)
  have m1: "marked (annotate_crash crashed_pod ''1500'')"
    by (simp add: marked_def crashed_pod_crashing crash_digits)
  let ?p2 = "annotate_crash crashed_pod ''1500''"
  have h1: "?H ?w [Observed (0, None) True] (?p2, es1)"
    using pod_history.continued [OF pod_history.begun observe [OF r1]] m1 by simp
  from tripleD [OF pod_reconcile [OF tally_server crashed_pod_crashing(1) fine owners(1) refl owners(2)] _ r1]
  have "observed crashed_pod [] ?p2 es1" by (auto simp: view)
  from observed_keeps [OF this by_fields_timeless fine crashed_pod_crashing(1)]
  have fine1: "countable_events by_fields ?p2 es1" "crashing ?p2" by simp_all
  obtain r2 w2 where r2: "?run (?p2, es1) = (r2, w2)" by (metis prod.collapse)
  have owner2: "get_owner (om_owner_references (po_meta ?p2)) ''StatefulSet'' = Inr
      \<lparr>or_api_version = ''apps/v1'', or_kind = ''StatefulSet'', or_name = ''app'', or_uid = ''1'', or_controller = Some True\<rparr>"
    using owners(1) by simp
  from tripleD [OF pod_reconcile [OF tally_server fine1(2,1) owner2 refl owners(2)] _ r2] m1
  have r2': "r2 = (0, None)" "w2 = (?p2, es1)" by (auto simp: view observed_def)
  have h2: "?H ?w ([Observed (0, None) True] @ [Observed (0, None) True]) (?p2, es1)"
    using pod_history.continued [OF h1 observe [OF r2]] m1 r2' by simp
  define p3 where "p3 = ?p2\<lparr>po_container_statuses := [crashed_status\<lparr>ct_state := \<lparr>cs_running = None, cs_terminated = Some
       \<lparr>ts_exit_code = 137, ts_reason = ''OOMKilled'', ts_finished_at = 1600 * second\<rparr>\<rparr>\<rparr>]\<rparr>"
  have p3: "po_meta p3 = po_meta ?p2" "crashing p3" "crash_time p3 = 1600"
    using fine1(2) by (simp_all add: p3_def crashing_def crash_time_def crashed_status_def reported_termination_def
        application_container_name_def unix_seconds_def second_def)
  have "?step (?p2, es1) (Crashed 1600) (p3, es1)"
    using pod_step.crashed [of tally_view ?p2 es1 "(?p2, es1)" p3 "(p3, es1)"] p3 by (simp add: view)
  from pod_history.continued [OF h2 this]
  have h3: "?H ?w [Observed (0, None) True, Observed (0, None) True, Crashed 1600] (p3, es1)" by simp
  obtain r4 p4 es4 where r4: "?run (p3, es1) = (r4, (p4, es4))" by (metis prod.collapse)
  from pod_history.continued [OF h3 observe [OF r4]]
  have h4: "?H ?w [Observed (0, None) True, Observed (0, None) True, Crashed 1600, Observed r4 (marked p4)] (p4, es4)" by simp
  have "itoa 1600 \<noteq> ''1500''" by code_simp
  with counted [OF h4] have "total_count es4 = 2" "r4 = (0, None)"
    by (auto simp: view tally_of_def crashed_pod_crashing crashed_pod_unreported crash_digits total_count_def)
  with h4 show ?thesis by blast
qed

end
