(* ===== verification/Task_Life.thy ===== *)
theory Task_Life
  imports Task_Reconciler Kube_Hoare
begin

text \<open>
  The whole life of one task: its reconciliations, one after the other, while the API server, the job
  controller and everyone else go on. \<open>manager.GetClient()\<close> reads from a cache, which lags behind the
  server: a reconciliation may see an old version of the task and an old version of its job. The
  theory states what is documented of server and cache as effects on a view of the world, and shows
  that whatever is interleaved, whatever is stale and whatever fails, the task runs at most once.
\<close>

section \<open>The view of the world\<close>

text \<open>
  Of the task: the versions of it that the server has held, the oldest first, and the number of the
  one that the cache holds. Of its job: the one that the server holds, the one that the cache holds,
  and how many the server has ever made under this name.
\<close>

record 'w task_view =
  versions :: "'w \<Rightarrow> task list"
  seen :: "'w \<Rightarrow> nat"
  server_job :: "'w \<Rightarrow> job option"
  cached_job :: "'w \<Rightarrow> job option"
  jobs_created :: "'w \<Rightarrow> nat"

text \<open>A job that has ended, as \<open>GetStatusConditions\<close> sees it.\<close>

definition job_ended :: "job \<Rightarrow> bool" where
  "job_ended j \<longleftrightarrow> js_start_time (jb_status j) \<noteq> None \<and>
     (0 < sint (js_succeeded (jb_status j)) \<and> js_completion_time (jb_status j) \<noteq> None \<or>
      0 < sint (js_failed (jb_status j)) \<and> failure_times j \<noteq> [])"

definition cached_ended :: "'w task_view \<Rightarrow> 'w \<Rightarrow> bool" where
  "cached_ended v w \<longleftrightarrow> (\<exists>j. cached_job v w = Some j \<and> job_ended j)"

definition same_task :: "'w task_view \<Rightarrow> 'w \<Rightarrow> 'w \<Rightarrow> bool" where
  "same_task v w w' \<longleftrightarrow> versions v w' = versions v w \<and> seen v w' = seen v w"

definition same_jobs :: "'w task_view \<Rightarrow> 'w \<Rightarrow> 'w \<Rightarrow> bool" where
  "same_jobs v w w' \<longleftrightarrow> server_job v w' = server_job v w \<and> cached_job v w' = cached_job v w \<and>
     jobs_created v w' = jobs_created v w"

section \<open>What others do\<close>

text \<open>
  Others may change the task, but not its name, its specification or its conditions, which are the
  reconciler's; the cache may catch up; the status of the job may change, and the cache may learn of it,
  where an ended job never starts again. While the task exists nobody else makes or deletes its job (the
  histories below end with the deletion of the task, after which the job is garbage).
\<close>

definition as_before :: "task \<Rightarrow> task \<Rightarrow> bool" where
  "as_before t t' \<longleftrightarrow> tk_conditions t' = tk_conditions t \<and> tk_spec t' = tk_spec t \<and>
     meta_key (tk_meta t') = meta_key (tk_meta t)"

inductive other_step :: "'w task_view \<Rightarrow> 'w \<Rightarrow> 'w \<Rightarrow> bool" for v where
  task_written: "versions v w' = versions v w @ [x] \<Longrightarrow> as_before (last (versions v w)) x \<Longrightarrow>
    seen v w' = seen v w \<Longrightarrow> same_jobs v w w' \<Longrightarrow> other_step v w w'"
| task_cached: "versions v w' = versions v w \<Longrightarrow> seen v w \<le> seen v w' \<Longrightarrow>
    seen v w' < length (versions v w) \<Longrightarrow> same_jobs v w w' \<Longrightarrow> other_step v w w'"
| job_written: "same_task v w w' \<Longrightarrow> jobs_created v w' = jobs_created v w \<Longrightarrow>
    cached_job v w' = cached_job v w \<Longrightarrow> server_job v w \<noteq> None \<Longrightarrow> server_job v w' \<noteq> None \<Longrightarrow>
    other_step v w w'"
| job_cached: "same_task v w w' \<Longrightarrow> jobs_created v w' = jobs_created v w \<Longrightarrow>
    server_job v w' = server_job v w \<Longrightarrow>
    cached_ended v w \<longrightarrow> cached_ended v w' \<or> server_job v w = None \<Longrightarrow>
    cached_job v w' \<noteq> None \<longrightarrow> cached_job v w \<noteq> None \<or> server_job v w \<noteq> None \<Longrightarrow> other_step v w w'"
| elsewhere: "same_task v w w' \<Longrightarrow> same_jobs v w w' \<Longrightarrow> other_step v w w'"

inductive_cases other_stepE: "other_step v w w'"

abbreviation others :: "'w task_view \<Rightarrow> 'w \<Rightarrow> 'w \<Rightarrow> bool" where
  "others v \<equiv> (other_step v)\<^sup>*\<^sup>*"

lemma stable_others:
  assumes "\<And>w w'. other_step v w w' \<Longrightarrow> P w \<Longrightarrow> P w'"
  shows "undisturbed (others v) P"
  unfolding undisturbed_def
proof (intro allI impI)
  fix w w'
  assume "others v w w'" and "P w"
  then show "P w'" by (induction rule: rtranclp_induct) (auto dest: assms)
qed

section \<open>What the operations of the client do\<close>

definition task_read :: "'w task_view \<Rightarrow> go_error + task \<Rightarrow> 'w \<Rightarrow> 'w \<Rightarrow> bool" where
  "task_read v r w w' \<longleftrightarrow> w' = w \<and> (\<forall>t. r = Inr t \<longrightarrow> versions v w ! seen v w = t)"

definition job_read :: "'w task_view \<Rightarrow> go_error + job \<Rightarrow> 'w \<Rightarrow> 'w \<Rightarrow> bool" where
  "job_read v r w w' \<longleftrightarrow> w' = w \<and> (\<forall>j. r = Inr j \<longrightarrow> cached_job v w = Some j)"

text \<open>
  \<open>Create\<close> makes the job or fails; it fails when there is one. The answer may be lost: an error does
  not mean that nothing was made.
\<close>

definition job_made :: "'w task_view \<Rightarrow> job \<Rightarrow> go_error option \<times> job \<Rightarrow> 'w \<Rightarrow> 'w \<Rightarrow> bool" where
  "job_made v j r w w' \<longleftrightarrow>
     w' = w \<and> fst r \<noteq> None \<or>
     server_job v w = None \<and> server_job v w' \<noteq> None \<and> jobs_created v w' = Suc (jobs_created v w) \<and>
     cached_job v w' = cached_job v w \<and> same_task v w w' \<and> jb_status (snd r) = jb_status j"

text \<open>
  A merge patch of the status sends the whole list of conditions when it differs from the original,
  and nothing otherwise; the server applies it to the version it holds.
\<close>

definition status_patched :: "'w task_view \<Rightarrow> task \<Rightarrow> task \<Rightarrow> go_error option \<times> task \<Rightarrow> 'w \<Rightarrow> 'w \<Rightarrow> bool" where
  "status_patched v new old r w w' \<longleftrightarrow>
     w' = w \<or>
     versions v w' = versions v w @ [if tk_conditions new = tk_conditions old then last (versions v w)
       else (last (versions v w))\<lparr>tk_conditions := tk_conditions new\<rparr>] \<and>
     seen v w' = seen v w \<and> same_jobs v w w'"

definition job_deleted :: "'w task_view \<Rightarrow> go_error option \<Rightarrow> 'w \<Rightarrow> 'w \<Rightarrow> bool" where
  "job_deleted v r w w' \<longleftrightarrow>
     w' = w \<or>
     server_job v w' = None \<and> cached_job v w' = cached_job v w \<and> jobs_created v w' = jobs_created v w \<and>
     same_task v w w'"

text \<open>
  The client, for the task of key \<open>k\<close> and the job of key \<open>jk\<close>. The reads give what the cache holds at
  that moment, or fail.
\<close>

definition task_server :: "'w client \<Rightarrow> 'w task_view \<Rightarrow> namespaced_name \<Rightarrow> namespaced_name \<Rightarrow> bool" where
  "task_server cl v k jk \<longleftrightarrow>
     effect (others v) (get_task cl k) (task_read v) \<and>
     effect (others v) (get_job cl jk) (job_read v) \<and>
     (\<forall>j. meta_key (jb_meta j) = jk \<longrightarrow> effect (others v) (create_job cl j) (job_made v j)) \<and>
     (\<forall>new old. meta_key (tk_meta new) = k \<longrightarrow>
        effect (others v) (patch_task_status cl new old) (status_patched v new old)) \<and>
     effect (others v) (delete_all_jobs cl (fst jk) (snd jk)) (job_deleted v) \<and>
     (\<forall>ns ls. effect (others v) (list_pods cl ns ls) (\<lambda>r w w'. w' = w)) \<and>
     effect (others v) (time_now cl) (\<lambda>r w w'. w' = w)"

text \<open>The histories of the task: reconciliations of it, and what others do, in any order.\<close>

inductive task_history :: "'w task_view \<Rightarrow> 'w task_reconciler \<Rightarrow> namespaced_name \<Rightarrow> 'w \<Rightarrow> 'w \<Rightarrow> bool"
  for v r k w0 where
  start: "task_history v r k w0 w0"
| reconciled: "task_history v r k w0 w \<Longrightarrow> run_state (task_reconcile r k) w = (res, w') \<Longrightarrow> task_history v r k w0 w'"
| other: "task_history v r k w0 w \<Longrightarrow> other_step v w w' \<Longrightarrow> task_history v r k w0 w'"

section \<open>The invariant\<close>

text \<open>The version in the cache has completed; some version has completed.\<close>

definition over :: "kube_lib \<Rightarrow> 'w task_view \<Rightarrow> 'w \<Rightarrow> bool" where
  "over lib v w \<longleftrightarrow> task_has_completed lib (versions v w ! seen v w)"

definition completed_once :: "kube_lib \<Rightarrow> 'w task_view \<Rightarrow> 'w \<Rightarrow> bool" where
  "completed_once lib v w \<longleftrightarrow> (\<exists>t \<in> set (versions v w). task_has_completed lib t)"

definition identity :: "namespaced_name \<Rightarrow> namespaced_name \<Rightarrow> task \<Rightarrow> bool" where
  "identity k jk t \<longleftrightarrow> meta_key (tk_meta t) = k \<and> (om_namespace (tk_meta t), get_job_name t) = jk"

text \<open>
  At most one job was made, and unless it is there the cache knows that the task has ended; once the
  task has completed, all later versions have, and the cache knows that it or its job has ended.
\<close>

definition life_inv :: "kube_lib \<Rightarrow> 'w task_view \<Rightarrow> namespaced_name \<Rightarrow> namespaced_name \<Rightarrow> 'w \<Rightarrow> bool" where
  "life_inv lib v k jk w \<longleftrightarrow>
     jobs_created v w \<le> 1 \<and>
     (jobs_created v w = 1 \<longrightarrow> server_job v w \<noteq> None \<or> over lib v w) \<and>
     (completed_once lib v w \<longrightarrow> jobs_created v w = 1 \<and> (cached_ended v w \<or> over lib v w)) \<and>
     sorted_wrt (\<lambda>x y. task_has_completed lib x \<longrightarrow> task_has_completed lib y) (versions v w) \<and>
     seen v w < length (versions v w) \<and>
     (\<forall>t \<in> set (versions v w). identity k jk t) \<and>
     (server_job v w \<noteq> None \<or> cached_job v w \<noteq> None \<longrightarrow> jobs_created v w = 1)"

text \<open>The completion of a task is that of its conditions, its identity is that of its key and specification.\<close>

lemma has_completed_cong: "tk_conditions t = tk_conditions t' \<Longrightarrow> task_has_completed lib t = task_has_completed lib t'"
  by (simp add: task_has_completed_def)

lemma identity_cong:
  assumes "tk_spec t' = tk_spec t" and "meta_key (tk_meta t') = meta_key (tk_meta t)"
  shows "identity k jk t' = identity k jk t"
proof -
  have "get_job_name t' = get_job_name t" unfolding get_job_name_def assms(1) ..
  with assms(2) show ?thesis by (simp add: identity_def)
qed

lemma last_ended:
  assumes "sorted_wrt (\<lambda>x y. task_has_completed lib x \<longrightarrow> task_has_completed lib y) xs" "x \<in> set xs" "task_has_completed lib x"
  shows "task_has_completed lib (last xs)"
  using assms by (induction xs) (auto split: if_splits)

lemma later_ended:
  assumes "sorted_wrt (\<lambda>x y. task_has_completed lib x \<longrightarrow> task_has_completed lib y) xs" "i \<le> j" "j < length xs" "task_has_completed lib (xs ! i)"
  shows "task_has_completed lib (xs ! j)"
  using assms unfolding sorted_wrt_iff_nth_less by (metis le_neq_implies_less)

text \<open>
  A version may be added when it keeps the identity, has ended if any other has, and completes the task
  only if it was completed before or the cache knows that its job has ended.
\<close>

lemma life_inv_version:
  assumes inv: "life_inv lib v k jk w"
    and "versions v w' = versions v w @ [x]" "seen v w' = seen v w" "same_jobs v w w'"
    and "completed_once lib v w \<longrightarrow> task_has_completed lib x" and "identity k jk x"
    and "task_has_completed lib x \<longrightarrow> completed_once lib v w \<or> jobs_created v w = 1 \<and> cached_ended v w"
  shows "life_inv lib v k jk w'"
proof -
  have over: "over lib v w' = over lib v w" and cached: "cached_ended v w' = cached_ended v w"
    using inv assms(2-4) by (simp_all add: life_inv_def over_def nth_append cached_ended_def same_jobs_def)
  have "completed_once lib v w' \<longleftrightarrow> completed_once lib v w \<or> task_has_completed lib x"
    using assms(2) by (auto simp: completed_once_def)
  then have "completed_once lib v w' \<Longrightarrow> jobs_created v w = 1 \<and> (cached_ended v w \<or> over lib v w)"
    using inv assms(7) unfolding life_inv_def by blast
  moreover have "sorted_wrt (\<lambda>x y. task_has_completed lib x \<longrightarrow> task_has_completed lib y) (versions v w')"
    using inv assms(2,5) by (auto simp: life_inv_def sorted_wrt_append completed_once_def)
  moreover have "seen v w' < length (versions v w')" "\<forall>t \<in> set (versions v w'). identity k jk t"
    using inv assms(2,3,6) by (auto simp: life_inv_def)
  ultimately show ?thesis
    using inv assms(4) over cached by (simp add: life_inv_def same_jobs_def)
qed

lemma last_version:
  assumes "life_inv lib v k jk w"
  shows "last (versions v w) \<in> set (versions v w)" and "identity k jk (last (versions v w))"
    and "task_has_completed lib (last (versions v w)) \<longleftrightarrow> completed_once lib v w"
proof -
  have "versions v w \<noteq> []" using assms by (auto simp: life_inv_def)
  then show l: "last (versions v w) \<in> set (versions v w)" by simp
  with assms show "identity k jk (last (versions v w))" by (simp add: life_inv_def)
  show "task_has_completed lib (last (versions v w)) \<longleftrightarrow> completed_once lib v w"
    using l assms last_ended [of lib "versions v w"] by (auto simp: life_inv_def completed_once_def)
qed

lemma life_inv_rewritten:
  assumes inv: "life_inv lib v k jk w"
    and "versions v w' = versions v w @ [x]" "as_before (last (versions v w)) x"
    and "seen v w' = seen v w" "same_jobs v w w'"
  shows "life_inv lib v k jk w' \<and> (completed_once lib v w' \<longleftrightarrow> completed_once lib v w)"
proof -
  have x: "identity k jk x" "task_has_completed lib x \<longleftrightarrow> completed_once lib v w"
    using assms(3) last_version(2,3) [OF inv] identity_cong [of x "last (versions v w)"]
      has_completed_cong [of x "last (versions v w)"]
    by (simp_all add: as_before_def)
  then show ?thesis
    using life_inv_version [OF inv assms(2,4,5)] assms(2) by (auto simp: completed_once_def)
qed

lemma life_inv_others:
  assumes "other_step v w w'" and inv: "life_inv lib v k jk w"
  shows "life_inv lib v k jk w' \<and> (over lib v w \<longrightarrow> over lib v w') \<and>
    jobs_created v w' = jobs_created v w \<and> (server_job v w' = None \<longleftrightarrow> server_job v w = None) \<and>
    (completed_once lib v w' \<longleftrightarrow> completed_once lib v w) \<and>
    (cached_ended v w \<longrightarrow> cached_ended v w' \<or> server_job v w = None)"
  using assms(1)
proof cases
  case (task_written x)
  then show ?thesis
    using life_inv_rewritten [OF inv task_written] inv
    by (auto simp: same_jobs_def cached_ended_def over_def nth_append life_inv_def)
next
  case task_cached
  have "over lib v w \<Longrightarrow> over lib v w'"
    using later_ended [of lib "versions v w" "seen v w" "seen v w'"] task_cached inv
    by (simp add: over_def life_inv_def)
  with task_cached inv show ?thesis
    by (auto simp: life_inv_def same_jobs_def cached_ended_def completed_once_def)
next
  case job_written
  with inv show ?thesis
    by (auto simp: life_inv_def same_task_def cached_ended_def completed_once_def over_def)
next
  case job_cached
  with inv show ?thesis
    by (auto simp: life_inv_def same_task_def completed_once_def over_def)
next
  case elsewhere
  with inv show ?thesis
    by (auto simp: life_inv_def same_task_def same_jobs_def cached_ended_def completed_once_def over_def)
qed

section \<open>The steps of a reconciliation\<close>

text \<open>
  What is known during a reconciliation: \<open>running\<close>, while the version that was read has not completed;
  \<open>watching\<close>, once a job \<open>j\<close> was read or made; \<open>over\<close>, when the version that was read has completed.
\<close>

definition running :: "kube_lib \<Rightarrow> 'w task_view \<Rightarrow> namespaced_name \<Rightarrow> namespaced_name \<Rightarrow> 'w \<Rightarrow> bool" where
  "running lib v k jk w \<longleftrightarrow> life_inv lib v k jk w \<and> (jobs_created v w = 1 \<longrightarrow> server_job v w \<noteq> None) \<and>
     (completed_once lib v w \<longrightarrow> cached_ended v w)"

definition watching ::
  "kube_lib \<Rightarrow> 'w task_view \<Rightarrow> namespaced_name \<Rightarrow> namespaced_name \<Rightarrow> job \<Rightarrow> 'w \<Rightarrow> bool" where
  "watching lib v k jk j w \<longleftrightarrow> life_inv lib v k jk w \<and> server_job v w \<noteq> None \<and>
     (completed_once lib v w \<longrightarrow> job_ended j) \<and> (job_ended j \<longrightarrow> cached_ended v w)"

lemma stable_life_inv [stable_intros]: "undisturbed (others v) (life_inv lib v k jk)"
  by (rule stable_others) (blast dest: life_inv_others)

lemma stable_over: "undisturbed (others v) (\<lambda>w. life_inv lib v k jk w \<and> over lib v w)"
  by (rule stable_others) (blast dest: life_inv_others)

lemma stable_running [stable_intros]: "undisturbed (others v) (running lib v k jk)"
proof (rule stable_others)
  fix w w'
  assume step: "other_step v w w'" and run: "running lib v k jk w"
  then have inv: "life_inv lib v k jk w" by (simp add: running_def)
  have "completed_once lib v w \<Longrightarrow> jobs_created v w = 1" using inv by (simp add: life_inv_def)
  with life_inv_others [OF step inv] run show "running lib v k jk w'"
    unfolding running_def by metis
qed

lemma stable_watching [stable_intros]: "undisturbed (others v) (watching lib v k jk j)"
  by (rule stable_others) (unfold watching_def, metis life_inv_others)

lemma triple_get_task:
  assumes "task_server cl v k jk"
  shows "triple (life_inv lib v k jk) (get_task cl k) (\<lambda>r w. (\<forall>t. r = Inr t \<longrightarrow> identity k jk t) \<and>
    life_inv lib v k jk w \<and> (\<forall>t. r = Inr t \<longrightarrow>
      (task_has_completed lib t \<longrightarrow> life_inv lib v k jk w \<and> over lib v w) \<and>
      (\<not> task_has_completed lib t \<longrightarrow> running lib v k jk w)))"
proof (rule triple_effect)
  show "effect (others v) (get_task cl k) (task_read v)"
    using assms by (simp add: task_server_def)
next
  fix r w w2
  assume inv: "life_inv lib v k jk w" and read: "task_read v r w w2"
  have "identity k jk t" "task_has_completed lib t = over lib v w" if "r = Inr t" for t
  proof -
    have t: "versions v w ! seen v w = t" using read that by (simp add: task_read_def)
    then have "t \<in> set (versions v w)" using inv unfolding life_inv_def by (metis nth_mem)
    with inv t show "identity k jk t" "task_has_completed lib t = over lib v w"
      by (simp_all add: life_inv_def over_def)
  qed
  then show "(\<forall>t. r = Inr t \<longrightarrow> identity k jk t) \<and> life_inv lib v k jk w2 \<and> (\<forall>t. r = Inr t \<longrightarrow>
      (task_has_completed lib t \<longrightarrow> life_inv lib v k jk w2 \<and> over lib v w2) \<and>
      (\<not> task_has_completed lib t \<longrightarrow> running lib v k jk w2))"
    using inv read by (auto simp: task_read_def running_def life_inv_def)
qed (intro stable_intros stable_over)+

lemma triple_get_job:
  assumes "task_server cl v k jk"
  shows "triple (running lib v k jk) (get_job cl jk)
    (\<lambda>r w. running lib v k jk w \<and> (\<forall>j. r = Inr j \<longrightarrow> watching lib v k jk j w))"
proof (rule triple_effect)
  show "effect (others v) (get_job cl jk) (job_read v)"
    using assms by (simp add: task_server_def)
next
  fix r w w2
  assume run: "running lib v k jk w" and read: "job_read v r w w2"
  then show "running lib v k jk w2 \<and> (\<forall>j. r = Inr j \<longrightarrow> watching lib v k jk j w2)"
    by (auto simp: job_read_def running_def watching_def life_inv_def cached_ended_def)
qed (intro stable_intros)+

lemma triple_create_job:
  assumes "task_server cl v k jk" "meta_key (jb_meta j) = jk" "jb_status j = empty_job_status"
  shows "triple (running lib v k jk) (create_job cl j)
    (\<lambda>r w. life_inv lib v k jk w \<and> (fst r = None \<longrightarrow> watching lib v k jk (snd r) w))"
proof (rule triple_effect)
  show "effect (others v) (create_job cl j) (job_made v j)"
    using assms by (simp add: task_server_def)
next
  fix r w w2
  assume run: "running lib v k jk w" and made: "job_made v j r w w2"
  show "life_inv lib v k jk w2 \<and> (fst r = None \<longrightarrow> watching lib v k jk (snd r) w2)"
  proof (cases "w2 = w \<and> fst r \<noteq> None")
    case True
    with run show ?thesis by (auto simp: running_def)
  next
    case False
    with made have absent: "server_job v w = None" and w2: "server_job v w2 \<noteq> None"
        "jobs_created v w2 = Suc (jobs_created v w)" "cached_job v w2 = cached_job v w" "same_task v w w2"
      and status: "jb_status (snd r) = jb_status j"
      by (auto simp: job_made_def)
    have inv: "life_inv lib v k jk w" and none: "jobs_created v w = 0"
      using run absent by (auto simp: running_def life_inv_def)
    then have fresh: "\<not> completed_once lib v w" "cached_job v w = None"
      by (auto simp: life_inv_def)
    have same: "completed_once lib v w2 = completed_once lib v w" "over lib v w2 = over lib v w"
      using w2(4) by (simp_all add: completed_once_def over_def same_task_def)
    have "\<not> job_ended (snd r)"
      using status assms(3) by (simp add: job_ended_def empty_job_status_def)
    moreover have "life_inv lib v k jk w2"
      using inv w2 none fresh same by (simp add: life_inv_def same_task_def)
    ultimately show ?thesis
      using w2 fresh same by (simp add: watching_def)
  qed
qed (intro stable_intros)+

lemma triple_patch_status:
  assumes "task_server cl v k jk" "meta_key (tk_meta new) = k"
    and "task_has_completed lib new \<longleftrightarrow> job_ended j" and "\<not> task_has_completed lib old"
  shows "triple (watching lib v k jk j) (patch_task_status cl new old) (\<lambda>_. life_inv lib v k jk)"
proof (rule triple_effect)
  show "effect (others v) (patch_task_status cl new old) (status_patched v new old)"
    using assms by (simp add: task_server_def)
next
  fix r w w2
  assume watch: "watching lib v k jk j w" and patch: "status_patched v new old r w w2"
  then have inv: "life_inv lib v k jk w" and made: "jobs_created v w = 1"
    by (auto simp: watching_def life_inv_def)
  show "life_inv lib v k jk w2"
  proof (cases "w2 = w")
    case False
    let ?l = "last (versions v w)"
    from False patch have t: "versions v w2 = versions v w @ [if tk_conditions new = tk_conditions old then ?l
          else ?l\<lparr>tk_conditions := tk_conditions new\<rparr>]"
      "seen v w2 = seen v w" "same_jobs v w w2"
      by (auto simp: status_patched_def)
    show ?thesis
    proof (cases "tk_conditions new = tk_conditions old")
      case True
      with t show ?thesis
        using life_inv_rewritten [OF inv, of w2 ?l] by (simp add: as_before_def)
    next
      case False
      let ?t = "?l\<lparr>tk_conditions := tk_conditions new\<rparr>"
      have "task_has_completed lib ?t = job_ended j"
        using assms(3) by (simp add: task_has_completed_def)
      moreover have "identity k jk ?t"
        using last_version(2) [OF inv] identity_cong [of ?t ?l k jk] by simp
      ultimately show ?thesis
        using t False watch made
        by (intro life_inv_version [OF inv, of w2 ?t]) (auto simp: watching_def)
    qed
  qed (use inv in simp)
qed (intro stable_intros)+

lemma triple_delete_job:
  assumes "task_server cl v k jk"
  shows "triple (\<lambda>w. life_inv lib v k jk w \<and> over lib v w) (delete_all_jobs cl (fst jk) (snd jk))
    (\<lambda>_. life_inv lib v k jk)"
proof (rule triple_effect)
  show "effect (others v) (delete_all_jobs cl (fst jk) (snd jk)) (job_deleted v)"
    using assms by (simp add: task_server_def)
next
  fix r w w2
  assume "life_inv lib v k jk w \<and> over lib v w" and "job_deleted v r w w2"
  then show "life_inv lib v k jk w2"
    by (auto simp: job_deleted_def life_inv_def same_task_def over_def completed_once_def cached_ended_def)
qed (intro stable_intros stable_over)+

text \<open>The conditions that are read off a job complete the task just when the job has ended.\<close>

lemma condition_true_after:
  assumes "condition_laws lib"
  shows "is_status_condition_true lib (set_status_condition lib now cs c) type =
    (if cd_type c = type then cd_status c = condition_true else is_status_condition_true lib cs type)"
proof -
  have true: "is_status_condition_true lib cs type =
      (case find_status_condition lib cs type of None \<Rightarrow> False | Some c \<Rightarrow> cd_status c = condition_true)" for cs
    using assms unfolding condition_laws_def by blast
  show ?thesis
  proof (cases "cd_type c = type")
    case True
    have "\<exists>d. find_status_condition lib (set_status_condition lib now cs c) (cd_type c) = Some d
        \<and> cd_status d = cd_status c"
      using assms unfolding condition_laws_def by blast
    with True true [of "set_status_condition lib now cs c"] show ?thesis by auto
  next
    case False
    then have "find_status_condition lib (set_status_condition lib now cs c) type = find_status_condition lib cs type"
      using assms unfolding condition_laws_def by blast
    with False true show ?thesis by simp
  qed
qed

lemma condition_true_set_all:
  assumes "condition_laws lib" and "\<forall>c \<in> set (map snd ncs). cd_status c = condition_true"
  shows "is_status_condition_true lib (set_all lib ncs cs) type \<longleftrightarrow>
    type \<in> cd_type ` set (map snd ncs) \<or> is_status_condition_true lib cs type"
  using assms(2)
proof (induction ncs arbitrary: cs)
  case (Cons nc ncs)
  then show ?case
    by (cases nc) (auto simp: condition_true_after [OF assms(1)])
qed simp

definition ends_with :: "job \<Rightarrow> condition list \<Rightarrow> bool" where
  "ends_with j cs \<longleftrightarrow> (\<forall>c \<in> set cs. cd_status c = condition_true) \<and>
     (job_ended j \<longleftrightarrow> task_succeeded_condition_type \<in> cd_type ` set cs \<or> task_failed_condition_type \<in> cd_type ` set cs)"

lemma completed_set_all:
  assumes "condition_laws lib" and "ends_with j (map snd ncs)" and "\<not> task_has_completed lib t"
  shows "task_has_completed lib (t\<lparr>tk_conditions := set_all lib ncs (tk_conditions t)\<rparr>) = job_ended j"
  using assms(2,3) condition_true_set_all [OF assms(1), of ncs "tk_conditions t"]
  by (auto simp: task_has_completed_def ends_with_def)

lemma triple_getter:
  assumes "\<And>ns ls. triple P (list_pods cl ns ls) (\<lambda>_. P)"
  shows "triple P (get_status_conditions cl j) (\<lambda>r w. (\<forall>cs. r = Inr cs \<longrightarrow> ends_with j cs) \<and> P w)"
proof -
  have failed: "triple P (get_failed_container_status cl j) (\<lambda>_. P)"
    unfolding get_failed_container_status_def
    by (intro triple_bind [OF assms] triple_ret)
  show ?thesis
    unfolding get_status_conditions_def Let_def
    by (intro triple_intros triple_bind [OF failed])
      (auto simp: ends_with_def job_ended_def new_condition_def task_condition_types
        last_failure_timestamp split: sum.splits option.splits if_splits)
qed

lemma triple_set_conditions:
  assumes "triple P (time_now cl) (\<lambda>_. P)"
  shows "triple P (set_conditions cl lib existing cs)
    (\<lambda>r w. (\<exists>ncs. map snd ncs = cs \<and> r = set_all lib ncs existing) \<and> P w)"
proof (induction cs arbitrary: existing)
  case Nil
  then show ?case by (auto intro!: triple_ret exI [of _ "[]"])
next
  case (Cons c cs)
  have cons: "\<exists>ncs'. map snd ncs' = c # cs \<and> r = set_all lib ncs' existing"
    if "map snd ncs = cs" "r = set_all lib ncs (set_status_condition lib now existing c)" for ncs r now
    by (rule exI [of _ "(now, c) # ncs"]) (simp add: that)
  show ?case
    unfolding set_conditions.simps
    by (rule triple_bind [OF assms], rule triple_weaken [OF Cons.IH]) (use cons in blast)+
qed

section \<open>A whole reconciliation\<close>

text \<open>The reconciler as \<open>create_task_reconciler\<close> builds it.\<close>

abbreviation life_reconciler ::
  "'w client \<Rightarrow> kube_lib \<Rightarrow> range_order \<Rightarrow> task_converter \<Rightarrow> i64 \<Rightarrow> 'w task_reconciler" where
  "life_reconciler cl lib rng m ttl \<equiv>
     new_task_reconciler cl lib (task_desire (controller_task_desirer m rng cl lib)) (get_status_conditions cl) ttl"

lemma triple_server_silent:
  assumes "task_server cl v k jk" and "undisturbed (others v) P"
  shows "triple P (list_pods cl ns ls) (\<lambda>_. P)" and "triple P (time_now cl) (\<lambda>_. P)"
proof -
  have "effect (others v) (list_pods cl ns ls) (\<lambda>r w w'. w' = w)" "effect (others v) (time_now cl) (\<lambda>r w w'. w' = w)"
    using assms(1) by (simp_all add: task_server_def)
  then show "triple P (list_pods cl ns ls) (\<lambda>_. P)" "triple P (time_now cl) (\<lambda>_. P)"
    using triple_silent [OF _ assms(2)] by blast+
qed

lemma triple_update_status:
  assumes "task_server cl v k jk" "condition_laws lib" "identity k jk t" "\<not> task_has_completed lib t"
  shows "triple (watching lib v k jk j) (update_task_status (life_reconciler cl lib rng m ttl) t j)
    (\<lambda>_. life_inv lib v k jk)"
proof -
  note silent = triple_server_silent [OF assms(1) stable_watching]
  have inv: "watching lib v k jk j w \<Longrightarrow> life_inv lib v k jk w" for w by (simp add: watching_def)
  have key: "meta_key (tk_meta t) = k" using assms(3) by (simp add: identity_def)
  show ?thesis
    unfolding update_task_status_def new_task_reconciler_def task_reconciler.simps
  proof (rule triple_bind [OF triple_getter [OF silent(1)]], rule triple_fact, rule triple_case_sum)
    fix r :: "go_error + condition list" and cs
    assume "\<forall>cs. r = Inr cs \<longrightarrow> ends_with j cs" and "r = Inr cs"
    then have cs: "ends_with j cs" by blast
    show "triple (watching lib v k jk j)
        (set_conditions cl lib (tk_conditions t) cs \<bind> (\<lambda>cs. patch_task_status cl (t\<lparr>tk_conditions := cs\<rparr>) t))
        (\<lambda>_. life_inv lib v k jk)"
    proof (rule triple_bind [OF triple_set_conditions [OF silent(2)]], rule triple_fact)
      fix new
      assume "\<exists>ncs. map snd ncs = cs \<and> new = set_all lib ncs (tk_conditions t)"
      then obtain ncs where "map snd ncs = cs" and new: "new = set_all lib ncs (tk_conditions t)" by blast
      then have "task_has_completed lib (t\<lparr>tk_conditions := new\<rparr>) = job_ended j"
        using completed_set_all [OF assms(2) _ assms(4), of j ncs] cs by simp
      then show "triple (watching lib v k jk j) (patch_task_status cl (t\<lparr>tk_conditions := new\<rparr>) t)
          (\<lambda>_. life_inv lib v k jk)"
        using key by (intro triple_patch_status [OF assms(1) _ _ assms(4)]) simp_all
    qed
  qed (auto intro: triple_ret inv)
qed

lemma triple_desire_task:
  assumes "task_server cl v k jk" "condition_laws lib" "owner_laws lib" "identity k jk t" "\<not> task_has_completed lib t"
  shows "triple (running lib v k jk) (desire_task (life_reconciler cl lib rng m ttl) t) (\<lambda>_. life_inv lib v k jk)"
proof -
  have inv: "running lib v k jk w \<Longrightarrow> life_inv lib v k jk w" for w by (simp add: running_def)
  have create: "triple (running lib v k jk) (create_job cl j)
      (\<lambda>r w. life_inv lib v k jk w \<and> (fst r = None \<longrightarrow> watching lib v k jk (snd r) w))"
    if "set_controller_reference lib kind ow ((jb_meta (job_convert m rng t))\<lparr>om_namespace := om_namespace (tk_meta t)\<rparr>) = Inr mt"
      and "j = (job_convert m rng t)\<lparr>jb_meta := mt\<rparr>" for kind ow mt j
    using owner_namespace(1) [OF assms(3) that(1)] assms(4) that(2) task_converter.name [of m rng t]
    by (intro triple_create_job [OF assms(1)]) (auto simp: identity_def job_convert_eq)
  have des: "triple (running lib v k jk) (task_desire (controller_task_desirer m rng cl lib) t)
      (\<lambda>r w. life_inv lib v k jk w \<and> (\<forall>j. r = Inr j \<longrightarrow> watching lib v k jk j w))"
    unfolding task_desire_def controller_task_desirer_def new_task_job_desirer_def task_job_desirer.simps Let_def
    by (intro triple_case_sum triple_bind [OF create] triple_case_prod triple_ret)
      (auto simp: inv split: option.splits)
  have upd: "triple (watching lib v k jk j) (update_task_status (life_reconciler cl lib rng m ttl) t j)
    (\<lambda>_. life_inv lib v k jk)" for j
    by (rule triple_update_status [OF assms(1,2,4,5)])
  show ?thesis
    unfolding desire_task_def
    by (simp only: new_task_reconciler_def task_reconciler.simps,
        intro triple_bind [OF des] triple_case_sum triple_ret triple_bind [OF triple_pre [OF upd [unfolded new_task_reconciler_def]]]
          triple_case_prod) auto
qed

lemma triple_handle_expired:
  assumes "task_server cl v k jk" "identity k jk t"
  shows "triple (\<lambda>w. life_inv lib v k jk w \<and> over lib v w) (handle_expired_task (life_reconciler cl lib rng m ttl) t)
    (\<lambda>_. life_inv lib v k jk)"
proof -
  have jk: "om_namespace (tk_meta t) = fst jk" "get_job_name t = snd jk"
    using assms(2) by (auto simp: identity_def)
  have expired: "triple (\<lambda>w. life_inv lib v k jk w \<and> over lib v w) (task_has_expired (life_reconciler cl lib rng m ttl) t)
      (\<lambda>_ w. life_inv lib v k jk w \<and> over lib v w)"
    unfolding task_has_expired_def new_task_reconciler_def task_reconciler.simps Let_def
    by (intro triple_bind [OF triple_server_silent(2) [OF assms(1) stable_over]] triple_ret)
  show ?thesis
    unfolding handle_expired_task_def
    by (intro triple_bind [OF expired] triple_if triple_ret)
      (auto simp: new_task_reconciler_def jk intro!: triple_ret triple_bind [OF triple_delete_job [OF assms(1)]])
qed

lemma triple_task_reconcile:
  assumes "task_server cl v k jk" "condition_laws lib" "owner_laws lib"
  shows "triple (life_inv lib v k jk) (task_reconcile (life_reconciler cl lib rng m ttl) k) (\<lambda>_. life_inv lib v k jk)"
proof -
  let ?r = "life_reconciler cl lib rng m ttl"
  have cl: "tr_client ?r = cl" "tr_lib ?r = lib" by (simp_all add: new_task_reconciler_def)
  have inv: "running lib v k jk w \<Longrightarrow> life_inv lib v k jk w" for w by (simp add: running_def)
  have unfinished: "triple (running lib v k jk) (do {
      res \<leftarrow> get_job cl (om_namespace (tk_meta t), get_job_name t);
      case res of
        Inl err \<Rightarrow>
          if is_not_found lib err then desire_task ?r t else ret (0, Some (Wrap ''failed to get job'' err))
      | Inr job \<Rightarrow> do {
          (err, t) \<leftarrow> update_task_status ?r t job;
          case err of
            Some err \<Rightarrow> ret (0, Some (Wrap ''failed to update task status'' err))
          | None \<Rightarrow> if task_has_completed lib t then ret (duration_seconds (tr_ttl_seconds ?r), None) else ret (0, None)
        }
    }) (\<lambda>_. life_inv lib v k jk)" if "identity k jk t" "\<not> task_has_completed lib t" for t
  proof -
    have jk: "(om_namespace (tk_meta t), get_job_name t) = jk" using that(1) by (simp add: identity_def)
    show ?thesis
      unfolding jk
      by (intro triple_bind [OF triple_get_job [OF assms(1)]] triple_case_sum triple_if triple_ret
          triple_pre [OF triple_desire_task [OF assms that]]
          triple_bind [OF triple_pre [OF triple_update_status [OF assms(1,2) that]]] triple_case_prod triple_case_option)
        (auto simp: inv)
  qed
  show ?thesis
    unfolding task_reconcile_def cl
  proof (rule triple_bind [OF triple_get_task [OF assms(1)]], rule triple_fact, rule triple_case_sum)
    fix r :: "go_error + task" and t
    assume "\<forall>t. r = Inr t \<longrightarrow> identity k jk t" and t: "r = Inr t"
    then have id: "identity k jk t" by blast
    show "triple (\<lambda>w. life_inv lib v k jk w \<and> (\<forall>t. r = Inr t \<longrightarrow>
          (task_has_completed lib t \<longrightarrow> life_inv lib v k jk w \<and> over lib v w) \<and>
          (\<not> task_has_completed lib t \<longrightarrow> running lib v k jk w)))
        (if task_has_completed lib t then handle_expired_task ?r t
         else do {
           res \<leftarrow> get_job cl (om_namespace (tk_meta t), get_job_name t);
           case res of
             Inl err \<Rightarrow>
               if is_not_found lib err then desire_task ?r t else ret (0, Some (Wrap ''failed to get job'' err))
           | Inr job \<Rightarrow> do {
               (err, t) \<leftarrow> update_task_status ?r t job;
               case err of
                 Some err \<Rightarrow> ret (0, Some (Wrap ''failed to update task status'' err))
               | None \<Rightarrow> if task_has_completed lib t then ret (duration_seconds (tr_ttl_seconds ?r), None) else ret (0, None)
             }
         }) (\<lambda>_. life_inv lib v k jk)"
      using t by (intro triple_if triple_pre [OF triple_handle_expired [OF assms(1) id]] triple_pre [OF unfinished [OF id]]) auto
  qed (auto intro: triple_ret triple_if)
qed

section \<open>Properties\<close>

text \<open>
  C1: a task runs at most once, as long as it exists. In every sequence of its reconciliations and of what
  others do, before, between and during them, however old the versions of the task and of its job are
  that the cache shows to the reconciler, whichever calls fail and whichever answers are lost: at most
  one job is ever made for the task, and once a version of the task has completed, all later ones have.
\<close>

theorem task_runs_at_most_once:
  assumes "task_server cl v k jk" "condition_laws lib" "owner_laws lib"
    and "versions v w0 = [t]" "seen v w0 = 0" "identity k jk t" "\<not> task_has_completed lib t"
    and "server_job v w0 = None" "cached_job v w0 = None" "jobs_created v w0 = 0"
    and "task_history v (life_reconciler cl lib rng m ttl) k w0 w"
  shows "jobs_created v w \<le> 1 \<and> sorted_wrt (\<lambda>x y. task_has_completed lib x \<longrightarrow> task_has_completed lib y) (versions v w)"
proof -
  from assms(11) have "life_inv lib v k jk w"
  proof (induction rule: task_history.induct)
    case start
    show ?case
      using assms(4-10) by (simp add: life_inv_def over_def completed_once_def)
  next
    case (reconciled w res w')
    then show ?case
      using tripleD [OF triple_task_reconcile [OF assms(1-3)]] by blast
  next
    case (other w w')
    then show ?case by (blast dest: life_inv_others)
  qed
  then show ?thesis by (simp add: life_inv_def)
qed

section \<open>Witnesses\<close>

text \<open>
  A cluster that holds one task, and a client whose reads come from the cache. Others make the cache
  catch up and the job proceed.
\<close>

record task_world =
  tw_versions :: "task list"
  tw_seen :: nat
  tw_server_job :: "job option"
  tw_cached_job :: "job option"
  tw_created :: nat
  tw_now :: gotime

definition task_world_view :: "task_world task_view" where
  "task_world_view = \<lparr>versions = tw_versions, seen = tw_seen, server_job = tw_server_job,
     cached_job = tw_cached_job, jobs_created = tw_created\<rparr>"

definition lagging_client :: "task_world client" where
  "lagging_client = dead_client
     \<lparr>get_task := \<lambda>k. State (\<lambda>w. (Inr (tw_versions w ! tw_seen w), w)),
      get_job := \<lambda>k. State (\<lambda>w. (case tw_cached_job w of None \<Rightarrow> not_found | Some j \<Rightarrow> Inr j, w)),
      create_job := \<lambda>j. State (\<lambda>w. if tw_server_job w = None
        then ((None, j), w\<lparr>tw_server_job := Some j, tw_created := Suc (tw_created w)\<rparr>)
        else ((Some (StatusError ''AlreadyExists'' ''job exists''), j), w)),
      patch_task_status := \<lambda>new old. State (\<lambda>w.
        let t = last (tw_versions w);
            t' = (if tk_conditions new = tk_conditions old then t else t\<lparr>tk_conditions := tk_conditions new\<rparr>)
        in ((None, t'), w\<lparr>tw_versions := tw_versions w @ [t']\<rparr>)),
      delete_all_jobs := \<lambda>ns n. State (\<lambda>w. (None, w\<lparr>tw_server_job := None\<rparr>)),
      time_now := State (\<lambda>w. (tw_now w, w))\<rparr>"

lemma effect_atomic:
  "(\<And>w. eff (fst (run_state m w)) w (snd (run_state m w))) \<Longrightarrow> effect (others v) m eff"
  unfolding effect_def by blast

lemma lagging_server: "task_server lagging_client task_world_view k jk"
  unfolding task_server_def
  by (intro conjI allI impI; rule effect_atomic)
    (auto simp: lagging_client_def dead_client_def task_world_view_def task_read_def job_read_def job_made_def
      status_patched_def job_deleted_def same_task_def same_jobs_def not_found_def Let_def
      split: option.split)

definition task_start :: task_world where
  "task_start = \<lparr>tw_versions = [sample_task], tw_seen = 0, tw_server_job = None, tw_cached_job = None,
     tw_created = 0, tw_now = 0\<rparr>"

text \<open>Two reconciliations, where the cache has seen nothing of the first at the second: one job is made.\<close>

theorem task_runs_at_most_once_witness:
  "let rec = task_reconcile (life_reconciler lagging_client sample_lib (\<lambda>_ m. m) sample_task_converter 60) (''cf-workloads'', ''mytask'');
       w1 = snd (run_state rec task_start);
       w2 = snd (run_state rec w1)
   in tw_created w1 = 1 \<and> tw_created w2 \<le> 1"
proof -
  let ?r = "life_reconciler lagging_client sample_lib (\<lambda>_ m. m) sample_task_converter 60"
  let ?k = "meta_key (tk_meta sample_task)"
  let ?w1 = "snd (run_state (task_reconcile ?r ?k) task_start)"
  let ?w2 = "snd (run_state (task_reconcile ?r ?k) ?w1)"
  have key: "?k = (''cf-workloads'', ''mytask'')" by (simp add: sample_defs)
  have "task_history task_world_view ?r ?k task_start ?w1"
    by (rule task_history.reconciled [OF task_history.start]) (rule prod.collapse [symmetric])
  then have history: "task_history task_world_view ?r ?k task_start ?w2"
    by (rule task_history.reconciled) (rule prod.collapse [symmetric])
  have fresh: "\<not> task_has_completed sample_lib sample_task"
    by (simp add: task_has_completed_def sample_defs)
  have id: "identity ?k (om_namespace (tk_meta sample_task), get_job_name sample_task) sample_task"
    by (simp add: identity_def)
  have "jobs_created task_world_view ?w2 \<le> 1"
    by (rule task_runs_at_most_once [OF lagging_server sample_condition_laws sample_owner_laws _ _ id fresh _ _ _ history,
          THEN conjunct1])
      (simp_all add: task_world_view_def task_start_def)
  moreover have "tw_created ?w1 = 1"
    using fresh
    by (simp add: task_reconcile_def new_task_reconciler_def desire_task_def update_task_status_def task_start_def
        lagging_client_def dead_client_def not_found_def status_reason_def task_desire_def controller_task_desirer_def
        new_task_job_desirer_def get_status_conditions_def job_convert_eq empty_job_status_def Let_def
        placeable_def uncontrolled_def empty_meta_def)
  ultimately show ?thesis
    by (simp add: key task_world_view_def Let_def)
qed

end
