(* ===== verification/Task_Quiet.thy ===== *)
theory Task_Quiet
  imports Task_Life
begin

text \<open>
  The regular life of a task, when reads are up to date, calls succeed and its job succeeds: the job is
  made, its success is carried over to the task, and it is deleted once the time to live is over.
\<close>

section \<open>A quiet cluster\<close>

text \<open>Of the world: the task, its job, and the clock, which never goes back.\<close>

record 'w quiet_task_view =
  held_task :: "'w \<Rightarrow> task"
  held_job :: "'w \<Rightarrow> job option"
  clock :: "'w \<Rightarrow> gotime"

definition keeps :: "'w quiet_task_view \<Rightarrow> task \<Rightarrow> job option \<Rightarrow> gotime \<Rightarrow> 'w \<Rightarrow> bool" where
  "keeps v t y T w \<longleftrightarrow> held_task v w = t \<and> held_job v w = y \<and> T \<le> clock v w"

text \<open>
  Reads answer with what the server holds and writes succeed. A new job has the status it was sent with
  (an empty one).
\<close>

definition quiet_task_server ::
  "'w client \<Rightarrow> kube_lib \<Rightarrow> 'w quiet_task_view \<Rightarrow> namespaced_name \<Rightarrow> namespaced_name \<Rightarrow> bool" where
  "quiet_task_server cl lib v k jk \<longleftrightarrow>
     (\<forall>t y T. triple (keeps v t y T) (get_task cl k) (\<lambda>r w. r = Inr t \<and> keeps v t y T w)) \<and>
     (\<forall>t T. triple (keeps v t None T) (get_job cl jk)
        (\<lambda>r w. (\<exists>e. r = Inl e \<and> is_not_found lib e) \<and> keeps v t None T w)) \<and>
     (\<forall>t j T. triple (keeps v t (Some j) T) (get_job cl jk) (\<lambda>r w. r = Inr j \<and> keeps v t (Some j) T w)) \<and>
     (\<forall>t j T. meta_key (jb_meta j) = jk \<longrightarrow> triple (keeps v t None T) (create_job cl j)
        (\<lambda>r w. (fst r = None \<and> jb_status (snd r) = jb_status j) \<and> keeps v t (Some (snd r)) T w)) \<and>
     (\<forall>t cs y T. triple (keeps v t y T) (patch_task_status cl (t\<lparr>tk_conditions := cs\<rparr>) t)
        (\<lambda>r w. r = (None, t\<lparr>tk_conditions := cs\<rparr>) \<and> keeps v (t\<lparr>tk_conditions := cs\<rparr>) y T w)) \<and>
     (\<forall>t y T. triple (keeps v t y T) (delete_all_jobs cl (fst jk) (snd jk)) (\<lambda>r w. r = None \<and> keeps v t None T w)) \<and>
     (\<forall>t y T. triple (keeps v t y T) (time_now cl) (\<lambda>now w. T \<le> now \<and> keeps v t y T w))"

lemma quiet_task_rules:
  assumes "quiet_task_server cl lib v k jk"
  shows quiet_get_task: "triple (keeps v t y T) (get_task cl k) (\<lambda>r w. r = Inr t \<and> keeps v t y T w)"
    and quiet_get_no_job: "triple (keeps v t None T) (get_job cl jk)
        (\<lambda>r w. (\<exists>e. r = Inl e \<and> is_not_found lib e) \<and> keeps v t None T w)"
    and quiet_get_job: "triple (keeps v t (Some j) T) (get_job cl jk) (\<lambda>r w. r = Inr j \<and> keeps v t (Some j) T w)"
    and quiet_create_job: "meta_key (jb_meta j) = jk \<Longrightarrow> triple (keeps v t None T) (create_job cl j)
        (\<lambda>r w. (fst r = None \<and> jb_status (snd r) = jb_status j) \<and> keeps v t (Some (snd r)) T w)"
    and quiet_patch_task: "triple (keeps v t y T) (patch_task_status cl (t\<lparr>tk_conditions := cs\<rparr>) t)
        (\<lambda>r w. r = (None, t\<lparr>tk_conditions := cs\<rparr>) \<and> keeps v (t\<lparr>tk_conditions := cs\<rparr>) y T w)"
    and quiet_delete_job: "triple (keeps v t y T) (delete_all_jobs cl (fst jk) (snd jk))
        (\<lambda>r w. r = None \<and> keeps v t None T w)"
    and quiet_time: "triple (keeps v t y T) (time_now cl) (\<lambda>now w. T \<le> now \<and> keeps v t y T w)"
  using assms unfolding quiet_task_server_def by simp_all

section \<open>Conditions\<close>

text \<open>A condition that is set last, and was not there before, has the status and the time it was set with.\<close>

lemma find_set_all_other:
  assumes "condition_laws lib" "\<forall>c \<in> set (map snd ncs). cd_type c \<noteq> type"
  shows "find_status_condition lib (set_all lib ncs cs) type = find_status_condition lib cs type"
  using assms(2)
proof (induction ncs arbitrary: cs)
  case (Cons nc ncs)
  moreover have "find_status_condition lib (set_status_condition lib now cs c) type = find_status_condition lib cs type"
    if "cd_type c \<noteq> type" for now c
    using assms(1) that unfolding condition_laws_def by blast
  ultimately show ?case by (cases nc) simp
qed simp

lemma find_set_all_last:
  assumes "condition_laws lib" "map snd ncs = cs @ [c]" "\<forall>x \<in> set cs. cd_type x \<noteq> cd_type c"
    and "find_status_condition lib existing (cd_type c) = None" "cd_last_transition_time c \<noteq> zero_time"
  shows "\<exists>d. find_status_condition lib (set_all lib ncs existing) (cd_type c) = Some d \<and>
    cd_status d = cd_status c \<and> cd_last_transition_time d = cd_last_transition_time c"
proof -
  obtain ns now where ncs: "ncs = ns @ [(now, c)]" "map snd ns = cs"
    using assms(2) by (cases ncs rule: rev_cases) auto
  let ?cs = "set_all lib ns existing"
  have "find_status_condition lib ?cs (cd_type c) = None"
    using find_set_all_other [OF assms(1), of ns "cd_type c" existing] ncs(2) assms(3,4) by simp
  moreover from assms(1) have "\<exists>d. find_status_condition lib (set_status_condition lib now ?cs c) (cd_type c) = Some d
        \<and> cd_status d = cd_status c
        \<and> cd_last_transition_time d =
            (case find_status_condition lib ?cs (cd_type c) of
               Some old \<Rightarrow>
                 if cd_status old = cd_status c then cd_last_transition_time old
                 else if cd_last_transition_time c \<noteq> zero_time then cd_last_transition_time c else now
             | None \<Rightarrow>
                 if cd_last_transition_time c \<noteq> zero_time then cd_last_transition_time c else now)"
    unfolding condition_laws_def by blast
  ultimately show ?thesis
    using assms(5) by (auto simp: ncs(1) set_all_def)
qed

text \<open>A job that has succeeded, at a time.\<close>

definition job_succeeded_at :: "job \<Rightarrow> gotime \<Rightarrow> bool" where
  "job_succeeded_at j e \<longleftrightarrow> js_start_time (jb_status j) \<noteq> None \<and> 0 < sint (js_succeeded (jb_status j)) \<and>
     js_completion_time (jb_status j) = Some e \<and> \<not> 0 < sint (js_failed (jb_status j)) \<and> e \<noteq> zero_time"

definition no_outcome :: "kube_lib \<Rightarrow> condition list \<Rightarrow> bool" where
  "no_outcome lib cs \<longleftrightarrow> find_status_condition lib cs task_succeeded_condition_type = None \<and>
     find_status_condition lib cs task_failed_condition_type = None"

lemma no_outcome_running:
  assumes "condition_laws lib" "no_outcome lib (tk_conditions t)"
  shows "\<not> task_has_completed lib t"
  using assms(2) completed_iff [OF assms(1), of t] by (auto simp: no_outcome_def holds_since_def)

lemma new_job_conditions:
  "jb_status j = empty_job_status \<Longrightarrow> get_status_conditions cl j =
     ret (Inr [new_condition task_initialized_condition_type zero_time ''job_created'' ''Job created''])"
  by (simp add: get_status_conditions_def empty_job_status_def Let_def)

lemma succeeded_job_conditions:
  "job_succeeded_at j e \<Longrightarrow> get_status_conditions cl j =
     ret (Inr ([new_condition task_initialized_condition_type zero_time ''job_created'' ''Job created'',
       new_condition task_started_condition_type (the (js_start_time (jb_status j))) ''job_started'' ''Job started''] @
       [new_condition task_succeeded_condition_type e ''job_succeeded'' ''Job succeeded'']))"
  by (auto simp: get_status_conditions_def job_succeeded_at_def Let_def)

section \<open>The three reconciliations\<close>

lemma quiet_set_conditions:
  assumes "quiet_task_server cl lib v k jk"
  shows "triple (keeps v t y T) (set_conditions cl lib existing cs)
    (\<lambda>r w. (\<exists>ncs. map snd ncs = cs \<and> r = set_all lib ncs existing) \<and> keeps v t y T w)"
  by (rule triple_set_conditions, rule triple_weaken [OF quiet_time [OF assms]]) auto

lemma quiet_update_status:
  assumes "quiet_task_server cl lib v k jk" "get_status_conditions cl j = ret (Inr cs)"
  shows "triple (keeps v t y T) (update_task_status (life_reconciler cl lib rng m ttl) t j)
    (\<lambda>r w. \<exists>ncs. map snd ncs = cs \<and> r = (None, t\<lparr>tk_conditions := set_all lib ncs (tk_conditions t)\<rparr>) \<and>
       keeps v (t\<lparr>tk_conditions := set_all lib ncs (tk_conditions t)\<rparr>) y T w)"
  unfolding update_task_status_def new_task_reconciler_def task_reconciler.simps assms(2) bind_left_identity sum.case
  by (intro triple_bind [OF quiet_set_conditions [OF assms(1)]] triple_fact triple_weaken [OF quiet_patch_task [OF assms(1)]])
    auto

text \<open>The first: there is no job yet.\<close>

lemma quiet_first:
  assumes "quiet_task_server cl lib v k jk" "condition_laws lib" "owner_laws lib" "owners_settable lib"
    and "identity k jk t" "no_outcome lib (tk_conditions t)"
  shows "triple (keeps v t None T) (task_reconcile (life_reconciler cl lib rng m ttl) k)
    (\<lambda>r w. r = (0, None) \<and> (\<exists>cs j. no_outcome lib cs \<and> keeps v (t\<lparr>tk_conditions := cs\<rparr>) (Some j) T w))"
proof -
  let ?r = "life_reconciler cl lib rng m ttl"
  let ?Q = "\<lambda>w. \<exists>cs j. no_outcome lib cs \<and> keeps v (t\<lparr>tk_conditions := cs\<rparr>) (Some j) T w"
  have r: "tr_client ?r = cl" "tr_lib ?r = lib" "tr_desirer ?r = task_desire (controller_task_desirer m rng cl lib)"
    by (simp_all add: new_task_reconciler_def)
  have jk: "(om_namespace (tk_meta t), get_job_name t) = jk" using assms(5) by (simp add: identity_def)
  have running: "task_has_completed lib t = False" using no_outcome_running [OF assms(2,6)] by simp
  have owner: "set_controller_reference lib ''Task'' (tk_meta t)
      ((jb_meta (job_convert m rng t))\<lparr>om_namespace := om_namespace (tk_meta t)\<rparr>) \<noteq> Inl e" for e
    by (rule owner_settable(1) [OF assms(4)])
      (use task_converter.fresh [of m rng t] in \<open>simp_all add: placeable_def uncontrolled_def\<close>)
  have create: "triple (keeps v t None T) (create_job cl (jo\<lparr>jb_meta := m', jb_meta := m''\<rparr>))
      (\<lambda>r w. (fst r = None \<and> jb_status (snd r) = empty_job_status) \<and> keeps v t (Some (snd r)) T w)"
    if "jo = job_convert m rng t" "m' = (jb_meta jo)\<lparr>om_namespace := om_namespace (tk_meta t)\<rparr>"
      "set_controller_reference lib kind ow m' = Inr m''" for jo m' m'' kind ow
    using quiet_create_job [OF assms(1), of "jo\<lparr>jb_meta := m', jb_meta := m''\<rparr>" t T]
      owner_namespace(1) [OF assms(3) that(3)] task_converter.name [of m rng t] jk that(1,2)
    by (simp add: job_convert_eq)
  have des: "triple (keeps v t None T) (task_desire (controller_task_desirer m rng cl lib) t)
      (\<lambda>r w. (\<exists>j. r = Inr j \<and> jb_status j = empty_job_status) \<and> keeps v t (Some (projr r)) T w)"
    unfolding task_desire_def controller_task_desirer_def new_task_job_desirer_def task_job_desirer.simps Let_def
    by (intro triple_case_sum triple_bind [OF create] triple_case_prod triple_ret) (auto simp: owner)
  have upd: "triple (keeps v t (Some j) T) (update_task_status ?r t j) (\<lambda>r w. fst r = None \<and> ?Q w)"
    if "jb_status j = empty_job_status" for j
  proof -
    have "no_outcome lib (set_all lib ncs (tk_conditions t))"
      if "map snd ncs = [new_condition task_initialized_condition_type zero_time ''job_created'' ''Job created'']" for ncs
      using assms(6) find_set_all_other [OF assms(2), of ncs] that
      by (simp add: no_outcome_def new_condition_def task_condition_types)
    then show ?thesis
      by (intro triple_weaken [OF quiet_update_status [OF assms(1) new_job_conditions [OF that]]]) (assumption, elim exE conjE, metis fst_conv)
  qed
  show ?thesis
    unfolding task_reconcile_def desire_task_def r
    by (intro triple_bind [OF quiet_get_task [OF assms(1)]] triple_fact triple_case_sum,
      auto simp: jk running intro!: triple_bind [OF quiet_get_no_job [OF assms(1)]] triple_bind [OF des] triple_fact
        triple_case_sum triple_if triple_ret triple_bind [OF upd] triple_case_prod, blast+)
qed

text \<open>The second: the job has succeeded.\<close>

lemma quiet_second:
  assumes "quiet_task_server cl lib v k jk" "condition_laws lib"
    and "identity k jk t" "no_outcome lib (tk_conditions t)" "job_succeeded_at j e"
  shows "triple (keeps v t (Some j) T) (task_reconcile (life_reconciler cl lib rng m ttl) k)
    (\<lambda>r w. r = (duration_seconds ttl, None) \<and>
       (\<exists>cs. holds_since lib task_succeeded_condition_type cs e \<and> keeps v (t\<lparr>tk_conditions := cs\<rparr>) (Some j) T w))"
proof -
  let ?r = "life_reconciler cl lib rng m ttl"
  let ?Q = "\<lambda>t' w. \<exists>cs. holds_since lib task_succeeded_condition_type cs e \<and> t' = t\<lparr>tk_conditions := cs\<rparr> \<and> keeps v t' (Some j) T w"
  have r: "tr_client ?r = cl" "tr_lib ?r = lib" "tr_ttl_seconds ?r = ttl"
    by (simp_all add: new_task_reconciler_def)
  have jk: "(om_namespace (tk_meta t), get_job_name t) = jk" using assms(3) by (simp add: identity_def)
  have running: "task_has_completed lib t = False" using no_outcome_running [OF assms(2,4)] by simp
  have upd: "triple (keeps v t (Some j) T) (update_task_status ?r t j) (\<lambda>r w. fst r = None \<and> ?Q (snd r) w)"
  proof (rule triple_weaken [OF quiet_update_status [OF assms(1) succeeded_job_conditions [OF assms(5)]]])
    fix x :: "go_error option \<times> task" and w
    let ?c = "new_condition task_succeeded_condition_type e ''job_succeeded'' ''Job succeeded''"
    let ?cs = "[new_condition task_initialized_condition_type zero_time ''job_created'' ''Job created'',
       new_condition task_started_condition_type (the (js_start_time (jb_status j))) ''job_started'' ''Job started'']"
    assume "\<exists>ncs. map snd ncs = ?cs @ [?c] \<and> x = (None, t\<lparr>tk_conditions := set_all lib ncs (tk_conditions t)\<rparr>) \<and>
      keeps v (t\<lparr>tk_conditions := set_all lib ncs (tk_conditions t)\<rparr>) (Some j) T w"
    then obtain ncs where ncs: "map snd ncs = ?cs @ [?c]"
      and x: "x = (None, t\<lparr>tk_conditions := set_all lib ncs (tk_conditions t)\<rparr>)"
      and w: "keeps v (t\<lparr>tk_conditions := set_all lib ncs (tk_conditions t)\<rparr>) (Some j) T w"
      by blast
    have "holds_since lib task_succeeded_condition_type (set_all lib ncs (tk_conditions t)) e"
      using find_set_all_last [OF assms(2) ncs, of "tk_conditions t"] assms(4,5)
      by (simp add: holds_since_def no_outcome_def job_succeeded_at_def new_condition_def task_condition_types)
    with x w show "fst x = None \<and> ?Q (snd x) w" by auto
  qed simp
  have done_: "task_has_completed lib (t\<lparr>tk_conditions := cs\<rparr>)"
    if "holds_since lib task_succeeded_condition_type cs e" for cs
    using that completed_iff [OF assms(2)] by auto
  show ?thesis
    unfolding task_reconcile_def r
    by (intro triple_bind [OF quiet_get_task [OF assms(1)]] triple_fact triple_case_sum,
      auto simp: jk running done_ intro!: triple_bind [OF quiet_get_job [OF assms(1)]] triple_fact
        triple_bind [OF upd] triple_case_prod triple_ret, blast+)
qed

text \<open>The third: the time to live is over.\<close>

lemma quiet_third:
  assumes "quiet_task_server cl lib v k jk" "condition_laws lib" "identity k jk t"
    and "holds_since lib task_succeeded_condition_type (tk_conditions t) e"
    and "\<bar>sint ttl\<bar> \<le> 9223372036" "e + sint ttl * 1000000000 < T"
  shows "triple (keeps v t y T) (task_reconcile (life_reconciler cl lib rng m ttl) k)
    (\<lambda>r w. r = (0, None) \<and> keeps v t None T w)"
proof -
  let ?r = "life_reconciler cl lib rng m ttl"
  have r: "tr_client ?r = cl" "tr_lib ?r = lib" "tr_ttl_seconds ?r = ttl"
    by (simp_all add: new_task_reconciler_def)
  have jk: "om_namespace (tk_meta t) = fst jk" "get_job_name t = snd jk"
    using assms(3) by (auto simp: identity_def)
  have done_: "task_has_completed lib t" using assms(4) completed_iff [OF assms(2)] by blast
  have "completion_time lib t = Some e" using assms(4) by (auto simp: completion_time_def holds_since_def)
  then have expired: "triple (keeps v t y T) (task_has_expired ?r t) (\<lambda>r w. r \<and> keeps v t y T w)"
    using quiet_time [OF assms(1), of t y T] duration_seconds_value(2) [OF assms(5)] assms(6)
    by (fastforce simp: triple_def task_has_expired_eq r)
  show ?thesis
    unfolding task_reconcile_def handle_expired_task_def r
    by (intro triple_bind [OF quiet_get_task [OF assms(1)]] triple_fact triple_case_sum)
      (auto simp: done_ jk intro!: triple_bind [OF expired] triple_fact triple_bind [OF quiet_delete_job [OF assms(1)]] triple_ret)
qed

section \<open>Properties\<close>

text \<open>
  C11: a task gets its job, its outcome and its cleanup. The reconciliation that finds no job makes one.
  After the job has succeeded (the job controller changes nothing but the job) the next reconciliation
  marks the task as succeeded at the time the job gives, and asks to be called again after the time to
  live. A reconciliation when that is over deletes the job and leaves the task as it was.
\<close>

theorem task_completes:
  assumes "quiet_task_server cl lib v k jk" "condition_laws lib" "owner_laws lib" "owners_settable lib"
    and "identity k jk (held_task v w0)" "no_outcome lib (tk_conditions (held_task v w0))" "held_job v w0 = None"
    and "run_state (task_reconcile (life_reconciler cl lib rng m ttl) k) w0 = (r1, w1)"
    and "held_task v w2 = held_task v w1" "held_job v w2 = Some j" "job_succeeded_at j e"
    and "run_state (task_reconcile (life_reconciler cl lib rng m ttl) k) w2 = (r3, w3)"
    and "held_task v w4 = held_task v w3" "held_job v w4 = held_job v w3"
    and "\<bar>sint ttl\<bar> \<le> 9223372036" "e + sint ttl * 1000000000 < clock v w4"
    and "run_state (task_reconcile (life_reconciler cl lib rng m ttl) k) w4 = (r5, w5)"
  shows "r1 = (0, None) \<and> held_job v w1 \<noteq> None \<and> \<not> task_has_completed lib (held_task v w1)
    \<and> r3 = (duration_seconds ttl, None) \<and> held_job v w3 = Some j
    \<and> holds_since lib task_succeeded_condition_type (tk_conditions (held_task v w3)) e
    \<and> r5 = (0, None) \<and> held_job v w5 = None \<and> held_task v w5 = held_task v w3"
proof -
  let ?t = "held_task v w0"
  have "keeps v ?t None (clock v w0) w0" using assms(7) by (simp add: keeps_def)
  from tripleD [OF quiet_first [OF assms(1-6)] this assms(8)] obtain cs1 j1 where
    1: "r1 = (0, None)" "held_task v w1 = ?t\<lparr>tk_conditions := cs1\<rparr>" "held_job v w1 = Some j1" "no_outcome lib cs1"
    by (auto simp: keeps_def)
  let ?t1 = "?t\<lparr>tk_conditions := cs1\<rparr>"
  have t1: "identity k jk ?t1" "no_outcome lib (tk_conditions ?t1)"
    using identity_cong [of ?t1 ?t k jk] assms(5) 1(4) by simp_all
  have "keeps v ?t1 (Some j) (clock v w2) w2" using assms(9,10) 1(2) by (simp add: keeps_def)
  from tripleD [OF quiet_second [OF assms(1,2) t1 assms(11)] this assms(12)] obtain cs2 where
    3: "r3 = (duration_seconds ttl, None)" "held_task v w3 = ?t1\<lparr>tk_conditions := cs2\<rparr>" "held_job v w3 = Some j"
      "holds_since lib task_succeeded_condition_type cs2 e"
    by (auto simp: keeps_def)
  let ?t2 = "?t1\<lparr>tk_conditions := cs2\<rparr>"
  have t2: "identity k jk ?t2" "holds_since lib task_succeeded_condition_type (tk_conditions ?t2) e"
    using identity_cong [of ?t2 ?t k jk] assms(5) 3(4) by simp_all
  have "keeps v ?t2 (held_job v w4) (clock v w4) w4" using assms(13) 3(2) by (simp add: keeps_def)
  from tripleD [OF quiet_third [OF assms(1,2) t2 assms(15,16)] this assms(17)]
  have "r5 = (0, None)" "held_job v w5 = None" "held_task v w5 = ?t2"
    by (auto simp: keeps_def)
  then show ?thesis
    using 1 3 no_outcome_running [OF assms(2) t1(2)] by simp
qed

section \<open>Witnesses\<close>

definition quiet_task_view :: "(task \<times> job option \<times> gotime) quiet_task_view" where
  "quiet_task_view = \<lparr>held_task = fst, held_job = fst \<circ> snd, clock = snd \<circ> snd\<rparr>"

definition quiet_task_client :: "(task \<times> job option \<times> gotime) client" where
  "quiet_task_client = dead_client
     \<lparr>get_task := \<lambda>k. State (\<lambda>(t, y, T). (Inr t, (t, y, T))),
      get_job := \<lambda>k. State (\<lambda>(t, y, T). (case y of None \<Rightarrow> not_found | Some j \<Rightarrow> Inr j, (t, y, T))),
      create_job := \<lambda>j. State (\<lambda>(t, y, T). ((None, j), (t, Some j, T))),
      patch_task_status := \<lambda>new old. State (\<lambda>(t, y, T). ((None, new), (new, y, T))),
      delete_all_jobs := \<lambda>ns n. State (\<lambda>(t, y, T). (None, (t, None, T))),
      time_now := State (\<lambda>(t, y, T). (T, (t, y, T)))\<rparr>"

lemma quiet_task_client_server: "quiet_task_server quiet_task_client sample_lib quiet_task_view k jk"
  by (auto simp: quiet_task_server_def triple_def keeps_def quiet_task_view_def quiet_task_client_def not_found_def
      status_reason_def)

definition succeeded_job :: job where
  "succeeded_job = (job_convert sample_task_converter (\<lambda>_ m. m) sample_task)
     \<lparr>jb_status := \<lparr>js_start_time = Some 3, js_completion_time = Some 7, js_succeeded = 1, js_failed = 0, js_conditions = []\<rparr>\<rparr>"

theorem task_completes_witness:
  "\<exists>t1 j1 T1 t3 T3. let rec = task_reconcile (life_reconciler quiet_task_client sample_lib (\<lambda>_ m. m) sample_task_converter 60)
        (meta_key (tk_meta sample_task))
     in run_state rec (sample_task, None, 0) = ((0, None), (t1, Some j1, T1))
      \<and> run_state rec (t1, Some succeeded_job, 8) = ((duration_seconds 60, None), (t3, Some succeeded_job, T3))
      \<and> fst (snd (snd (run_state rec (t3, Some succeeded_job, 60000000008)))) = None"
proof -
  let ?rec = "task_reconcile (life_reconciler quiet_task_client sample_lib (\<lambda>_ m. m) sample_task_converter 60)
    (meta_key (tk_meta sample_task))"
  let ?v = quiet_task_view
  obtain r1 t1 y1 T1 where run1: "run_state ?rec (sample_task, None, 0) = (r1, (t1, y1, T1))" by (metis prod.collapse)
  obtain r3 t3 y3 T3 where run3: "run_state ?rec (t1, Some succeeded_job, 8) = (r3, (t3, y3, T3))" by (metis prod.collapse)
  obtain r5 w5 where run5: "run_state ?rec (t3, y3, 60000000008) = (r5, w5)" by (metis prod.collapse)
  have id: "identity (meta_key (tk_meta sample_task)) (om_namespace (tk_meta sample_task), get_job_name sample_task)
      (held_task ?v (sample_task, None, 0))"
    by (simp add: identity_def quiet_task_view_def)
  have fresh: "no_outcome sample_lib (tk_conditions (held_task ?v (sample_task, None, 0)))" "held_job ?v (sample_task, None, 0) = None"
    by (simp_all add: no_outcome_def quiet_task_view_def sample_defs)
  have j: "job_succeeded_at succeeded_job 7"
    by (simp add: job_succeeded_at_def succeeded_job_def zero_time_def)
  have views: "held_task ?v (t1, Some succeeded_job, 8) = held_task ?v (t1, y1, T1)"
    "held_job ?v (t1, Some succeeded_job, 8) = Some succeeded_job"
    "held_task ?v (t3, y3, 60000000008) = held_task ?v (t3, y3, T3)"
    "held_job ?v (t3, y3, 60000000008) = held_job ?v (t3, y3, T3)"
    "\<bar>sint (60 :: i64)\<bar> \<le> 9223372036" "7 + sint (60 :: i64) * 1000000000 < clock ?v (t3, y3, 60000000008)"
    by (simp_all add: quiet_task_view_def)
  from task_completes [OF quiet_task_client_server sample_condition_laws sample_owner_laws sample_owners_settable id fresh run1
      views(1,2) j run3 views(3-6) run5]
  show ?thesis using run1 run3 run5 by (auto simp: quiet_task_view_def Let_def)
qed

end
