(* ===== verification/Task_Failure.thy ===== *)
theory Task_Failure
  imports Task_Reconciler
begin

text \<open>
  A task whose job has failed, when the pod of the job is gone: what \<open>k8s/jobs/status.go\<close> and
  \<open>k8s/reconciler/task.go\<close> make of it together.
\<close>

lemma failed_job_status:
  assumes "js_start_time (jb_status j) = Some s" "0 < sint (js_failed (jb_status j))"
    and "get_last_failure_timestamp (jb_status j) = Some f"
    and "run_state (list_pods cl (om_namespace (jb_meta j)) [(''job-name'', om_name (jb_meta j))]) w = (Inr pods, w')"
    and "length pods \<noteq> 1"
  shows "run_state (get_status_conditions cl j) w = (Inl (Wrap ''failed to get container status''
    (NewError (if pods = [] then ''no pods found for job'' else ''found more than one pod for job''))), w')"
  using assms(5)
  by (cases pods) (simp_all add: get_status_conditions_def assms(1-4) get_failed_container_status_def Let_def split: list.splits)

text \<open>
  C12: a failed task is not reported without its pod. When the job of a task has failed but there is not exactly
  one pod of it any more, the reconciliation reads the task, the job and the pods, returns an error that says so,
  and writes nothing: the task does not become failed, although the job says that it is, and as long as the pod
  is gone every further reconciliation ends the same way.
\<close>

theorem failed_task_without_pod:
  assumes "run_state (get_task cl k) w = (Inr t, w1)" and "\<not> task_has_completed lib t"
    and "run_state (get_job cl (om_namespace (tk_meta t), get_job_name t)) w1 = (Inr j, w2)"
    and "js_start_time (jb_status j) = Some s" "0 < sint (js_failed (jb_status j))"
    and "get_last_failure_timestamp (jb_status j) = Some f"
    and "run_state (list_pods cl (om_namespace (jb_meta j)) [(''job-name'', om_name (jb_meta j))]) w2 = (Inr pods, w3)"
    and "length pods \<noteq> 1"
  shows "trace (task_reconcile (wired_task_reconciler cl lib rng m ttl) k) w =
      [GetTask k, GetJob (om_namespace (tk_meta t), get_job_name t),
       ListPods (om_namespace (jb_meta j)) [(''job-name'', om_name (jb_meta j))]]
    \<and> result (task_reconcile (wired_task_reconciler cl lib rng m ttl) k) (w, []) =
      (0, Some (Wrap ''failed to update task status'' (Wrap ''failed to get status conditions for job''
        (Wrap ''failed to get container status''
          (NewError (if pods = [] then ''no pods found for job'' else ''found more than one pod for job''))))))"
proof -
  let ?log = "[GetTask k, GetJob (om_namespace (tk_meta t), get_job_name t)]"
  have "run_state (list_pods (logged cl) (om_namespace (jb_meta j)) [(''job-name'', om_name (jb_meta j))]) (w2, ?log)
    = (Inr pods, (w3, ?log @ [ListPods (om_namespace (jb_meta j)) [(''job-name'', om_name (jb_meta j))]]))"
    using assms(7) by simp
  note status = failed_job_status [OF assms(4-6) this assms(8)]
  show ?thesis
    using assms(1-3) status
    by (simp add: task_reconcile_def update_task_status_def new_task_reconciler_def trace_def result_def)
qed

section \<open>Witness\<close>

definition failed_job :: job where
  "failed_job = (job_convert sample_task_converter (\<lambda>_ m. m) sample_task)\<lparr>
     jb_meta := empty_meta\<lparr>om_name := ''myjob'', om_namespace := ''cf''\<rparr>,
     jb_status := empty_job_status\<lparr>js_start_time := Some 1, js_failed := 1,
       js_conditions := [\<lparr>jc_type = ''Failed'', jc_last_transition_time = 2\<rparr>]\<rparr>\<rparr>"

text \<open>The pods of the job have been removed with their node.\<close>

definition podless_client :: "gotime client" where
  "podless_client = sample_client\<lparr>get_job := \<lambda>k. ret (Inr failed_job)\<rparr>"

theorem failed_task_without_pod_witness:
  "\<exists>e. result (task_reconcile (wired_task_reconciler podless_client sample_lib (\<lambda>_ m. m) sample_task_converter 60)
      (''cf'', ''mytask'')) (0, []) = (0, Some (Wrap ''failed to update task status'' e))"
proof -
  let ?t = "sample_task\<lparr>tk_meta := (tk_meta sample_task)\<lparr>om_namespace := ''cf'', om_name := ''mytask''\<rparr>\<rparr>"
  have task: "run_state (get_task podless_client (''cf'', ''mytask'')) 0 = (Inr ?t, 0)"
    and job: "run_state (get_job podless_client (om_namespace (tk_meta ?t), get_job_name ?t)) 0 = (Inr failed_job, 0)"
    and pods: "run_state (list_pods podless_client (om_namespace (jb_meta failed_job))
      [(''job-name'', om_name (jb_meta failed_job))]) 0 = (Inr [], 0)"
    by (simp_all add: podless_client_def sample_client_def)
  have running: "\<not> task_has_completed sample_lib ?t"
    by (simp add: task_has_completed_def sample_defs)
  have failed: "js_start_time (jb_status failed_job) = Some 1" "0 < sint (js_failed (jb_status failed_job))"
    "get_last_failure_timestamp (jb_status failed_job) = Some 2"
    by (simp_all add: failed_job_def get_last_failure_timestamp_def)
  from failed_task_without_pod [OF task running job failed pods, where rng = "\<lambda>_ m. m" and m = sample_task_converter and ttl = 60]
  show ?thesis by simp
qed

end
