(* ===== verification/Call_Bounds.thy ===== *)
theory Call_Bounds
  imports Lrp_Reconciler Task_Reconciler Pod_Crash
begin

text \<open>
  How long a reconciliation takes. Everything but the calls of the API server is a terminating
  computation (every definition is a total function), so what bounds the time of a reconciliation is
  the number of its calls, each of which has a timeout. \<open>at_most n m\<close>: \<open>m\<close> makes at most \<open>n\<close> calls,
  from every world and whatever they answer.
\<close>

named_theorems at_most_intros \<open>rules that bound the number of calls\<close>

definition at_most :: "nat \<Rightarrow> ('w logged_world, 'a) io \<Rightarrow> bool" where
  "at_most n m \<longleftrightarrow> (\<forall>w l. \<exists>cs. snd (snd (run_state m (w, l))) = l @ cs \<and> length cs \<le> n)"

lemma at_most_trace: "at_most n m \<Longrightarrow> length (trace m w) \<le> n"
  unfolding at_most_def trace_def by (metis append_Nil)

lemma at_most_ret [at_most_intros]: "at_most n (ret a)"
  by (simp add: at_most_def)

text \<open>In sequence, the bounds add up: the second part has what the first leaves over.\<close>

lemma at_most_bind:
  assumes "at_most i m" and "i \<le> n" and "\<And>a. at_most (n - i) (f a)"
  shows "at_most n (State_Monad.bind m f)"
  unfolding at_most_def
proof (intro allI)
  fix w l
  obtain a w1 l1 where m: "run_state m (w, l) = (a, (w1, l1))" by (metis prod.collapse)
  obtain cs where 1: "l1 = l @ cs" "length cs \<le> i"
    using assms(1) m unfolding at_most_def by (metis snd_conv)
  obtain ds where "snd (snd (run_state (f a) (w1, l1))) = l1 @ ds" "length ds \<le> n - i"
    using assms(3) unfolding at_most_def by blast
  with m 1 assms(2) show "\<exists>cs. snd (snd (run_state (State_Monad.bind m f) (w, l))) = l @ cs \<and> length cs \<le> n"
    by (intro exI [of _ "cs @ ds"]) simp
qed

lemma at_most_call: "at_most 1 (log_call c m)"
  by (simp add: at_most_def)

lemma at_most_unlogged: "at_most 0 (unlogged m)"
  by (simp add: at_most_def)

lemmas at_most_steps [at_most_intros] =
  at_most_bind [OF at_most_call] at_most_bind [OF at_most_unlogged]

lemma at_most_mono: "at_most i m \<Longrightarrow> i \<le> n \<Longrightarrow> at_most n m"
  unfolding at_most_def by (meson order_trans)

lemma at_most_last [at_most_intros]: "1 \<le> n \<Longrightarrow> at_most n (log_call c m)"
  by (rule at_most_mono [OF at_most_call])

lemma at_most_if [at_most_intros]:
  "(b \<Longrightarrow> at_most n m) \<Longrightarrow> (\<not> b \<Longrightarrow> at_most n m') \<Longrightarrow> at_most n (if b then m else m')"
  by simp

lemma at_most_case_sum [at_most_intros]:
  "(\<And>e. at_most n (f e)) \<Longrightarrow> (\<And>a. at_most n (g a)) \<Longrightarrow> at_most n (case x of Inl e \<Rightarrow> f e | Inr a \<Rightarrow> g a)"
  by (simp split: sum.split)

lemma at_most_case_option [at_most_intros]:
  "at_most n f \<Longrightarrow> (\<And>a. at_most n (g a)) \<Longrightarrow> at_most n (case x of None \<Rightarrow> f | Some a \<Rightarrow> g a)"
  by (simp split: option.split)

lemma at_most_case_prod [at_most_intros]:
  "(\<And>a b. at_most n (f a b)) \<Longrightarrow> at_most n (case x of (a, b) \<Rightarrow> f a b)"
  by (simp split: prod.split)

lemma at_most_case_outcome [at_most_intros]:
  "at_most n f \<Longrightarrow> (\<And>a. at_most n (g a)) \<Longrightarrow> at_most n (case x of Panics \<Rightarrow> f | Returns a \<Rightarrow> g a)"
  by (simp split: outcome.split)

section \<open>The parts of the reconciliations\<close>

lemma pdb_update_at_most: "at_most 1 (pdb_update (logged cl) lib st l)"
  unfolding pdb_update_def pdb_create_def pdb_delete_def Let_def logged_simps
  by (intro at_most_intros) auto

lemma secret_at_most: "at_most 1 (create_registry_creds_secret_if_required (logged cl) l)"
  unfolding create_registry_creds_secret_if_required_def logged_simps
  by (intro at_most_intros) auto

lemma secret_owner_at_most: "at_most 1 (set_secret_owner (logged cl) lib sec st)"
  unfolding set_secret_owner_def logged_simps by (intro at_most_intros) auto

lemma cleanup_at_most: "at_most 1 (cleanup_and_error (logged cl) lib e sec)"
  unfolding cleanup_and_error_def Let_def logged_simps by (intro at_most_intros) auto

text \<open>Secret, stateful set, owner of the secret, budget; or secret, stateful set, cleanup.\<close>

lemma desire_at_most: "at_most 4 (desire (controller_desirer c rng (logged cl) lib) l)"
  unfolding desire_def controller_desirer_def new_stset_desirer_def stset_desirer.simps Let_def logged_simps
  by (intro at_most_intros at_most_bind [OF secret_at_most] at_most_bind [OF secret_owner_at_most]
      at_most_bind [OF pdb_update_at_most] at_most_mono [OF cleanup_at_most]) auto

lemma wired_desire_at_most: "at_most 4 (wired_desire cl lib mx rng cfg l)"
  unfolding decorated_desire_def decorate_def unlogged_metrics_def desirer_decorator.simps metrics.simps
  by (intro at_most_intros at_most_bind [OF at_most_mono [OF desire_at_most]]) auto

lemma stset_update_at_most: "at_most 2 (stset_update (controller_updater (logged cl) lib) l st)"
  unfolding stset_update_def controller_updater_def new_stset_updater_def stset_updater.simps logged_simps
  by (intro at_most_intros at_most_bind [OF pdb_update_at_most]) auto

lemma wired_reconcile_at_most: "at_most 6 (wired_reconcile cl lib mx rng cfg k)"
proof -
  have do: "at_most 5 (lrp_do (controller_lrp_reconciler (logged cl) lib (unlogged_metrics mx) rng cfg) l)" for l
    unfolding lrp_do_def update_lrp_status_def Let_def wired_fields logged_simps
    by (intro at_most_intros at_most_bind [OF wired_desire_at_most] at_most_bind [OF stset_update_at_most]) auto
  show ?thesis
    unfolding lrp_reconcile_def wired_fields logged_simps
    by (intro at_most_intros at_most_bind [OF do]) auto
qed

lemma set_conditions_at_most: "at_most 0 (set_conditions (logged cl) lib existing cs)"
  by (induction cs arbitrary: existing) (auto intro!: at_most_intros)

lemma getter_at_most: "at_most 1 (get_status_conditions (logged cl) j)"
proof -
  have failed: "at_most 1 (get_failed_container_status (logged cl) j)"
    unfolding get_failed_container_status_def logged_simps by (intro at_most_intros) auto
  show ?thesis
    unfolding get_status_conditions_def Let_def
    by (intro at_most_intros at_most_bind [OF failed]) auto
qed

lemma update_task_status_at_most: "at_most 2 (update_task_status (wired_task_reconciler cl lib rng m ttl) t j)"
  unfolding update_task_status_def new_task_reconciler_def task_reconciler.simps logged_simps
  by (intro at_most_intros at_most_bind [OF getter_at_most] at_most_bind [OF set_conditions_at_most]) auto

lemma task_reconcile_at_most: "at_most 5 (task_reconcile (wired_task_reconciler cl lib rng m ttl) k)"
proof -
  let ?r = "wired_task_reconciler cl lib rng m ttl"
  have fields: "tr_client ?r = logged cl" "tr_desirer ?r = task_desire (controller_task_desirer m rng (logged cl) lib)"
    by (simp_all add: new_task_reconciler_def)
  have des: "at_most 1 (task_desire (controller_task_desirer m rng (logged cl) lib) t)" for t
    unfolding task_desire_def controller_task_desirer_def new_task_job_desirer_def task_job_desirer.simps Let_def logged_simps
    by (intro at_most_intros) auto
  have desire: "at_most 3 (desire_task ?r t)" for t
    unfolding desire_task_def fields
    by (intro at_most_intros at_most_bind [OF des] at_most_bind [OF update_task_status_at_most]) auto
  have expired: "at_most 1 (handle_expired_task ?r t)" for t
    unfolding handle_expired_task_def task_has_expired_def Let_def fields logged_simps
    by (intro at_most_intros at_most_bind [OF at_most_bind [OF at_most_unlogged], of 0]) auto
  show ?thesis
    unfolding task_reconcile_def fields logged_simps
    by (intro at_most_intros at_most_bind [OF update_task_status_at_most] at_most_mono [OF desire] at_most_mono [OF expired]) auto
qed

lemma crash_reconcile_at_most: "at_most 6 (wired_crash_reconcile cl lib k)"
proof -
  have generate: "at_most 1 (generate_crash_event (logged cl) p)" for p
  proof -
    have list: "at_most 1 (get_by_pod (logged cl) p)"
      unfolding get_by_pod_def logged_simps by (intro at_most_intros) auto
    show ?thesis
      unfolding generate_crash_event_def generate_report_for_terminated_pod_def Let_def
      by (intro at_most_intros at_most_bind [OF list]) auto
  qed
  have list: "at_most 1 (get_by_instance_and_reason (new_pod_crash (logged cl) lib gen) ns ref i reason)" for gen ns ref i reason
    unfolding get_by_instance_and_reason_def pod_crash_fields logged_simps by (intro at_most_intros) auto
  have set: "at_most 1 (set_event (new_pod_crash (logged cl) lib gen) ev ref ce ns)" for gen ev ref ce ns
    unfolding set_event_def create_crash_event_def update_crash_event_def pod_crash_fields logged_simps
    by (intro at_most_intros) auto
  have mark: "at_most 1 (set_crash_timestamp_on_pod (new_pod_crash (logged cl) lib gen) p ce)" for gen p ce
    unfolding set_crash_timestamp_on_pod_def pod_crash_fields logged_simps by (intro at_most_intros) auto
  show ?thesis
    unfolding pod_crash_reconcile_def create_pod_crash_reconciler_def pod_crash_fields logged_simps
    by (intro at_most_intros at_most_bind [OF generate] at_most_bind [OF list] at_most_bind [OF set] at_most_bind [OF mark]) auto
qed

section \<open>Properties\<close>

text \<open>
  C22: every reconciliation comes to its end: it makes at most six calls of the API server for an LRP or
  a crashed pod and at most five for a task, whatever the cluster contains, whatever the calls answer
  and whichever fail; nothing is retried within a reconciliation.
\<close>

theorem reconciliations_bounded:
  "length (trace (wired_reconcile cl lib mx rng cfg k) w) \<le> 6
   \<and> length (trace (task_reconcile (wired_task_reconciler cl lib rng m ttl) k) w) \<le> 5
   \<and> length (trace (wired_crash_reconcile cl lib k) w) \<le> 6"
  by (intro conjI at_most_trace wired_reconcile_at_most task_reconcile_at_most crash_reconcile_at_most)

end
