(* ===== verification/Scheme_Registration.thy ===== *)
theory Scheme_Registration
  imports Clientset
begin

text \<open>
  The registration of the types with a scheme: \<open>pkg/apis/eirini/v1/register.go\<close>, and \<open>scheme/register.go\<close>
  and \<open>fake/register.go\<close> under \<open>pkg/generated/clientset/versioned\<close>. Schemes belong to apimachinery: they are
  known by numbers, their contents are in the world, and their operations are the parameter \<open>scheme_lib\<close>.
\<close>

section \<open>Definitions\<close>

type_synonym group_version = "string \<times> string"

text \<open>A type is known by the name of its struct, from which apimachinery makes its kind.\<close>

record 'w scheme_lib =
  sl_add_known_types :: "nat \<Rightarrow> group_version \<Rightarrow> string list \<Rightarrow> ('w, unit) io"
  sl_add_to_group_version :: "nat \<Rightarrow> group_version \<Rightarrow> ('w, unit) io"
  sl_builder_add_to_scheme :: "(nat \<Rightarrow> ('w, go_error option) io) list \<Rightarrow> nat \<Rightarrow> ('w, go_error option) io"

definition resource_group :: "string \<Rightarrow> string \<times> string" where
  "resource_group resource = (fst scheme_group_version, resource)"

definition add_known_types :: "'w scheme_lib \<Rightarrow> nat \<Rightarrow> ('w, go_error option) io" where
  "add_known_types sl scheme = do {
     _ \<leftarrow> sl_add_known_types sl scheme scheme_group_version [''LRP'', ''LRPList'', ''Task'', ''TaskList''];
     _ \<leftarrow> sl_add_to_group_version sl scheme scheme_group_version;
     ret None
   }"

definition add_to_scheme :: "'w scheme_lib \<Rightarrow> nat \<Rightarrow> ('w, go_error option) io" where
  "add_to_scheme sl = sl_builder_add_to_scheme sl [add_known_types sl]"

definition versioned_add_to_scheme :: "'w scheme_lib \<Rightarrow> nat \<Rightarrow> ('w, go_error option) io" where
  "versioned_add_to_scheme sl = sl_builder_add_to_scheme sl [add_to_scheme sl]"

text \<open>\<open>utilruntime.Must\<close> panics on an error.\<close>

definition scheme_init :: "'w scheme_lib \<Rightarrow> nat \<Rightarrow> ('w, unit outcome) io" where
  "scheme_init sl scheme = do {
     _ \<leftarrow> sl_add_to_group_version sl scheme ('''', ''v1'');
     err \<leftarrow> versioned_add_to_scheme sl scheme;
     ret (if err = None then Returns () else Panics)
   }"

definition fake_add_to_scheme :: "'w scheme_lib \<Rightarrow> nat \<Rightarrow> ('w, go_error option) io" where
  "fake_add_to_scheme sl = sl_builder_add_to_scheme sl [add_to_scheme sl]"

definition fake_scheme_init :: "'w scheme_lib \<Rightarrow> nat \<Rightarrow> ('w, unit outcome) io" where
  "fake_scheme_init sl scheme = do {
     _ \<leftarrow> sl_add_to_group_version sl scheme ('''', ''v1'');
     err \<leftarrow> fake_add_to_scheme sl scheme;
     ret (if err = None then Returns () else Panics)
   }"

section \<open>What is registered\<close>

text \<open>A builder with one function does what that function does.\<close>

definition builder_laws :: "'w scheme_lib \<Rightarrow> bool" where
  "builder_laws sl \<longleftrightarrow> (\<forall>f scheme. sl_builder_add_to_scheme sl [f] scheme = f scheme)"

lemma scheme_init_registers:
  assumes "builder_laws sl"
  shows "scheme_init sl scheme = do {
     _ \<leftarrow> sl_add_to_group_version sl scheme ('''', ''v1'');
     _ \<leftarrow> sl_add_known_types sl scheme (''eirini.cloudfoundry.org'', ''v1'') [''LRP'', ''LRPList'', ''Task'', ''TaskList''];
     _ \<leftarrow> sl_add_to_group_version sl scheme (''eirini.cloudfoundry.org'', ''v1'');
     ret (Returns ())
   }"
    and "fake_scheme_init sl = scheme_init sl"
  using assms unfolding builder_laws_def
  by (simp_all add: scheme_init_def fake_scheme_init_def versioned_add_to_scheme_def fake_add_to_scheme_def
      add_to_scheme_def add_known_types_def scheme_group_version_def group_name_def fun_eq_iff)

end
