(* ===== verification/Fake_Clientset.thy ===== *)
theory Fake_Clientset
  imports Clientset
begin

text \<open>
  The fake clientset for tests: \<open>fake/clientset_generated.go\<close>, \<open>typed/eirini/v1/fake/fake_lrp.go\<close>,
  \<open>fake_task.go\<close> and \<open>fake_eirini_client.go\<close> under \<open>pkg/generated/clientset/versioned\<close>. A method turns the
  call into an action of the \<open>testing\<close> package of client-go and has it handled by the \<open>Fake\<close> of that
  package, which is a parameter of the model, the record \<open>testing_fake\<close>. The constructors of actions that keep
  what they are given are the constructors of the datatype \<open>action\<close>; those that are given the options of a
  list are parameters.
\<close>

section \<open>Objects and actions\<close>

type_synonym gvr = "string \<times> string \<times> string"

text \<open>A value of \<open>runtime.Object\<close>, not nil; the lists have their metadata first.\<close>

datatype runtime_object =
    LRPObject lrp
  | LRPListObject string "lrp list"
  | TaskObject task
  | TaskListObject string "task list"
  | OtherObject string

text \<open>
  What an action keeps of the options of a list: the selectors of labels and of fields, parsed. Selectors are
  values of other packages and known by numbers. A watch keeps the resource version as well.
\<close>

type_synonym restrictions = "nat \<times> nat"

datatype action =
    GetAction gvr string string
  | ListAction gvr gvr string restrictions
  | WatchAction gvr string restrictions string
  | CreateAction gvr string runtime_object
  | UpdateAction gvr string runtime_object
  | UpdateSubresourceAction gvr string string runtime_object
  | DeleteActionWithOptions gvr string string string
  | DeleteCollectionAction gvr string restrictions
  | PatchSubresourceAction gvr string string string string "string list"

text \<open>
  \<open>Invokes\<close> is given the object to return by default; the constructors of actions that are given the
  options of a list read them, and are parameters too; \<open>ExtractFromListOptions\<close> finds the label selector of
  the options, if they have one, as what it matches.
\<close>

record 'w testing_fake =
  tf_invokes :: "action \<Rightarrow> runtime_object \<Rightarrow> ('w, runtime_object option \<times> go_error option) io"
  tf_invokes_watch :: "action \<Rightarrow> ('w, go_error + nat) io"
  tf_new_list_action :: "gvr \<Rightarrow> gvr \<Rightarrow> string \<Rightarrow> list_options \<Rightarrow> action"
  tf_new_watch_action :: "gvr \<Rightarrow> string \<Rightarrow> list_options \<Rightarrow> action"
  tf_new_delete_collection_action :: "gvr \<Rightarrow> string \<Rightarrow> list_options \<Rightarrow> action"
  tf_extract_label :: "list_options \<Rightarrow> (gomap \<Rightarrow> bool) option"
  tf_everything :: "gomap \<Rightarrow> bool"

text \<open>The zero values of the two structs.\<close>

definition zero_lrp :: lrp where
  "zero_lrp = \<lparr>lr_meta = empty_meta,
     lr_spec = \<lparr>ls_guid = [], ls_version = [], ls_process_type = [], ls_app_name = [], ls_app_guid = [], ls_org_name = [],
       ls_org_guid = [], ls_space_name = [], ls_space_guid = [], ls_image = [], ls_command = None, ls_sidecars = None,
       ls_private_registry = None, ls_env = None, ls_environment = None,
       ls_health = \<lparr>hc_type = [], hc_port = 0, hc_endpoint = [], hc_timeout_ms = 0\<rparr>, ls_ports = None,
       ls_instances = 0, ls_memory_mb = 0, ls_disk_mb = 0, ls_cpu_weight = 0, ls_volume_mounts = None,
       ls_user_defined_annotations = None\<rparr>,
     lr_status_replicas = 0\<rparr>"

definition zero_task :: task where
  "zero_task = \<lparr>tk_meta = empty_meta,
     tk_spec = \<lparr>ta_guid = [], ta_name = [], ta_image = [], ta_image_pull_secrets = None, ta_env = None,
       ta_environment = None, ta_command = None, ta_app_name = [], ta_app_guid = [], ta_org_name = [], ta_org_guid = [],
       ta_space_name = [], ta_space_guid = [], ta_memory_mb = 0, ta_disk_mb = 0, ta_cpu_millis = 0\<rparr>,
     tk_conditions = []\<rparr>"

record 'w fake_eirini_v1 =
  fe_fake :: "'w testing_fake"

section \<open>LRPs\<close>

record 'w fake_lrps =
  fl_fake :: "'w fake_eirini_v1"
  fl_ns :: string

definition lrps_resource :: gvr where
  "lrps_resource = (''eirini.cloudfoundry.org'', ''v1'', ''lrps'')"

definition lrps_kind :: gvr where
  "lrps_kind = (''eirini.cloudfoundry.org'', ''v1'', ''LRP'')"

abbreviation lrp_fake_of :: "'w fake_lrps \<Rightarrow> 'w testing_fake" where
  "lrp_fake_of c \<equiv> fe_fake (fl_fake c)"

text \<open>The end of the methods: a nil object is answered with nil, any other is asserted to be an LRP.\<close>

definition lrp_answer :: "runtime_object option \<Rightarrow> go_error option \<Rightarrow> (lrp option \<times> go_error option) outcome" where
  "lrp_answer obj err =
     (case obj of
        None \<Rightarrow> Returns (None, err)
      | Some (LRPObject x) \<Rightarrow> Returns (Some x, err)
      | Some _ \<Rightarrow> Panics)"

definition fake_lrps_get ::
  "'w fake_lrps \<Rightarrow> string \<Rightarrow> string \<Rightarrow> ('w, (lrp option \<times> go_error option) outcome) io" where
  "fake_lrps_get c name options = do {
     (obj, err) \<leftarrow> tf_invokes (lrp_fake_of c) (GetAction lrps_resource (fl_ns c) name) (LRPObject zero_lrp);
     ret (lrp_answer obj err)
   }"

text \<open>The items are filtered here: the handlers of actions do not look at selectors.\<close>

definition fake_lrps_list ::
  "'w fake_lrps \<Rightarrow> list_options \<Rightarrow> ('w, ((string \<times> lrp list) option \<times> go_error option) outcome) io" where
  "fake_lrps_list c opts = do {
     (obj, err) \<leftarrow> tf_invokes (lrp_fake_of c) (tf_new_list_action (lrp_fake_of c) lrps_resource lrps_kind (fl_ns c) opts) (LRPListObject [] []);
     ret (case obj of
            None \<Rightarrow> Returns (None, err)
          | Some obj \<Rightarrow>
              (let label = (case tf_extract_label (lrp_fake_of c) opts of
                              None \<Rightarrow> tf_everything (lrp_fake_of c)
                            | Some label \<Rightarrow> label)
               in (case obj of
                     LRPListObject meta items \<Rightarrow>
                       Returns (Some (meta, filter (\<lambda>item. label (om_labels (lr_meta item))) items), err)
                   | _ \<Rightarrow> Panics)))
   }"

definition fake_lrps_watch :: "'w fake_lrps \<Rightarrow> list_options \<Rightarrow> ('w, go_error + nat) io" where
  "fake_lrps_watch c opts = tf_invokes_watch (lrp_fake_of c) (tf_new_watch_action (lrp_fake_of c) lrps_resource (fl_ns c) opts)"

definition fake_lrps_create ::
  "'w fake_lrps \<Rightarrow> lrp \<Rightarrow> string \<Rightarrow> ('w, (lrp option \<times> go_error option) outcome) io" where
  "fake_lrps_create c x opts = do {
     (obj, err) \<leftarrow> tf_invokes (lrp_fake_of c) (CreateAction lrps_resource (fl_ns c) (LRPObject x)) (LRPObject zero_lrp);
     ret (lrp_answer obj err)
   }"

definition fake_lrps_update ::
  "'w fake_lrps \<Rightarrow> lrp \<Rightarrow> string \<Rightarrow> ('w, (lrp option \<times> go_error option) outcome) io" where
  "fake_lrps_update c x opts = do {
     (obj, err) \<leftarrow> tf_invokes (lrp_fake_of c) (UpdateAction lrps_resource (fl_ns c) (LRPObject x)) (LRPObject zero_lrp);
     ret (lrp_answer obj err)
   }"

definition fake_lrps_update_status ::
  "'w fake_lrps \<Rightarrow> lrp \<Rightarrow> string \<Rightarrow> ('w, (lrp option \<times> go_error option) outcome) io" where
  "fake_lrps_update_status c x opts = do {
     (obj, err) \<leftarrow> tf_invokes (lrp_fake_of c)
       (UpdateSubresourceAction lrps_resource ''status'' (fl_ns c) (LRPObject x)) (LRPObject zero_lrp);
     ret (lrp_answer obj err)
   }"

definition fake_lrps_delete :: "'w fake_lrps \<Rightarrow> string \<Rightarrow> string \<Rightarrow> ('w, go_error option) io" where
  "fake_lrps_delete c name opts = do {
     (_, err) \<leftarrow> tf_invokes (lrp_fake_of c)
       (DeleteActionWithOptions lrps_resource (fl_ns c) name opts) (LRPObject zero_lrp);
     ret err
   }"

definition fake_lrps_delete_collection ::
  "'w fake_lrps \<Rightarrow> string \<Rightarrow> list_options \<Rightarrow> ('w, go_error option) io" where
  "fake_lrps_delete_collection c opts listOpts = do {
     (_, err) \<leftarrow> tf_invokes (lrp_fake_of c)
       (tf_new_delete_collection_action (lrp_fake_of c) lrps_resource (fl_ns c) listOpts) (LRPListObject [] []);
     ret err
   }"

definition fake_lrps_patch ::
  "'w fake_lrps \<Rightarrow> string \<Rightarrow> string \<Rightarrow> string \<Rightarrow> string \<Rightarrow> string list
    \<Rightarrow> ('w, (lrp option \<times> go_error option) outcome) io" where
  "fake_lrps_patch c name pt data opts subresources = do {
     (obj, err) \<leftarrow> tf_invokes (lrp_fake_of c)
       (PatchSubresourceAction lrps_resource (fl_ns c) name pt data subresources) (LRPObject zero_lrp);
     ret (lrp_answer obj err)
   }"

section \<open>Tasks\<close>

record 'w fake_tasks =
  ft_fake :: "'w fake_eirini_v1"
  ft_ns :: string

definition tasks_resource :: gvr where
  "tasks_resource = (''eirini.cloudfoundry.org'', ''v1'', ''tasks'')"

definition tasks_kind :: gvr where
  "tasks_kind = (''eirini.cloudfoundry.org'', ''v1'', ''Task'')"

abbreviation task_fake_of :: "'w fake_tasks \<Rightarrow> 'w testing_fake" where
  "task_fake_of c \<equiv> fe_fake (ft_fake c)"

text \<open>The end of the methods: a nil object is answered with nil, any other is asserted to be a task.\<close>

definition task_answer :: "runtime_object option \<Rightarrow> go_error option \<Rightarrow> (task option \<times> go_error option) outcome" where
  "task_answer obj err =
     (case obj of
        None \<Rightarrow> Returns (None, err)
      | Some (TaskObject x) \<Rightarrow> Returns (Some x, err)
      | Some _ \<Rightarrow> Panics)"

definition fake_tasks_get ::
  "'w fake_tasks \<Rightarrow> string \<Rightarrow> string \<Rightarrow> ('w, (task option \<times> go_error option) outcome) io" where
  "fake_tasks_get c name options = do {
     (obj, err) \<leftarrow> tf_invokes (task_fake_of c) (GetAction tasks_resource (ft_ns c) name) (TaskObject zero_task);
     ret (task_answer obj err)
   }"

text \<open>The items are filtered here: the handlers of actions do not look at selectors.\<close>

definition fake_tasks_list ::
  "'w fake_tasks \<Rightarrow> list_options \<Rightarrow> ('w, ((string \<times> task list) option \<times> go_error option) outcome) io" where
  "fake_tasks_list c opts = do {
     (obj, err) \<leftarrow> tf_invokes (task_fake_of c) (tf_new_list_action (task_fake_of c) tasks_resource tasks_kind (ft_ns c) opts) (TaskListObject [] []);
     ret (case obj of
            None \<Rightarrow> Returns (None, err)
          | Some obj \<Rightarrow>
              (let label = (case tf_extract_label (task_fake_of c) opts of
                              None \<Rightarrow> tf_everything (task_fake_of c)
                            | Some label \<Rightarrow> label)
               in (case obj of
                     TaskListObject meta items \<Rightarrow>
                       Returns (Some (meta, filter (\<lambda>item. label (om_labels (tk_meta item))) items), err)
                   | _ \<Rightarrow> Panics)))
   }"

definition fake_tasks_watch :: "'w fake_tasks \<Rightarrow> list_options \<Rightarrow> ('w, go_error + nat) io" where
  "fake_tasks_watch c opts = tf_invokes_watch (task_fake_of c) (tf_new_watch_action (task_fake_of c) tasks_resource (ft_ns c) opts)"

definition fake_tasks_create ::
  "'w fake_tasks \<Rightarrow> task \<Rightarrow> string \<Rightarrow> ('w, (task option \<times> go_error option) outcome) io" where
  "fake_tasks_create c x opts = do {
     (obj, err) \<leftarrow> tf_invokes (task_fake_of c) (CreateAction tasks_resource (ft_ns c) (TaskObject x)) (TaskObject zero_task);
     ret (task_answer obj err)
   }"

definition fake_tasks_update ::
  "'w fake_tasks \<Rightarrow> task \<Rightarrow> string \<Rightarrow> ('w, (task option \<times> go_error option) outcome) io" where
  "fake_tasks_update c x opts = do {
     (obj, err) \<leftarrow> tf_invokes (task_fake_of c) (UpdateAction tasks_resource (ft_ns c) (TaskObject x)) (TaskObject zero_task);
     ret (task_answer obj err)
   }"

definition fake_tasks_update_status ::
  "'w fake_tasks \<Rightarrow> task \<Rightarrow> string \<Rightarrow> ('w, (task option \<times> go_error option) outcome) io" where
  "fake_tasks_update_status c x opts = do {
     (obj, err) \<leftarrow> tf_invokes (task_fake_of c)
       (UpdateSubresourceAction tasks_resource ''status'' (ft_ns c) (TaskObject x)) (TaskObject zero_task);
     ret (task_answer obj err)
   }"

definition fake_tasks_delete :: "'w fake_tasks \<Rightarrow> string \<Rightarrow> string \<Rightarrow> ('w, go_error option) io" where
  "fake_tasks_delete c name opts = do {
     (_, err) \<leftarrow> tf_invokes (task_fake_of c)
       (DeleteActionWithOptions tasks_resource (ft_ns c) name opts) (TaskObject zero_task);
     ret err
   }"

definition fake_tasks_delete_collection ::
  "'w fake_tasks \<Rightarrow> string \<Rightarrow> list_options \<Rightarrow> ('w, go_error option) io" where
  "fake_tasks_delete_collection c opts listOpts = do {
     (_, err) \<leftarrow> tf_invokes (task_fake_of c)
       (tf_new_delete_collection_action (task_fake_of c) tasks_resource (ft_ns c) listOpts) (TaskListObject [] []);
     ret err
   }"

definition fake_tasks_patch ::
  "'w fake_tasks \<Rightarrow> string \<Rightarrow> string \<Rightarrow> string \<Rightarrow> string \<Rightarrow> string list
    \<Rightarrow> ('w, (task option \<times> go_error option) outcome) io" where
  "fake_tasks_patch c name pt data opts subresources = do {
     (obj, err) \<leftarrow> tf_invokes (task_fake_of c)
       (PatchSubresourceAction tasks_resource (ft_ns c) name pt data subresources) (TaskObject zero_task);
     ret (task_answer obj err)
   }"

section \<open>The clientset\<close>

definition fake_eirini_v1_lrps :: "'w fake_eirini_v1 \<Rightarrow> string \<Rightarrow> 'w fake_lrps" where
  "fake_eirini_v1_lrps c namespace = \<lparr>fl_fake = c, fl_ns = namespace\<rparr>"

definition fake_eirini_v1_tasks :: "'w fake_eirini_v1 \<Rightarrow> string \<Rightarrow> 'w fake_tasks" where
  "fake_eirini_v1_tasks c namespace = \<lparr>ft_fake = c, ft_ns = namespace\<rparr>"

text \<open>The REST client is a nil pointer.\<close>

definition fake_rest_client :: "'w fake_eirini_v1 \<Rightarrow> 'w rest option" where
  "fake_rest_client c = None"

text \<open>
  Trackers and discoveries are known by numbers. The state of the tracker and of the \<open>Fake\<close>, with its
  reactors, is in the world. A reactor tells whether it has handled the action.
\<close>

record 'w fake_clientset =
  fc_fake :: "'w testing_fake"
  fc_discovery :: nat
  fc_tracker :: nat

record 'w testing_lib =
  tl_fake :: "'w testing_fake"
  tl_new_object_tracker :: "('w, nat) io"
  tl_tracker_add :: "nat \<Rightarrow> runtime_object \<Rightarrow> ('w, go_error option) io"
  tl_tracker_watch :: "nat \<Rightarrow> gvr \<Rightarrow> string \<Rightarrow> ('w, go_error + nat) io"
  tl_object_reaction :: "nat \<Rightarrow> action \<Rightarrow> ('w, bool \<times> runtime_object option \<times> go_error option) io"
  tl_add_reactor :: "string \<Rightarrow> string \<Rightarrow> (action \<Rightarrow> ('w, bool \<times> runtime_object option \<times> go_error option) io)
    \<Rightarrow> ('w, unit) io"
  tl_add_watch_reactor :: "string \<Rightarrow> (action \<Rightarrow> ('w, bool \<times> nat option \<times> go_error option) io) \<Rightarrow> ('w, unit) io"
  tl_fake_discovery :: nat

fun get_resource :: "action \<Rightarrow> gvr" where
  "get_resource (GetAction r ns n) = r"
| "get_resource (ListAction r k ns sel) = r"
| "get_resource (WatchAction r ns sel v) = r"
| "get_resource (CreateAction r ns obj) = r"
| "get_resource (UpdateAction r ns obj) = r"
| "get_resource (UpdateSubresourceAction r sub ns obj) = r"
| "get_resource (DeleteActionWithOptions r ns n opts) = r"
| "get_resource (DeleteCollectionAction r ns sel) = r"
| "get_resource (PatchSubresourceAction r ns n pt data subs) = r"

fun get_namespace :: "action \<Rightarrow> string" where
  "get_namespace (GetAction r ns n) = ns"
| "get_namespace (ListAction r k ns sel) = ns"
| "get_namespace (WatchAction r ns sel v) = ns"
| "get_namespace (CreateAction r ns obj) = ns"
| "get_namespace (UpdateAction r ns obj) = ns"
| "get_namespace (UpdateSubresourceAction r sub ns obj) = ns"
| "get_namespace (DeleteActionWithOptions r ns n opts) = ns"
| "get_namespace (DeleteCollectionAction r ns sel) = ns"
| "get_namespace (PatchSubresourceAction r ns n pt data subs) = ns"

definition watch_reaction ::
  "'w testing_lib \<Rightarrow> nat \<Rightarrow> action \<Rightarrow> ('w, bool \<times> nat option \<times> go_error option) io" where
  "watch_reaction tst tr action =
     (let gvr = get_resource action; ns = get_namespace action
      in do {
        watch \<leftarrow> tl_tracker_watch tst tr gvr ns;
        ret (case watch of Inl err \<Rightarrow> (False, None, Some err) | Inr watch \<Rightarrow> (True, Some watch, None))
      })"

fun add_objects :: "'w testing_lib \<Rightarrow> nat \<Rightarrow> runtime_object list \<Rightarrow> ('w, unit outcome) io" where
  "add_objects tst tr [] = ret (Returns ())"
| "add_objects tst tr (obj # objects) = do {
     err \<leftarrow> tl_tracker_add tst tr obj;
     case err of
       Some err \<Rightarrow> ret Panics
     | None \<Rightarrow> add_objects tst tr objects
   }"

definition new_simple_clientset ::
  "'w testing_lib \<Rightarrow> runtime_object list \<Rightarrow> ('w, 'w fake_clientset outcome) io" where
  "new_simple_clientset tst objects = do {
     tr \<leftarrow> tl_new_object_tracker tst;
     added \<leftarrow> add_objects tst tr objects;
     case added of
       Panics \<Rightarrow> ret Panics
     | Returns _ \<Rightarrow> do {
         _ \<leftarrow> tl_add_reactor tst ''*'' ''*'' (tl_object_reaction tst tr);
         _ \<leftarrow> tl_add_watch_reactor tst ''*'' (watch_reaction tst tr);
         ret (Returns \<lparr>fc_fake = tl_fake tst, fc_discovery = tl_fake_discovery tst, fc_tracker = tr\<rparr>)
       }
   }"

definition fake_clientset_discovery :: "'w fake_clientset \<Rightarrow> nat" where
  "fake_clientset_discovery c = fc_discovery c"

definition fake_clientset_tracker :: "'w fake_clientset \<Rightarrow> nat" where
  "fake_clientset_tracker c = fc_tracker c"

definition fake_clientset_eirini_v1 :: "'w fake_clientset \<Rightarrow> 'w fake_eirini_v1" where
  "fake_clientset_eirini_v1 c = \<lparr>fe_fake = fc_fake c\<rparr>"

lemma add_objects_first_error:
  assumes "run_state (add_objects tst tr (objs @ [obj])) w = (Returns (), w')"
  shows "\<exists>w1. run_state (add_objects tst tr objs) w = (Returns (), w1) \<and>
    run_state (tl_tracker_add tst tr obj) w1 = (None, w')"
  using assms by (induction objs arbitrary: w) (auto split: option.splits prod.splits)

end
