(* ===== verification/Fake_Equivalence.thy ===== *)
theory Fake_Equivalence
  imports Fake_Clientset
begin

text \<open>
  The fake clientset stands for the real one. A call of a method of either is described by the operation
  it asks for; the request that the real client sends and the action that the fake handles describe the same
  one.
\<close>

section \<open>Calls and operations\<close>

datatype 'x typed_call =
    GetCall string string
  | ListCall list_options
  | WatchCall list_options
  | CreateCall 'x string
  | UpdateCall 'x string
  | UpdateStatusCall 'x string
  | DeleteCall string string
  | DeleteCollectionCall string list_options
  | PatchCall string string string string "string list"

text \<open>
  The operation of a request, as the API server sees it: without a name, a GET is a list or a watch, and a
  DELETE deletes a collection. Of the options those of the deletion of one object are part of it, and of those
  of a list the selectors, for a watch also the resource version, since the actions of the fake keep no
  others: a timeout or a limit is known to the server only. That a list is a watch is told by the verb.
  Selectors are compared as they are parsed, by functions that are a parameter.
\<close>

record selector_lib =
  sl_labels :: "string \<Rightarrow> nat option"
  sl_fields :: "string \<Rightarrow> nat option"

text \<open>Options whose selectors can be parsed.\<close>

definition selects :: "selector_lib \<Rightarrow> list_options \<Rightarrow> bool" where
  "selects sl opts \<longleftrightarrow> sl_labels sl (lo_label_selector opts) \<noteq> None \<and> sl_fields sl (lo_field_selector opts) \<noteq> None"

text \<open>
  What is documented of the constructors of actions: they parse the selectors (and panic when that fails) and
  keep them; the one of watches keeps the resource version as well.
\<close>

definition action_laws :: "selector_lib \<Rightarrow> 'w testing_fake \<Rightarrow> bool" where
  "action_laws sl f \<longleftrightarrow> (\<forall>r k ns opts a b.
     sl_labels sl (lo_label_selector opts) = Some a \<longrightarrow> sl_fields sl (lo_field_selector opts) = Some b \<longrightarrow>
       tf_new_list_action f r k ns opts = ListAction r k ns (a, b) \<and>
       tf_new_watch_action f r ns opts = WatchAction r ns (a, b) (lo_resource_version opts) \<and>
       tf_new_delete_collection_action f r ns opts = DeleteCollectionAction r ns (a, b))"

datatype what =
    Nothing
  | Object runtime_object
  | Options string
  | Selection "nat option" "nat option" "string option"
  | Patch string string

record operation =
  op_verb :: string
  op_resource :: string
  op_namespace :: string
  op_name :: "string option"
  op_subresources :: "string list"
  op_what :: what

definition selection :: "selector_lib \<Rightarrow> list_options \<Rightarrow> what" where
  "selection sl opts = Selection (sl_labels sl (lo_label_selector opts)) (sl_fields sl (lo_field_selector opts))
     (if lo_watch opts then Some (lo_resource_version opts) else None)"

definition request_verb :: "request \<Rightarrow> string" where
  "request_verb r =
     (case rq_verb r of
        GetVerb \<Rightarrow> (case (rq_name r, rq_params r) of
            (None, ListParams opts) \<Rightarrow> (if lo_watch opts then ''watch'' else ''list'')
          | _ \<Rightarrow> ''get'')
      | PostVerb \<Rightarrow> ''create''
      | PutVerb \<Rightarrow> ''update''
      | DeleteVerb \<Rightarrow> (if rq_name r = None then ''delete-collection'' else ''delete'')
      | PatchVerb _ \<Rightarrow> ''patch'')"

definition request_what :: "selector_lib \<Rightarrow> request \<Rightarrow> what" where
  "request_what sl r =
     (case rq_params r of
        ListParams opts \<Rightarrow> selection sl opts
      | _ \<Rightarrow> (case rq_body r of
            NoBody \<Rightarrow> Nothing
          | LRPBody x \<Rightarrow> Object (LRPObject x)
          | TaskBody x \<Rightarrow> Object (TaskObject x)
          | DeleteBody opts \<Rightarrow> Options opts
          | RawBody data \<Rightarrow> (case rq_verb r of PatchVerb pt \<Rightarrow> Patch pt data | _ \<Rightarrow> Nothing)))"

definition request_operation :: "selector_lib \<Rightarrow> request \<Rightarrow> operation" where
  "request_operation sl r = \<lparr>op_verb = request_verb r, op_resource = rq_resource r, op_namespace = rq_namespace r,
     op_name = rq_name r, op_subresources = rq_subresources r, op_what = request_what sl r\<rparr>"

text \<open>The name of an object that is sent along; an object that is created has its name in the body only.\<close>

fun object_name :: "runtime_object \<Rightarrow> string option" where
  "object_name (LRPObject x) = Some (om_name (lr_meta x))"
| "object_name (TaskObject x) = Some (om_name (tk_meta x))"
| "object_name _ = None"

fun action_operation :: "action \<Rightarrow> operation" where
  "action_operation (GetAction (g, v, r) ns n) = \<lparr>op_verb = ''get'', op_resource = r, op_namespace = ns,
     op_name = Some n, op_subresources = [], op_what = Nothing\<rparr>"
| "action_operation (ListAction (g, v, r) k ns (a, b)) = \<lparr>op_verb = ''list'', op_resource = r, op_namespace = ns,
     op_name = None, op_subresources = [], op_what = Selection (Some a) (Some b) None\<rparr>"
| "action_operation (WatchAction (g, v, r) ns (a, b) rv) = \<lparr>op_verb = ''watch'', op_resource = r, op_namespace = ns,
     op_name = None, op_subresources = [], op_what = Selection (Some a) (Some b) (Some rv)\<rparr>"
| "action_operation (CreateAction (g, v, r) ns obj) = \<lparr>op_verb = ''create'', op_resource = r, op_namespace = ns,
     op_name = None, op_subresources = [], op_what = Object obj\<rparr>"
| "action_operation (UpdateAction (g, v, r) ns obj) = \<lparr>op_verb = ''update'', op_resource = r, op_namespace = ns,
     op_name = object_name obj, op_subresources = [], op_what = Object obj\<rparr>"
| "action_operation (UpdateSubresourceAction (g, v, r) sub ns obj) = \<lparr>op_verb = ''update'', op_resource = r,
     op_namespace = ns, op_name = object_name obj, op_subresources = [sub], op_what = Object obj\<rparr>"
| "action_operation (DeleteActionWithOptions (g, v, r) ns n opts) = \<lparr>op_verb = ''delete'', op_resource = r,
     op_namespace = ns, op_name = Some n, op_subresources = [], op_what = Options opts\<rparr>"
| "action_operation (DeleteCollectionAction (g, v, r) ns (a, b)) = \<lparr>op_verb = ''delete-collection'', op_resource = r,
     op_namespace = ns, op_name = None, op_subresources = [], op_what = Selection (Some a) (Some b) None\<rparr>"
| "action_operation (PatchSubresourceAction (g, v, r) ns n pt data subs) = \<lparr>op_verb = ''patch'', op_resource = r,
     op_namespace = ns, op_name = Some n, op_subresources = subs, op_what = Patch pt data\<rparr>"

section \<open>Recording\<close>

text \<open>\<open>noted x m\<close> does \<open>m\<close> and adds \<open>x\<close> to the notes.\<close>

definition noted :: "'x \<Rightarrow> ('w, 'a) io \<Rightarrow> ('w \<times> 'x list, 'a) io" where
  "noted x m = State (\<lambda>(w, xs). case run_state m w of (a, w') \<Rightarrow> (a, (w', xs @ [x])))"

definition noted_rest :: "'w rest \<Rightarrow> ('w \<times> request list) rest" where
  "noted_rest rs = \<lparr>rs_into_lrp = (\<lambda>r. noted r (rs_into_lrp rs r)), rs_into_lrp_list = (\<lambda>r. noted r (rs_into_lrp_list rs r)),
     rs_into_task = (\<lambda>r. noted r (rs_into_task rs r)), rs_into_task_list = (\<lambda>r. noted r (rs_into_task_list rs r)),
     rs_error = (\<lambda>r. noted r (rs_error rs r)), rs_watch = (\<lambda>r. noted r (rs_watch rs r))\<rparr>"

definition noted_fake :: "'w testing_fake \<Rightarrow> ('w \<times> action list) testing_fake" where
  "noted_fake f = \<lparr>tf_invokes = (\<lambda>a d. noted a (tf_invokes f a d)), tf_invokes_watch = (\<lambda>a. noted a (tf_invokes_watch f a)),
     tf_new_list_action = tf_new_list_action f, tf_new_watch_action = tf_new_watch_action f,
     tf_new_delete_collection_action = tf_new_delete_collection_action f,
     tf_extract_label = tf_extract_label f, tf_everything = tf_everything f\<rparr>"

text \<open>What a computation notes, starting with nothing.\<close>

definition notes_of :: "('w \<times> 'x list, 'a) io \<Rightarrow> 'w \<Rightarrow> 'x list" where
  "notes_of m w = snd (snd (run_state m (w, [])))"

definition silently :: "('w, 'a) io \<Rightarrow> ('w, unit) io" where
  "silently m = State_Monad.bind m (\<lambda>_. ret ())"

lemma notes_noted [simp]: "notes_of (State_Monad.bind (noted x m) (\<lambda>a. ret (f a))) w = [x]"
  by (simp add: notes_of_def noted_def split: prod.split)

lemma notes_noted_pair [simp]: "notes_of (State_Monad.bind (noted x m) (\<lambda>(a, b). ret (f a b))) w = [x]"
  by (simp add: notes_of_def noted_def split: prod.split)

lemma noted_rest_simps [simp]:
  "rs_into_lrp (noted_rest rs) r = noted r (rs_into_lrp rs r)"
  "rs_into_lrp_list (noted_rest rs) r = noted r (rs_into_lrp_list rs r)"
  "rs_into_task (noted_rest rs) r = noted r (rs_into_task rs r)"
  "rs_into_task_list (noted_rest rs) r = noted r (rs_into_task_list rs r)"
  "rs_error (noted_rest rs) r = noted r (rs_error rs r)"
  "rs_watch (noted_rest rs) r = noted r (rs_watch rs r)"
  by (simp_all add: noted_rest_def)

lemma noted_fake_simps [simp]:
  "tf_invokes (noted_fake f) a d = noted a (tf_invokes f a d)"
  "tf_invokes_watch (noted_fake f) a = noted a (tf_invokes_watch f a)"
  "tf_new_list_action (noted_fake f) = tf_new_list_action f"
  "tf_new_watch_action (noted_fake f) = tf_new_watch_action f"
  "tf_new_delete_collection_action (noted_fake f) = tf_new_delete_collection_action f"
  by (simp_all add: noted_fake_def)

lemma notes_silently [simp]: "notes_of (silently m) w = notes_of m w"
  by (simp add: notes_of_def silently_def split: prod.split)

lemma notes_single [simp]: "notes_of (noted x m) w = [x]"
  by (simp add: notes_of_def noted_def split: prod.split)

fun real_lrp_call :: "'w lrp_client \<Rightarrow> lrp typed_call \<Rightarrow> ('w, unit) io" where
  "real_lrp_call c (GetCall n opts) = silently (lrps_get c n opts)"
| "real_lrp_call c (ListCall opts) = silently (lrps_list c opts)"
| "real_lrp_call c (WatchCall opts) = silently (lrps_watch c opts)"
| "real_lrp_call c (CreateCall x opts) = silently (lrps_create c x opts)"
| "real_lrp_call c (UpdateCall x opts) = silently (lrps_update c x opts)"
| "real_lrp_call c (UpdateStatusCall x opts) = silently (lrps_update_status c x opts)"
| "real_lrp_call c (DeleteCall n opts) = silently (lrps_delete c n opts)"
| "real_lrp_call c (DeleteCollectionCall opts listOpts) = silently (lrps_delete_collection c opts listOpts)"
| "real_lrp_call c (PatchCall n pt data opts subs) = silently (lrps_patch c n pt data opts subs)"

fun fake_lrp_call :: "'w fake_lrps \<Rightarrow> lrp typed_call \<Rightarrow> ('w, unit) io" where
  "fake_lrp_call c (GetCall n opts) = silently (fake_lrps_get c n opts)"
| "fake_lrp_call c (ListCall opts) = silently (fake_lrps_list c opts)"
| "fake_lrp_call c (WatchCall opts) = silently (fake_lrps_watch c opts)"
| "fake_lrp_call c (CreateCall x opts) = silently (fake_lrps_create c x opts)"
| "fake_lrp_call c (UpdateCall x opts) = silently (fake_lrps_update c x opts)"
| "fake_lrp_call c (UpdateStatusCall x opts) = silently (fake_lrps_update_status c x opts)"
| "fake_lrp_call c (DeleteCall n opts) = silently (fake_lrps_delete c n opts)"
| "fake_lrp_call c (DeleteCollectionCall opts listOpts) = silently (fake_lrps_delete_collection c opts listOpts)"
| "fake_lrp_call c (PatchCall n pt data opts subs) = silently (fake_lrps_patch c n pt data opts subs)"

fun real_task_call :: "'w task_client \<Rightarrow> task typed_call \<Rightarrow> ('w, unit) io" where
  "real_task_call c (GetCall n opts) = silently (tasks_get c n opts)"
| "real_task_call c (ListCall opts) = silently (tasks_list c opts)"
| "real_task_call c (WatchCall opts) = silently (tasks_watch c opts)"
| "real_task_call c (CreateCall x opts) = silently (tasks_create c x opts)"
| "real_task_call c (UpdateCall x opts) = silently (tasks_update c x opts)"
| "real_task_call c (UpdateStatusCall x opts) = silently (tasks_update_status c x opts)"
| "real_task_call c (DeleteCall n opts) = silently (tasks_delete c n opts)"
| "real_task_call c (DeleteCollectionCall opts listOpts) = silently (tasks_delete_collection c opts listOpts)"
| "real_task_call c (PatchCall n pt data opts subs) = silently (tasks_patch c n pt data opts subs)"

fun fake_task_call :: "'w fake_tasks \<Rightarrow> task typed_call \<Rightarrow> ('w, unit) io" where
  "fake_task_call c (GetCall n opts) = silently (fake_tasks_get c n opts)"
| "fake_task_call c (ListCall opts) = silently (fake_tasks_list c opts)"
| "fake_task_call c (WatchCall opts) = silently (fake_tasks_watch c opts)"
| "fake_task_call c (CreateCall x opts) = silently (fake_tasks_create c x opts)"
| "fake_task_call c (UpdateCall x opts) = silently (fake_tasks_update c x opts)"
| "fake_task_call c (UpdateStatusCall x opts) = silently (fake_tasks_update_status c x opts)"
| "fake_task_call c (DeleteCall n opts) = silently (fake_tasks_delete c n opts)"
| "fake_task_call c (DeleteCollectionCall opts listOpts) = silently (fake_tasks_delete_collection c opts listOpts)"
| "fake_task_call c (PatchCall n pt data opts subs) = silently (fake_tasks_patch c n pt data opts subs)"

text \<open>
  The calls that are compared. A list or a deletion of a collection that is asked to be a watch by its options
  is one for the server only, and selectors that cannot be parsed are sent to the server, but make the fake
  panic.
\<close>

fun plain_call :: "selector_lib \<Rightarrow> 'x typed_call \<Rightarrow> bool" where
  "plain_call sl (ListCall opts) \<longleftrightarrow> \<not> lo_watch opts \<and> selects sl opts"
| "plain_call sl (WatchCall opts) \<longleftrightarrow> selects sl opts"
| "plain_call sl (DeleteCollectionCall opts listOpts) \<longleftrightarrow> \<not> lo_watch listOpts \<and> selects sl listOpts"
| "plain_call sl _ \<longleftrightarrow> True"

section \<open>Both describe the same operations\<close>

lemmas request_defs = request_operation_def request_verb_def request_what_def new_request_def

lemma constructed_actions:
  assumes "action_laws sl f" "selects sl opts"
  shows "action_operation (tf_new_list_action f (g, v, r) k ns opts) = \<lparr>op_verb = ''list'', op_resource = r,
      op_namespace = ns, op_name = None, op_subresources = [], op_what = selection sl (opts\<lparr>lo_watch := False\<rparr>)\<rparr>"
    and "action_operation (tf_new_watch_action f (g, v, r) ns opts) = \<lparr>op_verb = ''watch'', op_resource = r,
      op_namespace = ns, op_name = None, op_subresources = [], op_what = selection sl (opts\<lparr>lo_watch := True\<rparr>)\<rparr>"
    and "action_operation (tf_new_delete_collection_action f (g, v, r) ns opts) = \<lparr>op_verb = ''delete-collection'',
      op_resource = r, op_namespace = ns, op_name = None, op_subresources = [],
      op_what = selection sl (opts\<lparr>lo_watch := False\<rparr>)\<rparr>"
    and "get_resource (tf_new_list_action f (g, v, r) k ns opts) = (g, v, r)"
    and "get_resource (tf_new_watch_action f (g, v, r) ns opts) = (g, v, r)"
    and "get_resource (tf_new_delete_collection_action f (g, v, r) ns opts) = (g, v, r)"
proof -
  obtain a b where "sl_labels sl (lo_label_selector opts) = Some a" "sl_fields sl (lo_field_selector opts) = Some b"
    using assms(2) by (auto simp: selects_def)
  moreover with assms(1) have "tf_new_list_action f (g, v, r) k ns opts = ListAction (g, v, r) k ns (a, b)"
    "tf_new_watch_action f (g, v, r) ns opts = WatchAction (g, v, r) ns (a, b) (lo_resource_version opts)"
    "tf_new_delete_collection_action f (g, v, r) ns opts = DeleteCollectionAction (g, v, r) ns (a, b)"
    by (simp_all add: action_laws_def del: split_paired_All)
  ultimately show "action_operation (tf_new_list_action f (g, v, r) k ns opts) = \<lparr>op_verb = ''list'', op_resource = r,
      op_namespace = ns, op_name = None, op_subresources = [], op_what = selection sl (opts\<lparr>lo_watch := False\<rparr>)\<rparr>"
    "action_operation (tf_new_watch_action f (g, v, r) ns opts) = \<lparr>op_verb = ''watch'', op_resource = r,
      op_namespace = ns, op_name = None, op_subresources = [], op_what = selection sl (opts\<lparr>lo_watch := True\<rparr>)\<rparr>"
    "action_operation (tf_new_delete_collection_action f (g, v, r) ns opts) = \<lparr>op_verb = ''delete-collection'',
      op_resource = r, op_namespace = ns, op_name = None, op_subresources = [],
      op_what = selection sl (opts\<lparr>lo_watch := False\<rparr>)\<rparr>"
    "get_resource (tf_new_list_action f (g, v, r) k ns opts) = (g, v, r)"
    "get_resource (tf_new_watch_action f (g, v, r) ns opts) = (g, v, r)"
    "get_resource (tf_new_delete_collection_action f (g, v, r) ns opts) = (g, v, r)"
    by (simp_all add: selection_def)
qed

lemma selection_idle [simp]: "\<not> lo_watch opts \<Longrightarrow> opts\<lparr>lo_watch := False\<rparr> = opts"
  by simp

text \<open>The real client of LRPs and its fake, side by side.\<close>

lemmas typed_lrp_defs = new_lrps_def lrps_get_def lrps_list_def lrps_watch_def lrps_create_def lrps_update_def
  lrps_update_status_def lrps_delete_def lrps_delete_collection_def lrps_patch_def

lemmas typed_task_defs = new_tasks_def tasks_get_def tasks_list_def tasks_watch_def tasks_create_def tasks_update_def
  tasks_update_status_def tasks_delete_def tasks_delete_collection_def tasks_patch_def

lemmas fake_lrp_defs = fake_lrps_get_def fake_lrps_list_def fake_lrps_watch_def fake_lrps_create_def
  fake_lrps_update_def fake_lrps_update_status_def fake_lrps_delete_def fake_lrps_delete_collection_def
  fake_lrps_patch_def lrps_resource_def

lemmas fake_task_defs = fake_tasks_get_def fake_tasks_list_def fake_tasks_watch_def fake_tasks_create_def
  fake_tasks_update_def fake_tasks_update_status_def fake_tasks_delete_def fake_tasks_delete_collection_def
  fake_tasks_patch_def tasks_resource_def

lemma lrp_calls_agree:
  assumes "action_laws sl f" "plain_call sl call"
  shows "\<exists>r a. notes_of (real_lrp_call (new_lrps (noted_rest rs) ns) call) w = [r] \<and>
    notes_of (fake_lrp_call \<lparr>fl_fake = \<lparr>fe_fake = noted_fake f\<rparr>, fl_ns = ns\<rparr> call) w' = [a] \<and>
    request_operation sl r = action_operation a \<and> get_resource a = lrps_resource"
  using assms
  by (cases call) (simp_all add: typed_lrp_defs fake_lrp_defs request_defs constructed_actions Let_def)

lemma task_calls_agree:
  assumes "action_laws sl f" "plain_call sl call"
  shows "\<exists>r a. notes_of (real_task_call (new_tasks (noted_rest rs) ns) call) w = [r] \<and>
    notes_of (fake_task_call \<lparr>ft_fake = \<lparr>fe_fake = noted_fake f\<rparr>, ft_ns = ns\<rparr> call) w' = [a] \<and>
    request_operation sl r = action_operation a \<and> get_resource a = tasks_resource"
  using assms
  by (cases call) (simp_all add: typed_task_defs fake_task_defs request_defs constructed_actions Let_def)

section \<open>Property\<close>

lemma new_simple_clientset_fake:
  assumes "run_state (new_simple_clientset tst objs) w = (Returns c, w')"
  shows "fc_fake c = tl_fake tst"
  using assms by (auto simp: new_simple_clientset_def split: prod.splits outcome.splits)

text \<open>
  C29: the fake clientset stands for the real one. However it was made, and whatever objects it started
  with, a call of a method of its clients is handled as one action, and the call of the same method of the
  real clients sends one request; the action and the request describe the same operation, with the same verb,
  resource, namespace, name, subresources, object, patch or selectors, and resource version of a watch. The
  actions are those of the group and version that the real client is configured for. This is for all calls but
  lists and deletions of collections that are asked to be watches, and calls with malformed selectors.
\<close>

theorem fake_clientset_stands_for_real:
  assumes "run_state (new_simple_clientset tst objs) w0 = (Returns c, w1)" and "tl_fake tst = noted_fake f"
    and "action_laws sl f" "plain_call sl lrp_call" "plain_call sl task_call"
  shows "(\<exists>r a. notes_of (real_lrp_call (eirini_v1_lrps (cs_eirini_v1 (clientset_new cg (noted_rest rs))) ns) lrp_call) w = [r] \<and>
      notes_of (fake_lrp_call (fake_eirini_v1_lrps (fake_clientset_eirini_v1 c) ns) lrp_call) w' = [a] \<and>
      request_operation sl r = action_operation a \<and>
      get_resource a = (fst scheme_group_version, snd scheme_group_version, rq_resource r))
    \<and> (\<exists>r a. notes_of (real_task_call (eirini_v1_tasks (cs_eirini_v1 (clientset_new cg (noted_rest rs))) ns) task_call) w = [r] \<and>
      notes_of (fake_task_call (fake_eirini_v1_tasks (fake_clientset_eirini_v1 c) ns) task_call) w' = [a] \<and>
      request_operation sl r = action_operation a \<and>
      get_resource a = (fst scheme_group_version, snd scheme_group_version, rq_resource r))"
proof -
  have fake: "fc_fake c = noted_fake f"
    using new_simple_clientset_fake [OF assms(1)] assms(2) by simp
  have op: "op_resource (request_operation sl r) = rq_resource r" for r
    by (simp add: request_operation_def)
  have op': "op_resource (action_operation a) = snd (snd (get_resource a))" for a
    by (cases a rule: action_operation.cases) simp_all
  obtain r a where "notes_of (real_lrp_call (new_lrps (noted_rest rs) ns) lrp_call) w = [r]"
    and "notes_of (fake_lrp_call \<lparr>fl_fake = \<lparr>fe_fake = noted_fake f\<rparr>, fl_ns = ns\<rparr> lrp_call) w' = [a]"
    and l: "request_operation sl r = action_operation a" "get_resource a = lrps_resource"
    using lrp_calls_agree [OF assms(3,4)] by metis
  moreover obtain r' a' where "notes_of (real_task_call (new_tasks (noted_rest rs) ns) task_call) w = [r']"
    and "notes_of (fake_task_call \<lparr>ft_fake = \<lparr>fe_fake = noted_fake f\<rparr>, ft_ns = ns\<rparr> task_call) w' = [a']"
    and t: "request_operation sl r' = action_operation a'" "get_resource a' = tasks_resource"
    using task_calls_agree [OF assms(3,5)] by metis
  moreover have "rq_resource r = ''lrps''" "rq_resource r' = ''tasks''"
    using op [of r] op' [of a] op [of r'] op' [of a'] l t by (simp_all add: lrps_resource_def tasks_resource_def)
  ultimately show ?thesis
    by (simp add: fake fake_clientset_eirini_v1_def fake_eirini_v1_lrps_def fake_eirini_v1_tasks_def
        eirini_v1_lrps_def eirini_v1_tasks_def clientset_new_def eirini_v1_new_def scheme_group_version_def
        group_name_def lrps_resource_def tasks_resource_def)
qed

section \<open>Witness\<close>

text \<open>A fake without reactors that answers with the default object, and a tracker that takes every object.\<close>

definition default_fake :: "unit testing_fake" where
  "default_fake = \<lparr>tf_invokes = (\<lambda>a d. ret (Some d, None)), tf_invokes_watch = (\<lambda>a. ret (Inr 0)),
     tf_new_list_action = (\<lambda>r k ns opts. ListAction r k ns (length (lo_label_selector opts), length (lo_field_selector opts))),
     tf_new_watch_action = (\<lambda>r ns opts.
       WatchAction r ns (length (lo_label_selector opts), length (lo_field_selector opts)) (lo_resource_version opts)),
     tf_new_delete_collection_action = (\<lambda>r ns opts.
       DeleteCollectionAction r ns (length (lo_label_selector opts), length (lo_field_selector opts))),
     tf_extract_label = (\<lambda>opts. None), tf_everything = (\<lambda>m. True)\<rparr>"

definition default_testing :: "(unit \<times> action list) testing_lib" where
  "default_testing = \<lparr>tl_fake = noted_fake default_fake, tl_new_object_tracker = ret 0,
     tl_tracker_add = (\<lambda>n obj. ret None), tl_tracker_watch = (\<lambda>n r ns. ret (Inr 0)),
     tl_object_reaction = (\<lambda>n a. ret (False, None, None)), tl_add_reactor = (\<lambda>v r f. ret ()),
     tl_add_watch_reactor = (\<lambda>r f. ret ()), tl_fake_discovery = 0\<rparr>"

definition default_rest :: "unit rest" where
  "default_rest = \<lparr>rs_into_lrp = (\<lambda>r. ret (zero_lrp, None)), rs_into_lrp_list = (\<lambda>r. ret ([], None)),
     rs_into_task = (\<lambda>r. ret (zero_task, None)), rs_into_task_list = (\<lambda>r. ret ([], None)),
     rs_error = (\<lambda>r. ret None), rs_watch = (\<lambda>r. ret (Inr 0))\<rparr>"

definition default_client_go :: "(unit \<times> request list) client_go" where
  "default_client_go = \<lparr>cg_default_user_agent = ''agent'', cg_http_client_for = (\<lambda>c. ret (Inr 0)),
     cg_rest_client_for = (\<lambda>c h. ret (Inr (noted_rest default_rest))), cg_discovery_for = (\<lambda>c h. ret (Inr 0)),
     cg_discovery_of = (\<lambda>r. 0), cg_new_rate_limiter = (\<lambda>q b. ret 0)\<rparr>"

text \<open>Selectors known by the length of their text.\<close>

definition sample_selectors :: selector_lib where
  "sample_selectors = \<lparr>sl_labels = \<lambda>t. Some (length t), sl_fields = \<lambda>t. Some (length t)\<rparr>"

definition sample_options :: list_options where
  "sample_options = \<lparr>lo_timeout_seconds = Some 5, lo_watch = False, lo_label_selector = ''guid=1'',
     lo_field_selector = [], lo_resource_version = ''3'', lo_others = ''limit=2''\<rparr>"

theorem fake_clientset_stands_for_real_witness:
  "(\<exists>r a. notes_of (real_lrp_call (eirini_v1_lrps (cs_eirini_v1 (clientset_new default_client_go (noted_rest default_rest))) ''cf'')
        (UpdateStatusCall sample_lrp [])) () = [r] \<and>
      notes_of (fake_lrp_call (fake_eirini_v1_lrps (fake_clientset_eirini_v1
        \<lparr>fc_fake = noted_fake default_fake, fc_discovery = 0, fc_tracker = 0\<rparr>) ''cf'')
        (UpdateStatusCall sample_lrp [])) () = [a] \<and>
      request_operation sample_selectors r = action_operation a \<and> rq_subresources r = [''status''])
   \<and> notes_of (fake_task_call (fake_eirini_v1_tasks (fake_clientset_eirini_v1
        \<lparr>fc_fake = noted_fake default_fake, fc_discovery = 0, fc_tracker = 0\<rparr>) ''cf'') (ListCall sample_options)) ()
      = [ListAction tasks_resource tasks_kind ''cf'' (6, 0)]"
proof -
  have new: "run_state (new_simple_clientset default_testing [LRPObject sample_lrp]) ((), [])
    = (Returns \<lparr>fc_fake = noted_fake default_fake, fc_discovery = 0, fc_tracker = 0\<rparr>, ((), []))"
    by (simp add: new_simple_clientset_def default_testing_def)
  have fake: "tl_fake default_testing = noted_fake default_fake"
    by (simp add: default_testing_def)
  have laws: "action_laws sample_selectors default_fake"
    by (simp add: action_laws_def sample_selectors_def default_fake_def)
  have calls: "plain_call sample_selectors (UpdateStatusCall sample_lrp [])"
    "plain_call sample_selectors (ListCall sample_options :: task typed_call)"
    by (simp_all add: selects_def sample_selectors_def sample_options_def)
  note stands = fake_clientset_stands_for_real [OF new fake laws calls, of default_client_go default_rest "''cf''" "()" "()"]
  obtain r a where "notes_of (real_lrp_call (eirini_v1_lrps (cs_eirini_v1 (clientset_new default_client_go
        (noted_rest default_rest))) ''cf'') (UpdateStatusCall sample_lrp [])) () = [r]"
    and "notes_of (fake_lrp_call (fake_eirini_v1_lrps (fake_clientset_eirini_v1
        \<lparr>fc_fake = noted_fake default_fake, fc_discovery = 0, fc_tracker = 0\<rparr>) ''cf'')
        (UpdateStatusCall sample_lrp [])) () = [a]"
    and "request_operation sample_selectors r = action_operation a"
    using stands by auto
  moreover from this(1) have "rq_subresources r = [''status'']"
    by (auto simp: typed_lrp_defs eirini_v1_lrps_def clientset_new_def eirini_v1_new_def new_request_def)
  moreover have "notes_of (fake_task_call (fake_eirini_v1_tasks (fake_clientset_eirini_v1
        \<lparr>fc_fake = noted_fake default_fake, fc_discovery = 0, fc_tracker = 0\<rparr>) ''cf'') (ListCall sample_options)) ()
      = [ListAction tasks_resource tasks_kind ''cf'' (6, 0)]"
    by (simp add: fake_task_defs fake_eirini_v1_tasks_def fake_clientset_eirini_v1_def default_fake_def sample_options_def)
  ultimately show ?thesis by blast
qed

end
