(* ===== verification/Counterfeiter.thy ===== *)
theory Counterfeiter
  imports Api_Types
begin

text \<open>
  The test doubles of the repository are generated by counterfeiter, all after one pattern. A double of an
  interface is a struct with, for every method of the interface, a stub, the arguments of the calls so far, a
  default answer and the answers to particular calls; and with a record of all invocations. The pattern is
  defined here once, the theories \<open>*_Fakes\<close> hold the doubles.

  A double is an object that its methods change: they are computations over the pair of the double and the
  rest of the world. A stub acts on the rest of the world (it does not use the double it is the stub of).
  The locks, which make the methods atomic, are left out, as are the contexts among the arguments.
\<close>

section \<open>Values and invocations\<close>

text \<open>
  What the model has no type for is a reference to it, or nil: objects of the generic client, options, loggers
  and their data. An argument becomes a value of the empty interface when its invocation is recorded.
\<close>

type_synonym ref = "nat option"

datatype any =
    AnyContext
  | AnyString string
  | AnyError "go_error option"
  | AnyKey namespaced_name
  | AnyRef ref
  | AnyRefs "ref list"
  | AnySecret "secret option"
  | AnyJob job
  | AnyTask task
  | AnyPod pod
  | AnyLRP lrp
  | AnyStset stateful_set

type_synonym invocations = "(string \<times> any list list) list"

record fake =
  fk_invocations :: "invocations option"

definition invocations_of :: "invocations option \<Rightarrow> string \<Rightarrow> any list list" where
  "invocations_of m key = (case map_of (entries m) key of None \<Rightarrow> [] | Some v \<Rightarrow> v)"

text \<open>\<open>recordInvocation\<close>: the map, and the slice of the method, are made when they are nil.\<close>

definition record_invocation :: "string \<Rightarrow> any list \<Rightarrow> 'z fake_scheme \<Rightarrow> 'z fake_scheme" where
  "record_invocation key args fake =
     (let fake = (if fk_invocations fake = None then fake\<lparr>fk_invocations := Some []\<rparr> else fake);
          fake = (if map_of (entries (fk_invocations fake)) key = None
                  then fake\<lparr>fk_invocations := Some (AList.update key [] (entries (fk_invocations fake)))\<rparr> else fake)
      in fake\<lparr>fk_invocations := Some (AList.update key (invocations_of (fk_invocations fake) key @ [args])
                                        (entries (fk_invocations fake)))\<rparr>)"

text \<open>\<open>Invocations\<close> copies the map, entry by entry, in the order in which they are visited.\<close>

definition copied_invocations :: "(invocations \<Rightarrow> invocations) \<Rightarrow> 'z fake_scheme \<Rightarrow> invocations" where
  "copied_invocations order fake =
     put_all (order (entries (fk_invocations fake))) []"

section \<open>The state of a method\<close>

record ('w, 'a, 'r) spy =
  sp_stub :: "('a \<Rightarrow> ('w, 'r) io) option"
  sp_args_for_call :: "'a list"

record ('w, 'a, 'r) double = "('w, 'a, 'r) spy" +
  db_returns :: 'r
  db_returns_on_call :: "(int \<times> 'r) list option"

definition new_spy :: "('w, 'a, unit) spy" where
  "new_spy = \<lparr>sp_stub = None, sp_args_for_call = []\<rparr>"

definition new_double :: "'r \<Rightarrow> ('w, 'a, 'r) double" where
  "new_double zero = \<lparr>sp_stub = None, sp_args_for_call = [], db_returns = zero, db_returns_on_call = None\<rparr>"

section \<open>The methods\<close>

text \<open>Reading and changing the double, and acting on the rest of the world.\<close>

definition of_fake :: "('f \<Rightarrow> 'a) \<Rightarrow> ('f \<times> 'w, 'a) io" where
  "of_fake g = State (\<lambda>(fake, w). (g fake, (fake, w)))"

definition on_fake :: "('f \<Rightarrow> 'f) \<Rightarrow> ('f \<times> 'w, unit) io" where
  "on_fake g = State (\<lambda>(fake, w). ((), (g fake, w)))"

definition in_world :: "('w, 'a) io \<Rightarrow> ('f \<times> 'w, 'a) io" where
  "in_world m = State (\<lambda>(fake, w). case run_state m w of (a, w') \<Rightarrow> (a, (fake, w')))"

lemma run_of_fake [simp]: "run_state (of_fake g) (fake, w) = (g fake, (fake, w))"
  by (simp add: of_fake_def)

lemma run_on_fake [simp]: "run_state (on_fake g) (fake, w) = ((), (g fake, w))"
  by (simp add: on_fake_def)

lemma run_in_world [simp]:
  "run_state (in_world m) (fake, w) = (case run_state m w of (a, w') \<Rightarrow> (a, (fake, w')))"
  by (simp add: in_world_def)

text \<open>
  A method of the interface. The answers are looked up before the call is recorded, so that the first call is
  number 0; a stub goes before an answer to this very call, and that before the default answer.
\<close>

definition double_call ::
  "(string \<Rightarrow> any list \<Rightarrow> 'f \<Rightarrow> 'f) \<Rightarrow> string \<Rightarrow> ('a \<Rightarrow> any list) \<Rightarrow> ('f \<Rightarrow> ('w, 'a, 'r) double)
    \<Rightarrow> ((('w, 'a, 'r) double \<Rightarrow> ('w, 'a, 'r) double) \<Rightarrow> 'f \<Rightarrow> 'f) \<Rightarrow> 'a \<Rightarrow> ('f \<times> 'w, 'r) io" where
  "double_call rec name anys get upd args = do {
     d \<leftarrow> of_fake get;
     (let specific = map_of (entries (db_returns_on_call d)) (int (length (sp_args_for_call d)));
          stub = sp_stub d;
          fakeReturns = db_returns d
      in do {
        _ \<leftarrow> on_fake (upd (\<lambda>d. d\<lparr>sp_args_for_call := sp_args_for_call d @ [args]\<rparr>));
        _ \<leftarrow> on_fake (rec name (anys args));
        case stub of
          Some stub \<Rightarrow> in_world (stub args)
        | None \<Rightarrow> (case specific of Some r \<Rightarrow> ret r | None \<Rightarrow> ret fakeReturns)
      })
   }"

text \<open>A method without results has no answers.\<close>

definition spy_call ::
  "(string \<Rightarrow> any list \<Rightarrow> 'f \<Rightarrow> 'f) \<Rightarrow> string \<Rightarrow> ('a \<Rightarrow> any list) \<Rightarrow> ('f \<Rightarrow> ('w, 'a, unit) spy)
    \<Rightarrow> ((('w, 'a, unit) spy \<Rightarrow> ('w, 'a, unit) spy) \<Rightarrow> 'f \<Rightarrow> 'f) \<Rightarrow> 'a \<Rightarrow> ('f \<times> 'w, unit) io" where
  "spy_call rec name anys get upd args = do {
     _ \<leftarrow> on_fake (upd (\<lambda>d. d\<lparr>sp_args_for_call := sp_args_for_call d @ [args]\<rparr>));
     stub \<leftarrow> of_fake (\<lambda>fake. sp_stub (get fake));
     _ \<leftarrow> on_fake (rec name (anys args));
     case stub of Some stub \<Rightarrow> in_world (stub args) | None \<Rightarrow> ret ()
   }"

definition double_call_count :: "('f \<Rightarrow> ('w, 'a, 'r, 'z) spy_scheme) \<Rightarrow> ('f \<times> 'w, nat) io" where
  "double_call_count get = of_fake (\<lambda>fake. length (sp_args_for_call (get fake)))"

definition double_calls ::
  "((('w, 'a, 'r, 'z) spy_scheme \<Rightarrow> ('w, 'a, 'r, 'z) spy_scheme) \<Rightarrow> 'f \<Rightarrow> 'f)
    \<Rightarrow> ('a \<Rightarrow> ('w, 'r) io) option \<Rightarrow> ('f \<times> 'w, unit) io" where
  "double_calls upd stub = on_fake (upd (\<lambda>d. d\<lparr>sp_stub := stub\<rparr>))"

text \<open>An index out of range panics.\<close>

definition double_args_for_call ::
  "('f \<Rightarrow> ('w, 'a, 'r, 'z) spy_scheme) \<Rightarrow> int \<Rightarrow> ('f \<times> 'w, 'a outcome) io" where
  "double_args_for_call get i = of_fake (\<lambda>fake.
     let calls = sp_args_for_call (get fake)
     in if 0 \<le> i \<and> i < int (length calls) then Returns (calls ! nat i) else Panics)"

definition double_returns ::
  "((('w, 'a, 'r) double \<Rightarrow> ('w, 'a, 'r) double) \<Rightarrow> 'f \<Rightarrow> 'f) \<Rightarrow> 'r \<Rightarrow> ('f \<times> 'w, unit) io" where
  "double_returns upd result = on_fake (upd (\<lambda>d. d\<lparr>sp_stub := None, db_returns := result\<rparr>))"

definition double_returns_on_call ::
  "((('w, 'a, 'r) double \<Rightarrow> ('w, 'a, 'r) double) \<Rightarrow> 'f \<Rightarrow> 'f) \<Rightarrow> int \<Rightarrow> 'r \<Rightarrow> ('f \<times> 'w, unit) io" where
  "double_returns_on_call upd i result = on_fake (upd (\<lambda>d.
     d\<lparr>sp_stub := None, db_returns_on_call := Some (AList.update i result (entries (db_returns_on_call d)))\<rparr>))"

text \<open>
  What counterfeiter generates for a method: with arguments and results, with results only, with arguments
  only. It is given how the double records an invocation, the name of the method, its arguments as values of
  the empty interface, and the part of the double that is the state of the method.
\<close>

record ('f, 'w, 'a, 'r) full_method =
  m_call :: "'a \<Rightarrow> ('f \<times> 'w, 'r) io"
  m_call_count :: "('f \<times> 'w, nat) io"
  m_calls :: "('a \<Rightarrow> ('w, 'r) io) option \<Rightarrow> ('f \<times> 'w, unit) io"
  m_args_for_call :: "int \<Rightarrow> ('f \<times> 'w, 'a outcome) io"
  m_returns :: "'r \<Rightarrow> ('f \<times> 'w, unit) io"
  m_returns_on_call :: "int \<Rightarrow> 'r \<Rightarrow> ('f \<times> 'w, unit) io"

record ('f, 'w, 'r) nullary_method =
  n_call :: "('f \<times> 'w, 'r) io"
  n_call_count :: "('f \<times> 'w, nat) io"
  n_calls :: "(unit \<Rightarrow> ('w, 'r) io) option \<Rightarrow> ('f \<times> 'w, unit) io"
  n_returns :: "'r \<Rightarrow> ('f \<times> 'w, unit) io"
  n_returns_on_call :: "int \<Rightarrow> 'r \<Rightarrow> ('f \<times> 'w, unit) io"

record ('f, 'w, 'a) void_method =
  v_call :: "'a \<Rightarrow> ('f \<times> 'w, unit) io"
  v_call_count :: "('f \<times> 'w, nat) io"
  v_calls :: "('a \<Rightarrow> ('w, unit) io) option \<Rightarrow> ('f \<times> 'w, unit) io"
  v_args_for_call :: "int \<Rightarrow> ('f \<times> 'w, 'a outcome) io"

definition fake_method ::
  "(string \<Rightarrow> any list \<Rightarrow> 'f \<Rightarrow> 'f) \<Rightarrow> string \<Rightarrow> ('a \<Rightarrow> any list) \<Rightarrow> ('f \<Rightarrow> ('w, 'a, 'r) double)
    \<Rightarrow> ((('w, 'a, 'r) double \<Rightarrow> ('w, 'a, 'r) double) \<Rightarrow> 'f \<Rightarrow> 'f) \<Rightarrow> ('f, 'w, 'a, 'r) full_method" where
  "fake_method rec name anys get upd =
     \<lparr>m_call = double_call rec name anys get upd, m_call_count = double_call_count get, m_calls = double_calls upd,
      m_args_for_call = double_args_for_call get, m_returns = double_returns upd,
      m_returns_on_call = double_returns_on_call upd\<rparr>"

definition fake_nullary_method ::
  "(string \<Rightarrow> any list \<Rightarrow> 'f \<Rightarrow> 'f) \<Rightarrow> string \<Rightarrow> ('f \<Rightarrow> ('w, unit, 'r) double)
    \<Rightarrow> ((('w, unit, 'r) double \<Rightarrow> ('w, unit, 'r) double) \<Rightarrow> 'f \<Rightarrow> 'f) \<Rightarrow> ('f, 'w, 'r) nullary_method" where
  "fake_nullary_method rec name get upd =
     \<lparr>n_call = double_call rec name (\<lambda>_. []) get upd (), n_call_count = double_call_count get,
      n_calls = double_calls upd, n_returns = double_returns upd, n_returns_on_call = double_returns_on_call upd\<rparr>"

definition fake_void_method ::
  "(string \<Rightarrow> any list \<Rightarrow> 'f \<Rightarrow> 'f) \<Rightarrow> string \<Rightarrow> ('a \<Rightarrow> any list) \<Rightarrow> ('f \<Rightarrow> ('w, 'a, unit) spy)
    \<Rightarrow> ((('w, 'a, unit) spy \<Rightarrow> ('w, 'a, unit) spy) \<Rightarrow> 'f \<Rightarrow> 'f) \<Rightarrow> ('f, 'w, 'a) void_method" where
  "fake_void_method rec name anys get upd =
     \<lparr>v_call = spy_call rec name anys get upd, v_call_count = double_call_count get, v_calls = double_calls upd,
      v_args_for_call = double_args_for_call get\<rparr>"

section \<open>Recorded invocations\<close>

text \<open>Recording adds to the slice of its method; the keys stay distinct, so that a copy has the same entries.\<close>

definition recorded :: "string \<Rightarrow> any list \<Rightarrow> invocations option \<Rightarrow> invocations" where
  "recorded key args m = AList.update key (invocations_of m key @ [args])
     (if map_of (entries m) key = None then AList.update key [] (entries m) else entries m)"

lemma record_invocation_eq:
  "record_invocation key args fake = fake\<lparr>fk_invocations := Some (recorded key args (fk_invocations fake))\<rparr>"
  by (cases "fk_invocations fake")
    (auto simp: record_invocation_def recorded_def invocations_of_def Let_def update_conv' split: option.splits)

lemma map_of_recorded:
  "map_of (recorded key args m) = (map_of (entries m))(key \<mapsto> invocations_of m key @ [args])"
  by (simp add: recorded_def update_conv')

lemma distinct_recorded: "distinct (map fst (entries m)) \<Longrightarrow> distinct (map fst (recorded key args m))"
  by (simp add: recorded_def distinct_update)

lemmas recording = record_invocation_eq map_of_recorded distinct_recorded

lemma copied_invocations_same:
  assumes "distinct (map fst (entries (fk_invocations fake)))" and "\<forall>m. mset (order m) = mset m"
  shows "map_of (copied_invocations order fake) = map_of (entries (fk_invocations fake))"
proof -
  let ?m = "entries (fk_invocations fake)"
  have "mset (order ?m) = mset ?m"
    using assms(2) by blast
  then have "distinct (map fst (order ?m))" and "set (order ?m) = set ?m"
    using assms(1) by (metis mset_eq_imp_distinct_iff mset_map, metis mset_eq_setD)
  then show ?thesis
    using assms(1) by (simp add: copied_invocations_def map_of_put_all map_of_inject_set)
qed

section \<open>The contract of a double\<close>

text \<open>
  What a double promises for each of its methods: the state of the method is a part of the double of its own,
  the recording of invocations another, and recording neither forgets nor confuses.
\<close>

locale spied_method =
  fixes rec :: "string \<Rightarrow> any list \<Rightarrow> 'f \<Rightarrow> 'f"
    and inv :: "'f \<Rightarrow> invocations option"
    and get :: "'f \<Rightarrow> ('w, 'a, 'r, 'z) spy_scheme"
    and upd :: "(('w, 'a, 'r, 'z) spy_scheme \<Rightarrow> ('w, 'a, 'r, 'z) spy_scheme) \<Rightarrow> 'f \<Rightarrow> 'f"
  assumes get_upd: "get (upd g f) = g (get f)"
    and get_rec: "get (rec key xs f) = get f"
    and inv_upd: "inv (upd g f) = inv f"
    and inv_rec: "map_of (entries (inv (rec key xs f))) =
      (map_of (entries (inv f)))(key \<mapsto> invocations_of (inv f) key @ [xs])"
    and inv_distinct: "distinct (map fst (entries (inv f))) \<Longrightarrow> distinct (map fst (entries (inv (rec key xs f))))"
begin

lemma invocations_of_rec:
  "invocations_of (inv (rec key xs f)) key' =
     (if key' = key then invocations_of (inv f) key @ [xs] else invocations_of (inv f) key')"
  by (simp add: invocations_of_def inv_rec)

lemma call_count: "run_state (double_call_count get) (f, w) = (length (sp_args_for_call (get f)), (f, w))"
  by (simp add: double_call_count_def)

lemma args_for_call: "run_state (double_args_for_call get i) (f, w) =
    (if 0 \<le> i \<and> i < int (length (sp_args_for_call (get f))) then Returns (sp_args_for_call (get f) ! nat i) else Panics, (f, w))"
  by (simp add: double_args_for_call_def Let_def)

end

text \<open>What call number \<open>i\<close> is answered when there is no stub.\<close>

definition scripted :: "('w, 'a, 'r) double \<Rightarrow> nat \<Rightarrow> 'r" where
  "scripted d i = (case map_of (entries (db_returns_on_call d)) (int i) of Some r \<Rightarrow> r | None \<Rightarrow> db_returns d)"

text \<open>The double after a call.\<close>

definition called ::
  "(string \<Rightarrow> any list \<Rightarrow> 'f \<Rightarrow> 'f) \<Rightarrow> string \<Rightarrow> ('a \<Rightarrow> any list)
    \<Rightarrow> ((('w, 'a, 'r) double \<Rightarrow> ('w, 'a, 'r) double) \<Rightarrow> 'f \<Rightarrow> 'f) \<Rightarrow> 'a \<Rightarrow> 'f \<Rightarrow> 'f" where
  "called rec name anys upd a f = rec name (anys a) (upd (\<lambda>d. d\<lparr>sp_args_for_call := sp_args_for_call d @ [a]\<rparr>) f)"

locale doubled_method = spied_method rec inv get upd
  for rec inv and get :: "'f \<Rightarrow> ('w, 'a, 'r) double" and upd
begin

lemma get_called [simp]: "get (called rec name anys upd a f) = (get f)\<lparr>sp_args_for_call := sp_args_for_call (get f) @ [a]\<rparr>"
  by (simp add: called_def get_rec get_upd)

lemma call_scripted:
  assumes "sp_stub (get f) = None"
  shows "run_state (double_call rec name anys get upd a) (f, w)
    = (scripted (get f) (length (sp_args_for_call (get f))), (called rec name anys upd a f, w))"
  using assms by (simp add: double_call_def called_def scripted_def Let_def split: option.split)

lemma call_stubbed:
  assumes "sp_stub (get f) = Some stub"
  shows "run_state (double_call rec name anys get upd a) (f, w)
    = (case run_state (stub a) w of (r, w') \<Rightarrow> (r, (called rec name anys upd a f, w')))"
  using assms by (simp add: double_call_def called_def Let_def)

lemma returns:
  "run_state (double_returns upd r) (f, w) = ((), (upd (\<lambda>d. d\<lparr>sp_stub := None, db_returns := r\<rparr>) f, w))"
  by (simp add: double_returns_def)

lemma returns_on_call:
  "run_state (double_returns_on_call upd i r) (f, w) = ((), (upd (\<lambda>d. d\<lparr>sp_stub := None,
     db_returns_on_call := Some (AList.update i r (entries (db_returns_on_call d)))\<rparr>) f, w))"
  by (simp add: double_returns_on_call_def)

end

section \<open>Calls of two methods\<close>

primrec lefts :: "('a + 'b) list \<Rightarrow> 'a list" where
  "lefts [] = []"
| "lefts (x # xs) = (case x of Inl a \<Rightarrow> a # lefts xs | Inr b \<Rightarrow> lefts xs)"

primrec rights :: "('a + 'b) list \<Rightarrow> 'b list" where
  "rights [] = []"
| "rights (x # xs) = (case x of Inl a \<Rightarrow> rights xs | Inr b \<Rightarrow> b # rights xs)"

text \<open>Calls of two methods in any order.\<close>

fun interleave :: "('a \<Rightarrow> ('w, 'r) io) \<Rightarrow> ('b \<Rightarrow> ('w, 's) io) \<Rightarrow> ('a + 'b) list \<Rightarrow> ('w, ('r + 's) list) io" where
  "interleave m n [] = ret []"
| "interleave m n (Inl a # xs) = do { r \<leftarrow> m a; rs \<leftarrow> interleave m n xs; ret (Inl r # rs) }"
| "interleave m n (Inr b # xs) = do { s \<leftarrow> n b; rs \<leftarrow> interleave m n xs; ret (Inr s # rs) }"

text \<open>Two methods of a double, which have nothing in common.\<close>

locale two_methods = fst: doubled_method rec inv get upd + snd: doubled_method rec inv get' upd'
  for rec :: "string \<Rightarrow> any list \<Rightarrow> 'f \<Rightarrow> 'f" and inv
    and get :: "'f \<Rightarrow> ('w, 'a, 'r) double" and upd and get' :: "'f \<Rightarrow> ('w, 'b, 's) double" and upd' +
  assumes get_other: "get (upd' g f) = get f" and get'_other: "get' (upd h f) = get' f"
begin

lemma called_other:
  "get (called rec name anys upd' b f) = get f" "get' (called rec name' anys' upd a f) = get' f"
  by (simp_all add: called_def fst.get_rec snd.get_rec get_other get'_other)

lemma inv_called:
  "invocations_of (inv (called rec name anys upd a f)) key =
     (if key = name then invocations_of (inv f) name @ [anys a] else invocations_of (inv f) key)"
  "invocations_of (inv (called rec name' anys' upd' b f)) key =
     (if key = name' then invocations_of (inv f) name' @ [anys' b] else invocations_of (inv f) key)"
  by (simp_all add: called_def fst.invocations_of_rec snd.inv_upd fst.inv_upd)

lemma interleaved:
  assumes "run_state (interleave (double_call rec name anys get upd) (double_call rec name' anys' get' upd') xs) (f, w)
      = (rs, (f', w'))"
    and "sp_stub (get f) = None" "sp_stub (get' f) = None" and "name \<noteq> name'"
  shows "w' = w \<and>
    lefts rs = map (\<lambda>k. scripted (get f) (length (sp_args_for_call (get f)) + k)) [0..<length (lefts xs)] \<and>
    rights rs = map (\<lambda>k. scripted (get' f) (length (sp_args_for_call (get' f)) + k)) [0..<length (rights xs)] \<and>
    get f' = (get f)\<lparr>sp_args_for_call := sp_args_for_call (get f) @ lefts xs\<rparr> \<and>
    get' f' = (get' f)\<lparr>sp_args_for_call := sp_args_for_call (get' f) @ rights xs\<rparr> \<and>
    invocations_of (inv f') name = invocations_of (inv f) name @ map anys (lefts xs) \<and>
    invocations_of (inv f') name' = invocations_of (inv f) name' @ map anys' (rights xs)"
  using assms(1-3)
proof (induction xs arbitrary: f rs)
  case Nil
  then show ?case by simp
next
  case (Cons x xs)
  have shift: "map (\<lambda>k. scripted d (n + k)) [0..<Suc m] = scripted d n # map (\<lambda>k. scripted d (Suc (n + k))) [0..<m]"
    for d :: "('x, 'y, 'z) double" and n m
    by (simp add: upt_conv_Cons map_Suc_upt [symmetric] del: upt_Suc)
  have same: "scripted (d\<lparr>sp_args_for_call := as\<rparr>) k = scripted d k" for d :: "('x, 'y, 'z) double" and as k
    by (simp add: scripted_def split: option.split)
  show ?case
  proof (cases x)
    case (Inl a)
    let ?f = "called rec name anys upd a f"
    from Cons.prems(1) obtain rs1 where rs: "rs = Inl (scripted (get f) (length (sp_args_for_call (get f)))) # rs1"
      and run: "run_state (interleave (double_call rec name anys get upd) (double_call rec name' anys' get' upd') xs) (?f, w)
        = (rs1, (f', w'))"
      by (auto simp: Inl fst.call_scripted [OF Cons.prems(2)] split: prod.splits)
    show ?thesis
      using Cons.IH [OF run] Cons.prems(2,3) assms(4)
        by (simp add: rs Inl shift same called_other inv_called del: upt_Suc)
  next
    case (Inr b)
    let ?f = "called rec name' anys' upd' b f"
    from Cons.prems(1) obtain rs1 where rs: "rs = Inr (scripted (get' f) (length (sp_args_for_call (get' f)))) # rs1"
      and run: "run_state (interleave (double_call rec name anys get upd) (double_call rec name' anys' get' upd') xs) (?f, w)
        = (rs1, (f', w'))"
      by (auto simp: Inr snd.call_scripted [OF Cons.prems(3)] split: prod.splits)
    show ?thesis
      using Cons.IH [OF run] Cons.prems(2,3) assms(4)
        by (simp add: rs Inr shift same called_other inv_called del: upt_Suc)
  qed
qed

end

end
