(* ===== verification/K8s_Fakes.thy ===== *)
theory K8s_Fakes
  imports Counterfeiter
begin

text \<open>
  What counterfeiter generated: the doubles of the client of controller-runtime, \<open>k8s/k8sfakes\<close>. Of every
  method of the interface the table of its operations, after the pattern of \<open>Counterfeiter\<close>.
\<close>

section \<open>FakeClient\<close>

text \<open>The double of \<open>client.Client\<close>.\<close>

record 'w fake_client = fake +
  kc_create :: "('w, ref \<times> ref list, go_error option) double"
  kc_delete :: "('w, ref \<times> ref list, go_error option) double"
  kc_delete_all_of :: "('w, ref \<times> ref list, go_error option) double"
  kc_get :: "('w, namespaced_name \<times> ref, go_error option) double"
  kc_list :: "('w, ref \<times> ref list, go_error option) double"
  kc_patch :: "('w, ref \<times> ref \<times> ref list, go_error option) double"
  kc_rest_mapper :: "('w, unit, ref) double"
  kc_scheme :: "('w, unit, ref) double"
  kc_status :: "('w, unit, ref) double"
  kc_update :: "('w, ref \<times> ref list, go_error option) double"

definition new_fake_client :: "'w fake_client" where
  "new_fake_client = \<lparr>fk_invocations = None, kc_create = new_double None,
     kc_delete = new_double None,
     kc_delete_all_of = new_double None,
     kc_get = new_double None,
     kc_list = new_double None,
     kc_patch = new_double None,
     kc_rest_mapper = new_double None,
     kc_scheme = new_double None,
     kc_status = new_double None,
     kc_update = new_double None\<rparr>"

definition client_record_invocation :: "string \<Rightarrow> any list \<Rightarrow> 'w fake_client \<Rightarrow> 'w fake_client" where
  "client_record_invocation key args fake = record_invocation key args fake"

definition client_invocations :: "(invocations \<Rightarrow> invocations) \<Rightarrow> 'w fake_client \<Rightarrow> invocations" where
  "client_invocations order fake = copied_invocations order fake"

definition client_create :: "('w fake_client, 'w, ref \<times> ref list, go_error option) full_method" where
  "client_create = fake_method client_record_invocation ''Create''
     (\<lambda>(arg2, arg3). [AnyContext, AnyRef arg2, AnyRefs arg3]) kc_create kc_create_update"

definition client_delete :: "('w fake_client, 'w, ref \<times> ref list, go_error option) full_method" where
  "client_delete = fake_method client_record_invocation ''Delete''
     (\<lambda>(arg2, arg3). [AnyContext, AnyRef arg2, AnyRefs arg3]) kc_delete kc_delete_update"

definition client_delete_all_of :: "('w fake_client, 'w, ref \<times> ref list, go_error option) full_method" where
  "client_delete_all_of = fake_method client_record_invocation ''DeleteAllOf''
     (\<lambda>(arg2, arg3). [AnyContext, AnyRef arg2, AnyRefs arg3]) kc_delete_all_of kc_delete_all_of_update"

definition client_get :: "('w fake_client, 'w, namespaced_name \<times> ref, go_error option) full_method" where
  "client_get = fake_method client_record_invocation ''Get''
     (\<lambda>(arg2, arg3). [AnyContext, AnyKey arg2, AnyRef arg3]) kc_get kc_get_update"

definition client_list :: "('w fake_client, 'w, ref \<times> ref list, go_error option) full_method" where
  "client_list = fake_method client_record_invocation ''List''
     (\<lambda>(arg2, arg3). [AnyContext, AnyRef arg2, AnyRefs arg3]) kc_list kc_list_update"

definition client_patch :: "('w fake_client, 'w, ref \<times> ref \<times> ref list, go_error option) full_method" where
  "client_patch = fake_method client_record_invocation ''Patch''
     (\<lambda>(arg2, arg3, arg4). [AnyContext, AnyRef arg2, AnyRef arg3, AnyRefs arg4]) kc_patch kc_patch_update"

definition client_rest_mapper :: "('w fake_client, 'w, ref) nullary_method" where
  "client_rest_mapper = fake_nullary_method client_record_invocation ''RESTMapper'' kc_rest_mapper kc_rest_mapper_update"

definition client_scheme :: "('w fake_client, 'w, ref) nullary_method" where
  "client_scheme = fake_nullary_method client_record_invocation ''Scheme'' kc_scheme kc_scheme_update"

definition client_status :: "('w fake_client, 'w, ref) nullary_method" where
  "client_status = fake_nullary_method client_record_invocation ''Status'' kc_status kc_status_update"

definition client_update :: "('w fake_client, 'w, ref \<times> ref list, go_error option) full_method" where
  "client_update = fake_method client_record_invocation ''Update''
     (\<lambda>(arg2, arg3). [AnyContext, AnyRef arg2, AnyRefs arg3]) kc_update kc_update_update"

interpretation client_double_create: doubled_method client_record_invocation fk_invocations kc_create kc_create_update
  by unfold_locales (simp_all add: client_record_invocation_def recording)

interpretation client_double_delete: doubled_method client_record_invocation fk_invocations kc_delete kc_delete_update
  by unfold_locales (simp_all add: client_record_invocation_def recording)

interpretation client_double_delete_all_of: doubled_method client_record_invocation fk_invocations kc_delete_all_of kc_delete_all_of_update
  by unfold_locales (simp_all add: client_record_invocation_def recording)

interpretation client_double_get: doubled_method client_record_invocation fk_invocations kc_get kc_get_update
  by unfold_locales (simp_all add: client_record_invocation_def recording)

interpretation client_double_list: doubled_method client_record_invocation fk_invocations kc_list kc_list_update
  by unfold_locales (simp_all add: client_record_invocation_def recording)

interpretation client_double_patch: doubled_method client_record_invocation fk_invocations kc_patch kc_patch_update
  by unfold_locales (simp_all add: client_record_invocation_def recording)

interpretation client_double_rest_mapper: doubled_method client_record_invocation fk_invocations kc_rest_mapper kc_rest_mapper_update
  by unfold_locales (simp_all add: client_record_invocation_def recording)

interpretation client_double_scheme: doubled_method client_record_invocation fk_invocations kc_scheme kc_scheme_update
  by unfold_locales (simp_all add: client_record_invocation_def recording)

interpretation client_double_status: doubled_method client_record_invocation fk_invocations kc_status kc_status_update
  by unfold_locales (simp_all add: client_record_invocation_def recording)

interpretation client_double_update: doubled_method client_record_invocation fk_invocations kc_update kc_update_update
  by unfold_locales (simp_all add: client_record_invocation_def recording)

section \<open>FakeStatusWriter\<close>

text \<open>The double of \<open>client.StatusWriter\<close>.\<close>

record 'w fake_status_writer = fake +
  sw_patch :: "('w, ref \<times> ref \<times> ref list, go_error option) double"
  sw_update :: "('w, ref \<times> ref list, go_error option) double"

definition new_fake_status_writer :: "'w fake_status_writer" where
  "new_fake_status_writer = \<lparr>fk_invocations = None, sw_patch = new_double None,
     sw_update = new_double None\<rparr>"

definition status_writer_record_invocation :: "string \<Rightarrow> any list \<Rightarrow> 'w fake_status_writer \<Rightarrow> 'w fake_status_writer" where
  "status_writer_record_invocation key args fake = record_invocation key args fake"

definition status_writer_invocations :: "(invocations \<Rightarrow> invocations) \<Rightarrow> 'w fake_status_writer \<Rightarrow> invocations" where
  "status_writer_invocations order fake = copied_invocations order fake"

definition status_writer_patch :: "('w fake_status_writer, 'w, ref \<times> ref \<times> ref list, go_error option) full_method" where
  "status_writer_patch = fake_method status_writer_record_invocation ''Patch''
     (\<lambda>(arg2, arg3, arg4). [AnyContext, AnyRef arg2, AnyRef arg3, AnyRefs arg4]) sw_patch sw_patch_update"

definition status_writer_update :: "('w fake_status_writer, 'w, ref \<times> ref list, go_error option) full_method" where
  "status_writer_update = fake_method status_writer_record_invocation ''Update''
     (\<lambda>(arg2, arg3). [AnyContext, AnyRef arg2, AnyRefs arg3]) sw_update sw_update_update"

interpretation status_writer_double_patch: doubled_method status_writer_record_invocation fk_invocations sw_patch sw_patch_update
  by unfold_locales (simp_all add: status_writer_record_invocation_def recording)

interpretation status_writer_double_update: doubled_method status_writer_record_invocation fk_invocations sw_update sw_update_update
  by unfold_locales (simp_all add: status_writer_record_invocation_def recording)

section \<open>Property\<close>

interpretation client_create_get:
  two_methods client_record_invocation fk_invocations kc_create kc_create_update kc_get kc_get_update
  by unfold_locales simp_all

text \<open>A test that scripts the answers of \<open>Create\<close> and \<open>Get\<close>, and then makes calls of both in some order.\<close>

definition scripted_test ::
  "go_error option \<Rightarrow> int \<Rightarrow> go_error option \<Rightarrow> go_error option \<Rightarrow> int \<Rightarrow> go_error option
    \<Rightarrow> (ref \<times> ref list + namespaced_name \<times> ref) list
    \<Rightarrow> ('w fake_client \<times> 'w, (go_error option + go_error option) list) io" where
  "scripted_test c i ci g j gj xs = do {
     _ \<leftarrow> m_returns client_create c;
     _ \<leftarrow> m_returns_on_call client_create i ci;
     _ \<leftarrow> m_returns client_get g;
     _ \<leftarrow> m_returns_on_call client_get j gj;
     interleave (m_call client_create) (m_call client_get) xs
   }"

lemma scripted_simps [simp]:
  "scripted \<lparr>sp_stub = s, sp_args_for_call = as, db_returns = r, db_returns_on_call = Some [(i, r')]\<rparr> k
    = (if int k = i then r' else r)"
  by (simp add: scripted_def)

text \<open>
  C31: a double answers as it was told, and tells what it was asked. Each method counts its own calls from 0: the
  answer is the one for this call if there is one, and the default answer otherwise, whatever is called in
  between. Afterwards the number of calls, the arguments of each of them and the invocations are those of the calls
  that were made, in order; asking for any other call panics. Nothing else is done to the world.
\<close>

theorem client_double_scripted:
  assumes "run_state (scripted_test c i ci g j gj xs) (new_fake_client, w) = (rs, (fake, w'))"
  shows "w' = w \<and>
    lefts rs = map (\<lambda>k. if int k = i then ci else c) [0..<length (lefts xs)] \<and>
    rights rs = map (\<lambda>k. if int k = j then gj else g) [0..<length (rights xs)] \<and>
    run_state (m_call_count client_create) (fake, w) = (length (lefts xs), (fake, w)) \<and>
    run_state (m_call_count client_get) (fake, w) = (length (rights xs), (fake, w)) \<and>
    run_state (m_args_for_call client_create n) (fake, w) =
      (if 0 \<le> n \<and> n < int (length (lefts xs)) then Returns (lefts xs ! nat n) else Panics, (fake, w)) \<and>
    run_state (m_args_for_call client_get n) (fake, w) =
      (if 0 \<le> n \<and> n < int (length (rights xs)) then Returns (rights xs ! nat n) else Panics, (fake, w)) \<and>
    invocations_of (fk_invocations fake) ''Create'' = map (\<lambda>(obj, opts). [AnyContext, AnyRef obj, AnyRefs opts]) (lefts xs) \<and>
    invocations_of (fk_invocations fake) ''Get'' = map (\<lambda>(key, obj). [AnyContext, AnyKey key, AnyRef obj]) (rights xs)"
proof -
  let ?f = "new_fake_client
    \<lparr>kc_create := \<lparr>sp_stub = None, sp_args_for_call = [], db_returns = c, db_returns_on_call = Some [(i, ci)]\<rparr>,
     kc_get := \<lparr>sp_stub = None, sp_args_for_call = [], db_returns = g, db_returns_on_call = Some [(j, gj)]\<rparr>\<rparr>"
  have "run_state (interleave (m_call client_create) (m_call client_get) xs) (?f, w) = (rs, (fake, w'))"
    using assms by (simp add: scripted_test_def client_create_def client_get_def fake_method_def new_fake_client_def
        new_double_def client_double_create.returns client_double_create.returns_on_call
        client_double_get.returns client_double_get.returns_on_call)
  then have "run_state (interleave
      (double_call client_record_invocation ''Create'' (\<lambda>(arg2, arg3). [AnyContext, AnyRef arg2, AnyRefs arg3]) kc_create kc_create_update)
      (double_call client_record_invocation ''Get'' (\<lambda>(arg2, arg3). [AnyContext, AnyKey arg2, AnyRef arg3]) kc_get kc_get_update)
      xs) (?f, w) = (rs, (fake, w'))"
    by (simp add: client_create_def client_get_def fake_method_def)
  from client_create_get.interleaved [OF this] show ?thesis
    by (simp add: new_fake_client_def invocations_of_def client_create_def client_get_def fake_method_def
        client_double_create.call_count client_double_get.call_count
        client_double_create.args_for_call client_double_get.args_for_call)
qed

section \<open>Witness\<close>

theorem client_double_scripted_witness:
  "\<exists>fake. run_state (scripted_test None 1 (Some (NewError ''boom'')) None 7 None
        [Inl (Some 4, []), Inr ((''cf'', ''app''), Some 2), Inl (Some 3, [])]) (new_fake_client, ())
      = ([Inl None, Inr None, Inl (Some (NewError ''boom''))], (fake, ())) \<and>
    run_state (m_call_count client_create) (fake, ()) = (2, (fake, ())) \<and>
    run_state (m_args_for_call client_create 1) (fake, ()) = (Returns (Some 3, []), (fake, ()))"
proof -
  obtain rs fake where run: "run_state (scripted_test None 1 (Some (NewError ''boom'')) None 7 None
        [Inl (Some 4, []), Inr ((''cf'', ''app''), Some 2), Inl (Some 3, [])]) (new_fake_client, ()) = (rs, (fake, ()))"
    and rs: "rs = [Inl None, Inr None, Inl (Some (NewError ''boom''))]"
    by (simp add: scripted_test_def client_create_def client_get_def fake_method_def new_fake_client_def
        new_double_def client_double_create.returns client_double_create.returns_on_call
        client_double_get.returns client_double_get.returns_on_call double_call_def client_record_invocation_def
        record_invocation_eq)
  from client_double_scripted [OF run, where n = 1] show ?thesis
    by (intro exI [of _ fake]) (simp add: run rs)
qed

end
