(* ===== verification/Jobs_Fakes.thy ===== *)
theory Jobs_Fakes
  imports Counterfeiter
begin

text \<open>
  What counterfeiter generated: the doubles of the package of jobs, \<open>k8s/jobs/jobsfakes\<close>. Of every
  method of the interface the table of its operations, after the pattern of \<open>Counterfeiter\<close>.
\<close>

section \<open>FakeJobCreator\<close>

text \<open>The double of \<open>JobCreator\<close>.\<close>

record 'w fake_job_creator = fake +
  jc_create :: "('w, string \<times> job, job option \<times> go_error option) double"

definition new_fake_job_creator :: "'w fake_job_creator" where
  "new_fake_job_creator = \<lparr>fk_invocations = None, jc_create = new_double (None, None)\<rparr>"

definition job_creator_record_invocation :: "string \<Rightarrow> any list \<Rightarrow> 'w fake_job_creator \<Rightarrow> 'w fake_job_creator" where
  "job_creator_record_invocation key args fake = record_invocation key args fake"

definition job_creator_invocations :: "(invocations \<Rightarrow> invocations) \<Rightarrow> 'w fake_job_creator \<Rightarrow> invocations" where
  "job_creator_invocations order fake = copied_invocations order fake"

definition job_creator_create :: "('w fake_job_creator, 'w, string \<times> job, job option \<times> go_error option) full_method" where
  "job_creator_create = fake_method job_creator_record_invocation ''Create''
     (\<lambda>(arg2, arg3). [AnyContext, AnyString arg2, AnyJob arg3]) jc_create jc_create_update"

interpretation job_creator_double_create: doubled_method job_creator_record_invocation fk_invocations jc_create jc_create_update
  by unfold_locales (simp_all add: job_creator_record_invocation_def recording)

section \<open>FakeSecretsClient\<close>

text \<open>The double of \<open>SecretsClient\<close>.\<close>

record 'w fake_secrets_client = fake +
  sc_create :: "('w, string \<times> secret option, secret option \<times> go_error option) double"
  sc_delete :: "('w, string \<times> string, go_error option) double"
  sc_set_owner :: "('w, secret option \<times> ref, secret option \<times> go_error option) double"

definition new_fake_secrets_client :: "'w fake_secrets_client" where
  "new_fake_secrets_client = \<lparr>fk_invocations = None, sc_create = new_double (None, None),
     sc_delete = new_double None,
     sc_set_owner = new_double (None, None)\<rparr>"

definition secrets_client_record_invocation :: "string \<Rightarrow> any list \<Rightarrow> 'w fake_secrets_client \<Rightarrow> 'w fake_secrets_client" where
  "secrets_client_record_invocation key args fake = record_invocation key args fake"

definition secrets_client_invocations :: "(invocations \<Rightarrow> invocations) \<Rightarrow> 'w fake_secrets_client \<Rightarrow> invocations" where
  "secrets_client_invocations order fake = copied_invocations order fake"

definition secrets_client_create :: "('w fake_secrets_client, 'w, string \<times> secret option, secret option \<times> go_error option) full_method" where
  "secrets_client_create = fake_method secrets_client_record_invocation ''Create''
     (\<lambda>(arg2, arg3). [AnyContext, AnyString arg2, AnySecret arg3]) sc_create sc_create_update"

definition secrets_client_delete :: "('w fake_secrets_client, 'w, string \<times> string, go_error option) full_method" where
  "secrets_client_delete = fake_method secrets_client_record_invocation ''Delete''
     (\<lambda>(arg2, arg3). [AnyContext, AnyString arg2, AnyString arg3]) sc_delete sc_delete_update"

definition secrets_client_set_owner :: "('w fake_secrets_client, 'w, secret option \<times> ref, secret option \<times> go_error option) full_method" where
  "secrets_client_set_owner = fake_method secrets_client_record_invocation ''SetOwner''
     (\<lambda>(arg2, arg3). [AnyContext, AnySecret arg2, AnyRef arg3]) sc_set_owner sc_set_owner_update"

interpretation secrets_client_double_create: doubled_method secrets_client_record_invocation fk_invocations sc_create sc_create_update
  by unfold_locales (simp_all add: secrets_client_record_invocation_def recording)

interpretation secrets_client_double_delete: doubled_method secrets_client_record_invocation fk_invocations sc_delete sc_delete_update
  by unfold_locales (simp_all add: secrets_client_record_invocation_def recording)

interpretation secrets_client_double_set_owner: doubled_method secrets_client_record_invocation fk_invocations sc_set_owner sc_set_owner_update
  by unfold_locales (simp_all add: secrets_client_record_invocation_def recording)

section \<open>FakeTaskToJobConverter\<close>

text \<open>The double of \<open>TaskToJobConverter\<close>.\<close>

record 'w fake_job_converter = fake +
  tj_convert :: "('w, task, job option) double"

definition new_fake_job_converter :: "'w fake_job_converter" where
  "new_fake_job_converter = \<lparr>fk_invocations = None, tj_convert = new_double None\<rparr>"

definition job_converter_record_invocation :: "string \<Rightarrow> any list \<Rightarrow> 'w fake_job_converter \<Rightarrow> 'w fake_job_converter" where
  "job_converter_record_invocation key args fake = record_invocation key args fake"

definition job_converter_invocations :: "(invocations \<Rightarrow> invocations) \<Rightarrow> 'w fake_job_converter \<Rightarrow> invocations" where
  "job_converter_invocations order fake = copied_invocations order fake"

definition job_converter_convert :: "('w fake_job_converter, 'w, task, job option) full_method" where
  "job_converter_convert = fake_method job_converter_record_invocation ''Convert''
     (\<lambda>arg1. [AnyTask arg1]) tj_convert tj_convert_update"

interpretation job_converter_double_convert: doubled_method job_converter_record_invocation fk_invocations tj_convert tj_convert_update
  by unfold_locales (simp_all add: job_converter_record_invocation_def recording)

end
