(* ===== verification/Stset_Fakes.thy ===== *)
theory Stset_Fakes
  imports Counterfeiter
begin

text \<open>
  What counterfeiter generated: the doubles of the package of stateful sets, \<open>k8s/stset/stsetfakes\<close>. Of every
  method of the interface the table of its operations, after the pattern of \<open>Counterfeiter\<close>.
\<close>

section \<open>FakeLRPToStatefulSetConverter\<close>

text \<open>The double of \<open>LRPToStatefulSetConverter\<close>.\<close>

record 'w fake_stset_converter = fake +
  ls_convert :: "('w, string \<times> lrp \<times> secret option, stateful_set option \<times> go_error option) double"

definition new_fake_stset_converter :: "'w fake_stset_converter" where
  "new_fake_stset_converter = \<lparr>fk_invocations = None, ls_convert = new_double (None, None)\<rparr>"

definition stset_converter_record_invocation :: "string \<Rightarrow> any list \<Rightarrow> 'w fake_stset_converter \<Rightarrow> 'w fake_stset_converter" where
  "stset_converter_record_invocation key args fake = record_invocation key args fake"

definition stset_converter_invocations :: "(invocations \<Rightarrow> invocations) \<Rightarrow> 'w fake_stset_converter \<Rightarrow> invocations" where
  "stset_converter_invocations order fake = copied_invocations order fake"

definition stset_converter_convert :: "('w fake_stset_converter, 'w, string \<times> lrp \<times> secret option, stateful_set option \<times> go_error option) full_method" where
  "stset_converter_convert = fake_method stset_converter_record_invocation ''Convert''
     (\<lambda>(arg1, arg2, arg3). [AnyString arg1, AnyLRP arg2, AnySecret arg3]) ls_convert ls_convert_update"

interpretation stset_converter_double_convert: doubled_method stset_converter_record_invocation fk_invocations ls_convert ls_convert_update
  by unfold_locales (simp_all add: stset_converter_record_invocation_def recording)

section \<open>FakePodDisruptionBudgetUpdater\<close>

text \<open>The double of \<open>PodDisruptionBudgetUpdater\<close>.\<close>

record 'w fake_budget_updater = fake +
  bu_update :: "('w, stateful_set \<times> lrp, go_error option) double"

definition new_fake_budget_updater :: "'w fake_budget_updater" where
  "new_fake_budget_updater = \<lparr>fk_invocations = None, bu_update = new_double None\<rparr>"

definition budget_updater_record_invocation :: "string \<Rightarrow> any list \<Rightarrow> 'w fake_budget_updater \<Rightarrow> 'w fake_budget_updater" where
  "budget_updater_record_invocation key args fake = record_invocation key args fake"

definition budget_updater_invocations :: "(invocations \<Rightarrow> invocations) \<Rightarrow> 'w fake_budget_updater \<Rightarrow> invocations" where
  "budget_updater_invocations order fake = copied_invocations order fake"

definition budget_updater_update :: "('w fake_budget_updater, 'w, stateful_set \<times> lrp, go_error option) full_method" where
  "budget_updater_update = fake_method budget_updater_record_invocation ''Update''
     (\<lambda>(arg2, arg3). [AnyContext, AnyStset arg2, AnyLRP arg3]) bu_update bu_update_update"

interpretation budget_updater_double_update: doubled_method budget_updater_record_invocation fk_invocations bu_update bu_update_update
  by unfold_locales (simp_all add: budget_updater_record_invocation_def recording)

section \<open>FakeProbeCreator\<close>

text \<open>The double of the function type \<open>ProbeCreator\<close>.\<close>

record 'w fake_probe_creator = fake +
  fp_spy :: "('w, lrp, probe option) double"

definition new_fake_probe_creator :: "'w fake_probe_creator" where
  "new_fake_probe_creator = \<lparr>fk_invocations = None, fp_spy = new_double None\<rparr>"

definition probe_creator_record_invocation :: "string \<Rightarrow> any list \<Rightarrow> 'w fake_probe_creator \<Rightarrow> 'w fake_probe_creator" where
  "probe_creator_record_invocation key args fake = record_invocation key args fake"

definition probe_creator_invocations :: "(invocations \<Rightarrow> invocations) \<Rightarrow> 'w fake_probe_creator \<Rightarrow> invocations" where
  "probe_creator_invocations order fake = copied_invocations order fake"

definition probe_creator_spy :: "('w fake_probe_creator, 'w, lrp, probe option) full_method" where
  "probe_creator_spy = fake_method probe_creator_record_invocation ''ProbeCreator''
     (\<lambda>arg1. [AnyLRP arg1]) fp_spy fp_spy_update"

interpretation probe_creator_double_spy: doubled_method probe_creator_record_invocation fk_invocations fp_spy fp_spy_update
  by unfold_locales (simp_all add: probe_creator_record_invocation_def recording)

end
