(* ===== verification/Reconciler_Fakes.thy ===== *)
theory Reconciler_Fakes
  imports Counterfeiter Crash_Event
begin

text \<open>
  What counterfeiter generated: the doubles of the package of reconcilers, \<open>k8s/reconciler/reconcilerfakes\<close>, and of the decorated desirer, \<open>prometheus/prometheusfakes\<close>. Of every
  method of the interface the table of its operations, after the pattern of \<open>Counterfeiter\<close>.
\<close>

section \<open>FakeCrashEventGenerator\<close>

text \<open>The double of \<open>CrashEventGenerator\<close>.\<close>

record 'w fake_crash_event_generator = fake +
  cg_generate :: "('w, pod \<times> ref, crash_event option) double"

definition new_fake_crash_event_generator :: "'w fake_crash_event_generator" where
  "new_fake_crash_event_generator = \<lparr>fk_invocations = None, cg_generate = new_double None\<rparr>"

definition crash_event_generator_record_invocation :: "string \<Rightarrow> any list \<Rightarrow> 'w fake_crash_event_generator \<Rightarrow> 'w fake_crash_event_generator" where
  "crash_event_generator_record_invocation key args fake = record_invocation key args fake"

definition crash_event_generator_invocations :: "(invocations \<Rightarrow> invocations) \<Rightarrow> 'w fake_crash_event_generator \<Rightarrow> invocations" where
  "crash_event_generator_invocations order fake = copied_invocations order fake"

definition crash_event_generator_generate :: "('w fake_crash_event_generator, 'w, pod \<times> ref, crash_event option) full_method" where
  "crash_event_generator_generate = fake_method crash_event_generator_record_invocation ''Generate''
     (\<lambda>(arg2, arg3). [AnyContext, AnyPod arg2, AnyRef arg3]) cg_generate cg_generate_update"

interpretation crash_event_generator_double_generate: doubled_method crash_event_generator_record_invocation fk_invocations cg_generate cg_generate_update
  by unfold_locales (simp_all add: crash_event_generator_record_invocation_def recording)

section \<open>FakeLRPDesirer\<close>

text \<open>The double of \<open>LRPDesirer\<close>.\<close>

record 'w fake_lrp_desirer = fake +
  ld_desire :: "('w, lrp, go_error option) double"

definition new_fake_lrp_desirer :: "'w fake_lrp_desirer" where
  "new_fake_lrp_desirer = \<lparr>fk_invocations = None, ld_desire = new_double None\<rparr>"

definition lrp_desirer_record_invocation :: "string \<Rightarrow> any list \<Rightarrow> 'w fake_lrp_desirer \<Rightarrow> 'w fake_lrp_desirer" where
  "lrp_desirer_record_invocation key args fake = record_invocation key args fake"

definition lrp_desirer_invocations :: "(invocations \<Rightarrow> invocations) \<Rightarrow> 'w fake_lrp_desirer \<Rightarrow> invocations" where
  "lrp_desirer_invocations order fake = copied_invocations order fake"

definition lrp_desirer_desire :: "('w fake_lrp_desirer, 'w, lrp, go_error option) full_method" where
  "lrp_desirer_desire = fake_method lrp_desirer_record_invocation ''Desire''
     (\<lambda>arg2. [AnyContext, AnyLRP arg2]) ld_desire ld_desire_update"

interpretation lrp_desirer_double_desire: doubled_method lrp_desirer_record_invocation fk_invocations ld_desire ld_desire_update
  by unfold_locales (simp_all add: lrp_desirer_record_invocation_def recording)

section \<open>FakeLRPUpdater\<close>

text \<open>The double of \<open>LRPUpdater\<close>.\<close>

record 'w fake_lrp_updater = fake +
  lu_update :: "('w, lrp \<times> stateful_set, go_error option) double"

definition new_fake_lrp_updater :: "'w fake_lrp_updater" where
  "new_fake_lrp_updater = \<lparr>fk_invocations = None, lu_update = new_double None\<rparr>"

definition lrp_updater_record_invocation :: "string \<Rightarrow> any list \<Rightarrow> 'w fake_lrp_updater \<Rightarrow> 'w fake_lrp_updater" where
  "lrp_updater_record_invocation key args fake = record_invocation key args fake"

definition lrp_updater_invocations :: "(invocations \<Rightarrow> invocations) \<Rightarrow> 'w fake_lrp_updater \<Rightarrow> invocations" where
  "lrp_updater_invocations order fake = copied_invocations order fake"

definition lrp_updater_update :: "('w fake_lrp_updater, 'w, lrp \<times> stateful_set, go_error option) full_method" where
  "lrp_updater_update = fake_method lrp_updater_record_invocation ''Update''
     (\<lambda>(arg2, arg3). [AnyContext, AnyLRP arg2, AnyStset arg3]) lu_update lu_update_update"

interpretation lrp_updater_double_update: doubled_method lrp_updater_record_invocation fk_invocations lu_update lu_update_update
  by unfold_locales (simp_all add: lrp_updater_record_invocation_def recording)

section \<open>FakeTaskDesirer\<close>

text \<open>The double of \<open>TaskDesirer\<close>.\<close>

record 'w fake_task_desirer = fake +
  td_desire :: "('w, task, job option \<times> go_error option) double"

definition new_fake_task_desirer :: "'w fake_task_desirer" where
  "new_fake_task_desirer = \<lparr>fk_invocations = None, td_desire = new_double (None, None)\<rparr>"

definition task_desirer_record_invocation :: "string \<Rightarrow> any list \<Rightarrow> 'w fake_task_desirer \<Rightarrow> 'w fake_task_desirer" where
  "task_desirer_record_invocation key args fake = record_invocation key args fake"

definition task_desirer_invocations :: "(invocations \<Rightarrow> invocations) \<Rightarrow> 'w fake_task_desirer \<Rightarrow> invocations" where
  "task_desirer_invocations order fake = copied_invocations order fake"

definition task_desirer_desire :: "('w fake_task_desirer, 'w, task, job option \<times> go_error option) full_method" where
  "task_desirer_desire = fake_method task_desirer_record_invocation ''Desire''
     (\<lambda>arg2. [AnyContext, AnyTask arg2]) td_desire td_desire_update"

interpretation task_desirer_double_desire: doubled_method task_desirer_record_invocation fk_invocations td_desire td_desire_update
  by unfold_locales (simp_all add: task_desirer_record_invocation_def recording)

section \<open>FakeTaskStatusGetter\<close>

text \<open>The double of \<open>TaskStatusGetter\<close>.\<close>

record 'w fake_task_status_getter = fake +
  tg_get_status_conditions :: "('w, job, condition list \<times> go_error option) double"

definition new_fake_task_status_getter :: "'w fake_task_status_getter" where
  "new_fake_task_status_getter = \<lparr>fk_invocations = None, tg_get_status_conditions = new_double ([], None)\<rparr>"

definition task_status_getter_record_invocation :: "string \<Rightarrow> any list \<Rightarrow> 'w fake_task_status_getter \<Rightarrow> 'w fake_task_status_getter" where
  "task_status_getter_record_invocation key args fake = record_invocation key args fake"

definition task_status_getter_invocations :: "(invocations \<Rightarrow> invocations) \<Rightarrow> 'w fake_task_status_getter \<Rightarrow> invocations" where
  "task_status_getter_invocations order fake = copied_invocations order fake"

definition task_status_getter_get_status_conditions :: "('w fake_task_status_getter, 'w, job, condition list \<times> go_error option) full_method" where
  "task_status_getter_get_status_conditions = fake_method task_status_getter_record_invocation ''GetStatusConditions''
     (\<lambda>arg2. [AnyContext, AnyJob arg2]) tg_get_status_conditions tg_get_status_conditions_update"

interpretation task_status_getter_double_get_status_conditions: doubled_method task_status_getter_record_invocation fk_invocations tg_get_status_conditions tg_get_status_conditions_update
  by unfold_locales (simp_all add: task_status_getter_record_invocation_def recording)

section \<open>FakeLRPDesirer\<close>

text \<open>The double of \<open>LRPDesirer\<close> of the package \<open>prometheus\<close>.\<close>

record 'w fake_decorated_desirer = fake +
  dd_desire :: "('w, lrp, go_error option) double"

definition new_fake_decorated_desirer :: "'w fake_decorated_desirer" where
  "new_fake_decorated_desirer = \<lparr>fk_invocations = None, dd_desire = new_double None\<rparr>"

definition decorated_desirer_record_invocation :: "string \<Rightarrow> any list \<Rightarrow> 'w fake_decorated_desirer \<Rightarrow> 'w fake_decorated_desirer" where
  "decorated_desirer_record_invocation key args fake = record_invocation key args fake"

definition decorated_desirer_invocations :: "(invocations \<Rightarrow> invocations) \<Rightarrow> 'w fake_decorated_desirer \<Rightarrow> invocations" where
  "decorated_desirer_invocations order fake = copied_invocations order fake"

definition decorated_desirer_desire :: "('w fake_decorated_desirer, 'w, lrp, go_error option) full_method" where
  "decorated_desirer_desire = fake_method decorated_desirer_record_invocation ''Desire''
     (\<lambda>arg2. [AnyContext, AnyLRP arg2]) dd_desire dd_desire_update"

interpretation decorated_desirer_double_desire: doubled_method decorated_desirer_record_invocation fk_invocations dd_desire dd_desire_update
  by unfold_locales (simp_all add: decorated_desirer_record_invocation_def recording)

end
