(* ===== verification/Util_Fakes.thy ===== *)
theory Util_Fakes
  imports Counterfeiter
begin

text \<open>
  What counterfeiter generated: the double of the logger, \<open>util/utilfakes\<close>. Of every
  method of the interface the table of its operations, after the pattern of \<open>Counterfeiter\<close>.
\<close>

section \<open>FakeLogger\<close>

text \<open>The double of \<open>lager.Logger\<close>.\<close>

record 'w fake_logger = fake +
  fl_debug :: "('w, string \<times> ref list, unit) spy"
  fl_error :: "('w, string \<times> go_error option \<times> ref list, unit) spy"
  fl_fatal :: "('w, string \<times> go_error option \<times> ref list, unit) spy"
  fl_info :: "('w, string \<times> ref list, unit) spy"
  fl_register_sink :: "('w, ref, unit) spy"
  fl_session :: "('w, string \<times> ref list, ref) double"
  fl_session_name :: "('w, unit, string) double"
  fl_with_data :: "('w, ref, ref) double"

definition new_fake_logger :: "'w fake_logger" where
  "new_fake_logger = \<lparr>fk_invocations = None, fl_debug = new_spy,
     fl_error = new_spy,
     fl_fatal = new_spy,
     fl_info = new_spy,
     fl_register_sink = new_spy,
     fl_session = new_double None,
     fl_session_name = new_double [],
     fl_with_data = new_double None\<rparr>"

definition logger_record_invocation :: "string \<Rightarrow> any list \<Rightarrow> 'w fake_logger \<Rightarrow> 'w fake_logger" where
  "logger_record_invocation key args fake = record_invocation key args fake"

definition logger_invocations :: "(invocations \<Rightarrow> invocations) \<Rightarrow> 'w fake_logger \<Rightarrow> invocations" where
  "logger_invocations order fake = copied_invocations order fake"

definition logger_debug :: "('w fake_logger, 'w, string \<times> ref list) void_method" where
  "logger_debug = fake_void_method logger_record_invocation ''Debug''
     (\<lambda>(arg1, arg2). [AnyString arg1, AnyRefs arg2]) fl_debug fl_debug_update"

definition logger_error :: "('w fake_logger, 'w, string \<times> go_error option \<times> ref list) void_method" where
  "logger_error = fake_void_method logger_record_invocation ''Error''
     (\<lambda>(arg1, arg2, arg3). [AnyString arg1, AnyError arg2, AnyRefs arg3]) fl_error fl_error_update"

definition logger_fatal :: "('w fake_logger, 'w, string \<times> go_error option \<times> ref list) void_method" where
  "logger_fatal = fake_void_method logger_record_invocation ''Fatal''
     (\<lambda>(arg1, arg2, arg3). [AnyString arg1, AnyError arg2, AnyRefs arg3]) fl_fatal fl_fatal_update"

definition logger_info :: "('w fake_logger, 'w, string \<times> ref list) void_method" where
  "logger_info = fake_void_method logger_record_invocation ''Info''
     (\<lambda>(arg1, arg2). [AnyString arg1, AnyRefs arg2]) fl_info fl_info_update"

definition logger_register_sink :: "('w fake_logger, 'w, ref) void_method" where
  "logger_register_sink = fake_void_method logger_record_invocation ''RegisterSink''
     (\<lambda>arg1. [AnyRef arg1]) fl_register_sink fl_register_sink_update"

definition logger_session :: "('w fake_logger, 'w, string \<times> ref list, ref) full_method" where
  "logger_session = fake_method logger_record_invocation ''Session''
     (\<lambda>(arg1, arg2). [AnyString arg1, AnyRefs arg2]) fl_session fl_session_update"

definition logger_session_name :: "('w fake_logger, 'w, string) nullary_method" where
  "logger_session_name = fake_nullary_method logger_record_invocation ''SessionName'' fl_session_name fl_session_name_update"

definition logger_with_data :: "('w fake_logger, 'w, ref, ref) full_method" where
  "logger_with_data = fake_method logger_record_invocation ''WithData''
     (\<lambda>arg1. [AnyRef arg1]) fl_with_data fl_with_data_update"

interpretation logger_double_debug: spied_method logger_record_invocation fk_invocations fl_debug fl_debug_update
  by unfold_locales (simp_all add: logger_record_invocation_def recording)

interpretation logger_double_error: spied_method logger_record_invocation fk_invocations fl_error fl_error_update
  by unfold_locales (simp_all add: logger_record_invocation_def recording)

interpretation logger_double_fatal: spied_method logger_record_invocation fk_invocations fl_fatal fl_fatal_update
  by unfold_locales (simp_all add: logger_record_invocation_def recording)

interpretation logger_double_info: spied_method logger_record_invocation fk_invocations fl_info fl_info_update
  by unfold_locales (simp_all add: logger_record_invocation_def recording)

interpretation logger_double_register_sink: spied_method logger_record_invocation fk_invocations fl_register_sink fl_register_sink_update
  by unfold_locales (simp_all add: logger_record_invocation_def recording)

interpretation logger_double_session: doubled_method logger_record_invocation fk_invocations fl_session fl_session_update
  by unfold_locales (simp_all add: logger_record_invocation_def recording)

interpretation logger_double_session_name: doubled_method logger_record_invocation fk_invocations fl_session_name fl_session_name_update
  by unfold_locales (simp_all add: logger_record_invocation_def recording)

interpretation logger_double_with_data: doubled_method logger_record_invocation fk_invocations fl_with_data fl_with_data_update
  by unfold_locales (simp_all add: logger_record_invocation_def recording)

end
