(* ===== verification/Doubled_Reconciler.thy ===== *)
theory Doubled_Reconciler
  imports Lrp_Reconciler Reconciler_Fakes
begin

text \<open>
  A reconciler with a double in place of its desirer, as the tests of \<open>k8s/reconciler\<close> build it. A double whose
  stub is the real desirer observes it without being noticed.
\<close>

section \<open>The client beside a double\<close>

text \<open>The client does not know of the double.\<close>

definition client_beside :: "'w client \<Rightarrow> ('f \<times> 'w) client" where
  "client_beside cl =
     \<lparr>get_lrp = (\<lambda>k. in_world (get_lrp cl k)), patch_lrp_status = (\<lambda>l m. in_world (patch_lrp_status cl l m)),
      get_task = (\<lambda>k. in_world (get_task cl k)), patch_task_status = (\<lambda>t u. in_world (patch_task_status cl t u)),
      get_stset = (\<lambda>k. in_world (get_stset cl k)), create_stset = (\<lambda>st. in_world (create_stset cl st)),
      patch_stset = (\<lambda>st su. in_world (patch_stset cl st su)), get_job = (\<lambda>k. in_world (get_job cl k)),
      create_job = (\<lambda>j. in_world (create_job cl j)),
      delete_all_jobs = (\<lambda>ns n. in_world (delete_all_jobs cl ns n)), get_pod = (\<lambda>k. in_world (get_pod cl k)),
      list_pods = (\<lambda>ns ls. in_world (list_pods cl ns ls)), patch_pod = (\<lambda>p q. in_world (patch_pod cl p q)),
      list_events = (\<lambda>ns ls fs. in_world (list_events cl ns ls fs)), create_event = (\<lambda>e. in_world (create_event cl e)),
      update_event = (\<lambda>e. in_world (update_event cl e)), create_secret = (\<lambda>s. in_world (create_secret cl s)),
      patch_secret = (\<lambda>s t. in_world (patch_secret cl s t)), delete_secret = (\<lambda>s. in_world (delete_secret cl s)),
      create_pdb = (\<lambda>b. in_world (create_pdb cl b)), delete_all_pdbs = (\<lambda>ns n. in_world (delete_all_pdbs cl ns n)),
      time_now = in_world (time_now cl)\<rparr>"

lemma client_beside_simps [simp]:
  "get_lrp (client_beside cl) k = in_world (get_lrp cl k)"
  "get_stset (client_beside cl) k = in_world (get_stset cl k)"
  "patch_lrp_status (client_beside cl) l m = in_world (patch_lrp_status cl l m)"
  by (simp_all add: client_beside_def)

abbreviation doubled_reconcile ::
  "'w client \<Rightarrow> kube_lib \<Rightarrow> (lrp \<Rightarrow> stateful_set \<Rightarrow> ('w, go_error option outcome) io) \<Rightarrow> namespaced_name
    \<Rightarrow> ('w fake_lrp_desirer \<times> 'w, reconcile_result outcome) io" where
  "doubled_reconcile cl lib upd \<equiv> lrp_reconcile (new_lrp_reconciler (client_beside cl) lib
     (m_call lrp_desirer_desire) (\<lambda>l st. in_world (upd l st)))"

section \<open>One call of the desirer\<close>

lemma desire_stubbed:
  assumes "sp_stub (ld_desire f) = Some des"
  shows "\<exists>f'. run_state (m_call lrp_desirer_desire l) (f, w)
      = (fst (run_state (des l) w), (f', snd (run_state (des l) w))) \<and>
    ld_desire f' = (ld_desire f)\<lparr>sp_args_for_call := sp_args_for_call (ld_desire f) @ [l]\<rparr>"
  using lrp_desirer_double_desire.call_stubbed [OF assms, of "''Desire''" "\<lambda>l. [AnyContext, AnyLRP l]" l w]
    lrp_desirer_double_desire.get_called
  by (auto simp: lrp_desirer_desire_def fake_method_def split: prod.split)

text \<open>What a computation with the double does, compared to one without it, and the LRPs that were desired.\<close>

definition observes ::
  "'w fake_lrp_desirer \<Rightarrow> lrp list \<Rightarrow> ('w fake_lrp_desirer \<times> 'w, 'a) io \<Rightarrow> ('w, 'a) io \<Rightarrow> 'w \<Rightarrow> bool" where
  "observes f ls m n w \<longleftrightarrow> (\<exists>f'. run_state m (f, w) = (fst (run_state n w), (f', snd (run_state n w))) \<and>
     ld_desire f' = (ld_desire f)\<lparr>sp_args_for_call := sp_args_for_call (ld_desire f) @ ls\<rparr>)"

lemma observes_ret [intro!]: "observes f [] (ret a) (ret a) w"
  by (simp add: observes_def)

lemma observes_world: "observes f [] (in_world m) m w"
  by (simp add: observes_def split: prod.split)

lemma observes_desire:
  "sp_stub (ld_desire f) = Some des \<Longrightarrow> observes f [l] (m_call lrp_desirer_desire l) (des l) w"
  using desire_stubbed unfolding observes_def .

text \<open>In sequence, when one of the two parts does not call the desirer.\<close>

lemma observes_bind_world:
  assumes "\<And>a w'. run_state m w = (a, w') \<Longrightarrow> observes f ls (g a) (h a) w'"
  shows "observes f ls (State_Monad.bind (in_world m) g) (State_Monad.bind m h) w"
  using assms by (cases "run_state m w") (simp add: observes_def)

lemma observes_bind_ret:
  assumes "observes f ls m n w"
  shows "observes f ls (State_Monad.bind m (\<lambda>a. ret (g a))) (State_Monad.bind n (\<lambda>a. ret (g a))) w"
  using assms by (cases "run_state n w") (auto simp: observes_def)

lemma reconciler_client: "rl_client (new_lrp_reconciler cl lib des upd) = cl"
  by (simp add: new_lrp_reconciler_def)

text \<open>
  The LRPs that a reconciliation desires: the one that is read, when its stateful set is not found.
\<close>

definition desired_lrps :: "'w client \<Rightarrow> kube_lib \<Rightarrow> lrp \<Rightarrow> 'w \<Rightarrow> lrp list" where
  "desired_lrps cl lib l w =
     (case get_statefulset_name l of
        Inl _ \<Rightarrow> []
      | Inr n \<Rightarrow> (case fst (run_state (get_stset cl (om_namespace (lr_meta l), n)) w) of
          Inl err \<Rightarrow> if is_not_found lib err then [l] else []
        | Inr _ \<Rightarrow> []))"

lemma do_observed:
  assumes "sp_stub (ld_desire f) = Some des"
  shows "observes f (desired_lrps cl lib l w)
    (lrp_do (new_lrp_reconciler (client_beside cl) lib (m_call lrp_desirer_desire) (\<lambda>l st. in_world (upd l st))) l)
    (lrp_do (new_lrp_reconciler cl lib des upd) l) w"
proof (cases "get_statefulset_name l")
  case (Inl err)
  then show ?thesis
    by (auto simp: lrp_do_def desired_lrps_def)
next
  case (Inr n)
  obtain res w1 where res: "run_state (get_stset cl (om_namespace (lr_meta l), n)) w = (res, w1)"
    by (cases "run_state (get_stset cl (om_namespace (lr_meta l), n)) w")
  have des: "observes f [l] (State_Monad.bind (m_call lrp_desirer_desire l) (\<lambda>e. ret (g e)))
      (State_Monad.bind (des l) (\<lambda>e. ret (g e))) w1" for g :: "go_error option \<Rightarrow> go_error option outcome"
    by (rule observes_bind_ret [OF observes_desire [OF assms]])
  show ?thesis
  proof (cases "\<exists>err. res = Inl err \<and> is_not_found lib err")
    case True
    then have "desired_lrps cl lib l w = [l]" by (auto simp: desired_lrps_def Inr res)
    with True show ?thesis
      by (auto simp: lrp_do_def Inr new_lrp_reconciler_def res intro!: observes_bind_world des)
  next
    case False
    then have "desired_lrps cl lib l w = []" by (auto simp: desired_lrps_def Inr res split: sum.split)
    with False show ?thesis
      by (auto simp: lrp_do_def Inr new_lrp_reconciler_def res update_lrp_status_def Let_def
          intro!: observes_bind_world split: sum.split prod.split outcome.split)
  qed
qed

section \<open>Property\<close>

text \<open>
  C30: a double observes without being noticed. With \<open>FakeLRPDesirer\<close> in place of its desirer and the real
  desirer as the stub, a reconciliation has the result and the effects that it has without the double. The
  double records exactly what is desired: the LRP that was read when its stateful set is missing, and nothing
  when the LRP or its stateful set cannot be read, or the stateful set is there.
\<close>

theorem desirer_double_transparent:
  assumes "sp_stub (ld_desire f) = Some des"
    and "run_state (lrp_reconcile (new_lrp_reconciler cl lib des upd) k) w = (r, w')"
  shows "\<exists>f'. run_state (doubled_reconcile cl lib upd k) (f, w) = (r, (f', w')) \<and>
    sp_args_for_call (ld_desire f') = sp_args_for_call (ld_desire f) @
      (case run_state (get_lrp cl k) w of (Inl _, _) \<Rightarrow> [] | (Inr l, w1) \<Rightarrow> desired_lrps cl lib l w1)"
proof -
  obtain res w1 where get: "run_state (get_lrp cl k) w = (res, w1)" by (cases "run_state (get_lrp cl k) w")
  let ?ls = "case res of Inl _ \<Rightarrow> [] | Inr l \<Rightarrow> desired_lrps cl lib l w1"
  have "observes f ?ls (doubled_reconcile cl lib upd k) (lrp_reconcile (new_lrp_reconciler cl lib des upd) k) w"
  proof (cases res)
    case (Inl err)
    then show ?thesis
      by (auto simp: lrp_reconcile_def new_lrp_reconciler_def get intro!: observes_bind_world split: sum.split)
  next
    case (Inr l)
    have "observes f (desired_lrps cl lib l w1)
      (lrp_do (new_lrp_reconciler (client_beside cl) lib (m_call lrp_desirer_desire) (\<lambda>l st. in_world (upd l st))) l)
      (lrp_do (new_lrp_reconciler cl lib des upd) l) w1"
      by (rule do_observed [OF assms(1)])
    then show ?thesis
      unfolding lrp_reconcile_def reconciler_client client_beside_simps
      by (intro observes_bind_world) (auto simp: get Inr observes_bind_ret)
  qed
  then obtain f' where "run_state (doubled_reconcile cl lib upd k) (f, w) = (r, (f', w'))"
    and "ld_desire f' = (ld_desire f)\<lparr>sp_args_for_call := sp_args_for_call (ld_desire f) @ ?ls\<rparr>"
    unfolding observes_def assms(2) by auto
  then show ?thesis
    by (intro exI [of _ f']) (simp add: get split: sum.split)
qed

section \<open>Witness\<close>

text \<open>Without a stateful set, the real desirer is called through the double, and its error comes back.\<close>

theorem desirer_double_transparent_witness:
  "\<exists>f'. run_state (doubled_reconcile sample_client sample_lib (\<lambda>l st. ret (Returns None)) (''cf'', ''mylrp''))
      (fst (snd (run_state (m_calls lrp_desirer_desire (Some (\<lambda>l. ret (Some no_answer)))) (new_fake_lrp_desirer, 0))), 0)
    = (Returns (0, Some (Wrap ''failed to desire lrp'' no_answer)), (f', 0)) \<and>
    sp_args_for_call (ld_desire f') =
      [sample_lrp\<lparr>lr_meta := (lr_meta sample_lrp)\<lparr>om_namespace := ''cf'', om_name := ''mylrp''\<rparr>\<rparr>]"
proof -
  let ?f = "new_fake_lrp_desirer\<lparr>ld_desire := (new_double None)\<lparr>sp_stub := Some (\<lambda>l. ret (Some no_answer))\<rparr>\<rparr>"
  let ?l = "sample_lrp\<lparr>lr_meta := (lr_meta sample_lrp)\<lparr>om_namespace := ''cf'', om_name := ''mylrp''\<rparr>\<rparr>"
  obtain name where name: "get_statefulset_name ?l = Inr name"
    by (rule sample_name)
  have "run_state (lrp_reconcile (new_lrp_reconciler sample_client sample_lib (\<lambda>l. ret (Some no_answer)) (\<lambda>l st. ret (Returns None))) (''cf'', ''mylrp'')) 0
    = (Returns (0, Some (Wrap ''failed to desire lrp'' no_answer)), 0)"
    using name by (simp add: lrp_reconcile_def lrp_do_def new_lrp_reconciler_def sample_client_def not_found_def
        status_reason_def)
  note transparent = desirer_double_transparent [OF _ this, of ?f]
  have f: "fst (snd (run_state (m_calls lrp_desirer_desire (Some (\<lambda>l. ret (Some no_answer)))) (new_fake_lrp_desirer, 0))) = ?f"
    by (simp add: lrp_desirer_desire_def fake_method_def double_calls_def new_fake_lrp_desirer_def)
  have stub: "sp_stub (ld_desire ?f) = Some (\<lambda>l. ret (Some no_answer))" and none: "sp_args_for_call (ld_desire ?f) = []"
    by (simp_all add: new_double_def)
  have "(case run_state (get_lrp sample_client (''cf'', ''mylrp'')) 0 of (Inl _, _) \<Rightarrow> []
      | (Inr l, w1) \<Rightarrow> desired_lrps sample_client sample_lib l w1) = [?l]"
    using name by (simp add: desired_lrps_def sample_client_def not_found_def status_reason_def)
  then show ?thesis
    using transparent [OF stub] unfolding f none by simp
qed

end
