(* ===== verification/Spec2Isabelle.thy ===== *)
theory Spec2Isabelle
  imports Controller_Main Lager_Logr Api_Copies Docker_Config Clientset
    Lrp_Provenance Crash_Tally Task_Quiet Task_Failure Call_Bounds Scheme_Registration Fake_Equivalence
    K8s_Fakes Jobs_Fakes Stset_Fakes Reconciler_Fakes Util_Fakes Doubled_Reconciler
begin

text \<open>
  A model of \<open>eirini-controller\<close>, the Kubernetes controller that runs the long running processes (LRPs)
  and tasks of Cloud Foundry. The paths below are those of the repository.

  \<^bold>\<open>The program.\<close> The controller watches two custom resources. An LRP becomes a stateful set with, when
  needed, a secret for a private registry and a pod disruption budget; later changes of its image and its
  number of instances are carried over. A task becomes a job, whose state is reported in the conditions
  of the task until it is deleted some time after its end. Crashes of the pods of LRPs are recorded as
  events. A validating webhook refuses other changes of LRPs, and a mutating webhook tells each instance
  its index. All of it is wired up by \<open>cmd/main.go\<close> and driven by controller-runtime.

  \<^bold>\<open>Theories.\<close> In the order in which they build on each other:

  \<^item> \<open>Go_Prelude\<close>, \<open>Go_Strings\<close>, \<open>Go_Regexp\<close>, \<open>Go_Sha256\<close>, \<open>Go_Encoding\<close>: the parts of Go and its
    standard library that the code uses: integers of fixed width, maps, errors and panics, the effect
    type \<open>io\<close>; splitting, number parsing and printing; leftmost-first regular expressions with groups;
    SHA-256; base64, UTF-8 and JSON strings with their round trips.
  \<^item> \<open>Util\<close> (\<open>util/parse.go\<close>, \<open>util/hash.go\<close>), \<open>Names\<close> (\<open>k8s/utils/names.go\<close>, \<open>envvar.go\<close>), \<open>Labels\<close>
    (the constants), \<open>Probes\<close> (\<open>k8s/probe.go\<close>, \<open>security_context.go\<close>), \<open>Docker_Config\<close>
    (\<open>k8s/utils/dockerutils\<close>).
  \<^item> \<open>Api_Types\<close>: the resources of \<open>pkg/apis/eirini/v1\<close> field by field, and of the Kubernetes objects
    the fields that the code reads or writes; \<open>Samples\<close>, \<open>Sample_Cluster\<close>: the concrete objects,
    libraries and clusters of the witnesses.
  \<^item> \<open>Kube_Client\<close>: the client of controller-runtime as a record of operations, and how operations on
    it are reasoned about (below).
  \<^item> \<open>Stset_Convert\<close> (\<open>k8s/stset/lrp_to_statefulset.go\<close>), \<open>Pdb\<close> (\<open>k8s/pdb/update.go\<close>), \<open>Stset_Desire\<close>
    and \<open>Stset_Update\<close> (\<open>k8s/stset/desire.go\<close>, \<open>update.go\<close>), \<open>Prometheus_Desire\<close>
    (\<open>prometheus/desire.go\<close>), \<open>Lrp_Reconciler\<close> (\<open>k8s/reconciler/lrp.go\<close>).
  \<^item> \<open>Jobs_Convert\<close>, \<open>Jobs_Desire\<close>, \<open>Jobs_Status\<close> (\<open>k8s/jobs/*.go\<close>), \<open>Task_Reconciler\<close>
    (\<open>k8s/reconciler/task.go\<close>).
  \<^item> \<open>Crash_Event\<close> (\<open>k8s/event/crash_event_generator.go\<close>), \<open>Pod_Crash\<close>
    (\<open>k8s/reconciler/pod_crash.go\<close>, \<open>pod_crash_predicate.go\<close>).
  \<^item> \<open>Admission\<close>, \<open>Webhook_Diff\<close>, \<open>Lrp_Validator\<close>, \<open>Index_Injector\<close> (\<open>k8s/webhook/**\<close>).
  \<^item> \<open>Wiring\<close> (\<open>cmd/wiring/*.go\<close>), \<open>Controller_Main\<close> (\<open>cmd/main.go\<close>), \<open>Lager_Logr\<close>
    (\<open>util/lager_logr.go\<close>).
  \<^item> \<open>Deep_Copy\<close>, \<open>Api_Copies\<close> (\<open>pkg/apis/eirini/v1/zz_generated.deepcopy.go\<close>); \<open>Typed_Client\<close>,
    \<open>Clientset\<close> (\<open>pkg/generated/clientset/versioned\<close>), the clients that other programs use.

  \<^item> \<open>Kube_Hoare\<close>: reasoning about the state of the cluster; on it \<open>Task_Life\<close>, \<open>Task_Quiet\<close> and
    \<open>Lrp_Life\<close>: sequences of reconciliations of a task and of an LRP; \<open>Lrp_Evolution\<close>: the life of an
    LRP under the changes that the webhook admits; \<open>Lrp_Provenance\<close>: the same with stale reads, failures
    and others in between; \<open>Crash_Tally\<close>: how often crashes are counted; \<open>Call_Bounds\<close>: how many calls a
    reconciliation makes; \<open>Task_Failure\<close>: a task whose job has failed and lost its pod.
  \<^item> \<open>Scheme_Registration\<close>: the types that are registered (\<open>pkg/apis/eirini/v1/register.go\<close>,
    \<open>versioned/scheme\<close>); \<open>Fake_Clientset\<close>, \<open>Fake_Equivalence\<close>: the fake clientset for tests
    (\<open>versioned/fake\<close>, \<open>versioned/typed/eirini/v1/fake\<close>) and why it stands for the real one.
  \<^item> \<open>Counterfeiter\<close>: the pattern of the generated test doubles; \<open>K8s_Fakes\<close>, \<open>Jobs_Fakes\<close>, \<open>Stset_Fakes\<close>,
    \<open>Reconciler_Fakes\<close>, \<open>Util_Fakes\<close>: the doubles (\<open>*fakes\<close>); \<open>Doubled_Reconciler\<close>: a reconciler that
    is run with one.

  \<^bold>\<open>How the code is modelled.\<close> A function of the source is a definition of the same name in Isabelle's
  spelling. A struct is a record, a method takes the record of its receiver first. An operation that
  talks to the cluster is a computation in the state monad over a state of the world \<open>'w\<close> of which
  nothing is known; it calls the operations of the \<open>client\<close> it is given in the order of the source,
  and every result, error or not, is a branch. \<open>errors.Wrap\<close> is the constructor \<open>Wrap\<close>; a nil
  dereference, a failed type assertion or an index out of range is the outcome \<open>Panics\<close>. Machine
  integers are words; where the code may wrap around, so does the model. Iteration over a map visits
  its entries in an order that is a parameter. Contexts, timeouts and log output are left out.

  \<^bold>\<open>Parameters.\<close> What is not in the repository is an argument of the definitions that use it: the client
  (\<open>client\<close>), functions of apimachinery, controller-runtime and go-multierror (\<open>kube_lib\<close>), Prometheus
  (\<open>metrics\<close>), go-cmp (\<open>cmp_lib\<close>), decoding and encoding of objects (\<open>admission_lib\<close>), lager
  (\<open>lager\<close>), the manager (\<open>manager\<close>), the system (\<open>main_env\<close>), the REST client and the constructors of
  client-go (\<open>rest\<close>, \<open>client_go\<close>), its testing package (\<open>testing_fake\<close>, \<open>testing_lib\<close>), the schemes of
  apimachinery (\<open>scheme_lib\<close>) and the copying methods of the Kubernetes types (\<open>copy_lib\<close>). What a theorem
  needs of them is a named hypothesis that states documented behaviour, and the samples show that it can hold:
  \<open>owner_laws\<close> (setting an owner changes nothing else), \<open>owners_settable\<close> (it fails for an owner in another
  namespace, and, for a controller, when there is one already, but not otherwise; the sample library fails in
  these cases), \<open>multierror_laws\<close>, \<open>condition_laws\<close>, \<open>key_laws\<close>, \<open>cmp_laws\<close>, \<open>action_laws\<close>, \<open>copy_laws\<close>.
  Of the API server and the cache in front of it two kinds of description are used: \<open>task_server\<close> and \<open>lrp_server\<close>, where reads
  lag behind, calls fail, answers are lost and others act at any moment; \<open>quiet_server\<close>, \<open>quiet_metrics\<close>,
  \<open>quiet_task_server\<close> and \<open>quiet_pod_server\<close>, where reads are up to date and calls succeed (the patch of a
  pod may fail). Each is satisfied by a client that is computed in a witness.

  \<^bold>\<open>Reasoning.\<close> \<open>logged\<close> turns a client into one that records its calls; \<open>trace\<close> are the calls of an
  operation and \<open>result\<close> is what it returns. \<open>calls P m Q\<close> says that all calls of \<open>m\<close> satisfy \<open>P\<close> and its
  result satisfies \<open>Q\<close>, from every world: a small Hoare logic with one rule per construct
  (\<open>calls_intros\<close>); \<open>calls_at\<close> says it of one world. \<open>appends\<close> says that an operation does not depend on the log, so that the trace
  of a sequence is the sequence of the traces. \<open>triple P m Q\<close> says of the states of the world what
  \<open>calls\<close> says of the calls (\<open>triple_intros\<close>), \<open>effect\<close> describes an operation at one moment among the
  steps of others, and \<open>at_most n m\<close> counts the calls (\<open>at_most_intros\<close>).

  The interfaces of the code are locales: the converter, the disruption budget updater, the LRP desirer
  and updater, the task desirer and status getter, the crash event generator, the copying functions, and
  what a test double promises for each of its methods (\<open>doubled_method\<close>, interpreted on all of them). The
  lemmas about a reconciler are proved for every implementation of the interfaces it uses, and the
  controller's own implementations interpret them.

  \<^bold>\<open>What is shown.\<close>

  \<^item> \<^emph>\<open>LRPs\<close>: which calls \<open>Desire\<close> makes, in its namespace only and on no other secret than the one it made,
    in which order, and what it cleans up on failure and what not; what the stateful set, its selector, its environment, its sizes and its disruption budget
    are; that \<open>Update\<close> makes of a stateful set what \<open>Convert\<close> would make of the changed LRP, that it
    converges, and where it does not (sidecars); what a reconciliation does in each case; that one
    reconciliation in a quiet cluster settles the stateful set for good; and that webhook, reconciler,
    desirer, converter and updater together implement an abstract specification of what is deployed,
    over every sequence of admitted changes, reports and reconciliations; and that with stale reads, lost
    answers and others interfering nothing is ever deployed that no version of the LRP asked for.
  \<^item> \<^emph>\<open>Tasks\<close>: that the job runs once, that the conditions are those of the job, that every status patch
    sets conditions that hold, that no sequence of updates of the status undoes a completion, that a completed
    task is not run again and its job is deleted just when it has expired; that over the whole life of a task,
    with stale reads, lost answers and others interfering, at most one job is made for it; and that in a
    quiet cluster it gets its job, its outcome and its cleanup, while the failure of a job whose pod is
    gone is never reported.
  \<^item> \<^emph>\<open>Crashes\<close>: what is reported, how it is recorded, that only events and one annotation are written,
    that no crash is recorded twice once its pod is marked, and that over every sequence of crashes and
    reconciliations the counts of the events are the number of crashes seen, plus one for each mark that
    could not be written.
  \<^item> \<^emph>\<open>Webhooks\<close>: which updates are admitted and how the others are answered, which index an instance is
    told; and below, that an admitted update keeps the identity of the workload, and that the index of
    an instance is the one its crashes are labelled with.
  \<^item> \<^emph>\<open>Start\<close>: what is registered in which order, and that nothing starts unless all of it succeeded.
  \<^item> \<^emph>\<open>All reconcilers\<close>: a reconciliation makes at most six calls.
  \<^item> \<^emph>\<open>Values\<close>: names are valid and bounded, parsing reads back what is printed, credentials are read
    back from the secret, and deep copies share nothing with their originals, down to the metadata, if the
    Kubernetes types are copied so, which is what the treatment of Go objects as values in all other theories
    rests on.

  \<^item> \<^emph>\<open>Tests\<close>: the fake clientset is asked for the operations that the real one would ask the server for;
    a double answers as scripted, counts and keeps the calls of each method, and does not disturb what it
    stands in for. Of the options of a list the fake knows the selectors, and of a watch the resource version.

  \<^bold>\<open>Bounds.\<close> There is no fuel: every loop of the code is a structural recursion, or terminates by a measure
  (the UTF-8 decoder). Bounds appear as hypotheses where the code relies on them: ordinals of pods and
  the times that are printed fit 64 bits, restart counts and event counts wrap at 32 bits.

  \<^bold>\<open>Not modelled.\<close> The locks of the doubles and with them races between tests; stubs that use their own double;
  the test suites themselves; and what the libraries do with what they are given, in particular queues,
  retries and leader election of controller-runtime, and the object tracker behind the fake clientset.
\<close>

section \<open>Properties across components\<close>

lemma crash_index:
  assumes "result (generate_crash_event cl p) w = Some ce" and "om_name (po_meta p) = pod_name stset n" "n < 2 ^ 63"
  shows "ce_index ce = int n"
  using assms(1) parse_pod_index [OF assms(3), of stset]
  by (auto simp: generate_crash_event_def generate_report_for_terminated_pod_def get_by_pod_def
      generate_report_def result_def assms(2) Let_def split: if_splits option.splits sum.splits prod.splits)

text \<open>
  C16: an instance has one index. When a pod of a stateful set that was converted from an LRP is created,
  the webhook gives its application container the ordinal of the pod as \<open>CF_INSTANCE_INDEX\<close>, and
  changes nothing else; and every event that is ever created for a crash of a pod of that name is
  labelled with the very same text.
\<close>

theorem instance_index_agrees:
  assumes "convert c rng stset l s = Inr st"
    and "ps_containers (po_spec p) = ps_containers (pt_spec (st_template st))"
    and "om_name (po_meta p) = pod_name stset n" "n < 2 ^ 63"
    and "ar_operation req = CreateOp" and "decode_pod lib req = Inr p"
    and "om_name (po_meta q) = om_name (po_meta p)" and "result (generate_crash_event cl q) w = Some ce"
  shows "\<exists>app side. ps_containers (pt_spec (st_template st)) = app # side
    \<and> injector_handle lib req =
        (case marshal_pod lib (p\<lparr>po_spec := (po_spec p)\<lparr>ps_containers := app\<lparr>co_env := co_env app @
            [\<lparr>ev_name = ''CF_INSTANCE_INDEX'', ev_value = itoa (int n), ev_value_from = None\<rparr>]\<rparr> # side\<rparr>\<rparr>) of
           Inl err \<Rightarrow> Errored 500 err
         | Inr raw \<Rightarrow> PatchFromRaw (ar_object req) raw)
    \<and> om_labels (en_meta (new_crash_event now ref ce ns)) = Some [(label_instance_index, itoa (int n))]"
proof -
  obtain app side where cs: "ps_containers (pt_spec (st_template st)) = app # side"
    and app: "co_name app = application_container_name"
    using assms(1) by (auto simp: convert_unfold app_container_def)
  have "inject_env v (app # side) = Some (app\<lparr>co_env := co_env app @ [v]\<rparr> # side)" for v
    using app by simp
  moreover have "parse_app_index (om_name (po_meta p)) = Inr (int n)"
    using parse_pod_index [OF assms(4)] by (simp add: assms(3))
  ultimately have "injector_handle lib req =
      (case marshal_pod lib (p\<lparr>po_spec := (po_spec p)\<lparr>ps_containers := app\<lparr>co_env := co_env app @
          [\<lparr>ev_name = ''CF_INSTANCE_INDEX'', ev_value = itoa (int n), ev_value_from = None\<rparr>]\<rparr> # side\<rparr>\<rparr>) of
         Inl err \<Rightarrow> Errored 500 err
       | Inr raw \<Rightarrow> PatchFromRaw (ar_object req) raw)"
    using assms(2,5,6) cs
    by (simp add: injector_handle_def inject_instance_index_def env_cf_instance_index_def
        status_internal_server_error_def split: sum.split del: inject_env.simps)
  moreover have "ce_index ce = int n"
    by (rule crash_index [OF assms(8) _ assms(4)]) (simp add: assms(3,7))
  ultimately show ?thesis
    using cs by (simp add: new_crash_event_def)
qed

text \<open>
  an update that the webhook admits leaves the identity of the workload alone: the reconciler finds
  the changed LRP its old stateful set, and both the labels of the stateful set and its selector (which
  Kubernetes does not let change) are what \<open>Convert\<close> makes of the new LRP.
\<close>

theorem admitted_update_same_stset:
  assumes "cmp_laws cmp" and "decode_raw_lrp lib (ar_object req) = Inr new"
    and "decode_raw_lrp lib (ar_old_object req) = Inr old"
    and "validator_handle (new_lrp_resource_validator lib cmp) req = Returns (Answer True None)"
  shows "get_statefulset_name new = get_statefulset_name old
    \<and> stset_label_selector new = stset_label_selector old
    \<and> stset_labels new = stset_labels old"
proof -
  note same = unchanged_fields [OF admitted_unchanged [OF assms]]
  show ?thesis
    unfolding get_statefulset_name_def stset_label_selector_def stset_labels_def same by simp
qed

section \<open>Witnesses\<close>

theorem admitted_update_same_stset_witness:
  "get_statefulset_name (sample_lrp\<lparr>lr_spec := sample_lrp_spec\<lparr>ls_instances := 5\<rparr>\<rparr>) = get_statefulset_name sample_lrp"
proof -
  let ?req = "\<lparr>ar_operation = UpdateOp, ar_object = ''scaled'', ar_old_object = ''old''\<rparr>"
  have new: "decode_raw_lrp sample_admission (ar_object ?req) = Inr (sample_lrp\<lparr>lr_spec := sample_lrp_spec\<lparr>ls_instances := 5\<rparr>\<rparr>)"
    and old: "decode_raw_lrp sample_admission (ar_old_object ?req) = Inr sample_lrp"
    by (simp_all add: sample_admission_def)
  have "changed_fields (sample_lrp_spec\<lparr>ls_instances := 5\<rparr>) sample_lrp_spec [''Image'', ''Instances''] = []"
    by (rule sample_changes)
  then have "validator_handle (new_lrp_resource_validator sample_admission sample_cmp) ?req = Returns (Answer True None)"
    using validator_run [OF sample_cmp_laws new old] by (auto simp: sample_lrp_def)
  from admitted_update_same_stset [OF sample_cmp_laws new old this] show ?thesis by blast
qed

text \<open>A decoder of one pod, and an encoder that keeps the last variable of the first container.\<close>

definition index_lib :: "pod \<Rightarrow> admission_lib" where
  "index_lib p = \<lparr>decode_pod = (\<lambda>req. Inr p), decode_raw_lrp = (\<lambda>raw. Inl (NewError ''no lrp'')),
     raw_string = (\<lambda>raw. raw), error_string = (\<lambda>e. ''error''),
     marshal_pod = (\<lambda>p. Inr (ev_value (last (co_env (hd (ps_containers (po_spec p)))))))\<rparr>"

theorem instance_index_agrees_witness:
  "\<exists>p. \<forall>r. injector_handle (index_lib p) \<lparr>ar_operation = CreateOp, ar_object = ''pod'', ar_old_object = []\<rparr>
      = PatchFromRaw ''pod'' ''1''
    \<and> om_labels (en_meta (new_crash_event 0 r sample_crash ''cf'')) = Some [(label_instance_index, ''1'')]"
proof -
  obtain st where st: "convert sample_converter (\<lambda>_ m. m) ''app'' sample_lrp None = Inr st"
    by (simp add: convert_unfold)
  let ?p = "crashed_pod\<lparr>po_spec := empty_pod_spec\<lparr>ps_containers := ps_containers (pt_spec (st_template st))\<rparr>\<rparr>"
  have "result (generate_crash_event (logged crash_client) crashed_pod) (0, []) = Some sample_crash"
    using sample_crash_generated [of "[]"] by (simp add: result_def)
  note index = instance_index_agrees [OF st _ _ _ _ _ _ this, where p = ?p and n = 1
      and req = "\<lparr>ar_operation = CreateOp, ar_object = ''pod'', ar_old_object = []\<rparr>" and lib = "index_lib ?p"
      and now = 0 and ns = "''cf''"]
  show ?thesis
    by (intro exI [of _ ?p] allI) (use index in \<open>auto simp: crashed_pod_name index_lib_def crash_digits\<close>)
qed

end
